(* ===== verification/Prelude.thy ===== *)
theory Prelude
  imports Main "HOL-Library.AList"
begin

text \<open>
  The ground every component stands on: Go's error values, the dynamic values that
  travel in \<open>map[string]any\<close> fields, the few functions of package \<open>strings\<close> the
  code calls, and the shape of an operation that may fail and changes the world it
  runs in.

  Conventions of the whole development.
  \<^item> An operation that takes a \<open>context.Context\<close> and talks to the outside is a
    function of the state of the world \<open>'s\<close> that returns its result paired with the
    next state. Which errors the outside answers is decided by the world.
  \<^item> A Go result \<open>(x, err)\<close> is a sum: \<open>Inl err\<close> when the error is not nil,
    \<open>Inr x\<close> otherwise. A Go result \<open>error\<close> alone is an option: \<open>None\<close> is nil.
  \<^item> An instant of \<open>time.Time\<close> is an integer, in milliseconds (the resolution of a BSON
    date) after Go's zero time, so the zero time is 0. A nil \<open>*time.Time\<close> is \<open>None\<close>.
  \<^item> \<open>log.Printf\<close> writes diagnostics nobody reads back and is left out.
\<close>

named_theorems go_defs \<open>definitions of small Go-level helpers, unfolded freely\<close>
named_theorems effect_defs \<open>the effect of one atomic write on one job document\<close>
named_theorems store_defs \<open>the operations of the persistence adapters\<close>

type_synonym instant = int
type_synonym ('s, 'a) op = "'s \<Rightarrow> (\<comment> \<open>result\<close> 'a) \<times> 's"

section \<open>Error values\<close>

text \<open>
  \<open>ErrorString\<close> is what \<open>errors.New\<close> or \<open>fmt.Errorf\<close> without \<open>%w\<close> builds;
  \<open>Wrapped pre e post\<close> is \<open>fmt.Errorf\<close> with one \<open>%w\<close>; the sentinels are the
  package variables of \<open>metadata/job_errors.go\<close> and \<open>pulsar/topic_resolver.go\<close>;
  the \<open>Driver\<close> values are errors made outside the repository.
\<close>

datatype goerror =
    ErrorString string
  | ErrJobNotFound
  | ErrEmptyUpdateJob
  | ErrJobAlreadyTerminal
  | ErrUnknownJobType
  | DriverNoDocuments
  | DriverDuplicateKey string
  | DriverError string
  | Wrapped string goerror string
  | Joined goerror goerror

fun error_text :: "goerror \<Rightarrow> string" where
  "error_text (ErrorString s) = s"
| "error_text ErrJobNotFound = ''job not found''"
| "error_text ErrEmptyUpdateJob = ''update job: patch has no fields to set''"
| "error_text ErrJobAlreadyTerminal = ''job already in terminal state''"
| "error_text ErrUnknownJobType = ''unknown job type''"
| "error_text DriverNoDocuments = ''mongo: no documents in result''"
| "error_text (DriverDuplicateKey s) = s"
| "error_text (DriverError s) = s"
| "error_text (Wrapped pre e post) = pre @ error_text e @ post"
| "error_text (Joined a b) = error_text a @ [CHR 0x0A] @ error_text b"

text \<open>\<open>errors.Is\<close>: the target occurs in the tree of wrapped errors.\<close>

fun errors_is :: "goerror \<Rightarrow> goerror \<Rightarrow> bool" where
  "errors_is (Wrapped pre e post) t = (Wrapped pre e post = t \<or> errors_is e t)"
| "errors_is (Joined a b) t = (Joined a b = t \<or> errors_is a t \<or> errors_is b t)"
| "errors_is e t = (e = t)"

lemma errors_is_refl [simp]: "errors_is e e"
  by (cases e) auto

text \<open>\<open>fmt.Errorf("prefix: %w", err)\<close>.\<close>

definition wrap :: "string \<Rightarrow> goerror \<Rightarrow> goerror" where
  "wrap pre e = Wrapped (pre @ '': '') e []"

lemma errors_is_wrap [simp]:
  "errors_is (wrap pre e) ErrJobNotFound = errors_is e ErrJobNotFound"
  "errors_is (wrap pre e) ErrJobAlreadyTerminal = errors_is e ErrJobAlreadyTerminal"
  "errors_is (wrap pre e) ErrUnknownJobType = errors_is e ErrUnknownJobType"
  "errors_is (wrap pre e) DriverNoDocuments = errors_is e DriverNoDocuments"
  by (simp_all add: wrap_def)

lemma wrap_neq [simp]:
  "wrap pre e \<noteq> ErrJobNotFound" "wrap pre e \<noteq> ErrJobAlreadyTerminal"
  "wrap pre e \<noteq> ErrorString x" "wrap pre e \<noteq> ErrEmptyUpdateJob" "wrap pre e \<noteq> ErrUnknownJobType"
  by (simp_all add: wrap_def)

section \<open>Dynamic values\<close>

text \<open>
  A value held in a Go \<open>any\<close>: what JSON decoding produces, and the integers and strings
  the services put into maps themselves. A float keeps its printed form. \<open>None\<close> is the
  nil map; the order of an association list carries no meaning.
\<close>

datatype gval =
    GNil
  | GBool bool
  | GInt int
  | GFloat string
  | GStr string
  | GArr "gval list"
  | GMap "(string \<times> gval) list"

type_synonym gomap = "(string \<times> gval) list option"

definition gomap_get :: "gomap \<Rightarrow> string \<Rightarrow> gval option" where
  "gomap_get m k = (case m of None \<Rightarrow> None | Some kvs \<Rightarrow> map_of kvs k)"

lemma gomap_get_simps [simp]:
  "gomap_get None k = None" "gomap_get (Some kvs) k = map_of kvs k"
  by (simp_all add: gomap_get_def)

section \<open>Strings\<close>

text \<open>
  \<open>strings.TrimSpace\<close> on ASCII text. A \<open>char\<close> is a byte; the white space of Unicode
  beyond ASCII is not trimmed here.
\<close>

definition is_space :: "char \<Rightarrow> bool" where
  "is_space c \<longleftrightarrow> c \<in> {CHR 0x09, CHR 0x0A, CHR 0x0B, CHR 0x0C, CHR 0x0D, CHR '' ''}"

definition trim_space :: "string \<Rightarrow> string" where
  "trim_space s = rev (dropWhile is_space (rev (dropWhile is_space s)))"

lemma trim_space_empty_iff: "trim_space s = [] \<longleftrightarrow> (\<forall>c\<in>set s. is_space c)"
proof -
  have "trim_space s = [] \<longleftrightarrow> (\<forall>c\<in>set (dropWhile is_space s). is_space c)"
    by (simp add: trim_space_def)
  also have "\<dots> \<longleftrightarrow> dropWhile is_space s = []"
    using hd_dropWhile [of is_space s]
    by (cases "dropWhile is_space s") (auto dest: set_dropWhileD)
  finally show ?thesis by simp
qed

lemma trim_space_Nil [simp]: "trim_space [] = []"
  by (simp add: trim_space_def)

lemma dropWhile_rev_last:
  "xs \<noteq> [] \<Longrightarrow> \<not> P (last xs) \<Longrightarrow> dropWhile P (rev xs) = rev xs"
  by (cases xs rule: rev_cases) auto

lemma trim_space_fixed:
  "s = [] \<or> (\<not> is_space (hd s) \<and> \<not> is_space (last s)) \<Longrightarrow> trim_space s = s"
proof -
  assume *: "s = [] \<or> (\<not> is_space (hd s) \<and> \<not> is_space (last s))"
  show ?thesis
  proof (cases "s = []")
    case True
    then show ?thesis by simp
  next
    case False
    with * have "dropWhile is_space s = s" by (cases s) auto
    moreover from * False have "dropWhile is_space (rev s) = rev s"
      by (intro dropWhile_rev_last) auto
    ultimately show ?thesis by (simp add: trim_space_def)
  qed
qed

lemma trim_space_ends:
  assumes "trim_space s \<noteq> []"
  shows "\<not> is_space (hd (trim_space s)) \<and> \<not> is_space (last (trim_space s))"
proof -
  let ?d = "dropWhile is_space s"
  let ?e = "dropWhile is_space (rev ?d)"
  have e: "?e \<noteq> []" using assms by (simp add: trim_space_def)
  have l: "\<not> is_space (hd ?e)" using hd_dropWhile [OF e] .
  have "?d \<noteq> []" using e by (cases "?d = []") auto
  then have h: "\<not> is_space (hd ?d)" by (rule hd_dropWhile)
  have "rev ?d = takeWhile is_space (rev ?d) @ ?e" by simp
  then have "?d = rev ?e @ rev (takeWhile is_space (rev ?d))"
    by (metis rev_append rev_rev_ident)
  then have "hd ?d = hd (rev ?e)"
    by (metis e hd_append2 rev_is_Nil_conv)
  with h l e show ?thesis by (simp add: trim_space_def last_rev)
qed

lemma trim_space_idem [simp]: "trim_space (trim_space s) = trim_space s"
  using trim_space_ends [of s] by (intro trim_space_fixed) auto

text \<open>Go's order on strings: bytes compared from the left.\<close>

fun string_less :: "string \<Rightarrow> string \<Rightarrow> bool" where
  "string_less xs [] = False"
| "string_less [] (y # ys) = True"
| "string_less (x # xs) (y # ys) =
     (if x = y then string_less xs ys else (of_char x :: nat) < of_char y)"

text \<open>\<open>%q\<close> for printable ASCII: quotes and backslashes are escaped.\<close>

fun go_escape :: "string \<Rightarrow> string" where
  "go_escape [] = []"
| "go_escape (c # cs) =
     (if c = CHR 0x22 \<or> c = CHR 0x5C then CHR 0x5C # c # go_escape cs else c # go_escape cs)"

definition go_quote :: "string \<Rightarrow> string" where
  "go_quote s = [CHR 0x22] @ go_escape s @ [CHR 0x22]"

text \<open>\<open>%d\<close>.\<close>

function nat_digits :: "nat \<Rightarrow> string" where
  "nat_digits n =
     (if n < 10 then [char_of (48 + n)] else nat_digits (n div 10) @ [char_of (48 + n mod 10)])"
  by pat_completeness auto
termination
  by (relation "measure id") auto

declare nat_digits.simps [simp del]

definition go_int :: "int \<Rightarrow> string" where
  "go_int i = (if i < 0 then ''-'' @ nat_digits (nat (- i)) else nat_digits (nat i))"

section \<open>Lists\<close>

lemma length_filter_disj:
  "(\<And>x. x \<in> set xs \<Longrightarrow> \<not> (P x \<and> Q x)) \<Longrightarrow>
   length (filter (\<lambda>x. P x \<or> Q x) xs) = length (filter P xs) + length (filter Q xs)"
  by (induction xs) auto

end
