(* ===== verification/Status.thy ===== *)
theory Status
  imports Prelude
begin

text \<open>
  The three status types of \<open>internal/jobs/metadata/interface.go\<close>, the transition
  tables on them, and the status an API client sees, computed from the state the
  dispatcher owns and the state the executor owns.

  In Go a status is a string with named constants. Each type here has one constructor
  for every constant and one more, \<open>Other\<close>, for every string that is none of them.
\<close>

section \<open>DispatchStatus\<close>

datatype DispatchStatus =
    DispatchStatusPending
  | DispatchStatusDispatched
  | DispatchStatusFailed
  | DispatchStatusOther string

fun DispatchStatus_String :: "DispatchStatus \<Rightarrow> string" where
  "DispatchStatus_String DispatchStatusPending = ''pending_dispatch''"
| "DispatchStatus_String DispatchStatusDispatched = ''dispatched''"
| "DispatchStatus_String DispatchStatusFailed = ''dispatch_failed''"
| "DispatchStatus_String (DispatchStatusOther s) = s"

fun DispatchStatus_IsValid :: "DispatchStatus \<Rightarrow> bool" where
  "DispatchStatus_IsValid DispatchStatusPending = True"
| "DispatchStatus_IsValid DispatchStatusDispatched = True"
| "DispatchStatus_IsValid DispatchStatusFailed = True"
| "DispatchStatus_IsValid _ = False"

definition DispatchStatus_IsTerminal :: "DispatchStatus \<Rightarrow> bool" where
  "DispatchStatus_IsTerminal s = False"

definition DispatchStatus_CanTransitionTo :: "DispatchStatus \<Rightarrow> DispatchStatus \<Rightarrow> bool" where
  "DispatchStatus_CanTransitionTo s target =
     (if \<not> DispatchStatus_IsValid target \<or> s = target then False
      else case s of
        DispatchStatusPending \<Rightarrow> target = DispatchStatusDispatched \<or> target = DispatchStatusFailed
      | DispatchStatusFailed \<Rightarrow> target = DispatchStatusPending
      | DispatchStatusDispatched \<Rightarrow> False
      | _ \<Rightarrow> False)"

section \<open>ExecutionStatus\<close>

datatype ExecutionStatus =
    ExecutionStatusNotStarted
  | ExecutionStatusRunning
  | ExecutionStatusCompleted
  | ExecutionStatusFailed
  | ExecutionStatusCancelled
  | ExecutionStatusOther string

fun ExecutionStatus_String :: "ExecutionStatus \<Rightarrow> string" where
  "ExecutionStatus_String ExecutionStatusNotStarted = ''not_started''"
| "ExecutionStatus_String ExecutionStatusRunning = ''running''"
| "ExecutionStatus_String ExecutionStatusCompleted = ''completed''"
| "ExecutionStatus_String ExecutionStatusFailed = ''failed''"
| "ExecutionStatus_String ExecutionStatusCancelled = ''cancelled''"
| "ExecutionStatus_String (ExecutionStatusOther s) = s"

fun ExecutionStatus_IsValid :: "ExecutionStatus \<Rightarrow> bool" where
  "ExecutionStatus_IsValid (ExecutionStatusOther s) = False"
| "ExecutionStatus_IsValid _ = True"

definition ExecutionStatus_IsTerminal :: "ExecutionStatus \<Rightarrow> bool" where
  "ExecutionStatus_IsTerminal s \<longleftrightarrow>
     s = ExecutionStatusCompleted \<or> s = ExecutionStatusFailed \<or> s = ExecutionStatusCancelled"

definition ExecutionStatus_IsRunning :: "ExecutionStatus \<Rightarrow> bool" where
  "ExecutionStatus_IsRunning s \<longleftrightarrow> s = ExecutionStatusRunning"

definition ExecutionStatus_CanTransitionTo :: "ExecutionStatus \<Rightarrow> ExecutionStatus \<Rightarrow> bool" where
  "ExecutionStatus_CanTransitionTo s target =
     (if \<not> ExecutionStatus_IsValid target \<or> s = target then False
      else if ExecutionStatus_IsTerminal s then False
      else case s of
        ExecutionStatusNotStarted \<Rightarrow>
          target = ExecutionStatusRunning \<or> target = ExecutionStatusFailed
            \<or> target = ExecutionStatusCancelled
      | ExecutionStatusRunning \<Rightarrow>
          target = ExecutionStatusCompleted \<or> target = ExecutionStatusFailed
            \<or> target = ExecutionStatusCancelled
      | _ \<Rightarrow> False)"

section \<open>JobStatus\<close>

datatype JobStatus =
    JobStatusPendingDispatch
  | JobStatusDispatched
  | JobStatusDispatchFailed
  | JobStatusRunning
  | JobStatusCompleted
  | JobStatusFailed
  | JobStatusCancelled
  | JobStatusOther string

fun JobStatus_String :: "JobStatus \<Rightarrow> string" where
  "JobStatus_String JobStatusPendingDispatch = ''pending_dispatch''"
| "JobStatus_String JobStatusDispatched = ''dispatched''"
| "JobStatus_String JobStatusDispatchFailed = ''dispatch_failed''"
| "JobStatus_String JobStatusRunning = ''running''"
| "JobStatus_String JobStatusCompleted = ''completed''"
| "JobStatus_String JobStatusFailed = ''failed''"
| "JobStatus_String JobStatusCancelled = ''cancelled''"
| "JobStatus_String (JobStatusOther s) = s"

text \<open>The conversion \<open>metadata.JobStatus(s)\<close>.\<close>

definition JobStatus_of_string :: "string \<Rightarrow> JobStatus" where
  "JobStatus_of_string s =
     (if s = ''pending_dispatch'' then JobStatusPendingDispatch
      else if s = ''dispatched'' then JobStatusDispatched
      else if s = ''dispatch_failed'' then JobStatusDispatchFailed
      else if s = ''running'' then JobStatusRunning
      else if s = ''completed'' then JobStatusCompleted
      else if s = ''failed'' then JobStatusFailed
      else if s = ''cancelled'' then JobStatusCancelled
      else JobStatusOther s)"

fun JobStatus_IsValid :: "JobStatus \<Rightarrow> bool" where
  "JobStatus_IsValid (JobStatusOther s) = False"
| "JobStatus_IsValid _ = True"

definition JobStatus_IsTerminal :: "JobStatus \<Rightarrow> bool" where
  "JobStatus_IsTerminal s \<longleftrightarrow>
     s = JobStatusCompleted \<or> s = JobStatusFailed \<or> s = JobStatusCancelled"

definition JobStatus_IsDispatchPhase :: "JobStatus \<Rightarrow> bool" where
  "JobStatus_IsDispatchPhase s \<longleftrightarrow>
     s = JobStatusPendingDispatch \<or> s = JobStatusDispatched \<or> s = JobStatusDispatchFailed"

definition JobStatus_IsRunning :: "JobStatus \<Rightarrow> bool" where
  "JobStatus_IsRunning s \<longleftrightarrow> s = JobStatusRunning"

definition JobStatus_CanTransitionTo :: "JobStatus \<Rightarrow> JobStatus \<Rightarrow> bool" where
  "JobStatus_CanTransitionTo s target =
     (if \<not> JobStatus_IsValid target then False
      else if s = target then False
      else if s = JobStatusFailed then target = JobStatusPendingDispatch
      else if JobStatus_IsTerminal s then False
      else case s of
        JobStatusPendingDispatch \<Rightarrow>
          target = JobStatusDispatched \<or> target = JobStatusDispatchFailed
            \<or> target = JobStatusCancelled
      | JobStatusDispatchFailed \<Rightarrow> target = JobStatusPendingDispatch
      | JobStatusDispatched \<Rightarrow>
          target = JobStatusRunning \<or> target = JobStatusCancelled \<or> target = JobStatusFailed
      | JobStatusRunning \<Rightarrow>
          target = JobStatusCompleted \<or> target = JobStatusFailed \<or> target = JobStatusCancelled
      | _ \<Rightarrow> False)"

section \<open>CompositeStatus\<close>

record CompositeStatus =
  Dispatch :: DispatchStatus
  Execution :: ExecutionStatus

definition CompositeStatus_IsValid :: "CompositeStatus \<Rightarrow> bool" where
  "CompositeStatus_IsValid p \<longleftrightarrow>
     DispatchStatus_IsValid (Dispatch p) \<and> ExecutionStatus_IsValid (Execution p)"

definition CompositeStatus_DisplayStatus :: "CompositeStatus \<Rightarrow> JobStatus" where
  "CompositeStatus_DisplayStatus p =
     (case Execution p of
        ExecutionStatusRunning \<Rightarrow> JobStatusRunning
      | ExecutionStatusCompleted \<Rightarrow> JobStatusCompleted
      | ExecutionStatusFailed \<Rightarrow> JobStatusFailed
      | ExecutionStatusCancelled \<Rightarrow> JobStatusCancelled
      | _ \<Rightarrow>
          (case Dispatch p of
             DispatchStatusPending \<Rightarrow> JobStatusPendingDispatch
           | DispatchStatusDispatched \<Rightarrow> JobStatusDispatched
           | DispatchStatusFailed \<Rightarrow> JobStatusDispatchFailed
           | _ \<Rightarrow> JobStatusPendingDispatch))"

section \<open>LogLevel\<close>

datatype LogLevel =
    LogLevelDebug | LogLevelInfo | LogLevelWarn | LogLevelError | LogLevelFatal
  | LogLevelOther string

fun LogLevel_String :: "LogLevel \<Rightarrow> string" where
  "LogLevel_String LogLevelDebug = ''debug''"
| "LogLevel_String LogLevelInfo = ''info''"
| "LogLevel_String LogLevelWarn = ''warn''"
| "LogLevel_String LogLevelError = ''error''"
| "LogLevel_String LogLevelFatal = ''fatal''"
| "LogLevel_String (LogLevelOther s) = s"

definition LogLevel_of_string :: "string \<Rightarrow> LogLevel" where
  "LogLevel_of_string s =
     (if s = ''debug'' then LogLevelDebug
      else if s = ''info'' then LogLevelInfo
      else if s = ''warn'' then LogLevelWarn
      else if s = ''error'' then LogLevelError
      else if s = ''fatal'' then LogLevelFatal
      else LogLevelOther s)"

fun LogLevel_IsValid :: "LogLevel \<Rightarrow> bool" where
  "LogLevel_IsValid (LogLevelOther s) = False"
| "LogLevel_IsValid _ = True"

section \<open>Facts the other components use\<close>

lemmas status_defs =
  DispatchStatus_IsTerminal_def DispatchStatus_CanTransitionTo_def
  ExecutionStatus_IsTerminal_def ExecutionStatus_IsRunning_def ExecutionStatus_CanTransitionTo_def
  JobStatus_IsTerminal_def JobStatus_IsDispatchPhase_def JobStatus_IsRunning_def
  JobStatus_CanTransitionTo_def CompositeStatus_IsValid_def CompositeStatus_DisplayStatus_def

lemmas status_splits =
  DispatchStatus.splits ExecutionStatus.splits JobStatus.splits if_splits

lemma JobStatus_of_string_valid:
  "JobStatus_IsValid (JobStatus_of_string s) \<Longrightarrow> JobStatus_String (JobStatus_of_string s) = s"
  by (auto simp: JobStatus_of_string_def split: if_splits)

lemma JobStatus_of_string_String [simp]:
  "JobStatus_IsValid st \<Longrightarrow> JobStatus_of_string (JobStatus_String st) = st"
  by (cases st) (simp_all add: JobStatus_of_string_def)

lemma DispatchStatus_String_inj:
  "DispatchStatus_IsValid a \<Longrightarrow> DispatchStatus_IsValid b \<Longrightarrow>
   DispatchStatus_String a = DispatchStatus_String b \<longleftrightarrow> a = b"
  by (cases a; cases b) simp_all

lemma ExecutionStatus_String_inj:
  "ExecutionStatus_IsValid a \<Longrightarrow> ExecutionStatus_IsValid b \<Longrightarrow>
   ExecutionStatus_String a = ExecutionStatus_String b \<longleftrightarrow> a = b"
  by (cases a; cases b) simp_all

lemma DisplayStatus_IsValid [simp]: "JobStatus_IsValid (CompositeStatus_DisplayStatus p)"
  by (simp add: CompositeStatus_DisplayStatus_def split: status_splits)

lemma DisplayStatus_IsTerminal_iff [simp]:
  "JobStatus_IsTerminal (CompositeStatus_DisplayStatus p) \<longleftrightarrow> ExecutionStatus_IsTerminal (Execution p)"
  by (simp add: status_defs split: status_splits)

text \<open>The reachability closure of the transition table.\<close>

abbreviation JobStatus_reaches :: "JobStatus \<Rightarrow> JobStatus \<Rightarrow> bool" where
  "JobStatus_reaches \<equiv> JobStatus_CanTransitionTo\<^sup>*\<^sup>*"

lemma transition_step [intro]:
  "JobStatus_CanTransitionTo JobStatusPendingDispatch JobStatusDispatched"
  "JobStatus_CanTransitionTo JobStatusDispatched JobStatusRunning"
  "JobStatus_CanTransitionTo JobStatusRunning JobStatusCompleted"
  "JobStatus_CanTransitionTo JobStatusDispatchFailed JobStatusPendingDispatch"
  "JobStatus_CanTransitionTo JobStatusFailed JobStatusPendingDispatch"
  by (simp_all add: status_defs)

lemma absorbing:
  "JobStatus_reaches s t \<Longrightarrow> s = JobStatusCompleted \<or> s = JobStatusCancelled \<Longrightarrow> t = s"
  by (induction rule: rtranclp_induct) (auto simp: status_defs split: if_splits)

lemma reaches_completed:
  "s \<in> {JobStatusPendingDispatch, JobStatusDispatched, JobStatusDispatchFailed,
        JobStatusRunning, JobStatusFailed} \<Longrightarrow> JobStatus_reaches s JobStatusCompleted"
proof -
  have r: "JobStatus_reaches JobStatusRunning JobStatusCompleted"
    by (rule r_into_rtranclp) auto
  have d: "JobStatus_reaches JobStatusDispatched JobStatusCompleted"
    by (rule converse_rtranclp_into_rtranclp [OF _ r]) auto
  have p: "JobStatus_reaches JobStatusPendingDispatch JobStatusCompleted"
    by (rule converse_rtranclp_into_rtranclp [OF _ d]) auto
  assume "s \<in> {JobStatusPendingDispatch, JobStatusDispatched, JobStatusDispatchFailed,
        JobStatusRunning, JobStatusFailed}"
  then show ?thesis
    using r d p converse_rtranclp_into_rtranclp [OF _ p] by auto
qed

end
