(* ===== verification/JobModel.thy ===== *)
theory JobModel
  imports Status
begin

text \<open>
  \<open>internal/jobs/metadata/model.go\<close> and \<open>helpers.go\<close>: the job document, its error
  history, the business rules of \<open>Validate\<close> and the methods that change a job in
  memory. A method with a pointer receiver returns the changed record; a read of the
  clock is the argument \<open>now\<close>, the instant \<open>time.Now()\<close> returned.
\<close>

section \<open>Data\<close>

datatype JobErrorType =
    JobErrorTypeExecution | JobErrorTypeDispatch | JobErrorTypeOther string

fun JobErrorType_IsValid :: "JobErrorType \<Rightarrow> bool" where
  "JobErrorType_IsValid (JobErrorTypeOther s) = False"
| "JobErrorType_IsValid _ = True"

record JobError =
  je_Type :: JobErrorType
  je_RetryAttempt :: int
  je_Error :: string
  je_Timestamp :: instant

record JobMetadataModel =
  jm_ID :: string
  jm_JobID :: string
  jm_Name :: string
  jm_Status :: JobStatus
  jm_DispatchStatus :: DispatchStatus
  jm_ExecutionStatus :: ExecutionStatus
  jm_Priority :: int
  jm_CreatedAt :: instant
  jm_StartedAt :: "instant option"
  jm_CompletedAt :: "instant option"
  jm_Payload :: gomap
  jm_Metadata :: gomap
  jm_Errors :: "JobError list"
  jm_RetryCount :: int
  jm_Tags :: "string list"
  jm_Topic :: string
  jm_DispatchAttempts :: int
  jm_DispatchLastError :: string
  jm_DispatchedAt :: "instant option"

type_synonym job = JobMetadataModel

record JobLog =
  jl_JobID :: string
  jl_Timestamp :: instant
  jl_Level :: LogLevel
  jl_Message :: string
  jl_Context :: gomap
  jl_Source :: string
  jl_StackTrace :: string

section \<open>Construction\<close>

definition NewJobMetadata :: "string \<Rightarrow> string \<Rightarrow> gomap \<Rightarrow> instant \<Rightarrow> job" where
  "NewJobMetadata jobID name payload now =
     \<lparr>jm_ID = [], jm_JobID = jobID, jm_Name = name,
      jm_Status = JobStatusPendingDispatch,
      jm_DispatchStatus = DispatchStatusPending,
      jm_ExecutionStatus = ExecutionStatusNotStarted,
      jm_Priority = 5, jm_CreatedAt = now, jm_StartedAt = None, jm_CompletedAt = None,
      jm_Payload = (if payload = None then Some [] else payload),
      jm_Metadata = Some [], jm_Errors = [], jm_RetryCount = 0, jm_Tags = [],
      jm_Topic = [], jm_DispatchAttempts = 0, jm_DispatchLastError = [],
      jm_DispatchedAt = None\<rparr>"

definition NewJobLog :: "string \<Rightarrow> LogLevel \<Rightarrow> string \<Rightarrow> instant \<Rightarrow> JobLog" where
  "NewJobLog jobID level message now =
     \<lparr>jl_JobID = jobID, jl_Timestamp = now, jl_Level = level, jl_Message = message,
      jl_Context = Some [], jl_Source = [], jl_StackTrace = []\<rparr>"

definition NewJobLogWithContext ::
  "string \<Rightarrow> LogLevel \<Rightarrow> string \<Rightarrow> gomap \<Rightarrow> instant \<Rightarrow> JobLog" where
  "NewJobLogWithContext jobID level message context now =
     (NewJobLog jobID level message now)\<lparr>jl_Context := context\<rparr>"

definition NewJobLogWithSource ::
  "string \<Rightarrow> LogLevel \<Rightarrow> string \<Rightarrow> string \<Rightarrow> instant \<Rightarrow> JobLog" where
  "NewJobLogWithSource jobID level message source now =
     (NewJobLog jobID level message now)\<lparr>jl_Source := source\<rparr>"

section \<open>Accessors\<close>

definition DisplayStatus :: "job \<Rightarrow> JobStatus" where
  "DisplayStatus j =
     CompositeStatus_DisplayStatus \<lparr>Dispatch = jm_DispatchStatus j, Execution = jm_ExecutionStatus j\<rparr>"

definition GetStatus :: "job \<Rightarrow> JobStatus" where
  "GetStatus j = DisplayStatus j"

definition GetLatestError :: "job \<Rightarrow> string" where
  "GetLatestError j = (if length (jm_Errors j) = 0 then [] else je_Error (last (jm_Errors j)))"

definition Duration :: "job \<Rightarrow> int" where
  "Duration j =
     (case (jm_StartedAt j, jm_CompletedAt j) of
        (Some s, Some c) \<Rightarrow> c - s
      | _ \<Rightarrow> 0)"

definition Age :: "job \<Rightarrow> instant \<Rightarrow> int" where
  "Age j now = now - jm_CreatedAt j"

section \<open>Validate\<close>

definition Validate :: "job \<Rightarrow> goerror option" where
  "Validate j =
     (if jm_JobID j = [] then Some (ErrorString ''jobId is required'')
      else if length (jm_JobID j) \<noteq> 36 then
        Some (ErrorString ''jobId must be a valid UUID (36 characters)'')
      else if jm_Name j = [] then Some (ErrorString ''name is required'')
      else if length (jm_Name j) > 100 then
        Some (ErrorString ''name must not exceed 100 characters'')
      else if \<not> DispatchStatus_IsValid (jm_DispatchStatus j) then
        Some (ErrorString (''invalid dispatchStatus value: '' @ DispatchStatus_String (jm_DispatchStatus j)))
      else if \<not> ExecutionStatus_IsValid (jm_ExecutionStatus j) then
        Some (ErrorString (''invalid executionStatus value: '' @ ExecutionStatus_String (jm_ExecutionStatus j)))
      else if \<not> JobStatus_IsValid (jm_Status j) then
        Some (ErrorString (''invalid status value: '' @ JobStatus_String (jm_Status j)))
      else if jm_Priority j < 0 \<or> jm_Priority j > 10 then
        Some (ErrorString ''priority must be between 0 and 10'')
      else if jm_CreatedAt j = 0 then Some (ErrorString ''createdAt is required'')
      else if jm_RetryCount j < 0 then Some (ErrorString ''retryCount cannot be negative'')
      else if JobStatus_IsDispatchPhase (DisplayStatus j)
              \<and> (jm_StartedAt j \<noteq> None \<or> jm_CompletedAt j \<noteq> None) then
        Some (ErrorString ''dispatch phase job must not have startedAt or completedAt'')
      else if jm_DispatchStatus j = DispatchStatusPending \<and> jm_Topic j = [] then
        Some (ErrorString ''pending_dispatch job must have topic'')
      else if jm_DispatchAttempts j < 0 then
        Some (ErrorString ''dispatchAttempts cannot be negative'')
      else if jm_ExecutionStatus j = ExecutionStatusRunning \<and> jm_StartedAt j = None then
        Some (ErrorString ''running job must have startedAt timestamp'')
      else if (jm_ExecutionStatus j = ExecutionStatusCompleted
               \<or> jm_ExecutionStatus j = ExecutionStatusCancelled) \<and> jm_StartedAt j = None then
        Some (ErrorString ''completed or cancelled job must have startedAt timestamp'')
      else if (jm_ExecutionStatus j = ExecutionStatusCompleted
               \<or> jm_ExecutionStatus j = ExecutionStatusCancelled) \<and> jm_CompletedAt j = None then
        Some (ErrorString ''completed or cancelled job must have completedAt timestamp'')
      else if jm_ExecutionStatus j = ExecutionStatusFailed \<and> jm_CompletedAt j = None then
        Some (ErrorString ''failed job must have completedAt timestamp'')
      else if jm_ExecutionStatus j = ExecutionStatusFailed \<and> length (jm_Errors j) = 0 then
        Some (ErrorString ''failed job must have error message'')
      else None)"

section \<open>Methods that change a job\<close>

text \<open>The timestamps \<open>SetStatus\<close> sets only when they are still nil.\<close>

definition default_instant :: "instant option \<Rightarrow> instant \<Rightarrow> instant option" where
  "default_instant t now = (case t of None \<Rightarrow> Some now | Some x \<Rightarrow> Some x)"

definition SetStatus :: "job \<Rightarrow> JobStatus \<Rightarrow> instant \<Rightarrow> goerror + job" where
  "SetStatus j status now =
     (let current = DisplayStatus j in
      if \<not> JobStatus_CanTransitionTo current status then
        Inl (ErrorString (''cannot transition from '' @ JobStatus_String current @ '' to ''
               @ JobStatus_String status))
      else
        let j1 = j\<lparr>jm_Status := status\<rparr> in
        Inr (case status of
          JobStatusPendingDispatch \<Rightarrow>
            (let j2 = j1\<lparr>jm_DispatchStatus := DispatchStatusPending\<rparr> in
             if ExecutionStatus_IsTerminal (jm_ExecutionStatus j2)
             then j2\<lparr>jm_ExecutionStatus := ExecutionStatusNotStarted\<rparr> else j2)
        | JobStatusDispatched \<Rightarrow>
            j1\<lparr>jm_DispatchStatus := DispatchStatusDispatched,
               jm_DispatchedAt := default_instant (jm_DispatchedAt j1) now\<rparr>
        | JobStatusDispatchFailed \<Rightarrow> j1\<lparr>jm_DispatchStatus := DispatchStatusFailed\<rparr>
        | JobStatusRunning \<Rightarrow>
            j1\<lparr>jm_ExecutionStatus := ExecutionStatusRunning,
               jm_StartedAt := default_instant (jm_StartedAt j1) now\<rparr>
        | JobStatusCompleted \<Rightarrow>
            j1\<lparr>jm_ExecutionStatus := ExecutionStatusCompleted,
               jm_StartedAt := default_instant (jm_StartedAt j1) now,
               jm_CompletedAt := default_instant (jm_CompletedAt j1) now\<rparr>
        | JobStatusFailed \<Rightarrow>
            j1\<lparr>jm_ExecutionStatus := ExecutionStatusFailed,
               jm_StartedAt := default_instant (jm_StartedAt j1) now,
               jm_CompletedAt := default_instant (jm_CompletedAt j1) now\<rparr>
        | JobStatusCancelled \<Rightarrow>
            j1\<lparr>jm_ExecutionStatus := ExecutionStatusCancelled,
               jm_StartedAt := default_instant (jm_StartedAt j1) now,
               jm_CompletedAt := default_instant (jm_CompletedAt j1) now\<rparr>
        | JobStatusOther s \<Rightarrow> j1))"

text \<open>
  \<open>AddError\<close> appends to the history before it asks for the transition; the clock is read
  once for the entry and once by \<open>SetStatus\<close>. The changed job is returned with the error.
\<close>

definition AddError :: "job \<Rightarrow> goerror option \<Rightarrow> instant \<Rightarrow> instant \<Rightarrow> job \<times> goerror option" where
  "AddError j err now1 now2 =
     (case err of
        Some e \<Rightarrow>
          (let jobErr = \<lparr>je_Type = JobErrorTypeExecution, je_RetryAttempt = jm_RetryCount j,
                         je_Error = error_text e, je_Timestamp = now1\<rparr>;
               j1 = j\<lparr>jm_Errors := jm_Errors j @ [jobErr]\<rparr>
           in case SetStatus j1 JobStatusFailed now2 of
                Inl e' \<Rightarrow> (j1, Some e')
              | Inr j2 \<Rightarrow> (j2, None))
      | None \<Rightarrow> (j, None))"

definition AddTag :: "job \<Rightarrow> string \<Rightarrow> job" where
  "AddTag j tag =
     (if tag = [] then j
      else if tag \<in> set (jm_Tags j) then j
      else j\<lparr>jm_Tags := jm_Tags j @ [tag]\<rparr>)"

text \<open>The loop of \<open>RemoveTag\<close>: the first occurrence is cut out, the rest is kept.\<close>

fun remove_first_tag :: "string \<Rightarrow> string list \<Rightarrow> string list" where
  "remove_first_tag tag [] = []"
| "remove_first_tag tag (t # ts) = (if t = tag then ts else t # remove_first_tag tag ts)"

definition RemoveTag :: "job \<Rightarrow> string \<Rightarrow> job" where
  "RemoveTag j tag = j\<lparr>jm_Tags := remove_first_tag tag (jm_Tags j)\<rparr>"

definition SetMetadataField :: "job \<Rightarrow> string \<Rightarrow> gval \<Rightarrow> job" where
  "SetMetadataField j key value =
     (let m = (case jm_Metadata j of None \<Rightarrow> [] | Some kvs \<Rightarrow> kvs)
      in j\<lparr>jm_Metadata := Some (AList.update key value m)\<rparr>)"

definition GetMetadataField :: "job \<Rightarrow> string \<Rightarrow> gval \<times> bool" where
  "GetMetadataField j key =
     (case jm_Metadata j of
        None \<Rightarrow> (GNil, False)
      | Some kvs \<Rightarrow> (case map_of kvs key of None \<Rightarrow> (GNil, False) | Some v \<Rightarrow> (v, True)))"

definition IncrementRetryCount :: "job \<Rightarrow> job" where
  "IncrementRetryCount j = j\<lparr>jm_RetryCount := jm_RetryCount j + 1\<rparr>"

section \<open>Well-formed jobs\<close>

text \<open>
  What the rules of \<open>Validate\<close> say together, one predicate for each group of fields.
\<close>

definition identity_ok :: "job \<Rightarrow> bool" where
  "identity_ok j \<longleftrightarrow> length (jm_JobID j) = 36 \<and> jm_Name j \<noteq> [] \<and> length (jm_Name j) \<le> 100"

definition statuses_ok :: "job \<Rightarrow> bool" where
  "statuses_ok j \<longleftrightarrow> DispatchStatus_IsValid (jm_DispatchStatus j)
     \<and> ExecutionStatus_IsValid (jm_ExecutionStatus j) \<and> JobStatus_IsValid (jm_Status j)"

definition numbers_ok :: "job \<Rightarrow> bool" where
  "numbers_ok j \<longleftrightarrow> 0 \<le> jm_Priority j \<and> jm_Priority j \<le> 10 \<and> jm_CreatedAt j \<noteq> 0
     \<and> 0 \<le> jm_RetryCount j \<and> 0 \<le> jm_DispatchAttempts j"

definition topic_ok :: "job \<Rightarrow> bool" where
  "topic_ok j \<longleftrightarrow> (jm_DispatchStatus j = DispatchStatusPending \<longrightarrow> jm_Topic j \<noteq> [])"

definition timestamps_ok :: "job \<Rightarrow> bool" where
  "timestamps_ok j =
     (case jm_ExecutionStatus j of
        ExecutionStatusNotStarted \<Rightarrow> jm_StartedAt j = None \<and> jm_CompletedAt j = None
      | ExecutionStatusRunning \<Rightarrow> jm_StartedAt j \<noteq> None
      | ExecutionStatusCompleted \<Rightarrow> jm_StartedAt j \<noteq> None \<and> jm_CompletedAt j \<noteq> None
      | ExecutionStatusCancelled \<Rightarrow> jm_StartedAt j \<noteq> None \<and> jm_CompletedAt j \<noteq> None
      | ExecutionStatusFailed \<Rightarrow> jm_CompletedAt j \<noteq> None \<and> jm_Errors j \<noteq> []
      | ExecutionStatusOther s \<Rightarrow> True)"

definition well_formed :: "job \<Rightarrow> bool" where
  "well_formed j \<longleftrightarrow>
     identity_ok j \<and> statuses_ok j \<and> numbers_ok j \<and> topic_ok j \<and> timestamps_ok j"

lemmas well_formed_defs =
  well_formed_def identity_ok_def statuses_ok_def numbers_ok_def topic_ok_def timestamps_ok_def

lemma DisplayStatus_simps:
  "jm_ExecutionStatus j = ExecutionStatusRunning \<Longrightarrow> DisplayStatus j = JobStatusRunning"
  "jm_ExecutionStatus j = ExecutionStatusCompleted \<Longrightarrow> DisplayStatus j = JobStatusCompleted"
  "jm_ExecutionStatus j = ExecutionStatusFailed \<Longrightarrow> DisplayStatus j = JobStatusFailed"
  "jm_ExecutionStatus j = ExecutionStatusCancelled \<Longrightarrow> DisplayStatus j = JobStatusCancelled"
  "jm_ExecutionStatus j = ExecutionStatusNotStarted \<Longrightarrow> jm_DispatchStatus j = DispatchStatusPending \<Longrightarrow>
     DisplayStatus j = JobStatusPendingDispatch"
  "jm_ExecutionStatus j = ExecutionStatusNotStarted \<Longrightarrow> jm_DispatchStatus j = DispatchStatusDispatched \<Longrightarrow>
     DisplayStatus j = JobStatusDispatched"
  "jm_ExecutionStatus j = ExecutionStatusNotStarted \<Longrightarrow> jm_DispatchStatus j = DispatchStatusFailed \<Longrightarrow>
     DisplayStatus j = JobStatusDispatchFailed"
  by (simp_all add: DisplayStatus_def CompositeStatus_DisplayStatus_def)

lemma DisplayStatus_valid [simp]: "JobStatus_IsValid (DisplayStatus j)"
  by (simp add: DisplayStatus_def)

lemma DisplayStatus_terminal [simp]:
  "JobStatus_IsTerminal (DisplayStatus j) \<longleftrightarrow> ExecutionStatus_IsTerminal (jm_ExecutionStatus j)"
  by (simp add: DisplayStatus_def)

lemma DisplayStatus_dispatch_phase:
  "ExecutionStatus_IsValid (jm_ExecutionStatus j) \<Longrightarrow>
   JobStatus_IsDispatchPhase (DisplayStatus j) \<longleftrightarrow> jm_ExecutionStatus j = ExecutionStatusNotStarted"
  by (cases "jm_ExecutionStatus j")
     (simp_all add: DisplayStatus_def status_defs split: DispatchStatus.splits)

lemma Validate_None_iff: "Validate j = None \<longleftrightarrow> well_formed j"
proof -
  have len: "length (jm_JobID j) = 36 \<Longrightarrow> jm_JobID j \<noteq> []" by auto
  show ?thesis
  proof (cases "ExecutionStatus_IsValid (jm_ExecutionStatus j)")
    case False
    then show ?thesis by (auto simp: Validate_def well_formed_defs)
  next
    case True
    note phase = DisplayStatus_dispatch_phase [OF True]
    show ?thesis
      using True len
      by (cases "jm_ExecutionStatus j")
         (auto simp: Validate_def well_formed_defs phase split: if_splits)
  qed
qed

section \<open>What the methods guarantee\<close>

lemma default_instant_neq [simp]: "default_instant t now \<noteq> None"
  by (simp add: default_instant_def split: option.splits)

lemma default_instant_cases [simp]:
  "default_instant (Some x) now = Some x" "default_instant None now = Some now"
  by (simp_all add: default_instant_def)

lemma SetStatus_Inl_iff:
  "(\<exists>e. SetStatus j st now = Inl e) \<longleftrightarrow> \<not> JobStatus_CanTransitionTo (DisplayStatus j) st"
  by (simp add: SetStatus_def Let_def)

lemma SetStatus_InrD:
  "SetStatus j st now = Inr j' \<Longrightarrow> JobStatus_CanTransitionTo (DisplayStatus j) st"
  by (simp add: SetStatus_def Let_def split: if_splits)

lemma CanTransitionTo_valid:
  "JobStatus_CanTransitionTo s t \<Longrightarrow> JobStatus_IsValid t"
  by (simp add: JobStatus_CanTransitionTo_def split: if_splits)

lemma dispatch_display_execution:
  "DisplayStatus j \<in> {JobStatusPendingDispatch, JobStatusDispatched, JobStatusDispatchFailed} \<Longrightarrow>
   jm_ExecutionStatus j = ExecutionStatusNotStarted \<or> (\<exists>s. jm_ExecutionStatus j = ExecutionStatusOther s)"
  by (cases "jm_ExecutionStatus j") (auto simp: DisplayStatus_simps)

lemma SetStatus_display:
  assumes "SetStatus j st now = Inr j'"
  shows "DisplayStatus j' = st \<and> jm_Status j' = st"
proof -
  from assms have can: "JobStatus_CanTransitionTo (DisplayStatus j) st" by (rule SetStatus_InrD)
  show ?thesis
  proof (cases "st \<in> {JobStatusPendingDispatch, JobStatusDispatched, JobStatusDispatchFailed}")
    case False
    then show ?thesis using assms can
      by (cases st)
         (auto simp: SetStatus_def Let_def DisplayStatus_simps dest: CanTransitionTo_valid)
  next
    case True
    then show ?thesis using assms can
      by (cases "jm_ExecutionStatus j"; cases "jm_DispatchStatus j")
         (auto simp: SetStatus_def Let_def DisplayStatus_def status_defs split: if_splits)
  qed
qed

lemma SetStatus_frame:
  assumes "SetStatus j st now = Inr j'"
  shows "jm_JobID j' = jm_JobID j \<and> jm_Name j' = jm_Name j \<and> jm_Priority j' = jm_Priority j
    \<and> jm_CreatedAt j' = jm_CreatedAt j \<and> jm_Errors j' = jm_Errors j
    \<and> jm_RetryCount j' = jm_RetryCount j \<and> jm_Topic j' = jm_Topic j
    \<and> jm_Payload j' = jm_Payload j \<and> jm_Metadata j' = jm_Metadata j \<and> jm_Tags j' = jm_Tags j
    \<and> jm_DispatchAttempts j' = jm_DispatchAttempts j"
  using assms by (cases st) (auto simp: SetStatus_def Let_def split: if_splits)

lemma SetStatus_well_formed:
  assumes wf: "well_formed j"
    and set: "SetStatus j st now = Inr j'"
    and failed: "st = JobStatusFailed \<Longrightarrow> jm_Errors j \<noteq> []"
    and pending: "st = JobStatusPendingDispatch \<Longrightarrow> DisplayStatus j \<noteq> JobStatusFailed \<and> jm_Topic j \<noteq> []"
  shows "well_formed j'"
proof -
  from set have can: "JobStatus_CanTransitionTo (DisplayStatus j) st" by (rule SetStatus_InrD)
  note frame = SetStatus_frame [OF set]
  from wf set can have "statuses_ok j' \<and> (topic_ok j' \<or> st = JobStatusPendingDispatch)"
    by (cases st) (auto simp: SetStatus_def Let_def well_formed_defs dest: CanTransitionTo_valid)
  moreover have "st = JobStatusPendingDispatch \<Longrightarrow> topic_ok j'"
    using pending frame by (simp add: topic_ok_def)
  moreover have "timestamps_ok j'"
  proof (cases "st \<in> {JobStatusPendingDispatch, JobStatusDispatched, JobStatusDispatchFailed}")
    case False
    with set can failed show ?thesis
      by (cases st)
         (auto simp: SetStatus_def Let_def timestamps_ok_def dest: CanTransitionTo_valid)
  next
    case True
    with can pending have "JobStatus_IsDispatchPhase (DisplayStatus j)"
      by (cases "DisplayStatus j") (auto simp: status_defs)
    with wf have "jm_ExecutionStatus j = ExecutionStatusNotStarted"
      using DisplayStatus_dispatch_phase by (simp add: well_formed_def statuses_ok_def)
    with True set wf show ?thesis
      by (cases st) (auto simp: SetStatus_def Let_def well_formed_defs status_defs split: if_splits)
  qed
  ultimately show ?thesis using wf frame
    by (auto simp: well_formed_def identity_ok_def numbers_ok_def)
qed

lemma remove_first_tag_notin: "tag \<notin> set ts \<Longrightarrow> remove_first_tag tag (ts @ [tag]) = ts"
  by (induction ts) auto

lemma remove_first_tag_distinct: "distinct ts \<Longrightarrow> set (remove_first_tag tag ts) = set ts - {tag}"
  by (induction ts) auto

lemma map_of_update_same [simp]: "map_of (AList.update k v kvs) k = Some v"
  by (simp add: update_conv')

lemma map_of_update_other [simp]: "k' \<noteq> k \<Longrightarrow> map_of (AList.update k v kvs) k' = map_of kvs k'"
  by (simp add: update_conv')

section \<open>Properties\<close>

text \<open>
  \<open>Validate\<close> accepts exactly the jobs whose identity, statuses, numbers, topic and
  timestamps agree: the sequence of early returns is equivalent to the conjunction of
  the business rules, with the timestamp rule read off the execution status.
\<close>

theorem validate_accepts_exactly_well_formed:
  "Validate j = None \<longleftrightarrow>
     length (jm_JobID j) = 36 \<and> jm_Name j \<noteq> [] \<and> length (jm_Name j) \<le> 100
   \<and> DispatchStatus_IsValid (jm_DispatchStatus j) \<and> ExecutionStatus_IsValid (jm_ExecutionStatus j)
   \<and> JobStatus_IsValid (jm_Status j)
   \<and> jm_Priority j \<in> {0..10} \<and> jm_CreatedAt j \<noteq> 0 \<and> 0 \<le> jm_RetryCount j
   \<and> 0 \<le> jm_DispatchAttempts j
   \<and> \<not> (jm_DispatchStatus j = DispatchStatusPending \<and> jm_Topic j = [])
   \<and> (case jm_ExecutionStatus j of
        ExecutionStatusNotStarted \<Rightarrow> jm_StartedAt j = None \<and> jm_CompletedAt j = None
      | ExecutionStatusRunning \<Rightarrow> jm_StartedAt j \<noteq> None
      | ExecutionStatusFailed \<Rightarrow> jm_CompletedAt j \<noteq> None \<and> jm_Errors j \<noteq> []
      | _ \<Rightarrow> jm_StartedAt j \<noteq> None \<and> jm_CompletedAt j \<noteq> None)"
  by (cases "jm_ExecutionStatus j") (auto simp: Validate_None_iff well_formed_defs)

text \<open>
  \<open>SetStatus\<close> succeeds exactly when the transition table allows the step from the
  displayed status; then both the stored and the displayed status are the requested one,
  and nothing but statuses and timestamps changed.
\<close>

theorem set_status_follows_table:
  "case SetStatus j st now of
     Inl e \<Rightarrow> \<not> JobStatus_CanTransitionTo (DisplayStatus j) st
   | Inr j' \<Rightarrow> JobStatus_CanTransitionTo (DisplayStatus j) st
       \<and> DisplayStatus j' = st \<and> jm_Status j' = st
       \<and> jm_JobID j' = jm_JobID j \<and> jm_Errors j' = jm_Errors j
       \<and> jm_RetryCount j' = jm_RetryCount j \<and> jm_Topic j' = jm_Topic j
       \<and> jm_Payload j' = jm_Payload j \<and> jm_Metadata j' = jm_Metadata j"
proof (cases "SetStatus j st now")
  case (Inl e)
  then show ?thesis using SetStatus_Inl_iff [of j st now] by auto
next
  case (Inr j')
  then show ?thesis using SetStatus_InrD [OF Inr] SetStatus_display [OF Inr] SetStatus_frame [OF Inr]
    by simp
qed

text \<open>
  On a valid job every successful \<open>SetStatus\<close> yields a valid job again, provided a
  step to failed has an error on record and a step back to pending dispatch starts from
  \<open>dispatch_failed\<close> with a topic.
\<close>

theorem set_status_keeps_valid:
  assumes "Validate j = None" and "SetStatus j st now = Inr j'"
    and "st = JobStatusFailed \<Longrightarrow> jm_Errors j \<noteq> []"
    and "st = JobStatusPendingDispatch \<Longrightarrow> DisplayStatus j = JobStatusDispatchFailed \<and> jm_Topic j \<noteq> []"
  shows "Validate j' = None"
proof -
  have "well_formed j" using assms(1) by (simp only: Validate_None_iff)
  then have "well_formed j'" using assms(2)
    by (rule SetStatus_well_formed) (use assms(3,4) in simp_all)
  then show ?thesis by (simp only: Validate_None_iff)
qed

definition sample_job :: job where
  "sample_job = (NewJobMetadata (replicate 36 (CHR ''a'')) ''echo'' None 1000)\<lparr>jm_Topic := ''t''\<rparr>"

theorem set_status_keeps_valid_witness:
  "Validate (sample_job\<lparr>jm_Status := JobStatusDispatched, jm_DispatchStatus := DispatchStatusDispatched,
                        jm_DispatchedAt := Some 2000\<rparr>) = None"
proof (rule set_status_keeps_valid [where j = sample_job and st = JobStatusDispatched and now = 2000])
  show "Validate sample_job = None"
    by (simp add: Validate_None_iff well_formed_defs sample_job_def NewJobMetadata_def)
  show "SetStatus sample_job JobStatusDispatched 2000 =
      Inr (sample_job\<lparr>jm_Status := JobStatusDispatched,
                      jm_DispatchStatus := DispatchStatusDispatched, jm_DispatchedAt := Some 2000\<rparr>)"
    by (simp add: SetStatus_def sample_job_def NewJobMetadata_def DisplayStatus_def status_defs)
qed simp_all

text \<open>
  Taking a valid failed job back to pending dispatch with \<open>SetStatus\<close> alone leaves a
  job \<open>Validate\<close> rejects: the completion timestamp of the failed run stays, and the
  timestamps of the phase before execution must be nil.
\<close>

theorem set_status_retry_breaks_validity:
  assumes "Validate j = None" and "jm_ExecutionStatus j = ExecutionStatusFailed"
  shows "\<exists>j'. SetStatus j JobStatusPendingDispatch now = Inr j' \<and> Validate j' \<noteq> None"
proof -
  have wf: "well_formed j" using assms(1) by (simp add: Validate_None_iff)
  have disp: "DisplayStatus j = JobStatusFailed" using assms(2) by (rule DisplayStatus_simps)
  let ?j = "j\<lparr>jm_Status := JobStatusPendingDispatch, jm_DispatchStatus := DispatchStatusPending,
              jm_ExecutionStatus := ExecutionStatusNotStarted\<rparr>"
  have "SetStatus j JobStatusPendingDispatch now = Inr ?j"
    using disp assms(2) by (simp add: SetStatus_def Let_def status_defs)
  moreover have "\<not> well_formed ?j"
    using wf assms(2) by (auto simp: well_formed_defs)
  ultimately show ?thesis using Validate_None_iff by (intro exI [of _ ?j]) auto
qed

definition sample_failed_job :: job where
  "sample_failed_job = sample_job\<lparr>jm_Status := JobStatusFailed,
     jm_DispatchStatus := DispatchStatusDispatched, jm_ExecutionStatus := ExecutionStatusFailed,
     jm_StartedAt := Some 2000, jm_CompletedAt := Some 3000,
     jm_Errors := [\<lparr>je_Type = JobErrorTypeExecution, je_RetryAttempt = 0,
                    je_Error = ''boom'', je_Timestamp = 3000\<rparr>]\<rparr>"

theorem set_status_retry_breaks_validity_witness:
  "\<exists>j'. SetStatus sample_failed_job JobStatusPendingDispatch 4000 = Inr j' \<and> Validate j' \<noteq> None"
  by (rule set_status_retry_breaks_validity)
     (simp_all add: Validate_None_iff well_formed_defs sample_failed_job_def sample_job_def
        NewJobMetadata_def)

text \<open>
  \<open>AddError\<close> records the error even when the job may not fail any more: on a job in a
  terminal state (or already failed, or not yet dispatched) it returns an error, but the
  history of the job has grown by the entry all the same.
\<close>

theorem add_error_appends_even_when_refused:
  "(snd (AddError j (Some e) t1 t2) = None \<longleftrightarrow>
      DisplayStatus j \<in> {JobStatusDispatched, JobStatusRunning})
   \<and> jm_Errors (fst (AddError j (Some e) t1 t2)) = jm_Errors j @
       [\<lparr>je_Type = JobErrorTypeExecution, je_RetryAttempt = jm_RetryCount j,
         je_Error = error_text e, je_Timestamp = t1\<rparr>]"
proof -
  define entry where "entry = \<lparr>je_Type = JobErrorTypeExecution, je_RetryAttempt = jm_RetryCount j,
       je_Error = error_text e, je_Timestamp = t1\<rparr>"
  define j1 where "j1 = j\<lparr>jm_Errors := jm_Errors j @ [entry]\<rparr>"
  have add: "AddError j (Some e) t1 t2 =
      (case SetStatus j1 JobStatusFailed t2 of Inl e' \<Rightarrow> (j1, Some e') | Inr j2 \<Rightarrow> (j2, None))"
    unfolding AddError_def Let_def j1_def entry_def by simp
  have d: "DisplayStatus j1 = DisplayStatus j" by (simp add: DisplayStatus_def j1_def)
  have can: "JobStatus_CanTransitionTo (DisplayStatus j) JobStatusFailed \<longleftrightarrow>
      DisplayStatus j \<in> {JobStatusDispatched, JobStatusRunning}"
    by (cases "DisplayStatus j") (simp_all add: status_defs)
  have errs: "jm_Errors j1 = jm_Errors j @ [entry]" by (simp add: j1_def)
  show ?thesis
  proof (cases "SetStatus j1 JobStatusFailed t2")
    case (Inl e')
    then have "\<not> JobStatus_CanTransitionTo (DisplayStatus j) JobStatusFailed"
      using SetStatus_Inl_iff [of j1 JobStatusFailed t2] d by simp
    with Inl add can errs show ?thesis by (simp add: entry_def)
  next
    case (Inr j2)
    then have "JobStatus_CanTransitionTo (DisplayStatus j) JobStatusFailed"
      using SetStatus_InrD [OF Inr] d by simp
    with Inr add can errs SetStatus_frame [OF Inr] show ?thesis by (simp add: entry_def)
  qed
qed

text \<open>
  Adding a tag and removing it again gives the job back; adding is idempotent; and
  neither operation can introduce a duplicate tag.
\<close>

theorem tags_roundtrip:
  assumes "tag \<noteq> []" and "tag \<notin> set (jm_Tags j)" and "distinct (jm_Tags j)"
  shows "RemoveTag (AddTag j tag) tag = j \<and> AddTag (AddTag j tag) tag = AddTag j tag
    \<and> distinct (jm_Tags (AddTag j tag)) \<and> tag \<in> set (jm_Tags (AddTag j tag))"
  using assms by (simp add: AddTag_def RemoveTag_def remove_first_tag_notin)

theorem tags_roundtrip_witness:
  "RemoveTag (AddTag sample_job ''urgent'') ''urgent'' = sample_job"
  using tags_roundtrip [of "''urgent''" sample_job]
  by (simp add: sample_job_def NewJobMetadata_def)

end
