(* ===== verification/Queries.thy ===== *)
theory Queries
  imports JobModel
begin

text \<open>
  The filter and patch types of \<open>metadata/interface.go\<close> and the code that turns them into
  BSON: \<open>mongodb/mongo_queries.go\<close> (filters of find and count) and
  \<open>mongodb/bson_partial_set.go\<close> (the document of a \<open>$set\<close>, built by reflection on a
  patch struct). A \<open>bson.M\<close> is an association list; its values are the Go values the code
  puts there, statuses keeping their type.
\<close>

section \<open>Data\<close>

datatype bval =
    BNull
  | BBool bool
  | BInt int
  | BStr string
  | BTime instant
  | BDispatch DispatchStatus
  | BExecution ExecutionStatus
  | BStatus JobStatus
  | BLevel LogLevel
  | BJobError JobError
  | BMap gomap
  | BArr "bval list"
  | BDoc "(string \<times> bval) list"

type_synonym bdoc = "(string \<times> bval) list"

record ListFilter =
  lf_Names :: "string list"
  lf_Statuses :: "JobStatus list"
  lf_Tags :: "string list"
  lf_MinPriority :: "int option"
  lf_MaxPriority :: "int option"
  lf_CreatedAfter :: "instant option"
  lf_CreatedBefore :: "instant option"
  lf_Limit :: int
  lf_Skip :: int
  lf_SortBy :: string
  lf_SortDesc :: bool

text \<open>The zero value \<open>metadata.ListFilter{}\<close>.\<close>

definition empty_filter :: ListFilter where
  "empty_filter = \<lparr>lf_Names = [], lf_Statuses = [], lf_Tags = [], lf_MinPriority = None,
     lf_MaxPriority = None, lf_CreatedAfter = None, lf_CreatedBefore = None, lf_Limit = 0,
     lf_Skip = 0, lf_SortBy = [], lf_SortDesc = False\<rparr>"

lemma empty_filter_pages [simp]: "lf_Limit empty_filter = 0" "lf_Skip empty_filter = 0"
  by (simp_all add: empty_filter_def)

record LogFilter =
  gf_Levels :: "LogLevel list"
  gf_Since :: "instant option"
  gf_Until :: "instant option"
  gf_Limit :: int
  gf_Skip :: int

definition empty_log_filter :: LogFilter where
  "empty_log_filter =
     \<lparr>gf_Levels = [], gf_Since = None, gf_Until = None, gf_Limit = 0, gf_Skip = 0\<rparr>"

record UpdateJob =
  uj_Status :: "JobStatus option"
  uj_DispatchStatus :: "DispatchStatus option"
  uj_ExecutionStatus :: "ExecutionStatus option"
  uj_Name :: "string option"
  uj_Priority :: "int option"
  uj_StartedAt :: "instant option"
  uj_CompletedAt :: "instant option"
  uj_Payload :: "gomap option"
  uj_Metadata :: "gomap option"
  uj_Errors :: "JobError list option"
  uj_Tags :: "string list option"
  uj_Topic :: "string option"
  uj_DispatchAttempts :: "int option"
  uj_DispatchLastError :: "string option"
  uj_DispatchedAt :: "instant option"

definition empty_patch :: UpdateJob where
  "empty_patch = \<lparr>uj_Status = None, uj_DispatchStatus = None, uj_ExecutionStatus = None,
     uj_Name = None, uj_Priority = None, uj_StartedAt = None, uj_CompletedAt = None,
     uj_Payload = None, uj_Metadata = None, uj_Errors = None, uj_Tags = None, uj_Topic = None,
     uj_DispatchAttempts = None, uj_DispatchLastError = None, uj_DispatchedAt = None\<rparr>"

section \<open>List and log queries\<close>

fun statusToSubFields :: "JobStatus \<Rightarrow> CompositeStatus" where
  "statusToSubFields JobStatusPendingDispatch =
     \<lparr>Dispatch = DispatchStatusPending, Execution = ExecutionStatusNotStarted\<rparr>"
| "statusToSubFields JobStatusDispatched =
     \<lparr>Dispatch = DispatchStatusDispatched, Execution = ExecutionStatusNotStarted\<rparr>"
| "statusToSubFields JobStatusDispatchFailed =
     \<lparr>Dispatch = DispatchStatusFailed, Execution = ExecutionStatusNotStarted\<rparr>"
| "statusToSubFields JobStatusRunning =
     \<lparr>Dispatch = DispatchStatusDispatched, Execution = ExecutionStatusRunning\<rparr>"
| "statusToSubFields JobStatusCompleted =
     \<lparr>Dispatch = DispatchStatusDispatched, Execution = ExecutionStatusCompleted\<rparr>"
| "statusToSubFields JobStatusFailed =
     \<lparr>Dispatch = DispatchStatusDispatched, Execution = ExecutionStatusFailed\<rparr>"
| "statusToSubFields JobStatusCancelled =
     \<lparr>Dispatch = DispatchStatusDispatched, Execution = ExecutionStatusCancelled\<rparr>"
| "statusToSubFields (JobStatusOther s) =
     \<lparr>Dispatch = DispatchStatusOther [], Execution = ExecutionStatusOther []\<rparr>"

definition pair_key :: "CompositeStatus \<Rightarrow> string" where
  "pair_key p = DispatchStatus_String (Dispatch p) @ [CHR 0x00] @ ExecutionStatus_String (Execution p)"

definition pair_condition :: "CompositeStatus \<Rightarrow> bval" where
  "pair_condition p = BDoc [(''dispatchStatus'', BDispatch (Dispatch p)),
                            (''executionStatus'', BExecution (Execution p))]"

text \<open>The loop of \<open>buildStatusOrQuery\<close>; \<open>seen\<close> is the set of keys met so far.\<close>

fun status_or_loop :: "string list \<Rightarrow> JobStatus list \<Rightarrow> bval list" where
  "status_or_loop seen [] = []"
| "status_or_loop seen (status # rest) =
     (let pair = statusToSubFields status in
      if \<not> CompositeStatus_IsValid pair then status_or_loop seen rest
      else if pair_key pair \<in> set seen then status_or_loop seen rest
      else pair_condition pair # status_or_loop (pair_key pair # seen) rest)"

definition buildStatusOrQuery :: "JobStatus list \<Rightarrow> bval list" where
  "buildStatusOrQuery statuses = status_or_loop [] statuses"

text \<open>A nil \<open>bson.A\<close> is encoded as null.\<close>

definition bson_array :: "bval list \<Rightarrow> bval" where
  "bson_array xs = (if xs = [] then BNull else BArr xs)"

definition optional_key :: "string \<Rightarrow> ('a \<Rightarrow> bval) \<Rightarrow> 'a option \<Rightarrow> bdoc" where
  "optional_key k f x = (case x of None \<Rightarrow> [] | Some v \<Rightarrow> [(k, f v)])"

definition buildListQuery :: "ListFilter \<Rightarrow> bdoc" where
  "buildListQuery filt =
     (if length (lf_Names filt) > 0
      then [(''name'', BDoc [(''$in'', BArr (map BStr (lf_Names filt)))])] else [])
   @ (if length (lf_Statuses filt) > 0
      then [(''$or'', bson_array (buildStatusOrQuery (lf_Statuses filt)))] else [])
   @ (if length (lf_Tags filt) > 0
      then [(''tags'', BDoc [(''$in'', BArr (map BStr (lf_Tags filt)))])] else [])
   @ (if lf_MinPriority filt \<noteq> None \<or> lf_MaxPriority filt \<noteq> None
      then [(''priority'', BDoc (optional_key ''$gte'' BInt (lf_MinPriority filt)
                               @ optional_key ''$lte'' BInt (lf_MaxPriority filt)))] else [])
   @ (if lf_CreatedAfter filt \<noteq> None \<or> lf_CreatedBefore filt \<noteq> None
      then [(''createdAt'', BDoc (optional_key ''$gt'' BTime (lf_CreatedAfter filt)
                                @ optional_key ''$lt'' BTime (lf_CreatedBefore filt)))] else [])"

definition buildLogsQuery :: "string \<Rightarrow> LogFilter \<Rightarrow> bdoc" where
  "buildLogsQuery jobID filt =
     [(''jobId'', BStr jobID)]
   @ (if length (gf_Levels filt) > 0
      then [(''level'', BDoc [(''$in'', BArr (map BLevel (gf_Levels filt)))])] else [])
   @ (if gf_Since filt \<noteq> None \<or> gf_Until filt \<noteq> None
      then [(''timestamp'', BDoc (optional_key ''$gte'' BTime (gf_Since filt)
                                @ optional_key ''$lte'' BTime (gf_Until filt)))] else [])"

section \<open>The partial set document\<close>

text \<open>
  What \<open>reflect\<close> shows of a value: a nil pointer, a value that is not a struct, or a
  struct with its fields in order, each with its name, whether it is exported, its
  \<open>bson\<close> tag and its value.
\<close>

datatype field_value = NonPointer string | NilPointer | Pointer bval

record struct_field =
  sf_Name :: string
  sf_Exported :: bool
  sf_Tag :: string
  sf_Value :: field_value

datatype reflected =
    RNil
  | RNonStruct string
  | RStruct string "struct_field list"

text \<open>\<open>strings.Split(tag, ",")[0]\<close> is everything before the first comma.\<close>

definition bsonNameFromTag :: "string \<Rightarrow> string option" where
  "bsonNameFromTag tag =
     (if tag = [] then None
      else
        let key = trim_space (takeWhile (\<lambda>c. c \<noteq> CHR '','') tag) in
        if key = [] \<or> key = ''-'' then None else Some key)"

text \<open>The loop over the fields; \<open>seen\<close> maps a key to the field that claimed it.\<close>

fun partial_set_loop ::
  "string \<Rightarrow> struct_field list \<Rightarrow> (string \<times> string) list \<Rightarrow> bdoc \<Rightarrow> goerror + bdoc" where
  "partial_set_loop T [] seen out = Inr out"
| "partial_set_loop T (sf # rest) seen out =
     (if \<not> sf_Exported sf then partial_set_loop T rest seen out
      else case bsonNameFromTag (sf_Tag sf) of
        None \<Rightarrow> Inl (ErrorString (''bsonPartialSet: exported field '' @ T @ ''.'' @ sf_Name sf
                  @ '' requires a bson tag with a document name (not '' @ [CHR 0x27] @ ''-''
                  @ [CHR 0x27] @ '')''))
      | Some key \<Rightarrow>
          (case map_of seen key of
             Some prevField \<Rightarrow>
               Inl (ErrorString (''bsonPartialSet: duplicate bson key '' @ go_quote key
                      @ '' on fields '' @ go_quote prevField @ '' and '' @ go_quote (sf_Name sf)))
           | None \<Rightarrow>
               (case sf_Value sf of
                  NonPointer k \<Rightarrow>
                    Inl (ErrorString (''bsonPartialSet: field '' @ T @ ''.'' @ sf_Name sf
                           @ '' must be a pointer type, got '' @ k))
                | NilPointer \<Rightarrow> partial_set_loop T rest ((key, sf_Name sf) # seen) out
                | Pointer v \<Rightarrow>
                    partial_set_loop T rest ((key, sf_Name sf) # seen) (out @ [(key, v)]))))"

fun bsonPartialSet :: "reflected \<Rightarrow> goerror + bdoc" where
  "bsonPartialSet RNil = Inl (ErrorString ''bsonPartialSet: nil *T'')"
| "bsonPartialSet (RNonStruct k) = Inl (ErrorString (''bsonPartialSet: T must be a struct, got '' @ k))"
| "bsonPartialSet (RStruct T sfs) = partial_set_loop T sfs [] []"

text \<open>The fields of \<open>UpdateJob\<close> as reflection shows them: names and tags of the struct.\<close>

definition pointer_field :: "string \<Rightarrow> string \<Rightarrow> ('a \<Rightarrow> bval) \<Rightarrow> 'a option \<Rightarrow> struct_field" where
  "pointer_field name tag f x =
     \<lparr>sf_Name = name, sf_Exported = True, sf_Tag = tag,
      sf_Value = (case x of None \<Rightarrow> NilPointer | Some v \<Rightarrow> Pointer (f v))\<rparr>"

definition UpdateJob_fields :: "UpdateJob \<Rightarrow> struct_field list" where
  "UpdateJob_fields p =
     [pointer_field ''Status'' ''status,omitempty'' BStatus (uj_Status p),
      pointer_field ''DispatchStatus'' ''dispatchStatus,omitempty'' BDispatch (uj_DispatchStatus p),
      pointer_field ''ExecutionStatus'' ''executionStatus,omitempty'' BExecution (uj_ExecutionStatus p),
      pointer_field ''Name'' ''name,omitempty'' BStr (uj_Name p),
      pointer_field ''Priority'' ''priority,omitempty'' BInt (uj_Priority p),
      pointer_field ''StartedAt'' ''startedAt,omitempty'' BTime (uj_StartedAt p),
      pointer_field ''CompletedAt'' ''completedAt,omitempty'' BTime (uj_CompletedAt p),
      pointer_field ''Payload'' ''payload,omitempty'' BMap (uj_Payload p),
      pointer_field ''Metadata'' ''metadata,omitempty'' BMap (uj_Metadata p),
      pointer_field ''Errors'' ''errors,omitempty'' (\<lambda>es. BArr (map BJobError es)) (uj_Errors p),
      pointer_field ''Tags'' ''tags,omitempty'' (\<lambda>ts. BArr (map BStr ts)) (uj_Tags p),
      pointer_field ''Topic'' ''topic,omitempty'' BStr (uj_Topic p),
      pointer_field ''DispatchAttempts'' ''dispatchAttempts,omitempty'' BInt (uj_DispatchAttempts p),
      pointer_field ''DispatchLastError'' ''dispatchLastError,omitempty'' BStr (uj_DispatchLastError p),
      pointer_field ''DispatchedAt'' ''dispatchedAt,omitempty'' BTime (uj_DispatchedAt p)]"

definition update_set_doc :: "UpdateJob \<Rightarrow> goerror + bdoc" where
  "update_set_doc patch = bsonPartialSet (RStruct ''UpdateJob'' (UpdateJob_fields patch))"

section \<open>Facts\<close>

lemma statusToSubFields_display:
  "JobStatus_IsValid st \<Longrightarrow> CompositeStatus_DisplayStatus (statusToSubFields st) = st"
  by (cases st) (simp_all add: CompositeStatus_DisplayStatus_def)

lemma statusToSubFields_valid [simp]:
  "CompositeStatus_IsValid (statusToSubFields st) \<longleftrightarrow> JobStatus_IsValid st"
  by (cases st) (simp_all add: CompositeStatus_IsValid_def)

lemma statusToSubFields_inj:
  "JobStatus_IsValid a \<Longrightarrow> JobStatus_IsValid b \<Longrightarrow> statusToSubFields a = statusToSubFields b \<Longrightarrow> a = b"
  by (metis statusToSubFields_display)

lemma pair_key_inj:
  "JobStatus_IsValid a \<Longrightarrow> JobStatus_IsValid b \<Longrightarrow>
   pair_key (statusToSubFields a) = pair_key (statusToSubFields b) \<longleftrightarrow> a = b"
  by (cases a; cases b) (simp_all add: pair_key_def)

lemma pair_condition_inj [simp]: "pair_condition a = pair_condition b \<longleftrightarrow> a = b"
  by (cases a; cases b) (auto simp: pair_condition_def)

lemma status_or_loop_spec:
  assumes "\<forall>k\<in>set seen. \<exists>st. JobStatus_IsValid st \<and> k = pair_key (statusToSubFields st)"
  shows "set (status_or_loop seen sts) =
      (\<lambda>st. pair_condition (statusToSubFields st)) `
        {st \<in> set sts. JobStatus_IsValid st \<and> pair_key (statusToSubFields st) \<notin> set seen}
    \<and> distinct (status_or_loop seen sts)"
  using assms
proof (induction sts arbitrary: seen)
  case Nil
  then show ?case by simp
next
  case (Cons st sts)
  show ?case
  proof (cases "JobStatus_IsValid st \<and> pair_key (statusToSubFields st) \<notin> set seen")
    case False
    then have "status_or_loop seen (st # sts) = status_or_loop seen sts"
      by (auto simp: Let_def)
    with False Cons.IH [OF Cons.prems] show ?thesis by auto
  next
    case True
    let ?k = "pair_key (statusToSubFields st)"
    from True Cons.prems have
      "\<forall>k\<in>set (?k # seen). \<exists>st. JobStatus_IsValid st \<and> k = pair_key (statusToSubFields st)"
      by auto
    note IH = Cons.IH [OF this]
    from True have eq: "status_or_loop seen (st # sts) =
        pair_condition (statusToSubFields st) # status_or_loop (?k # seen) sts"
      by (simp add: Let_def)
    have "pair_condition (statusToSubFields st) \<notin> set (status_or_loop (?k # seen) sts)"
      using IH by auto
    moreover have "{s \<in> set (st # sts). JobStatus_IsValid s \<and> pair_key (statusToSubFields s) \<notin> set seen}
      = insert st {s \<in> set sts. JobStatus_IsValid s \<and> pair_key (statusToSubFields s) \<notin> set (?k # seen)}"
      using True pair_key_inj by auto
    ultimately show ?thesis using IH by (simp add: eq del: status_or_loop.simps)
  qed
qed

lemma buildStatusOrQuery_set:
  "set (buildStatusOrQuery sts) =
     (\<lambda>st. pair_condition (statusToSubFields st)) ` {st \<in> set sts. JobStatus_IsValid st}"
  using status_or_loop_spec [of "[]" sts] by (simp add: buildStatusOrQuery_def)

lemma buildStatusOrQuery_distinct: "distinct (buildStatusOrQuery sts)"
  using status_or_loop_spec [of "[]" sts] by (simp add: buildStatusOrQuery_def)

text \<open>What the loop does with one exported pointer field whose tag names a fresh key.\<close>

lemma partial_set_step:
  assumes "bsonNameFromTag tag = Some key" and "key \<notin> fst ` set seen"
  shows "partial_set_loop T (pointer_field name tag f x # rest) seen out =
         partial_set_loop T rest ((key, name) # seen) (out @ optional_key key f x)"
proof -
  have "map_of seen key = None" using assms(2) by (simp add: map_of_eq_None_iff)
  with assms(1) show ?thesis
    by (cases x) (simp_all add: pointer_field_def optional_key_def)
qed

lemma update_job_tags:
  "bsonNameFromTag ''status,omitempty'' = Some ''status''"
  "bsonNameFromTag ''dispatchStatus,omitempty'' = Some ''dispatchStatus''"
  "bsonNameFromTag ''executionStatus,omitempty'' = Some ''executionStatus''"
  "bsonNameFromTag ''name,omitempty'' = Some ''name''"
  "bsonNameFromTag ''priority,omitempty'' = Some ''priority''"
  "bsonNameFromTag ''startedAt,omitempty'' = Some ''startedAt''"
  "bsonNameFromTag ''completedAt,omitempty'' = Some ''completedAt''"
  "bsonNameFromTag ''payload,omitempty'' = Some ''payload''"
  "bsonNameFromTag ''metadata,omitempty'' = Some ''metadata''"
  "bsonNameFromTag ''errors,omitempty'' = Some ''errors''"
  "bsonNameFromTag ''tags,omitempty'' = Some ''tags''"
  "bsonNameFromTag ''topic,omitempty'' = Some ''topic''"
  "bsonNameFromTag ''dispatchAttempts,omitempty'' = Some ''dispatchAttempts''"
  "bsonNameFromTag ''dispatchLastError,omitempty'' = Some ''dispatchLastError''"
  "bsonNameFromTag ''dispatchedAt,omitempty'' = Some ''dispatchedAt''"
  by (simp_all add: bsonNameFromTag_def trim_space_def is_space_def)

lemma update_set_doc_eq:
  "update_set_doc p = Inr (
     optional_key ''status'' BStatus (uj_Status p)
   @ optional_key ''dispatchStatus'' BDispatch (uj_DispatchStatus p)
   @ optional_key ''executionStatus'' BExecution (uj_ExecutionStatus p)
   @ optional_key ''name'' BStr (uj_Name p)
   @ optional_key ''priority'' BInt (uj_Priority p)
   @ optional_key ''startedAt'' BTime (uj_StartedAt p)
   @ optional_key ''completedAt'' BTime (uj_CompletedAt p)
   @ optional_key ''payload'' BMap (uj_Payload p)
   @ optional_key ''metadata'' BMap (uj_Metadata p)
   @ optional_key ''errors'' (\<lambda>es. BArr (map BJobError es)) (uj_Errors p)
   @ optional_key ''tags'' (\<lambda>ts. BArr (map BStr ts)) (uj_Tags p)
   @ optional_key ''topic'' BStr (uj_Topic p)
   @ optional_key ''dispatchAttempts'' BInt (uj_DispatchAttempts p)
   @ optional_key ''dispatchLastError'' BStr (uj_DispatchLastError p)
   @ optional_key ''dispatchedAt'' BTime (uj_DispatchedAt p))"
  by (simp add: update_set_doc_def UpdateJob_fields_def partial_set_step update_job_tags
      del: partial_set_loop.simps(2))

end
