(* ===== verification/MongoModel.thy ===== *)
theory MongoModel
  imports Queries
begin

text \<open>
  MongoDB as the code sees it: which documents a filter selects and what an update
  makes of a document, for the query and update operators the code uses. The driver and
  the server are not part of the repository; this is their documentation, restricted to
  those operators, and the vocabulary in which \<open>Backend\<close> states what a driver promises.
\<close>

section \<open>Documents\<close>

text \<open>
  The field of a stored job under its document name, following the \<open>bson\<close> tags of
  \<open>JobMetadataModel\<close>; \<open>None\<close> is a field \<open>omitempty\<close> left out.
\<close>

definition job_field :: "string \<Rightarrow> job \<Rightarrow> bval option" where
  "job_field k j =
     (if k = ''jobId'' then Some (BStr (jm_JobID j))
      else if k = ''name'' then Some (BStr (jm_Name j))
      else if k = ''status'' then
        (if jm_Status j = JobStatusOther [] then None else Some (BStatus (jm_Status j)))
      else if k = ''dispatchStatus'' then Some (BDispatch (jm_DispatchStatus j))
      else if k = ''executionStatus'' then Some (BExecution (jm_ExecutionStatus j))
      else if k = ''priority'' then Some (BInt (jm_Priority j))
      else if k = ''createdAt'' then Some (BTime (jm_CreatedAt j))
      else if k = ''startedAt'' then map_option BTime (jm_StartedAt j)
      else if k = ''completedAt'' then map_option BTime (jm_CompletedAt j)
      else if k = ''payload'' then Some (BMap (jm_Payload j))
      else if k = ''metadata'' then Some (BMap (jm_Metadata j))
      else if k = ''errors'' then
        (if jm_Errors j = [] then None else Some (BArr (map BJobError (jm_Errors j))))
      else if k = ''retryCount'' then Some (BInt (jm_RetryCount j))
      else if k = ''tags'' then Some (BArr (map BStr (jm_Tags j)))
      else if k = ''topic'' then (if jm_Topic j = [] then None else Some (BStr (jm_Topic j)))
      else if k = ''dispatchAttempts'' then Some (BInt (jm_DispatchAttempts j))
      else if k = ''dispatchLastError'' then
        (if jm_DispatchLastError j = [] then None else Some (BStr (jm_DispatchLastError j)))
      else if k = ''dispatchedAt'' then map_option BTime (jm_DispatchedAt j)
      else None)"

definition log_field :: "string \<Rightarrow> JobLog \<Rightarrow> bval option" where
  "log_field k l =
     (if k = ''jobId'' then Some (BStr (jl_JobID l))
      else if k = ''timestamp'' then Some (BTime (jl_Timestamp l))
      else if k = ''level'' then Some (BLevel (jl_Level l))
      else if k = ''message'' then Some (BStr (jl_Message l))
      else None)"

section \<open>Documented meaning of a query\<close>

fun bval_num :: "bval \<Rightarrow> int option" where
  "bval_num (BInt i) = Some i"
| "bval_num (BTime t) = Some t"
| "bval_num _ = None"

definition compare_op :: "(int \<Rightarrow> int \<Rightarrow> bool) \<Rightarrow> bval option \<Rightarrow> bval \<Rightarrow> bool" where
  "compare_op R x v =
     (case x of None \<Rightarrow> False
      | Some y \<Rightarrow> (case (bval_num y, bval_num v) of (Some a, Some b) \<Rightarrow> R a b | _ \<Rightarrow> False))"

definition in_op :: "bval option \<Rightarrow> bval list \<Rightarrow> bool" where
  "in_op x vs =
     (case x of
        None \<Rightarrow> BNull \<in> set vs
      | Some (BArr xs) \<Rightarrow> (\<exists>y\<in>set xs. y \<in> set vs)
      | Some y \<Rightarrow> y \<in> set vs)"

definition operator_matches :: "bval option \<Rightarrow> string \<times> bval \<Rightarrow> bool" where
  "operator_matches x kv =
     (case kv of (k, v) \<Rightarrow>
        if k = ''$in'' then (case v of BArr vs \<Rightarrow> in_op x vs | _ \<Rightarrow> False)
        else if k = ''$gte'' then compare_op (\<ge>) x v
        else if k = ''$lte'' then compare_op (\<le>) x v
        else if k = ''$gt'' then compare_op (>) x v
        else if k = ''$lt'' then compare_op (<) x v
        else if k = ''$ne'' then x \<noteq> Some v
        else if k = ''$exists'' then (case v of BBool b \<Rightarrow> (x \<noteq> None) = b | _ \<Rightarrow> False)
        else False)"

definition condition_matches :: "bval option \<Rightarrow> bval \<Rightarrow> bool" where
  "condition_matches x c =
     (case c of BDoc ops \<Rightarrow> list_all (operator_matches x) ops | _ \<Rightarrow> x = Some c)"

definition plain_matches :: "(string \<Rightarrow> bval option) \<Rightarrow> bdoc \<Rightarrow> bool" where
  "plain_matches fld q = list_all (\<lambda>(k, c). condition_matches (fld k) c) q"

definition clause_matches :: "(string \<Rightarrow> bval option) \<Rightarrow> string \<times> bval \<Rightarrow> bool" where
  "clause_matches fld kc =
     (case kc of (k, c) \<Rightarrow>
        if k = ''$or'' then
          (case c of
             BArr qs \<Rightarrow> list_ex (\<lambda>d. case d of BDoc q \<Rightarrow> plain_matches fld q | _ \<Rightarrow> False) qs
           | _ \<Rightarrow> False)
        else condition_matches (fld k) c)"

definition query_matches :: "(string \<Rightarrow> bval option) \<Rightarrow> bdoc \<Rightarrow> bool" where
  "query_matches fld q = list_all (clause_matches fld) q"

abbreviation job_matches :: "bdoc \<Rightarrow> job \<Rightarrow> bool" where
  "job_matches q j \<equiv> query_matches (\<lambda>k. job_field k j) q"

abbreviation log_matches :: "bdoc \<Rightarrow> JobLog \<Rightarrow> bool" where
  "log_matches q l \<equiv> query_matches (\<lambda>k. log_field k l) q"

lemmas query_match_defs =
  query_matches_def clause_matches_def plain_matches_def condition_matches_def
  operator_matches_def in_op_def compare_op_def

section \<open>Documented meaning of an update\<close>

fun the_strings :: "bval list \<Rightarrow> string list option" where
  "the_strings [] = Some []"
| "the_strings (BStr s # vs) = map_option (Cons s) (the_strings vs)"
| "the_strings _ = None"

fun the_errors :: "bval list \<Rightarrow> JobError list option" where
  "the_errors [] = Some []"
| "the_errors (BJobError e # vs) = map_option (Cons e) (the_errors vs)"
| "the_errors _ = None"

text \<open>
  The job read back after one field was set; \<open>None\<close> where the value does not decode into
  the field's Go type.
\<close>

definition set_field :: "string \<Rightarrow> bval \<Rightarrow> job \<Rightarrow> job option" where
  "set_field k v j =
     (if k = ''status'' then (case v of BStatus s \<Rightarrow> Some (j\<lparr>jm_Status := s\<rparr>) | _ \<Rightarrow> None)
      else if k = ''dispatchStatus'' then
        (case v of BDispatch s \<Rightarrow> Some (j\<lparr>jm_DispatchStatus := s\<rparr>) | _ \<Rightarrow> None)
      else if k = ''executionStatus'' then
        (case v of BExecution s \<Rightarrow> Some (j\<lparr>jm_ExecutionStatus := s\<rparr>) | _ \<Rightarrow> None)
      else if k = ''name'' then (case v of BStr s \<Rightarrow> Some (j\<lparr>jm_Name := s\<rparr>) | _ \<Rightarrow> None)
      else if k = ''priority'' then (case v of BInt i \<Rightarrow> Some (j\<lparr>jm_Priority := i\<rparr>) | _ \<Rightarrow> None)
      else if k = ''startedAt'' then
        (case v of BTime t \<Rightarrow> Some (j\<lparr>jm_StartedAt := Some t\<rparr>) | _ \<Rightarrow> None)
      else if k = ''completedAt'' then
        (case v of BTime t \<Rightarrow> Some (j\<lparr>jm_CompletedAt := Some t\<rparr>) | _ \<Rightarrow> None)
      else if k = ''payload'' then (case v of BMap m \<Rightarrow> Some (j\<lparr>jm_Payload := m\<rparr>) | _ \<Rightarrow> None)
      else if k = ''metadata'' then (case v of BMap m \<Rightarrow> Some (j\<lparr>jm_Metadata := m\<rparr>) | _ \<Rightarrow> None)
      else if k = ''errors'' then
        (case v of BArr vs \<Rightarrow> map_option (\<lambda>es. j\<lparr>jm_Errors := es\<rparr>) (the_errors vs) | _ \<Rightarrow> None)
      else if k = ''tags'' then
        (case v of BArr vs \<Rightarrow> map_option (\<lambda>ts. j\<lparr>jm_Tags := ts\<rparr>) (the_strings vs) | _ \<Rightarrow> None)
      else if k = ''topic'' then (case v of BStr s \<Rightarrow> Some (j\<lparr>jm_Topic := s\<rparr>) | _ \<Rightarrow> None)
      else if k = ''dispatchAttempts'' then
        (case v of BInt i \<Rightarrow> Some (j\<lparr>jm_DispatchAttempts := i\<rparr>) | _ \<Rightarrow> None)
      else if k = ''dispatchLastError'' then
        (case v of BStr s \<Rightarrow> Some (j\<lparr>jm_DispatchLastError := s\<rparr>) | _ \<Rightarrow> None)
      else if k = ''dispatchedAt'' then
        (case v of BTime t \<Rightarrow> Some (j\<lparr>jm_DispatchedAt := Some t\<rparr>) | _ \<Rightarrow> None)
      else None)"

fun set_fields :: "bdoc \<Rightarrow> job \<Rightarrow> job option" where
  "set_fields [] j = Some j"
| "set_fields ((k, v) # kvs) j =
     (case set_field k v j of None \<Rightarrow> None | Some j' \<Rightarrow> set_fields kvs j')"

definition push_field :: "string \<Rightarrow> bval \<Rightarrow> job \<Rightarrow> job option" where
  "push_field k v j =
     (if k = ''errors'' then
        (case v of BJobError e \<Rightarrow> Some (j\<lparr>jm_Errors := jm_Errors j @ [e]\<rparr>) | _ \<Rightarrow> None)
      else None)"

definition inc_field :: "string \<Rightarrow> bval \<Rightarrow> job \<Rightarrow> job option" where
  "inc_field k v j =
     (if k = ''retryCount'' then
        (case v of BInt n \<Rightarrow> Some (j\<lparr>jm_RetryCount := jm_RetryCount j + n\<rparr>) | _ \<Rightarrow> None)
      else None)"

definition unset_field :: "string \<Rightarrow> job \<Rightarrow> job option" where
  "unset_field k j =
     (if k = ''startedAt'' then Some (j\<lparr>jm_StartedAt := None\<rparr>)
      else if k = ''completedAt'' then Some (j\<lparr>jm_CompletedAt := None\<rparr>)
      else None)"

text \<open>
  Expressions of an aggregation pipeline. A string that starts with a dollar sign is not a
  literal but a path to a field of the document, also inside an embedded document: the
  message of a \<open>JobError\<close> placed in a pipeline is read that way. Only paths to a top-level
  string field are given a meaning here; for any other path \<open>None\<close> makes no promise.
\<close>

definition is_field_path :: "string \<Rightarrow> bool" where
  "is_field_path s = (case s of [] \<Rightarrow> False | c # _ \<Rightarrow> c = CHR ''$'')"

fun eval_expr :: "job \<Rightarrow> bval \<Rightarrow> bval option" and
    eval_list :: "job \<Rightarrow> bval list \<Rightarrow> bval list option" where
  "eval_expr j (BStr s) =
     (if is_field_path s
      then Some (case job_field (tl s) j of None \<Rightarrow> BNull | Some v \<Rightarrow> v)
      else Some (BStr s))"
| "eval_expr j (BJobError e) =
     (if is_field_path (je_Error e)
      then (case job_field (tl (je_Error e)) j of
              Some (BStr s) \<Rightarrow> Some (BJobError (e\<lparr>je_Error := s\<rparr>))
            | _ \<Rightarrow> None)
      else Some (BJobError e))"
| "eval_expr j (BArr vs) = map_option BArr (eval_list j vs)"
| "eval_expr j (BDoc [(op, BArr args)]) =
     (if op = ''$ifNull'' then
        (case eval_list j args of
           Some [a, b] \<Rightarrow> Some (if a = BNull then b else a)
         | _ \<Rightarrow> None)
      else if op = ''$concatArrays'' then
        (case eval_list j args of
           Some [BArr a, BArr b] \<Rightarrow> Some (BArr (a @ b))
         | _ \<Rightarrow> None)
      else None)"
| "eval_expr j (BDoc kvs) = None"
| "eval_expr j (BMap m) = None"
| "eval_expr j v = Some v"
| "eval_list j [] = Some []"
| "eval_list j (v # vs) =
     (case (eval_expr j v, eval_list j vs) of
        (Some a, Some as) \<Rightarrow> Some (a # as)
      | _ \<Rightarrow> None)"

fun eval_fields :: "job \<Rightarrow> bdoc \<Rightarrow> bdoc option" where
  "eval_fields j [] = Some []"
| "eval_fields j ((k, v) # kvs) =
     (case (eval_expr j v, eval_fields j kvs) of
        (Some a, Some as) \<Rightarrow> Some ((k, a) # as)
      | _ \<Rightarrow> None)"

definition apply_operator :: "string \<times> bval \<Rightarrow> job \<Rightarrow> job option" where
  "apply_operator kv j =
     (case kv of
        (k, BDoc d) \<Rightarrow>
          if k = ''$set'' then set_fields d j
          else if k = ''$push'' then
            (case d of [(f, v)] \<Rightarrow> push_field f v j | _ \<Rightarrow> None)
          else if k = ''$inc'' then
            (case d of [(f, v)] \<Rightarrow> inc_field f v j | _ \<Rightarrow> None)
          else if k = ''$unset'' then
            (case d of
               [(f, _), (g, _)] \<Rightarrow> Option.bind (unset_field f j) (unset_field g)
             | _ \<Rightarrow> None)
          else None
      | _ \<Rightarrow> None)"

fun apply_operators :: "bdoc \<Rightarrow> job \<Rightarrow> job option" where
  "apply_operators [] j = Some j"
| "apply_operators (kv # kvs) j = Option.bind (apply_operator kv j) (apply_operators kvs)"

text \<open>An update is a document of operators, or a pipeline with one \<open>$set\<close> stage.\<close>

definition apply_update :: "bval \<Rightarrow> job \<Rightarrow> job option" where
  "apply_update u j =
     (case u of
        BDoc ops \<Rightarrow> apply_operators ops j
      | BArr [BDoc [(k, BDoc d)]] \<Rightarrow>
          if k = ''$set'' then Option.bind (eval_fields j d) (\<lambda>d'. set_fields d' j) else None
      | _ \<Rightarrow> None)"

end
