(* ===== verification/Backend.thy ===== *)
theory Backend
  imports MongoModel "HOL-Library.Multiset"
begin

text \<open>
  The outside world the adapters run on: the clock, the UUID generator and the two
  collections behind the MongoDB driver, as a record of operations, with the documented
  behaviour of each as the assumptions of the locale \<open>mongo_backend\<close>. The state of the
  world is any type \<open>'s\<close>; \<open>jobs\<close> and \<open>logs\<close> read the stored documents out of it.
\<close>

section \<open>Operations\<close>

record find_options =
  fo_Limit :: "int option"
  fo_Skip :: "int option"
  fo_Sort :: "(string \<times> int) list"

text \<open>
  What iterating over a cursor yields: the outcome of each \<open>Decode\<close>, then \<open>cursor.Err()\<close>,
  then the result of \<open>cursor.Close\<close>.
\<close>

record 'a cursor =
  cur_items :: "(goerror + 'a) list"
  cur_err :: "goerror option"
  cur_close :: "goerror option"

record 's backend =
  be_now :: "('s, instant) op"
  be_uuid :: "('s, string) op"
  be_find_one :: "bdoc \<Rightarrow> ('s, goerror + job) op"
  be_find :: "bdoc \<Rightarrow> find_options \<Rightarrow> ('s, goerror + job cursor) op"
  be_count :: "bdoc \<Rightarrow> ('s, goerror + int) op"
  be_insert_one :: "job \<Rightarrow> ('s, goerror option) op"
  be_insert_many :: "job list \<Rightarrow> ('s, goerror + int) op"
  be_update_one :: "bdoc \<Rightarrow> bval \<Rightarrow> ('s, goerror + int) op"
  be_delete_one :: "bdoc \<Rightarrow> ('s, goerror + int) op"
  be_log_find :: "bdoc \<Rightarrow> find_options \<Rightarrow> ('s, goerror + JobLog cursor) op"
  be_log_insert_one :: "JobLog \<Rightarrow> ('s, goerror option) op"
  be_log_insert_many :: "JobLog list \<Rightarrow> ('s, goerror + int) op"
  be_log_delete_many :: "bdoc \<Rightarrow> ('s, goerror + int) op"

section \<open>Vocabulary of the contract\<close>

text \<open>An error made outside the repository wraps none of its sentinels.\<close>

definition foreign_error :: "goerror \<Rightarrow> bool" where
  "foreign_error e \<longleftrightarrow> \<not> errors_is e ErrJobNotFound \<and> \<not> errors_is e ErrEmptyUpdateJob
     \<and> \<not> errors_is e ErrJobAlreadyTerminal \<and> \<not> errors_is e ErrUnknownJobType"

definition is_duplicate_key :: "goerror \<Rightarrow> bool" where
  "is_duplicate_key e = (case e of DriverDuplicateKey s \<Rightarrow> True | _ \<Rightarrow> False)"

definition in_order :: "(string \<Rightarrow> 'a \<Rightarrow> bval option) \<Rightarrow> find_options \<Rightarrow> 'a \<Rightarrow> 'a \<Rightarrow> bool" where
  "in_order fld opts x y =
     (case fo_Sort opts of
        [(k, dir)] \<Rightarrow>
          (case (Option.bind (fld k x) bval_num, Option.bind (fld k y) bval_num) of
             (Some a, Some b) \<Rightarrow> dir * a \<le> dir * b
           | _ \<Rightarrow> True)
      | _ \<Rightarrow> True)"

definition page :: "find_options \<Rightarrow> 'a list \<Rightarrow> 'a list" where
  "page opts xs =
     (let d = (case fo_Skip opts of None \<Rightarrow> xs | Some n \<Rightarrow> drop (nat n) xs)
      in case fo_Limit opts of None \<Rightarrow> d | Some n \<Rightarrow> take (nat n) d)"

text \<open>The cursor delivered everything it had, without an error.\<close>

definition delivers :: "'a cursor \<Rightarrow> 'a list \<Rightarrow> bool" where
  "delivers c xs \<longleftrightarrow> cur_items c = map Inr xs \<and> cur_err c = None"

definition cursor_foreign :: "'a cursor \<Rightarrow> bool" where
  "cursor_foreign c \<longleftrightarrow> (\<forall>e. Inl e \<in> set (cur_items c) \<or> cur_err c = Some e \<or> cur_close c = Some e
      \<longrightarrow> foreign_error e)"

text \<open>
  At most one matching document is replaced by what the update makes of it. Where the
  documentation of the operators gives the update no meaning, nothing is promised about
  the new document.
\<close>

definition one_updated ::
  "('s \<Rightarrow> string \<Rightarrow> job option) \<Rightarrow> bdoc \<Rightarrow> bval \<Rightarrow> 's \<Rightarrow> 's \<Rightarrow> bool" where
  "one_updated jobs q u s s' \<longleftrightarrow>
     (\<exists>k j j'. jobs s k = Some j \<and> job_matches q j \<and> jobs s' = (jobs s)(k \<mapsto> j')
        \<and> (\<forall>x. apply_update u j = Some x \<longrightarrow> j' = x))"

definition one_inserted :: "('s \<Rightarrow> string \<Rightarrow> job option) \<Rightarrow> job \<Rightarrow> 's \<Rightarrow> 's \<Rightarrow> bool" where
  "one_inserted jobs j s s' \<longleftrightarrow>
     jobs s (jm_JobID j) = None \<and> (\<exists>oid. jobs s' = (jobs s)(jm_JobID j \<mapsto> j\<lparr>jm_ID := oid\<rparr>))"

text \<open>The first \<open>n\<close> documents of an ordered bulk insert.\<close>

definition many_inserted :: "('s \<Rightarrow> string \<Rightarrow> job option) \<Rightarrow> job list \<Rightarrow> 's \<Rightarrow> 's \<Rightarrow> bool" where
  "many_inserted jobs js s s' \<longleftrightarrow>
     distinct (map jm_JobID js) \<and> (\<forall>j\<in>set js. jobs s (jm_JobID j) = None)
   \<and> (\<exists>js'. list_all2 (\<lambda>j j'. \<exists>oid. j' = j\<lparr>jm_ID := oid\<rparr>) js js'
          \<and> jobs s' = jobs s ++ map_of (map (\<lambda>j. (jm_JobID j, j)) js'))"

section \<open>The documented behaviour\<close>

locale mongo_backend =
  fixes B :: "'s backend"
    and jobs :: "'s \<Rightarrow> string \<Rightarrow> job option"
    and logs :: "'s \<Rightarrow> JobLog list"
  assumes job_key: "jobs s k = Some j \<Longrightarrow> jm_JobID j = k"
    and jobs_finite: "finite (dom (jobs s))"
    and now_ok: "be_now B s = (t, s') \<Longrightarrow> jobs s' = jobs s \<and> logs s' = logs s \<and> t \<noteq> 0"
    and uuid_ok: "be_uuid B s = (uid, s') \<Longrightarrow> jobs s' = jobs s \<and> logs s' = logs s \<and> length uid = 36"
    and find_one_frame: "be_find_one B q s = (r, s') \<Longrightarrow> jobs s' = jobs s \<and> logs s' = logs s"
    and find_one_found:
      "be_find_one B q s = (Inr j, s') \<Longrightarrow> jobs s (jm_JobID j) = Some j \<and> job_matches q j"
    and find_one_none:
      "be_find_one B q s = (Inl e, s') \<Longrightarrow> errors_is e DriverNoDocuments \<Longrightarrow>
       jobs s k = Some j \<Longrightarrow> \<not> job_matches q j"
    and find_one_foreign: "be_find_one B q s = (Inl e, s') \<Longrightarrow> foreign_error e"
    and find_frame: "be_find B q opts s = (rf, s') \<Longrightarrow> jobs s' = jobs s \<and> logs s' = logs s"
    and find_delivers:
      "be_find B q opts s = (Inr c, s') \<Longrightarrow> delivers c xs \<Longrightarrow>
       \<exists>ys. distinct ys \<and> set ys = {j \<in> ran (jobs s). job_matches q j}
          \<and> sorted_wrt (in_order job_field opts) ys \<and> xs = page opts ys"
    and find_foreign: "be_find B q opts s = (Inl e, s') \<Longrightarrow> foreign_error e"
    and find_cursor_foreign: "be_find B q opts s = (Inr c, s') \<Longrightarrow> cursor_foreign c"
    and count_frame: "be_count B q s = (rc, s') \<Longrightarrow> jobs s' = jobs s \<and> logs s' = logs s"
    and count_ok:
      "be_count B q s = (Inr n, s') \<Longrightarrow> n = int (card {j \<in> ran (jobs s). job_matches q j})"
    and count_foreign: "be_count B q s = (Inl e, s') \<Longrightarrow> foreign_error e"
    and insert_frame: "be_insert_one B j s = (ro, s') \<Longrightarrow> logs s' = logs s"
    and insert_ok: "be_insert_one B j s = (None, s') \<Longrightarrow> one_inserted jobs j s s'"
    and insert_error:
      "be_insert_one B j s = (Some e, s') \<Longrightarrow>
       foreign_error e \<and> (jobs s' = jobs s \<or> one_inserted jobs j s s')"
    and insert_duplicate:
      "be_insert_one B j s = (Some e, s') \<Longrightarrow> is_duplicate_key e \<Longrightarrow>
       jobs s (jm_JobID j) \<noteq> None \<and> jobs s' = jobs s"
    and insert_many_frame: "be_insert_many B js s = (ri, s') \<Longrightarrow> logs s' = logs s"
    and insert_many_ok:
      "be_insert_many B js s = (Inr n, s') \<Longrightarrow> n = int (length js) \<and> many_inserted jobs js s s'"
    and insert_many_error:
      "be_insert_many B js s = (Inl e, s') \<Longrightarrow>
       foreign_error e \<and> (\<exists>m. many_inserted jobs (take m js) s s')"
    and update_frame: "be_update_one B q u s = (ru, s') \<Longrightarrow> logs s' = logs s"
    and update_ok:
      "be_update_one B q u s = (Inr n, s') \<Longrightarrow>
       (n = 0 \<and> (\<forall>k j. jobs s k = Some j \<longrightarrow> \<not> job_matches q j) \<and> jobs s' = jobs s)
       \<or> (n = 1 \<and> one_updated jobs q u s s')"
    and update_error:
      "be_update_one B q u s = (Inl e, s') \<Longrightarrow>
       foreign_error e \<and> (jobs s' = jobs s \<or> one_updated jobs q u s s')"
    and delete_frame: "be_delete_one B q s = (rd, s') \<Longrightarrow> logs s' = logs s"
    and delete_ok:
      "be_delete_one B q s = (Inr n, s') \<Longrightarrow>
       (n = 0 \<and> (\<forall>k j. jobs s k = Some j \<longrightarrow> \<not> job_matches q j) \<and> jobs s' = jobs s)
       \<or> (n = 1 \<and> (\<exists>k j. jobs s k = Some j \<and> job_matches q j \<and> jobs s' = (jobs s)(k := None)))"
    and delete_error:
      "be_delete_one B q s = (Inl e, s') \<Longrightarrow>
       foreign_error e \<and> (jobs s' = jobs s
         \<or> (\<exists>k j. jobs s k = Some j \<and> job_matches q j \<and> jobs s' = (jobs s)(k := None)))"
    and log_find_frame: "be_log_find B q opts s = (rl, s') \<Longrightarrow> jobs s' = jobs s \<and> logs s' = logs s"
    and log_find_delivers:
      "be_log_find B q opts s = (Inr lc, s') \<Longrightarrow> delivers lc ls \<Longrightarrow>
       \<exists>ys. mset ys = mset (filter (log_matches q) (logs s))
          \<and> sorted_wrt (in_order log_field opts) ys \<and> ls = page opts ys"
    and log_find_foreign: "be_log_find B q opts s = (Inl e, s') \<Longrightarrow> foreign_error e"
    and log_insert_frame: "be_log_insert_one B l s = (ro, s') \<Longrightarrow> jobs s' = jobs s"
    and log_insert_ok: "be_log_insert_one B l s = (None, s') \<Longrightarrow> logs s' = logs s @ [l]"
    and log_insert_error:
      "be_log_insert_one B l s = (Some e, s') \<Longrightarrow>
       foreign_error e \<and> (logs s' = logs s \<or> logs s' = logs s @ [l])"
    and log_insert_many_frame: "be_log_insert_many B ls s = (ri, s') \<Longrightarrow> jobs s' = jobs s"
    and log_insert_many_ok:
      "be_log_insert_many B ls s = (Inr n, s') \<Longrightarrow> n = int (length ls) \<and> logs s' = logs s @ ls"
    and log_delete_frame: "be_log_delete_many B q s = (rd, s') \<Longrightarrow> jobs s' = jobs s"
    and log_delete_ok:
      "be_log_delete_many B q s = (Inr n, s') \<Longrightarrow>
       logs s' = filter (\<lambda>l. \<not> log_matches q l) (logs s)
       \<and> n = int (length (filter (log_matches q) (logs s)))"

section \<open>A reference driver in memory\<close>

text \<open>
  Documents in insertion order, a clock that ticks with every read, and a script that
  says for each call whether it fails: \<open>Some msg\<close> makes it return an error without an
  effect.
\<close>

record mem =
  mem_jobs :: "job list"
  mem_logs :: "JobLog list"
  mem_clock :: int
  mem_serial :: nat
  mem_script :: "string option list"

definition mem_empty :: mem where
  "mem_empty = \<lparr>mem_jobs = [], mem_logs = [], mem_clock = 0, mem_serial = 0, mem_script = []\<rparr>"

definition mem_with :: "job list \<Rightarrow> string option list \<Rightarrow> mem" where
  "mem_with js script = mem_empty\<lparr>mem_jobs := js, mem_script := script\<rparr>"

fun unique_jobs :: "job list \<Rightarrow> job list" where
  "unique_jobs [] = []"
| "unique_jobs (j # js) = j # filter (\<lambda>x. jm_JobID x \<noteq> jm_JobID j) (unique_jobs js)"

definition keyed :: "job list \<Rightarrow> (string \<times> job) list" where
  "keyed js = map (\<lambda>j. (jm_JobID j, j)) js"

definition mem_coll :: "mem \<Rightarrow> string \<Rightarrow> job option" where
  "mem_coll s = map_of (keyed (mem_jobs s))"

text \<open>Run a call, unless the script says that it fails.\<close>

definition scripted :: "mem \<Rightarrow> (goerror \<Rightarrow> 'a) \<Rightarrow> (mem \<Rightarrow> 'a \<times> mem) \<Rightarrow> 'a \<times> mem" where
  "scripted s failed f =
     (case mem_script s of
        [] \<Rightarrow> f s
      | None # rest \<Rightarrow> f (s\<lparr>mem_script := rest\<rparr>)
      | Some msg # rest \<Rightarrow> (failed (DriverError msg), s\<lparr>mem_script := rest\<rparr>))"

definition mem_now :: "(mem, instant) op" where
  "mem_now s = (let t = \<bar>mem_clock s\<bar> + 1 in (t, s\<lparr>mem_clock := t\<rparr>))"

definition mem_uuid :: "(mem, string) op" where
  "mem_uuid s = (replicate 36 (char_of (97 + mem_serial s mod 26)),
                 s\<lparr>mem_serial := Suc (mem_serial s)\<rparr>)"

definition mem_select :: "bdoc \<Rightarrow> mem \<Rightarrow> job list" where
  "mem_select q s = filter (job_matches q) (unique_jobs (mem_jobs s))"

definition rank :: "(string \<Rightarrow> 'a \<Rightarrow> bval option) \<Rightarrow> find_options \<Rightarrow> 'a \<Rightarrow> int" where
  "rank fld opts x =
     (case fo_Sort opts of
        [(k, dir)] \<Rightarrow>
          (case Option.bind (fld k x) bval_num of None \<Rightarrow> 0 | Some a \<Rightarrow> dir * a)
      | _ \<Rightarrow> 0)"

definition list_cursor :: "'a list \<Rightarrow> 'a cursor" where
  "list_cursor xs = \<lparr>cur_items = map Inr xs, cur_err = None, cur_close = None\<rparr>"

definition replace_job :: "job \<Rightarrow> job list \<Rightarrow> job list" where
  "replace_job j' js = map (\<lambda>x. if jm_JobID x = jm_JobID j' then j' else x) js"

definition mem_update :: "bdoc \<Rightarrow> bval \<Rightarrow> mem \<Rightarrow> (goerror + int) \<times> mem" where
  "mem_update q u s =
     (case mem_select q s of
        [] \<Rightarrow> (Inr 0, s)
      | j # _ \<Rightarrow>
          (case apply_update u j of
             None \<Rightarrow> (Inl (DriverError ''unsupported update''), s)
           | Some j' \<Rightarrow> (Inr 1, s\<lparr>mem_jobs := replace_job j' (unique_jobs (mem_jobs s))\<rparr>)))"

definition mem_insert :: "job \<Rightarrow> mem \<Rightarrow> goerror option \<times> mem" where
  "mem_insert j s =
     (if mem_coll s (jm_JobID j) \<noteq> None
      then (Some (DriverDuplicateKey ''E11000 duplicate key error''), s)
      else (None, s\<lparr>mem_jobs := mem_jobs s @ [j]\<rparr>))"

definition mem_insert_many :: "job list \<Rightarrow> mem \<Rightarrow> (goerror + int) \<times> mem" where
  "mem_insert_many js s =
     (if distinct (map jm_JobID js) \<and> list_all (\<lambda>j. mem_coll s (jm_JobID j) = None) js
      then (Inr (int (length js)), s\<lparr>mem_jobs := mem_jobs s @ js\<rparr>)
      else (Inl (DriverDuplicateKey ''E11000 duplicate key error''), s))"

definition mem_backend :: "mem backend" where
  "mem_backend = \<lparr>
     be_now = mem_now,
     be_uuid = mem_uuid,
     be_find_one = (\<lambda>q s. scripted s Inl (\<lambda>s.
       (case mem_select q s of [] \<Rightarrow> Inl DriverNoDocuments | j # _ \<Rightarrow> Inr j, s))),
     be_find = (\<lambda>q opts s. scripted s Inl (\<lambda>s.
       (Inr (list_cursor (page opts (sort_key (rank job_field opts) (mem_select q s)))), s))),
     be_count = (\<lambda>q s. scripted s Inl (\<lambda>s. (Inr (int (length (mem_select q s))), s))),
     be_insert_one = (\<lambda>j s. scripted s Some (mem_insert j)),
     be_insert_many = (\<lambda>js s. scripted s Inl (mem_insert_many js)),
     be_update_one = (\<lambda>q u s. scripted s Inl (mem_update q u)),
     be_delete_one = (\<lambda>q s. scripted s Inl (\<lambda>s.
       (case mem_select q s of
          [] \<Rightarrow> (Inr 0, s)
        | j # _ \<Rightarrow>
            (Inr 1, s\<lparr>mem_jobs := filter (\<lambda>x. jm_JobID x \<noteq> jm_JobID j) (mem_jobs s)\<rparr>)))),
     be_log_find = (\<lambda>q opts s. scripted s Inl (\<lambda>s.
       (Inr (list_cursor (page opts
          (sort_key (rank log_field opts) (filter (log_matches q) (mem_logs s))))), s))),
     be_log_insert_one = (\<lambda>l s. scripted s Some (\<lambda>s.
       (None, s\<lparr>mem_logs := mem_logs s @ [l]\<rparr>))),
     be_log_insert_many = (\<lambda>ls s. scripted s Inl (\<lambda>s.
       (Inr (int (length ls)), s\<lparr>mem_logs := mem_logs s @ ls\<rparr>))),
     be_log_delete_many = (\<lambda>q s. scripted s Inl (\<lambda>s.
       (Inr (int (length (filter (log_matches q) (mem_logs s)))),
        s\<lparr>mem_logs := filter (\<lambda>l. \<not> log_matches q l) (mem_logs s)\<rparr>)))\<rparr>"

section \<open>The reference driver behaves as documented\<close>

lemma mem_coll_cong: "mem_jobs s' = mem_jobs s \<Longrightarrow> mem_coll s' = mem_coll s"
  by (simp add: mem_coll_def)

lemma scriptedE:
  assumes "scripted s failed f = (r, s')"
  obtains (fails) msg where "r = failed (DriverError msg)" "mem_coll s' = mem_coll s"
      "mem_logs s' = mem_logs s"
    | (runs) s0 where "f s0 = (r, s')" "mem_jobs s0 = mem_jobs s" "mem_logs s0 = mem_logs s"
      "mem_coll s0 = mem_coll s"
proof (cases "mem_script s")
  case Nil
  with assms show ?thesis by (intro runs [of s]) (auto simp: scripted_def mem_coll_def)
next
  case (Cons m rest)
  show ?thesis
  proof (cases m)
    case None
    with assms Cons show ?thesis
      by (intro runs [of "s\<lparr>mem_script := rest\<rparr>"]) (auto simp: scripted_def mem_coll_def)
  next
    case (Some msg)
    with assms Cons show ?thesis by (intro fails [of msg]) (auto simp: scripted_def mem_coll_def)
  qed
qed

lemma map_of_keyed_filter:
  "map_of (keyed (filter (\<lambda>x. jm_JobID x \<noteq> k) js)) = (map_of (keyed js))(k := None)"
  by (induction js) (auto simp: keyed_def)

lemma map_of_keyed_unique [simp]: "map_of (keyed (unique_jobs js)) = map_of (keyed js)"
  by (induction js) (auto simp: map_of_keyed_filter [unfolded keyed_def] keyed_def)

lemma distinct_unique_jobs: "distinct (map jm_JobID (unique_jobs js))"
proof (induction js)
  case Nil
  then show ?case by simp
next
  case (Cons j js)
  then show ?case by (auto simp: distinct_map inj_on_def)
qed

lemma map_of_keyed_mem:
  "distinct (map jm_JobID js) \<Longrightarrow> map_of (keyed js) k = Some j \<longleftrightarrow> j \<in> set js \<and> jm_JobID j = k"
proof (induction js)
  case Nil
  then show ?case by (simp add: keyed_def)
next
  case (Cons x js)
  have "map_of (keyed js) (jm_JobID x) = None"
    using Cons.prems by (auto simp: keyed_def map_of_eq_None_iff)
  with Cons show ?case by (auto simp: keyed_def)
qed

lemma mem_coll_iff: "mem_coll s k = Some j \<longleftrightarrow> j \<in> set (unique_jobs (mem_jobs s)) \<and> jm_JobID j = k"
  using map_of_keyed_mem [OF distinct_unique_jobs, of "mem_jobs s" k j] by (simp add: mem_coll_def)

lemma ran_mem_coll: "ran (mem_coll s) = set (unique_jobs (mem_jobs s))"
  by (auto simp: ran_def mem_coll_iff)

lemma mem_select_set: "set (mem_select q s) = {j \<in> ran (mem_coll s). job_matches q j}"
  by (auto simp: mem_select_def ran_mem_coll)

lemma mem_select_distinct: "distinct (mem_select q s)"
  using distinct_unique_jobs [of "mem_jobs s"] by (simp add: mem_select_def distinct_map)

lemma mem_select_Nil: "mem_select q s = [] \<Longrightarrow> mem_coll s k = Some j \<Longrightarrow> \<not> job_matches q j"
  by (auto simp: mem_select_def mem_coll_iff filter_empty_conv)

lemma mem_select_Cons:
  "mem_select q s = j # js \<Longrightarrow> mem_coll s (jm_JobID j) = Some j \<and> job_matches q j"
  using mem_select_set [of q s] by (auto simp: ran_def mem_coll_iff)

lemma mem_select_cong: "mem_jobs s' = mem_jobs s \<Longrightarrow> mem_select q s' = mem_select q s"
  by (simp add: mem_select_def)

lemma map_of_replace_job:
  "map_of (keyed js) (jm_JobID j') \<noteq> None \<Longrightarrow>
   map_of (keyed (replace_job j' js)) = (map_of (keyed js))(jm_JobID j' \<mapsto> j')"
proof (induction js)
  case Nil
  then show ?case by (simp add: keyed_def)
next
  case (Cons x js)
  have absent: "map_of (keyed js) (jm_JobID j') = None \<Longrightarrow> replace_job j' js = js"
    by (auto simp: keyed_def replace_job_def map_of_eq_None_iff image_iff intro!: map_idI)
  show ?case
  proof (cases "map_of (keyed js) (jm_JobID j')")
    case None
    with Cons.prems absent show ?thesis
      by (auto simp: keyed_def replace_job_def split: if_splits)
  next
    case (Some y)
    then have "map_of (keyed (replace_job j' js)) = (map_of (keyed js))(jm_JobID j' \<mapsto> j')"
      by (intro Cons.IH) simp
    then show ?thesis by (auto simp: keyed_def replace_job_def fun_upd_twist)
  qed
qed

lemma set_field_id: "set_field k v j = Some j' \<Longrightarrow> jm_JobID j' = jm_JobID j"
  by (auto simp: set_field_def split: if_splits bval.splits)

lemma set_fields_id: "set_fields kvs j = Some j' \<Longrightarrow> jm_JobID j' = jm_JobID j"
  by (induction kvs arbitrary: j) (auto dest: set_field_id split: option.splits)

lemma apply_operator_id: "apply_operator kv j = Some j' \<Longrightarrow> jm_JobID j' = jm_JobID j"
  by (auto simp: apply_operator_def push_field_def inc_field_def unset_field_def
      dest!: set_fields_id split: prod.splits bval.splits if_splits list.splits Option.bind_splits)

lemma apply_operators_id: "apply_operators kvs j = Some j' \<Longrightarrow> jm_JobID j' = jm_JobID j"
  by (induction kvs arbitrary: j) (auto dest: apply_operator_id split: Option.bind_splits)

lemma apply_update_id: "apply_update u j = Some j' \<Longrightarrow> jm_JobID j' = jm_JobID j"
  by (auto simp: apply_update_def dest: apply_operators_id set_fields_id
      split: bval.splits list.splits prod.splits if_splits Option.bind_splits)

lemma page_rank_sorted: "sorted_wrt (in_order fld opts) (sort_key (rank fld opts) xs)"
proof -
  have "sorted_wrt (\<lambda>x y. rank fld opts x \<le> rank fld opts y) (sort_key (rank fld opts) xs)"
    using sorted_sort_key [of "rank fld opts" xs] by (simp add: sorted_map)
  moreover have "rank fld opts x \<le> rank fld opts y \<Longrightarrow> in_order fld opts x y" for x y
    by (auto simp: in_order_def rank_def split: list.splits option.splits)
  ultimately show ?thesis by (rule sorted_wrt_mono_rel [rotated]) auto
qed

lemma mem_updateD:
  assumes "mem_update q u s0 = (r, s')" and "mem_jobs s0 = mem_jobs s" and "mem_logs s0 = mem_logs s"
    and "mem_coll s0 = mem_coll s"
  shows "mem_logs s' = mem_logs s \<and>
    (case r of
       Inr n \<Rightarrow> (n = 0 \<and> (\<forall>k j. mem_coll s k = Some j \<longrightarrow> \<not> job_matches q j) \<and> mem_coll s' = mem_coll s)
          \<or> (n = 1 \<and> one_updated mem_coll q u s s')
     | Inl e \<Rightarrow> foreign_error e \<and> mem_coll s' = mem_coll s)"
proof (cases "mem_select q s")
  case Nil
  then have "\<forall>k j. mem_coll s k = Some j \<longrightarrow> \<not> job_matches q j"
    using mem_select_Nil by blast
  with assms Nil show ?thesis
    by (auto simp: mem_update_def mem_select_cong [OF assms(2)])
next
  case (Cons j js)
  note sel = mem_select_Cons [OF Cons]
  show ?thesis
  proof (cases "apply_update u j")
    case None
    with assms Cons show ?thesis
      by (auto simp: mem_update_def mem_select_cong [OF assms(2)] foreign_error_def
         )
  next
    case (Some j')
    then have id: "jm_JobID j' = jm_JobID j" by (rule apply_update_id)
    from assms Cons Some have s': "r = Inr 1"
      "s' = s0\<lparr>mem_jobs := replace_job j' (unique_jobs (mem_jobs s))\<rparr>"
      by (auto simp: mem_update_def mem_select_cong [OF assms(2)])
    from sel id have "map_of (keyed (unique_jobs (mem_jobs s))) (jm_JobID j') \<noteq> None"
      by (simp add: mem_coll_def)
    from map_of_replace_job [OF this] have "mem_coll s' = (mem_coll s)(jm_JobID j \<mapsto> j')"
      by (simp add: s'(2) mem_coll_def id)
    with sel Some have "one_updated mem_coll q u s s'"
      unfolding one_updated_def by (intro exI [of _ "jm_JobID j"] exI [of _ j] exI [of _ j']) simp
    with s' assms show ?thesis by auto
  qed
qed

lemma mem_insertD:
  assumes "mem_insert j s0 = (r, s')" and "mem_jobs s0 = mem_jobs s" and "mem_logs s0 = mem_logs s"
    and "mem_coll s0 = mem_coll s"
  shows "mem_logs s' = mem_logs s \<and>
    (case r of
       None \<Rightarrow> one_inserted mem_coll j s s'
     | Some e \<Rightarrow> foreign_error e \<and> mem_coll s (jm_JobID j) \<noteq> None \<and> mem_coll s' = mem_coll s)"
proof (cases "mem_coll s (jm_JobID j) = None")
  case True
  with assms have s': "r = None" "s' = s0\<lparr>mem_jobs := mem_jobs s @ [j]\<rparr>"
    by (auto simp: mem_insert_def assms(4))
  have "mem_coll s' = (mem_coll s)(jm_JobID j \<mapsto> j\<lparr>jm_ID := jm_ID j\<rparr>)"
    using True by (auto simp: s' mem_coll_def keyed_def map_add_def fun_eq_iff split: option.splits)
  with True have "one_inserted mem_coll j s s'" unfolding one_inserted_def by blast
  with s' assms show ?thesis by auto
next
  case False
  with assms show ?thesis
    by (auto simp: mem_insert_def assms(4) foreign_error_def)
qed

lemma mem_insert_manyD:
  assumes "mem_insert_many js s0 = (r, s')" and "mem_jobs s0 = mem_jobs s" and "mem_logs s0 = mem_logs s"
    and "mem_coll s0 = mem_coll s"
  shows "mem_logs s' = mem_logs s \<and>
    (case r of
       Inr n \<Rightarrow> n = int (length js) \<and> many_inserted mem_coll js s s'
     | Inl e \<Rightarrow> foreign_error e \<and> (\<exists>m. many_inserted mem_coll (take m js) s s'))"
proof (cases "distinct (map jm_JobID js) \<and> list_all (\<lambda>j. mem_coll s (jm_JobID j) = None) js")
  case True
  with assms have s': "r = Inr (int (length js))" "s' = s0\<lparr>mem_jobs := mem_jobs s @ js\<rparr>"
    by (auto simp: mem_insert_many_def assms(4))
  have dj: "dom (mem_coll s) \<inter> dom (map_of (keyed js)) = {}"
    using True by (force simp: keyed_def dom_map_of_conv_image_fst list_all_iff)
  have "mem_coll s' = map_of (keyed js) ++ mem_coll s"
    by (simp add: s' mem_coll_def keyed_def)
  also have "\<dots> = mem_coll s ++ map_of (keyed js)"
    using dj by (subst map_add_comm) auto
  finally have "mem_coll s' = mem_coll s ++ map_of (map (\<lambda>j. (jm_JobID j, j)) js)"
    by (simp add: keyed_def)
  moreover have "list_all2 (\<lambda>j j'. \<exists>oid. j' = j\<lparr>jm_ID := oid\<rparr>) js js"
    by (rule list.rel_refl) (metis JobMetadataModel.surjective JobMetadataModel.update_convs(1))
  ultimately have "many_inserted mem_coll js s s'"
    using True by (auto simp: many_inserted_def list_all_iff)
  with s' assms show ?thesis by simp
next
  case False
  then have "r = Inl (DriverDuplicateKey ''E11000 duplicate key error'')" "s' = s0"
    using assms by (auto simp: mem_insert_many_def assms(4))
  then have "many_inserted mem_coll (take 0 js) s s'"
    using assms by (simp add: many_inserted_def)
  then have "\<exists>m. many_inserted mem_coll (take m js) s s'" by (rule exI)
  moreover have "r = Inl (DriverDuplicateKey ''E11000 duplicate key error'')" "s' = s0"
    using False assms by (auto simp: mem_insert_many_def)
  ultimately show ?thesis using assms(3) by (simp add: foreign_error_def)
qed

lemma mem_quiet:
  "be_now mem_backend s = (t, s') \<Longrightarrow> mem_coll s' = mem_coll s \<and> mem_logs s' = mem_logs s \<and> t \<noteq> 0"
  "be_uuid mem_backend s = (uid, s') \<Longrightarrow>
     mem_coll s' = mem_coll s \<and> mem_logs s' = mem_logs s \<and> length uid = 36"
  by (auto simp: mem_backend_def mem_now_def mem_uuid_def Let_def mem_coll_def)

lemma mem_find_oneD:
  assumes "be_find_one mem_backend q s = (r, s')"
  shows "mem_coll s' = mem_coll s \<and> mem_logs s' = mem_logs s \<and>
    (case r of
       Inr j \<Rightarrow> mem_coll s (jm_JobID j) = Some j \<and> job_matches q j
     | Inl e \<Rightarrow> foreign_error e \<and>
         (errors_is e DriverNoDocuments \<longrightarrow> (\<forall>k j. mem_coll s k = Some j \<longrightarrow> \<not> job_matches q j)))"
proof -
  from assms have "scripted s Inl (\<lambda>s.
      (case mem_select q s of [] \<Rightarrow> Inl DriverNoDocuments | j # _ \<Rightarrow> Inr j, s)) = (r, s')"
    by (simp add: mem_backend_def)
  then show ?thesis
  proof (cases rule: scriptedE)
    case (fails msg)
    then show ?thesis by (simp add: foreign_error_def)
  next
    case (runs s0)
    then show ?thesis
      using mem_select_Nil [of q s] mem_select_Cons [of q s]
      by (cases "mem_select q s")
         (auto simp: mem_select_cong [OF runs(2)] foreign_error_def)
  qed
qed

lemma delivers_list_cursor: "delivers (list_cursor xs) ys \<longleftrightarrow> ys = xs"
  by (auto simp: delivers_def list_cursor_def inj_map_eq_map)

lemma cursor_foreign_list [simp]: "cursor_foreign (list_cursor xs)"
  by (auto simp: cursor_foreign_def list_cursor_def)

lemma mem_findD:
  assumes "be_find mem_backend q opts s = (r, s')"
  shows "mem_coll s' = mem_coll s \<and> mem_logs s' = mem_logs s \<and>
    (case r of
       Inr c \<Rightarrow> cursor_foreign c \<and> (\<forall>xs. delivers c xs \<longrightarrow>
         (\<exists>ys. distinct ys \<and> set ys = {j \<in> ran (mem_coll s). job_matches q j}
            \<and> sorted_wrt (in_order job_field opts) ys \<and> xs = page opts ys))
     | Inl e \<Rightarrow> foreign_error e)"
proof -
  let ?ys = "sort_key (rank job_field opts) (mem_select q s)"
  from assms have "scripted s Inl (\<lambda>s.
      (Inr (list_cursor (page opts (sort_key (rank job_field opts) (mem_select q s)))), s)) = (r, s')"
    by (simp add: mem_backend_def)
  then show ?thesis
  proof (cases rule: scriptedE)
    case (fails msg)
    then show ?thesis by (simp add: foreign_error_def)
  next
    case (runs s0)
    have "distinct ?ys" "set ?ys = {j \<in> ran (mem_coll s). job_matches q j}"
      "sorted_wrt (in_order job_field opts) ?ys"
      using mem_select_distinct mem_select_set page_rank_sorted by simp_all
    then have "\<exists>ys. distinct ys \<and> set ys = {j \<in> ran (mem_coll s). job_matches q j}
        \<and> sorted_wrt (in_order job_field opts) ys \<and> page opts ?ys = page opts ys" by blast
    with runs show ?thesis
      by (auto simp: mem_select_cong [OF runs(2)] delivers_list_cursor)
  qed
qed

lemma mem_countD:
  assumes "be_count mem_backend q s = (r, s')"
  shows "mem_coll s' = mem_coll s \<and> mem_logs s' = mem_logs s \<and>
    (case r of
       Inr n \<Rightarrow> n = int (card {j \<in> ran (mem_coll s). job_matches q j})
     | Inl e \<Rightarrow> foreign_error e)"
proof -
  from assms have "scripted s Inl (\<lambda>s. (Inr (int (length (mem_select q s))), s)) = (r, s')"
    by (simp add: mem_backend_def)
  then show ?thesis
  proof (cases rule: scriptedE)
    case (fails msg)
    then show ?thesis by (simp add: foreign_error_def)
  next
    case (runs s0)
    have "length (mem_select q s) = card {j \<in> ran (mem_coll s). job_matches q j}"
      using distinct_card [OF mem_select_distinct [of q s]] by (simp add: mem_select_set)
    with runs show ?thesis
      by (auto simp: mem_select_cong [OF runs(2)])
  qed
qed

lemma mem_insert_oneD:
  assumes "be_insert_one mem_backend j s = (r, s')"
  shows "mem_logs s' = mem_logs s \<and>
    (case r of
       None \<Rightarrow> one_inserted mem_coll j s s'
     | Some e \<Rightarrow> foreign_error e \<and> mem_coll s' = mem_coll s
         \<and> (is_duplicate_key e \<longrightarrow> mem_coll s (jm_JobID j) \<noteq> None))"
proof -
  from assms have "scripted s Some (mem_insert j) = (r, s')" by (simp add: mem_backend_def)
  then show ?thesis
  proof (cases rule: scriptedE)
    case (fails msg)
    then show ?thesis by (simp add: foreign_error_def is_duplicate_key_def)
  next
    case (runs s0)
    from mem_insertD [OF this] show ?thesis by (cases r) auto
  qed
qed

lemma mem_insert_many_oneD:
  assumes "be_insert_many mem_backend js s = (r, s')"
  shows "mem_logs s' = mem_logs s \<and>
    (case r of
       Inr n \<Rightarrow> n = int (length js) \<and> many_inserted mem_coll js s s'
     | Inl e \<Rightarrow> foreign_error e \<and> (\<exists>m. many_inserted mem_coll (take m js) s s'))"
proof -
  from assms have "scripted s Inl (mem_insert_many js) = (r, s')" by (simp add: mem_backend_def)
  then show ?thesis
  proof (cases rule: scriptedE)
    case (fails msg)
    then have "many_inserted mem_coll (take 0 js) s s'" by (simp add: many_inserted_def)
    then have "\<exists>m. many_inserted mem_coll (take m js) s s'" by (rule exI)
    with fails show ?thesis by (auto simp: foreign_error_def)
  next
    case (runs s0)
    then show ?thesis by (rule mem_insert_manyD)
  qed
qed

lemma mem_update_oneD:
  assumes "be_update_one mem_backend q u s = (r, s')"
  shows "mem_logs s' = mem_logs s \<and>
    (case r of
       Inr n \<Rightarrow> (n = 0 \<and> (\<forall>k j. mem_coll s k = Some j \<longrightarrow> \<not> job_matches q j) \<and> mem_coll s' = mem_coll s)
          \<or> (n = 1 \<and> one_updated mem_coll q u s s')
     | Inl e \<Rightarrow> foreign_error e \<and> mem_coll s' = mem_coll s)"
proof -
  from assms have "scripted s Inl (mem_update q u) = (r, s')" by (simp add: mem_backend_def)
  then show ?thesis
  proof (cases rule: scriptedE)
    case (fails msg)
    then show ?thesis by (simp add: foreign_error_def)
  next
    case (runs s0)
    then show ?thesis by (rule mem_updateD)
  qed
qed

lemma mem_delete_oneD:
  assumes "be_delete_one mem_backend q s = (r, s')"
  shows "mem_logs s' = mem_logs s \<and>
    (case r of
       Inr n \<Rightarrow> (n = 0 \<and> (\<forall>k j. mem_coll s k = Some j \<longrightarrow> \<not> job_matches q j) \<and> mem_coll s' = mem_coll s)
          \<or> (n = 1 \<and> (\<exists>k j. mem_coll s k = Some j \<and> job_matches q j
                        \<and> mem_coll s' = (mem_coll s)(k := None)))
     | Inl e \<Rightarrow> foreign_error e \<and> mem_coll s' = mem_coll s)"
proof -
  from assms have "scripted s Inl (\<lambda>s.
       (case mem_select q s of
          [] \<Rightarrow> (Inr 0, s)
        | j # _ \<Rightarrow>
            (Inr 1, s\<lparr>mem_jobs := filter (\<lambda>x. jm_JobID x \<noteq> jm_JobID j) (mem_jobs s)\<rparr>))) = (r, s')"
    by (simp add: mem_backend_def)
  then show ?thesis
  proof (cases rule: scriptedE)
    case (fails msg)
    then show ?thesis by (simp add: foreign_error_def)
  next
    case (runs s0)
    show ?thesis
    proof (cases "mem_select q s")
      case Nil
      with runs mem_select_Nil [OF Nil] show ?thesis
        by (auto simp: mem_select_cong [OF runs(2)])
    next
      case (Cons j js)
      with runs have r: "r = Inr 1" and
        s': "s' = s0\<lparr>mem_jobs := filter (\<lambda>x. jm_JobID x \<noteq> jm_JobID j) (mem_jobs s)\<rparr>"
        by (auto simp: mem_select_cong [OF runs(2)])
      have "mem_coll s' = (mem_coll s)(jm_JobID j := None)"
        by (simp add: s' mem_coll_def map_of_keyed_filter)
      with mem_select_Cons [OF Cons] r s' runs(3) show ?thesis by auto
    qed
  qed
qed

lemma mem_log_findD:
  assumes "be_log_find mem_backend q opts s = (r, s')"
  shows "mem_coll s' = mem_coll s \<and> mem_logs s' = mem_logs s \<and>
    (case r of
       Inr c \<Rightarrow> \<forall>ls. delivers c ls \<longrightarrow>
         (\<exists>ys. mset ys = mset (filter (log_matches q) (mem_logs s))
            \<and> sorted_wrt (in_order log_field opts) ys \<and> ls = page opts ys)
     | Inl e \<Rightarrow> foreign_error e)"
proof -
  let ?ys = "sort_key (rank log_field opts) (filter (log_matches q) (mem_logs s))"
  from assms have "scripted s Inl (\<lambda>s.
       (Inr (list_cursor (page opts
          (sort_key (rank log_field opts) (filter (log_matches q) (mem_logs s))))), s)) = (r, s')"
    by (simp add: mem_backend_def)
  then show ?thesis
  proof (cases rule: scriptedE)
    case (fails msg)
    then show ?thesis by (simp add: foreign_error_def)
  next
    case (runs s0)
    have "mset ?ys = mset (filter (log_matches q) (mem_logs s))"
      "sorted_wrt (in_order log_field opts) ?ys"
      using page_rank_sorted by simp_all
    then have "\<exists>ys. mset ys = mset (filter (log_matches q) (mem_logs s))
        \<and> sorted_wrt (in_order log_field opts) ys \<and> page opts ?ys = page opts ys" by blast
    with runs show ?thesis by (auto simp: delivers_list_cursor)
  qed
qed

lemma mem_log_writesD:
  "be_log_insert_one mem_backend l s = (ro, s') \<Longrightarrow> mem_coll s' = mem_coll s \<and>
     (case ro of None \<Rightarrow> mem_logs s' = mem_logs s @ [l]
               | Some e \<Rightarrow> foreign_error e \<and> mem_logs s' = mem_logs s)"
  "be_log_insert_many mem_backend ls s = (ri, s') \<Longrightarrow> mem_coll s' = mem_coll s \<and>
     (case ri of Inr n \<Rightarrow> n = int (length ls) \<and> mem_logs s' = mem_logs s @ ls | Inl e \<Rightarrow> True)"
  "be_log_delete_many mem_backend q s = (rd, s') \<Longrightarrow> mem_coll s' = mem_coll s \<and>
     (case rd of
        Inr n \<Rightarrow> mem_logs s' = filter (\<lambda>l. \<not> log_matches q l) (mem_logs s)
          \<and> n = int (length (filter (log_matches q) (mem_logs s)))
      | Inl e \<Rightarrow> True)"
  by (auto simp: mem_backend_def foreign_error_def mem_coll_def elim!: scriptedE)

interpretation mem: mongo_backend mem_backend mem_coll mem_logs
proof (unfold_locales, goal_cases)
  case (1 s k j)
  then show ?case by (simp add: mem_coll_iff)
next
  case (2 s)
  then show ?case by (simp add: mem_coll_def finite_dom_map_of)
qed (auto dest!: mem_quiet mem_find_oneD mem_findD mem_countD mem_insert_oneD mem_insert_many_oneD
       mem_update_oneD mem_delete_oneD mem_log_findD mem_log_writesD split: sum.splits)

end
