(* ===== verification/Interfaces.thy ===== *)
theory Interfaces
  imports Backend
begin

text \<open>
  The two interfaces of \<open>metadata/interface.go\<close> through which the services reach the
  database, \<open>JobsReader\<close> and \<open>JobsWriter\<close>, as records of operations, and what a client may
  rely on: the locales \<open>jobs_reader\<close>, \<open>jobs_writer\<close> and their union \<open>jobs_store\<close>. The
  contract speaks of the stored jobs as a map from job id to document. A conditional write
  is either applied to the document as a whole, refused because its guard fails, or ends
  in an error that leaves open whether it was applied.
\<close>

section \<open>The interfaces\<close>

record 's JobsReader =
  rd_Get :: "string \<Rightarrow> ('s, goerror + job) op"
  rd_List :: "ListFilter \<Rightarrow> ('s, goerror + job list) op"
  rd_GetLogs :: "string \<Rightarrow> LogFilter \<Rightarrow> ('s, goerror + JobLog list) op"
  rd_CountJobs :: "ListFilter \<Rightarrow> ('s, goerror + int) op"
  rd_GetJobsByStatus :: "JobStatus \<Rightarrow> int \<Rightarrow> ('s, goerror + job list) op"
  rd_GetPendingJobs :: "int \<Rightarrow> ('s, goerror + job list) op"
  rd_GetDispatchedJobs :: "int \<Rightarrow> ('s, goerror + job list) op"
  rd_GetRecentLogs :: "string \<Rightarrow> int \<Rightarrow> ('s, goerror + JobLog list) op"
  rd_GetErrorLogs :: "string \<Rightarrow> ('s, goerror + JobLog list) op"

record 's JobsWriter =
  wr_Create :: "job \<Rightarrow> ('s, goerror option) op"
  wr_Update :: "string \<Rightarrow> UpdateJob \<Rightarrow> ('s, goerror option) op"
  wr_Delete :: "string \<Rightarrow> ('s, goerror option) op"
  wr_IncrementRetryCount :: "string \<Rightarrow> ('s, goerror option) op"
  wr_ClearJobExecutionTimestamps :: "string \<Rightarrow> ('s, goerror option) op"
  wr_MarkDispatchedIfPending :: "string \<Rightarrow> instant \<Rightarrow> ('s, goerror + bool) op"
  wr_RecordDispatchAttemptIfPending :: "string \<Rightarrow> int \<Rightarrow> string \<Rightarrow> ('s, goerror + bool) op"
  wr_MarkDispatchFailedIfPending :: "string \<Rightarrow> string \<Rightarrow> ('s, goerror + bool) op"
  wr_MarkRunningIfDispatched :: "string \<Rightarrow> instant \<Rightarrow> ('s, goerror + bool) op"
  wr_CompleteIfRunning :: "string \<Rightarrow> instant \<Rightarrow> gomap option \<Rightarrow> ('s, goerror + bool) op"
  wr_FailIfNotTerminal :: "string \<Rightarrow> JobError \<Rightarrow> instant \<Rightarrow> ('s, goerror + bool) op"
  wr_AddLog :: "JobLog \<Rightarrow> ('s, goerror option) op"
  wr_DeleteOldLogs :: "int \<Rightarrow> ('s, goerror + int) op"

section \<open>The effect of each write on one job\<close>

definition mark_dispatched_effect :: "instant \<Rightarrow> job \<Rightarrow> job" where
  [effect_defs]: "mark_dispatched_effect t j =
     j\<lparr>jm_DispatchStatus := DispatchStatusDispatched, jm_Status := JobStatusDispatched,
       jm_DispatchedAt := Some t\<rparr>"

definition record_attempt_effect :: "int \<Rightarrow> string \<Rightarrow> job \<Rightarrow> job" where
  [effect_defs]: "record_attempt_effect attempts lastError j =
     j\<lparr>jm_DispatchAttempts := attempts, jm_DispatchLastError := lastError\<rparr>"

definition dispatch_error :: "string \<Rightarrow> instant \<Rightarrow> JobError" where
  "dispatch_error msg t = \<lparr>je_Type = JobErrorTypeDispatch, je_RetryAttempt = 0,
     je_Error = msg, je_Timestamp = t\<rparr>"

definition dispatch_failed_effect :: "string \<Rightarrow> instant \<Rightarrow> job \<Rightarrow> job" where
  [effect_defs]: "dispatch_failed_effect msg t j =
     j\<lparr>jm_DispatchStatus := DispatchStatusFailed, jm_Status := JobStatusDispatchFailed,
       jm_Errors := jm_Errors j @ [dispatch_error msg t]\<rparr>"

definition mark_running_effect :: "instant \<Rightarrow> job \<Rightarrow> job" where
  [effect_defs]: "mark_running_effect t j =
     j\<lparr>jm_ExecutionStatus := ExecutionStatusRunning, jm_Status := JobStatusRunning,
       jm_StartedAt := Some t\<rparr>"

definition complete_effect :: "instant \<Rightarrow> gomap option \<Rightarrow> job \<Rightarrow> job" where
  [effect_defs]: "complete_effect t meta j =
     j\<lparr>jm_ExecutionStatus := ExecutionStatusCompleted, jm_Status := JobStatusCompleted,
       jm_CompletedAt := Some t,
       jm_Metadata := (case meta of None \<Rightarrow> jm_Metadata j | Some m \<Rightarrow> m)\<rparr>"

definition fail_effect :: "JobError \<Rightarrow> instant \<Rightarrow> job \<Rightarrow> job" where
  [effect_defs]: "fail_effect e t j =
     j\<lparr>jm_ExecutionStatus := ExecutionStatusFailed, jm_Status := JobStatusFailed,
       jm_CompletedAt := Some t, jm_StartedAt := default_instant (jm_StartedAt j) t,
       jm_Errors := jm_Errors j @ [e]\<rparr>"

definition clear_timestamps_effect :: "job \<Rightarrow> job" where
  [effect_defs]: "clear_timestamps_effect j = j\<lparr>jm_StartedAt := None, jm_CompletedAt := None\<rparr>"

definition keep :: "'a option \<Rightarrow> 'a \<Rightarrow> 'a" where
  "keep x old = (case x of None \<Rightarrow> old | Some v \<Rightarrow> v)"

lemma keep_simps [simp]: "keep None old = old" "keep (Some v) old = v"
  by (simp_all add: keep_def)

definition keep_ptr :: "'a option \<Rightarrow> 'a option \<Rightarrow> 'a option" where
  "keep_ptr x old = (case x of None \<Rightarrow> old | Some v \<Rightarrow> Some v)"

lemma keep_ptr_simps [simp]: "keep_ptr None old = old" "keep_ptr (Some v) old = Some v"
  by (simp_all add: keep_ptr_def)

definition patch_effect :: "UpdateJob \<Rightarrow> job \<Rightarrow> job" where
  [effect_defs]: "patch_effect p j =
     j\<lparr>jm_Status := keep (uj_Status p) (jm_Status j),
       jm_DispatchStatus := keep (uj_DispatchStatus p) (jm_DispatchStatus j),
       jm_ExecutionStatus := keep (uj_ExecutionStatus p) (jm_ExecutionStatus j),
       jm_Name := keep (uj_Name p) (jm_Name j),
       jm_Priority := keep (uj_Priority p) (jm_Priority j),
       jm_StartedAt := keep_ptr (uj_StartedAt p) (jm_StartedAt j),
       jm_CompletedAt := keep_ptr (uj_CompletedAt p) (jm_CompletedAt j),
       jm_Payload := keep (uj_Payload p) (jm_Payload j),
       jm_Metadata := keep (uj_Metadata p) (jm_Metadata j),
       jm_Errors := keep (uj_Errors p) (jm_Errors j),
       jm_Tags := keep (uj_Tags p) (jm_Tags j),
       jm_Topic := keep (uj_Topic p) (jm_Topic j),
       jm_DispatchAttempts := keep (uj_DispatchAttempts p) (jm_DispatchAttempts j),
       jm_DispatchLastError := keep (uj_DispatchLastError p) (jm_DispatchLastError j),
       jm_DispatchedAt := keep_ptr (uj_DispatchedAt p) (jm_DispatchedAt j)\<rparr>"

section \<open>Shapes of writes\<close>

definition applied ::
  "('s \<Rightarrow> string \<Rightarrow> job option) \<Rightarrow> string \<Rightarrow> (job \<Rightarrow> bool) \<Rightarrow> (job \<Rightarrow> job) \<Rightarrow> 's \<Rightarrow> 's \<Rightarrow> bool" where
  "applied jobs jobID P f s s' \<longleftrightarrow>
     (\<exists>j. jobs s jobID = Some j \<and> P j \<and> jobs s' = (jobs s)(jobID \<mapsto> f j))"

text \<open>A conditional write: applied, refused by its guard, or of unknown outcome.\<close>

definition guarded ::
  "('s \<Rightarrow> string \<Rightarrow> job option) \<Rightarrow> string \<Rightarrow> (job \<Rightarrow> bool) \<Rightarrow> (job \<Rightarrow> job)
     \<Rightarrow> goerror + bool \<Rightarrow> 's \<Rightarrow> 's \<Rightarrow> bool" where
  "guarded jobs jobID P f r s s' =
     (case r of
        Inr True \<Rightarrow> applied jobs jobID P f s s'
      | Inr False \<Rightarrow> (\<forall>j. jobs s jobID = Some j \<longrightarrow> \<not> P j) \<and> jobs s' = jobs s
      | Inl e \<Rightarrow> foreign_error e \<and> (jobs s' = jobs s \<or> applied jobs jobID P f s s'))"

text \<open>An unconditional write to the document of a job that may not exist.\<close>

definition direct ::
  "('s \<Rightarrow> string \<Rightarrow> job option) \<Rightarrow> string \<Rightarrow> (job \<Rightarrow> job)
     \<Rightarrow> goerror option \<Rightarrow> 's \<Rightarrow> 's \<Rightarrow> bool" where
  "direct jobs jobID f r s s' =
     (case r of
        None \<Rightarrow> applied jobs jobID (\<lambda>_. True) f s s'
      | Some e \<Rightarrow>
          (e = ErrJobNotFound \<and> jobs s jobID = None \<and> jobs s' = jobs s)
          \<or> (foreign_error e \<and> (jobs s' = jobs s \<or> applied jobs jobID (\<lambda>_. True) f s s')))"

section \<open>What a list filter selects\<close>

definition within :: "int option \<Rightarrow> int option \<Rightarrow> int \<Rightarrow> bool" where
  "within lo hi x \<longleftrightarrow> (\<forall>a. lo = Some a \<longrightarrow> a \<le> x) \<and> (\<forall>b. hi = Some b \<longrightarrow> x \<le> b)"

definition strictly_within :: "int option \<Rightarrow> int option \<Rightarrow> int \<Rightarrow> bool" where
  "strictly_within lo hi x \<longleftrightarrow> (\<forall>a. lo = Some a \<longrightarrow> a < x) \<and> (\<forall>b. hi = Some b \<longrightarrow> x < b)"

definition sub_states :: "job \<Rightarrow> CompositeStatus" where
  "sub_states j = \<lparr>Dispatch = jm_DispatchStatus j, Execution = jm_ExecutionStatus j\<rparr>"

definition filter_accepts :: "ListFilter \<Rightarrow> job \<Rightarrow> bool" where
  "filter_accepts f j \<longleftrightarrow>
     (lf_Names f = [] \<or> jm_Name j \<in> set (lf_Names f))
   \<and> (lf_Statuses f = []
       \<or> (\<exists>st\<in>set (lf_Statuses f). JobStatus_IsValid st \<and> sub_states j = statusToSubFields st))
   \<and> (lf_Tags f = [] \<or> set (jm_Tags j) \<inter> set (lf_Tags f) \<noteq> {})
   \<and> within (lf_MinPriority f) (lf_MaxPriority f) (jm_Priority j)
   \<and> strictly_within (lf_CreatedAfter f) (lf_CreatedBefore f) (jm_CreatedAt j)"

section \<open>The contracts\<close>

locale jobs_reader =
  fixes R :: "'s JobsReader"
    and jobs :: "'s \<Rightarrow> string \<Rightarrow> job option"
    and logs :: "'s \<Rightarrow> JobLog list"
  assumes get_frame: "rd_Get R jobID s = (rg, s') \<Longrightarrow> jobs s' = jobs s \<and> logs s' = logs s"
    and get_found: "rd_Get R jobID s = (Inr j, s') \<Longrightarrow> jobs s jobID = Some j"
    and get_error: "rd_Get R jobID s = (Inl e, s') \<Longrightarrow>
      (e = ErrJobNotFound \<and> jobs s jobID = None) \<or> foreign_error e"
    and list_frame: "rd_List R f s = (rl, s') \<Longrightarrow> jobs s' = jobs s \<and> logs s' = logs s"
    and list_sound: "rd_List R f s = (Inr js, s') \<Longrightarrow> j \<in> set js \<Longrightarrow>
      jobs s (jm_JobID j) = Some j \<and> filter_accepts f j"
    and list_complete: "rd_List R f s = (Inr js, s') \<Longrightarrow> lf_Limit f \<le> 0 \<Longrightarrow> lf_Skip f \<le> 0 \<Longrightarrow>
      set js = {j \<in> ran (jobs s). filter_accepts f j} \<and> distinct js"
    and list_limited: "rd_List R f s = (Inr js, s') \<Longrightarrow> 0 < lf_Limit f \<Longrightarrow>
      int (length js) \<le> lf_Limit f"
    and count_frame: "rd_CountJobs R f s = (rc, s') \<Longrightarrow> jobs s' = jobs s \<and> logs s' = logs s"
    and count_exact: "rd_CountJobs R f s = (Inr n, s') \<Longrightarrow>
      n = int (card {j \<in> ran (jobs s). filter_accepts f j})"

locale jobs_writer =
  fixes W :: "'s JobsWriter"
    and jobs :: "'s \<Rightarrow> string \<Rightarrow> job option"
    and logs :: "'s \<Rightarrow> JobLog list"
  assumes create_ok: "wr_Create W j s = (None, s') \<Longrightarrow> one_inserted jobs j s s' \<and> logs s' = logs s"
    and create_error: "wr_Create W j s = (Some e, s') \<Longrightarrow>
      (jobs s' = jobs s \<or> one_inserted jobs j s s') \<and> logs s' = logs s"
    and update_empty: "wr_Update W jobID empty_patch s = (Some ErrEmptyUpdateJob, s)"
    and update_ok: "wr_Update W jobID p s = (r, s') \<Longrightarrow> p \<noteq> empty_patch \<Longrightarrow>
      direct jobs jobID (patch_effect p) r s s' \<and> logs s' = logs s"
    and increment_ok: "wr_IncrementRetryCount W jobID s = (r, s') \<Longrightarrow>
      direct jobs jobID IncrementRetryCount r s s' \<and> logs s' = logs s"
    and clear_ok: "wr_ClearJobExecutionTimestamps W jobID s = (r, s') \<Longrightarrow>
      direct jobs jobID clear_timestamps_effect r s s' \<and> logs s' = logs s"
    and mark_dispatched_ok: "wr_MarkDispatchedIfPending W jobID t s = (rb, s') \<Longrightarrow>
      guarded jobs jobID (\<lambda>j. jm_DispatchStatus j = DispatchStatusPending)
        (mark_dispatched_effect t) rb s s' \<and> logs s' = logs s"
    and record_attempt_ok: "wr_RecordDispatchAttemptIfPending W jobID n msg s = (rb, s') \<Longrightarrow>
      guarded jobs jobID (\<lambda>j. jm_DispatchStatus j = DispatchStatusPending)
        (record_attempt_effect n msg) rb s s' \<and> logs s' = logs s"
    and dispatch_failed_ok: "wr_MarkDispatchFailedIfPending W jobID msg s = (rb, s') \<Longrightarrow>
      \<exists>t. guarded jobs jobID (\<lambda>j. jm_DispatchStatus j = DispatchStatusPending)
        (dispatch_failed_effect msg t) rb s s' \<and> logs s' = logs s"
    and mark_running_ok: "wr_MarkRunningIfDispatched W jobID t s = (rb, s') \<Longrightarrow>
      guarded jobs jobID (\<lambda>j. jm_ExecutionStatus j = ExecutionStatusNotStarted)
        (mark_running_effect t) rb s s' \<and> logs s' = logs s"
    and complete_ok: "wr_CompleteIfRunning W jobID t meta s = (rb, s') \<Longrightarrow>
      guarded jobs jobID (\<lambda>j. jm_ExecutionStatus j = ExecutionStatusRunning)
        (complete_effect t meta) rb s s' \<and> logs s' = logs s"
    and fail_ok: "wr_FailIfNotTerminal W jobID entry t s = (rb, s') \<Longrightarrow>
      \<not> is_field_path (je_Error entry) \<Longrightarrow>
      guarded jobs jobID (\<lambda>j. jm_ExecutionStatus j = ExecutionStatusRunning
          \<or> jm_ExecutionStatus j = ExecutionStatusNotStarted)
        (fail_effect entry t) rb s s' \<and> logs s' = logs s"
    and add_log_ok: "wr_AddLog W l s = (r, s') \<Longrightarrow> jobs s' = jobs s"
    and delete_old_logs_ok: "wr_DeleteOldLogs W d s = (rn, s') \<Longrightarrow> jobs s' = jobs s"

locale jobs_store = jobs_reader R jobs logs + jobs_writer W jobs logs
  for R :: "'s JobsReader" and W :: "'s JobsWriter"
    and jobs :: "'s \<Rightarrow> string \<Rightarrow> job option" and logs :: "'s \<Rightarrow> JobLog list" +
  fixes clock :: "('s, instant) op"
  assumes clock_ok: "clock s = (t, s') \<Longrightarrow> jobs s' = jobs s \<and> logs s' = logs s \<and> t \<noteq> 0"

section \<open>Facts about the shapes\<close>

lemma applied_lookup:
  "applied jobs jobID P f s s' \<Longrightarrow> \<exists>j. jobs s jobID = Some j \<and> P j \<and> jobs s' jobID = Some (f j)"
  by (auto simp: applied_def)

lemma applied_other: "applied jobs jobID P f s s' \<Longrightarrow> k \<noteq> jobID \<Longrightarrow> jobs s' k = jobs s k"
  by (auto simp: applied_def)

lemma guarded_other: "guarded jobs jobID P f r s s' \<Longrightarrow> k \<noteq> jobID \<Longrightarrow> jobs s' k = jobs s k"
  by (auto simp: guarded_def applied_other split: sum.splits bool.splits)

lemma direct_other: "direct jobs jobID f r s s' \<Longrightarrow> k \<noteq> jobID \<Longrightarrow> jobs s' k = jobs s k"
  by (auto simp: direct_def applied_other split: option.splits)

lemma guardedE:
  assumes "guarded jobs jobID P f r s s'"
  obtains (applied) j where "jobs s jobID = Some j" "P j" "jobs s' = (jobs s)(jobID \<mapsto> f j)"
      "r \<noteq> Inr False"
    | (refused) "jobs s' = jobs s" "r \<noteq> Inr True"
        "r = Inr False \<Longrightarrow> (\<forall>j. jobs s jobID = Some j \<longrightarrow> \<not> P j)"
  using assms by (auto simp: guarded_def applied_def split: sum.splits bool.splits)

lemma guarded_TrueD:
  "guarded jobs jobID P f (Inr True) s s' \<Longrightarrow>
   \<exists>j. jobs s jobID = Some j \<and> P j \<and> jobs s' = (jobs s)(jobID \<mapsto> f j)"
  by (simp add: guarded_def applied_def)

lemma guarded_FalseD:
  "guarded jobs jobID P f (Inr False) s s' \<Longrightarrow>
   (\<forall>j. jobs s jobID = Some j \<longrightarrow> \<not> P j) \<and> jobs s' = jobs s"
  by (simp add: guarded_def)

lemma guarded_errorD: "guarded jobs jobID P f (Inl e) s s' \<Longrightarrow> foreign_error e"
  by (simp add: guarded_def)

lemma foreign_errorD:
  "foreign_error e \<Longrightarrow> \<not> errors_is e ErrJobAlreadyTerminal"
  "foreign_error e \<Longrightarrow> \<not> errors_is e ErrJobNotFound"
  "foreign_error e \<Longrightarrow> \<not> errors_is e ErrUnknownJobType"
  by (simp_all add: foreign_error_def)

lemma foreign_error_wrap [simp]: "foreign_error (wrap pre e) = foreign_error e"
  by (simp add: foreign_error_def wrap_def)

lemma sub_states_display: "DisplayStatus j = CompositeStatus_DisplayStatus (sub_states j)"
  by (simp add: DisplayStatus_def sub_states_def)

end
