(* ===== verification/Store.thy ===== *)
theory Store
  imports Interfaces
begin

text \<open>
  \<open>internal/jobs/mongodb/mongo_reader.go\<close> and \<open>mongo_writer.go\<close>: the adapters between the
  interfaces of the previous theory and the driver. Each operation builds the filter and
  the update document the code builds and maps the driver's answer to the interface's.
  The last section proves that over a driver that behaves as documented the adapters keep
  the contract of \<open>jobs_store\<close>.
\<close>

section \<open>MongoJobsReader\<close>

definition job_id_filter :: "string \<Rightarrow> bdoc" where
  "job_id_filter jobID = [(''jobId'', BStr jobID)]"

definition Reader_Get :: "'s backend \<Rightarrow> string \<Rightarrow> ('s, goerror + job) op" where
  "Reader_Get B jobID s =
     (case be_find_one B (job_id_filter jobID) s of
        (Inr j, s1) \<Rightarrow> (Inr j, s1)
      | (Inl e, s1) \<Rightarrow>
          if errors_is e DriverNoDocuments then (Inl ErrJobNotFound, s1)
          else (Inl (wrap ''failed to get job'' e), s1))"

text \<open>
  The loop over a cursor: a document that does not decode ends it; after the last one
  the cursor's own error counts.
\<close>

fun decode_all :: "string \<Rightarrow> (goerror + 'a) list \<Rightarrow> 'a list \<Rightarrow> goerror + 'a list" where
  "decode_all msg [] acc = Inr acc"
| "decode_all msg (Inl e # rest) acc = Inl (wrap msg e)"
| "decode_all msg (Inr x # rest) acc = decode_all msg rest (acc @ [x])"

definition read_cursor :: "string \<Rightarrow> string \<Rightarrow> 'a cursor \<Rightarrow> goerror + 'a list" where
  "read_cursor decode_msg cursor_msg c =
     (case decode_all decode_msg (cur_items c) [] of
        Inl e \<Rightarrow> Inl e
      | Inr xs \<Rightarrow> (case cur_err c of Some e \<Rightarrow> Inl (wrap cursor_msg e) | None \<Rightarrow> Inr xs))"

text \<open>The deferred \<open>cursor.Close\<close> of a function whose error result is named.\<close>

definition join_close :: "goerror + 'a list \<Rightarrow> 'a cursor \<Rightarrow> goerror + 'a list" where
  "join_close r c =
     (case cur_close c of
        None \<Rightarrow> r
      | Some cerr \<Rightarrow>
          (case r of
             Inl e \<Rightarrow> Inl (Joined e (wrap ''close cursor'' cerr))
           | Inr xs \<Rightarrow> Inl (wrap ''close cursor'' cerr)))"

definition positive :: "int \<Rightarrow> int option" where
  "positive n = (if n > 0 then Some n else None)"

definition list_options :: "ListFilter \<Rightarrow> find_options" where
  "list_options filt =
     \<lparr>fo_Limit = positive (lf_Limit filt), fo_Skip = positive (lf_Skip filt),
      fo_Sort = [(if lf_SortBy filt = [] then ''createdAt'' else lf_SortBy filt,
                  if \<not> lf_SortDesc filt then 1 else - 1)]\<rparr>"

definition Reader_List :: "'s backend \<Rightarrow> ListFilter \<Rightarrow> ('s, goerror + job list) op" where
  "Reader_List B filt s =
     (case be_find B (buildListQuery filt) (list_options filt) s of
        (Inl e, s1) \<Rightarrow> (Inl (wrap ''failed to list jobs'' e), s1)
      | (Inr c, s1) \<Rightarrow>
          (join_close (read_cursor ''failed to decode job'' ''cursor error'' c) c, s1))"

definition Reader_CountJobs :: "'s backend \<Rightarrow> ListFilter \<Rightarrow> ('s, goerror + int) op" where
  "Reader_CountJobs B filt s =
     (case be_count B (buildListQuery filt) s of
        (Inl e, s1) \<Rightarrow> (Inl (wrap ''failed to count jobs'' e), s1)
      | (Inr n, s1) \<Rightarrow> (Inr n, s1))"

definition Reader_GetJobsByStatus ::
  "'s backend \<Rightarrow> JobStatus \<Rightarrow> int \<Rightarrow> ('s, goerror + job list) op" where
  "Reader_GetJobsByStatus B status limit =
     Reader_List B (empty_filter\<lparr>lf_Statuses := [status], lf_SortBy := ''createdAt'',
                                 lf_SortDesc := True, lf_Limit := limit\<rparr>)"

text \<open>
  \<open>GetPendingJobs\<close> and \<open>GetDispatchedJobs\<close> do not name their results: what the deferred
  close assigns to the local \<open>err\<close> never reaches the caller.
\<close>

definition newest_first :: "int \<Rightarrow> find_options" where
  "newest_first limit = \<lparr>fo_Limit = positive limit, fo_Skip = None, fo_Sort = [(''createdAt'', - 1)]\<rparr>"

definition phase_filter :: "int \<Rightarrow> ListFilter" where
  "phase_filter limit =
     empty_filter\<lparr>lf_Limit := limit, lf_SortBy := ''createdAt'', lf_SortDesc := True\<rparr>"

definition Reader_GetPendingJobs :: "'s backend \<Rightarrow> int \<Rightarrow> ('s, goerror + job list) op" where
  "Reader_GetPendingJobs B limit s =
     (case be_find B (buildListQuery (phase_filter limit)
                       @ [(''dispatchStatus'', BDispatch DispatchStatusPending)])
             (newest_first limit) s of
        (Inl e, s1) \<Rightarrow> (Inl (wrap ''failed to get pending jobs'' e), s1)
      | (Inr c, s1) \<Rightarrow> (read_cursor ''failed to decode pending job'' ''cursor error'' c, s1))"

definition Reader_GetDispatchedJobs :: "'s backend \<Rightarrow> int \<Rightarrow> ('s, goerror + job list) op" where
  "Reader_GetDispatchedJobs B limit s =
     (case be_find B (buildListQuery (phase_filter limit)
                       @ [(''dispatchStatus'', BDispatch DispatchStatusDispatched)])
             (newest_first limit) s of
        (Inl e, s1) \<Rightarrow> (Inl (wrap ''failed to get dispatched jobs'' e), s1)
      | (Inr c, s1) \<Rightarrow> (read_cursor ''failed to decode dispatched job'' ''cursor error'' c, s1))"

definition Reader_GetLogs ::
  "'s backend \<Rightarrow> string \<Rightarrow> LogFilter \<Rightarrow> ('s, goerror + JobLog list) op" where
  "Reader_GetLogs B jobID filt s =
     (case be_log_find B (buildLogsQuery jobID filt)
             \<lparr>fo_Limit = positive (gf_Limit filt), fo_Skip = positive (gf_Skip filt),
              fo_Sort = [(''timestamp'', - 1)]\<rparr> s of
        (Inl e, s1) \<Rightarrow> (Inl (wrap ''failed to get logs'' e), s1)
      | (Inr c, s1) \<Rightarrow>
          (join_close (read_cursor ''failed to decode log'' ''cursor error'' c) c, s1))"

definition Reader_GetRecentLogs ::
  "'s backend \<Rightarrow> string \<Rightarrow> int \<Rightarrow> ('s, goerror + JobLog list) op" where
  "Reader_GetRecentLogs B jobID limit = Reader_GetLogs B jobID (empty_log_filter\<lparr>gf_Limit := limit\<rparr>)"

definition Reader_GetErrorLogs :: "'s backend \<Rightarrow> string \<Rightarrow> ('s, goerror + JobLog list) op" where
  "Reader_GetErrorLogs B jobID =
     Reader_GetLogs B jobID (empty_log_filter\<lparr>gf_Levels := [LogLevelError, LogLevelFatal]\<rparr>)"

definition MongoJobsReader :: "'s backend \<Rightarrow> 's JobsReader" where
  "MongoJobsReader B =
     \<lparr>rd_Get = Reader_Get B, rd_List = Reader_List B, rd_GetLogs = Reader_GetLogs B,
      rd_CountJobs = Reader_CountJobs B, rd_GetJobsByStatus = Reader_GetJobsByStatus B,
      rd_GetPendingJobs = Reader_GetPendingJobs B, rd_GetDispatchedJobs = Reader_GetDispatchedJobs B,
      rd_GetRecentLogs = Reader_GetRecentLogs B, rd_GetErrorLogs = Reader_GetErrorLogs B\<rparr>"

section \<open>MongoJobsWriter\<close>

definition Writer_Create :: "'s backend \<Rightarrow> job \<Rightarrow> ('s, goerror option) op" where
  "Writer_Create B j s =
     (case be_insert_one B j s of
        (Some e, s1) \<Rightarrow>
          if is_duplicate_key e
          then (Some (ErrorString (''job with ID '' @ jm_JobID j @ '' already exists'')), s1)
          else (Some (wrap ''failed to insert job'' e), s1)
      | (None, s1) \<Rightarrow> (None, s1))"

text \<open>The tail of the unconditional updates: an error, no matching document, or done.\<close>

definition matched_or_not_found ::
  "string \<Rightarrow> (goerror + int) \<times> 's \<Rightarrow> goerror option \<times> 's" where
  "matched_or_not_found msg r =
     (case r of
        (Inl e, s1) \<Rightarrow> (Some (wrap msg e), s1)
      | (Inr n, s1) \<Rightarrow> (if n = 0 then Some ErrJobNotFound else None, s1))"

definition Writer_Update :: "'s backend \<Rightarrow> string \<Rightarrow> UpdateJob \<Rightarrow> ('s, goerror option) op" where
  "Writer_Update B jobID patch s =
     (case update_set_doc patch of
        Inl e \<Rightarrow> (Some (wrap ''build update job patch'' e), s)
      | Inr setDoc \<Rightarrow>
          if length setDoc = 0 then (Some ErrEmptyUpdateJob, s)
          else matched_or_not_found ''failed to update job''
                 (be_update_one B (job_id_filter jobID) (BDoc [(''$set'', BDoc setDoc)]) s))"

definition Writer_Delete :: "'s backend \<Rightarrow> string \<Rightarrow> ('s, goerror option) op" where
  "Writer_Delete B jobID s =
     matched_or_not_found ''failed to delete job'' (be_delete_one B (job_id_filter jobID) s)"

definition Writer_IncrementRetryCount :: "'s backend \<Rightarrow> string \<Rightarrow> ('s, goerror option) op" where
  "Writer_IncrementRetryCount B jobID s =
     matched_or_not_found ''failed to increment retry count''
       (be_update_one B (job_id_filter jobID)
          (BDoc [(''$inc'', BDoc [(''retryCount'', BInt 1)])]) s)"

definition Writer_ClearJobExecutionTimestamps ::
  "'s backend \<Rightarrow> string \<Rightarrow> ('s, goerror option) op" where
  "Writer_ClearJobExecutionTimestamps B jobID s =
     matched_or_not_found ''failed to clear job timestamps''
       (be_update_one B (job_id_filter jobID)
          (BDoc [(''$unset'', BDoc [(''startedAt'', BStr []), (''completedAt'', BStr [])])]) s)"

definition Writer_InsertJobs :: "'s backend \<Rightarrow> job list \<Rightarrow> ('s, goerror + int) op" where
  "Writer_InsertJobs B js s =
     (if length js = 0 then (Inr 0, s)
      else case be_insert_many B js s of
        (Inl e, s1) \<Rightarrow> (Inl (wrap ''failed to bulk insert jobs'' e), s1)
      | (Inr n, s1) \<Rightarrow> (Inr n, s1))"

definition Writer_InsertLogs :: "'s backend \<Rightarrow> JobLog list \<Rightarrow> ('s, goerror + int) op" where
  "Writer_InsertLogs B ls s =
     (if length ls = 0 then (Inr 0, s)
      else case be_log_insert_many B ls s of
        (Inl e, s1) \<Rightarrow> (Inl (wrap ''failed to bulk insert logs'' e), s1)
      | (Inr n, s1) \<Rightarrow> (Inr n, s1))"

definition Writer_AddLog :: "'s backend \<Rightarrow> JobLog \<Rightarrow> ('s, goerror option) op" where
  "Writer_AddLog B l s =
     (case be_log_insert_one B l s of
        (Some e, s1) \<Rightarrow> (Some (wrap ''failed to insert log'' e), s1)
      | (None, s1) \<Rightarrow> (None, s1))"

definition Writer_DeleteOldLogs :: "'s backend \<Rightarrow> int \<Rightarrow> ('s, goerror + int) op" where
  "Writer_DeleteOldLogs B olderThan s =
     (case be_now B s of (now, s1) \<Rightarrow>
        let cutoff = now + (- olderThan) in
        case be_log_delete_many B [(''timestamp'', BDoc [(''$lt'', BTime cutoff)])] s1 of
          (Inl e, s2) \<Rightarrow> (Inl (wrap ''failed to delete old logs'' e), s2)
        | (Inr n, s2) \<Rightarrow> (Inr n, s2))"

text \<open>The tail of the conditional updates: whether a document matched.\<close>

definition matched_result :: "string \<Rightarrow> (goerror + int) \<times> 's \<Rightarrow> (goerror + bool) \<times> 's" where
  "matched_result msg r =
     (case r of
        (Inl e, s1) \<Rightarrow> (Inl (wrap msg e), s1)
      | (Inr n, s1) \<Rightarrow> (Inr (n > 0), s1))"

definition pending_filter :: "string \<Rightarrow> bdoc" where
  "pending_filter jobID =
     [(''jobId'', BStr jobID), (''dispatchStatus'', BDispatch DispatchStatusPending)]"

definition Writer_MarkDispatchedIfPending ::
  "'s backend \<Rightarrow> string \<Rightarrow> instant \<Rightarrow> ('s, goerror + bool) op" where
  "Writer_MarkDispatchedIfPending B jobID dispatchedAt s =
     matched_result ''mark job dispatched''
       (be_update_one B (pending_filter jobID)
          (BDoc [(''$set'', BDoc [(''dispatchStatus'', BDispatch DispatchStatusDispatched),
                                 (''status'', BStatus JobStatusDispatched),
                                 (''dispatchedAt'', BTime dispatchedAt)])]) s)"

definition Writer_RecordDispatchAttemptIfPending ::
  "'s backend \<Rightarrow> string \<Rightarrow> int \<Rightarrow> string \<Rightarrow> ('s, goerror + bool) op" where
  "Writer_RecordDispatchAttemptIfPending B jobID attempts lastError s =
     matched_result ''record dispatch attempt''
       (be_update_one B (pending_filter jobID)
          (BDoc [(''$set'', BDoc [(''dispatchAttempts'', BInt attempts),
                                 (''dispatchLastError'', BStr lastError)])]) s)"

definition Writer_MarkDispatchFailedIfPending ::
  "'s backend \<Rightarrow> string \<Rightarrow> string \<Rightarrow> ('s, goerror + bool) op" where
  "Writer_MarkDispatchFailedIfPending B jobID errorMsg s =
     (case be_now B s of (now, s1) \<Rightarrow>
        let errorEntry = \<lparr>je_Type = JobErrorTypeDispatch, je_RetryAttempt = 0,
                          je_Error = errorMsg, je_Timestamp = now\<rparr> in
        matched_result ''mark job dispatch failed''
          (be_update_one B (pending_filter jobID)
             (BDoc [(''$set'', BDoc [(''dispatchStatus'', BDispatch DispatchStatusFailed),
                                    (''status'', BStatus JobStatusDispatchFailed)]),
                    (''$push'', BDoc [(''errors'', BJobError errorEntry)])]) s1))"

definition Writer_MarkRunningIfDispatched ::
  "'s backend \<Rightarrow> string \<Rightarrow> instant \<Rightarrow> ('s, goerror + bool) op" where
  "Writer_MarkRunningIfDispatched B jobID startedAt s =
     matched_result ''mark job running''
       (be_update_one B
          [(''jobId'', BStr jobID), (''executionStatus'', BExecution ExecutionStatusNotStarted)]
          (BDoc [(''$set'', BDoc [(''executionStatus'', BExecution ExecutionStatusRunning),
                                 (''status'', BStatus JobStatusRunning),
                                 (''startedAt'', BTime startedAt)])]) s)"

definition Writer_CompleteIfRunning ::
  "'s backend \<Rightarrow> string \<Rightarrow> instant \<Rightarrow> gomap option \<Rightarrow> ('s, goerror + bool) op" where
  "Writer_CompleteIfRunning B jobID completedAt meta s =
     (let setDoc = [(''executionStatus'', BExecution ExecutionStatusCompleted),
                    (''status'', BStatus JobStatusCompleted),
                    (''completedAt'', BTime completedAt)]
                 @ (case meta of None \<Rightarrow> [] | Some m \<Rightarrow> [(''metadata'', BMap m)]) in
      matched_result ''complete job if running''
        (be_update_one B
           [(''jobId'', BStr jobID), (''executionStatus'', BExecution ExecutionStatusRunning)]
           (BDoc [(''$set'', BDoc setDoc)]) s))"

definition Writer_FailIfNotTerminal ::
  "'s backend \<Rightarrow> string \<Rightarrow> JobError \<Rightarrow> instant \<Rightarrow> ('s, goerror + bool) op" where
  "Writer_FailIfNotTerminal B jobID jobErr completedAt s =
     matched_result ''fail job if not terminal''
       (be_update_one B
          [(''jobId'', BStr jobID),
           (''executionStatus'', BDoc [(''$in'', BArr [BExecution ExecutionStatusRunning,
                                                     BExecution ExecutionStatusNotStarted])])]
          (BArr [BDoc [(''$set'', BDoc
             [(''executionStatus'', BExecution ExecutionStatusFailed),
              (''status'', BStatus JobStatusFailed),
              (''completedAt'', BTime completedAt),
              (''startedAt'', BDoc [(''$ifNull'', BArr [BStr ''$startedAt'', BTime completedAt])]),
              (''errors'', BDoc [(''$concatArrays'',
                 BArr [BDoc [(''$ifNull'', BArr [BStr ''$errors'', BArr []])],
                       BArr [BJobError jobErr]])])])]]) s)"

definition MongoJobsWriter :: "'s backend \<Rightarrow> 's JobsWriter" where
  "MongoJobsWriter B =
     \<lparr>wr_Create = Writer_Create B, wr_Update = Writer_Update B, wr_Delete = Writer_Delete B,
      wr_IncrementRetryCount = Writer_IncrementRetryCount B,
      wr_ClearJobExecutionTimestamps = Writer_ClearJobExecutionTimestamps B,
      wr_MarkDispatchedIfPending = Writer_MarkDispatchedIfPending B,
      wr_RecordDispatchAttemptIfPending = Writer_RecordDispatchAttemptIfPending B,
      wr_MarkDispatchFailedIfPending = Writer_MarkDispatchFailedIfPending B,
      wr_MarkRunningIfDispatched = Writer_MarkRunningIfDispatched B,
      wr_CompleteIfRunning = Writer_CompleteIfRunning B,
      wr_FailIfNotTerminal = Writer_FailIfNotTerminal B,
      wr_AddLog = Writer_AddLog B, wr_DeleteOldLogs = Writer_DeleteOldLogs B\<rparr>"

section \<open>What the filters select and the updates do\<close>

lemma within_iff_operators:
  "list_all (operator_matches (Some (BInt x)))
     (optional_key ''$gte'' BInt lo @ optional_key ''$lte'' BInt hi) \<longleftrightarrow> within lo hi x"
  by (cases lo; cases hi) (auto simp: optional_key_def query_match_defs within_def)

lemma strictly_within_iff_operators:
  "list_all (operator_matches (Some (BTime x)))
     (optional_key ''$gt'' BTime lo @ optional_key ''$lt'' BTime hi) \<longleftrightarrow> strictly_within lo hi x"
  by (cases lo; cases hi) (auto simp: optional_key_def query_match_defs strictly_within_def)

lemma plain_matches_pair:
  "plain_matches (\<lambda>k. job_field k j)
     [(''dispatchStatus'', BDispatch (Dispatch p)), (''executionStatus'', BExecution (Execution p))]
   \<longleftrightarrow> sub_states j = p"
  by (cases p) (auto simp: plain_matches_def condition_matches_def job_field_def sub_states_def)

lemma clause_matches_statuses:
  "clause_matches (\<lambda>k. job_field k j) (''$or'', bson_array (buildStatusOrQuery sts)) \<longleftrightarrow>
     (\<exists>st\<in>set sts. JobStatus_IsValid st \<and> sub_states j = statusToSubFields st)"
proof -
  let ?m = "\<lambda>d. case d of BDoc q \<Rightarrow> plain_matches (\<lambda>k. job_field k j) q | _ \<Rightarrow> False"
  have "clause_matches (\<lambda>k. job_field k j) (''$or'', bson_array (buildStatusOrQuery sts)) \<longleftrightarrow>
      (\<exists>d\<in>set (buildStatusOrQuery sts). ?m d)"
    by (auto simp: clause_matches_def bson_array_def list_ex_iff)
  also have "\<dots> \<longleftrightarrow> (\<exists>st\<in>set sts. JobStatus_IsValid st \<and> ?m (pair_condition (statusToSubFields st)))"
    by (auto simp: buildStatusOrQuery_set)
  finally show ?thesis by (auto simp: pair_condition_def plain_matches_pair)
qed

lemma clause_matches_names:
  "clause_matches (\<lambda>k. job_field k j) (''name'', BDoc [(''$in'', BArr (map BStr names))]) \<longleftrightarrow>
     jm_Name j \<in> set names"
  by (auto simp: query_match_defs job_field_def)

lemma clause_matches_tags:
  "clause_matches (\<lambda>k. job_field k j) (''tags'', BDoc [(''$in'', BArr (map BStr tags))]) \<longleftrightarrow>
     set (jm_Tags j) \<inter> set tags \<noteq> {}"
  by (auto simp: query_match_defs job_field_def)

lemma clause_matches_priority:
  "clause_matches (\<lambda>k. job_field k j) (''priority'', BDoc ops) \<longleftrightarrow>
     list_all (operator_matches (Some (BInt (jm_Priority j)))) ops"
  by (simp add: clause_matches_def condition_matches_def job_field_def)

lemma clause_matches_created:
  "clause_matches (\<lambda>k. job_field k j) (''createdAt'', BDoc ops) \<longleftrightarrow>
     list_all (operator_matches (Some (BTime (jm_CreatedAt j)))) ops"
  by (simp add: clause_matches_def condition_matches_def job_field_def)

lemma query_matches_append [simp]:
  "query_matches fld (a @ b) \<longleftrightarrow> query_matches fld a \<and> query_matches fld b"
  by (simp add: query_matches_def)

lemma query_matches_opt:
  "query_matches fld (if b then [kc] else []) \<longleftrightarrow> (b \<longrightarrow> clause_matches fld kc)"
  by (simp add: query_matches_def)

lemma buildListQuery_matches: "job_matches (buildListQuery f) j \<longleftrightarrow> filter_accepts f j"
proof -
  have "within None None (jm_Priority j)" "strictly_within None None (jm_CreatedAt j)"
    by (simp_all add: within_def strictly_within_def)
  then show ?thesis
    unfolding buildListQuery_def filter_accepts_def
    by (auto simp: query_matches_opt clause_matches_names clause_matches_statuses clause_matches_tags
        clause_matches_priority clause_matches_created within_iff_operators
        strictly_within_iff_operators simp del: list_all_append)
qed

lemma job_id_filter_matches: "job_matches (job_id_filter jobID) j \<longleftrightarrow> jm_JobID j = jobID"
  by (simp add: job_id_filter_def query_match_defs job_field_def)

lemma pending_filter_matches:
  "job_matches (pending_filter jobID) j \<longleftrightarrow>
     jm_JobID j = jobID \<and> jm_DispatchStatus j = DispatchStatusPending"
  by (simp add: pending_filter_def query_match_defs job_field_def)

lemma execution_filter_matches:
  "job_matches [(''jobId'', BStr jobID), (''executionStatus'', BExecution e)] j \<longleftrightarrow>
     jm_JobID j = jobID \<and> jm_ExecutionStatus j = e"
  by (simp add: query_match_defs job_field_def)

lemma failable_filter_matches:
  "job_matches [(''jobId'', BStr jobID),
      (''executionStatus'', BDoc [(''$in'', BArr [BExecution ExecutionStatusRunning,
                                                BExecution ExecutionStatusNotStarted])])] j \<longleftrightarrow>
     jm_JobID j = jobID \<and> (jm_ExecutionStatus j = ExecutionStatusRunning
        \<or> jm_ExecutionStatus j = ExecutionStatusNotStarted)"
  by (auto simp: query_match_defs job_field_def)

lemmas filter_matches =
  job_id_filter_matches pending_filter_matches execution_filter_matches failable_filter_matches

lemma the_errors_map [simp]: "the_errors (map BJobError es) = Some es"
  by (induction es) auto

lemma the_strings_map [simp]: "the_strings (map BStr ts) = Some ts"
  by (induction ts) auto

lemma set_field_simps:
  "set_field ''status'' (BStatus s) j = Some (j\<lparr>jm_Status := s\<rparr>)"
  "set_field ''dispatchStatus'' (BDispatch d) j = Some (j\<lparr>jm_DispatchStatus := d\<rparr>)"
  "set_field ''executionStatus'' (BExecution e) j = Some (j\<lparr>jm_ExecutionStatus := e\<rparr>)"
  "set_field ''name'' (BStr x) j = Some (j\<lparr>jm_Name := x\<rparr>)"
  "set_field ''priority'' (BInt i) j = Some (j\<lparr>jm_Priority := i\<rparr>)"
  "set_field ''startedAt'' (BTime t) j = Some (j\<lparr>jm_StartedAt := Some t\<rparr>)"
  "set_field ''completedAt'' (BTime t) j = Some (j\<lparr>jm_CompletedAt := Some t\<rparr>)"
  "set_field ''payload'' (BMap m) j = Some (j\<lparr>jm_Payload := m\<rparr>)"
  "set_field ''metadata'' (BMap m) j = Some (j\<lparr>jm_Metadata := m\<rparr>)"
  "set_field ''errors'' (BArr (map BJobError es)) j = Some (j\<lparr>jm_Errors := es\<rparr>)"
  "set_field ''tags'' (BArr (map BStr ts)) j = Some (j\<lparr>jm_Tags := ts\<rparr>)"
  "set_field ''topic'' (BStr x) j = Some (j\<lparr>jm_Topic := x\<rparr>)"
  "set_field ''dispatchAttempts'' (BInt i) j = Some (j\<lparr>jm_DispatchAttempts := i\<rparr>)"
  "set_field ''dispatchLastError'' (BStr x) j = Some (j\<lparr>jm_DispatchLastError := x\<rparr>)"
  "set_field ''dispatchedAt'' (BTime t) j = Some (j\<lparr>jm_DispatchedAt := Some t\<rparr>)"
  by (simp_all add: set_field_def)

lemma set_fields_append:
  "set_fields (a @ b) j = Option.bind (set_fields a j) (set_fields b)"
  by (induction a arbitrary: j) (auto split: option.splits)

lemma set_fields_optional:
  "set_fields (optional_key k f x) j =
     (case x of None \<Rightarrow> Some j | Some v \<Rightarrow> set_field k (f v) j)"
  by (simp add: optional_key_def split: option.splits)

lemma set_fields_patch:
  "set_fields (optional_key ''status'' BStatus st) j = Some (j\<lparr>jm_Status := keep st (jm_Status j)\<rparr>)"
  "set_fields (optional_key ''dispatchStatus'' BDispatch d) j =
     Some (j\<lparr>jm_DispatchStatus := keep d (jm_DispatchStatus j)\<rparr>)"
  "set_fields (optional_key ''executionStatus'' BExecution e) j =
     Some (j\<lparr>jm_ExecutionStatus := keep e (jm_ExecutionStatus j)\<rparr>)"
  "set_fields (optional_key ''name'' BStr str) j = Some (j\<lparr>jm_Name := keep str (jm_Name j)\<rparr>)"
  "set_fields (optional_key ''priority'' BInt i) j = Some (j\<lparr>jm_Priority := keep i (jm_Priority j)\<rparr>)"
  "set_fields (optional_key ''startedAt'' BTime t) j =
     Some (j\<lparr>jm_StartedAt := keep_ptr t (jm_StartedAt j)\<rparr>)"
  "set_fields (optional_key ''completedAt'' BTime t) j =
     Some (j\<lparr>jm_CompletedAt := keep_ptr t (jm_CompletedAt j)\<rparr>)"
  "set_fields (optional_key ''payload'' BMap m) j = Some (j\<lparr>jm_Payload := keep m (jm_Payload j)\<rparr>)"
  "set_fields (optional_key ''metadata'' BMap m) j = Some (j\<lparr>jm_Metadata := keep m (jm_Metadata j)\<rparr>)"
  "set_fields (optional_key ''errors'' (\<lambda>es. BArr (map BJobError es)) es) j =
     Some (j\<lparr>jm_Errors := keep es (jm_Errors j)\<rparr>)"
  "set_fields (optional_key ''tags'' (\<lambda>ts. BArr (map BStr ts)) ts) j =
     Some (j\<lparr>jm_Tags := keep ts (jm_Tags j)\<rparr>)"
  "set_fields (optional_key ''topic'' BStr str) j = Some (j\<lparr>jm_Topic := keep str (jm_Topic j)\<rparr>)"
  "set_fields (optional_key ''dispatchAttempts'' BInt i) j =
     Some (j\<lparr>jm_DispatchAttempts := keep i (jm_DispatchAttempts j)\<rparr>)"
  "set_fields (optional_key ''dispatchLastError'' BStr str) j =
     Some (j\<lparr>jm_DispatchLastError := keep str (jm_DispatchLastError j)\<rparr>)"
  "set_fields (optional_key ''dispatchedAt'' BTime t) j =
     Some (j\<lparr>jm_DispatchedAt := keep_ptr t (jm_DispatchedAt j)\<rparr>)"
  by (simp_all add: set_fields_optional set_field_simps split: option.splits)

lemma patch_set_doc:
  "update_set_doc p = Inr d \<Longrightarrow> set_fields d j = Some (patch_effect p j)"
  by (auto simp: update_set_doc_eq set_fields_append set_fields_patch patch_effect_def)

lemma optional_key_Nil [simp]: "optional_key k f x = [] \<longleftrightarrow> x = None"
  by (cases x) (simp_all add: optional_key_def)

lemma empty_patch_iff:
  "p = empty_patch \<longleftrightarrow>
     uj_Status p = None \<and> uj_DispatchStatus p = None \<and> uj_ExecutionStatus p = None \<and> uj_Name p = None
    \<and> uj_Priority p = None \<and> uj_StartedAt p = None \<and> uj_CompletedAt p = None \<and> uj_Payload p = None
    \<and> uj_Metadata p = None \<and> uj_Errors p = None \<and> uj_Tags p = None \<and> uj_Topic p = None
    \<and> uj_DispatchAttempts p = None \<and> uj_DispatchLastError p = None \<and> uj_DispatchedAt p = None"
  by (cases p) (simp add: empty_patch_def)

lemma patch_doc_empty: "update_set_doc p = Inr d \<Longrightarrow> d = [] \<longleftrightarrow> p = empty_patch"
  by (simp add: update_set_doc_eq empty_patch_iff, drule sym, simp)

lemmas update_defs =
  apply_update_def apply_operator_def push_field_def inc_field_def unset_field_def

lemma apply_set_update:
  "apply_update (BDoc [(''$set'', BDoc d)]) j = set_fields d j"
  by (simp add: update_defs split: Option.bind_splits)

lemma mark_dispatched_update:
  "apply_update (BDoc [(''$set'', BDoc [(''dispatchStatus'', BDispatch DispatchStatusDispatched),
      (''status'', BStatus JobStatusDispatched), (''dispatchedAt'', BTime t)])]) j =
   Some (mark_dispatched_effect t j)"
  by (simp add: apply_set_update set_field_simps mark_dispatched_effect_def)

lemma record_attempt_update:
  "apply_update (BDoc [(''$set'', BDoc [(''dispatchAttempts'', BInt n),
      (''dispatchLastError'', BStr msg)])]) j = Some (record_attempt_effect n msg j)"
  by (simp add: apply_set_update set_field_simps record_attempt_effect_def)

lemma dispatch_failed_update:
  "apply_update (BDoc [(''$set'', BDoc [(''dispatchStatus'', BDispatch DispatchStatusFailed),
      (''status'', BStatus JobStatusDispatchFailed)]),
      (''$push'', BDoc [(''errors'', BJobError (dispatch_error msg t))])]) j =
   Some (dispatch_failed_effect msg t j)"
  by (simp add: update_defs set_field_simps dispatch_failed_effect_def)

lemma mark_running_update:
  "apply_update (BDoc [(''$set'', BDoc [(''executionStatus'', BExecution ExecutionStatusRunning),
      (''status'', BStatus JobStatusRunning), (''startedAt'', BTime t)])]) j =
   Some (mark_running_effect t j)"
  by (simp add: apply_set_update set_field_simps mark_running_effect_def)

lemma complete_update:
  "apply_update (BDoc [(''$set'', BDoc ([(''executionStatus'', BExecution ExecutionStatusCompleted),
      (''status'', BStatus JobStatusCompleted), (''completedAt'', BTime t)]
      @ (case meta of None \<Rightarrow> [] | Some m \<Rightarrow> [(''metadata'', BMap m)])))]) j =
   Some (complete_effect t meta j)"
  by (cases meta) (simp_all add: apply_set_update set_field_simps complete_effect_def)

lemma increment_update:
  "apply_update (BDoc [(''$inc'', BDoc [(''retryCount'', BInt 1)])]) j = Some (IncrementRetryCount j)"
  by (simp add: update_defs IncrementRetryCount_def)

lemma clear_update:
  "apply_update (BDoc [(''$unset'', BDoc [(''startedAt'', a), (''completedAt'', b)])]) j =
   Some (clear_timestamps_effect j)"
  by (simp add: update_defs clear_timestamps_effect_def)

definition fail_stage :: "JobError \<Rightarrow> instant \<Rightarrow> bval" where
  "fail_stage jobErr completedAt = BArr [BDoc [(''$set'', BDoc
     [(''executionStatus'', BExecution ExecutionStatusFailed),
      (''status'', BStatus JobStatusFailed),
      (''completedAt'', BTime completedAt),
      (''startedAt'', BDoc [(''$ifNull'', BArr [BStr ''$startedAt'', BTime completedAt])]),
      (''errors'', BDoc [(''$concatArrays'',
         BArr [BDoc [(''$ifNull'', BArr [BStr ''$errors'', BArr []])],
               BArr [BJobError jobErr]])])])]]"

lemma eval_startedAt:
  "eval_expr j (BDoc [(''$ifNull'', BArr [BStr ''$startedAt'', BTime t])]) =
   Some (BTime (case jm_StartedAt j of None \<Rightarrow> t | Some x \<Rightarrow> x))"
  by (cases "jm_StartedAt j") (simp_all add: is_field_path_def job_field_def)

lemma eval_errors:
  "eval_expr j (BDoc [(''$ifNull'', BArr [BStr ''$errors'', BArr []])]) =
   Some (BArr (map BJobError (jm_Errors j)))"
  by (simp add: is_field_path_def job_field_def)

lemma fail_update_general:
  assumes "eval_expr j (BJobError e) = Some (BJobError e')"
  shows "apply_update (fail_stage e t) j = Some (fail_effect e' t j)"
proof -
  have "eval_expr j (BDoc [(''$concatArrays'',
         BArr [BDoc [(''$ifNull'', BArr [BStr ''$errors'', BArr []])], BArr [BJobError e]])]) =
      Some (BArr (map BJobError (jm_Errors j @ [e'])))"
    using assms eval_errors [of j] by (simp del: eval_expr.simps(2))
  then have "apply_update (fail_stage e t) j =
      set_fields [(''executionStatus'', BExecution ExecutionStatusFailed),
        (''status'', BStatus JobStatusFailed), (''completedAt'', BTime t),
        (''startedAt'', BTime (case jm_StartedAt j of None \<Rightarrow> t | Some x \<Rightarrow> x)),
        (''errors'', BArr (map BJobError (jm_Errors j @ [e'])))] j"
    using eval_startedAt [of j t]
    unfolding apply_update_def fail_stage_def by (simp del: eval_expr.simps(4) map_append)
  also have "\<dots> = Some (fail_effect e' t j)"
    by (simp add: set_field_simps fail_effect_def default_instant_def del: map_append
        split: option.splits)
  finally show ?thesis .
qed

lemma fail_update:
  "\<not> is_field_path (je_Error e) \<Longrightarrow> apply_update (fail_stage e t) j = Some (fail_effect e t j)"
  by (rule fail_update_general) simp


section \<open>The adapters keep the contract\<close>

lemma decode_all_Inr:
  "decode_all msg items acc = Inr xs \<Longrightarrow> \<exists>ys. items = map Inr ys \<and> xs = acc @ ys"
proof (induction msg items acc rule: decode_all.induct)
  case (3 msg x rest acc)
  then obtain ys where "rest = map Inr ys" "xs = (acc @ [x]) @ ys" by auto
  then have "Inr x # rest = map Inr (x # ys) \<and> xs = acc @ (x # ys)" by simp
  then show ?case by (rule exI)
qed auto

lemma decode_all_Inl:
  "decode_all msg items acc = Inl e \<Longrightarrow> \<exists>e'. Inl e' \<in> set items \<and> e = wrap msg e'"
  by (induction msg items acc rule: decode_all.induct) auto

lemma read_cursor_Inr: "read_cursor m1 m2 c = Inr xs \<Longrightarrow> delivers c xs"
  by (auto simp: read_cursor_def delivers_def dest: decode_all_Inr split: sum.splits option.splits)

lemma read_cursor_Inl:
  "read_cursor m1 m2 c = Inl e \<Longrightarrow> cursor_foreign c \<Longrightarrow> foreign_error e"
  by (auto simp: read_cursor_def cursor_foreign_def dest: decode_all_Inl split: sum.splits option.splits)

lemma foreign_error_Joined [simp]:
  "foreign_error (Joined a b) \<longleftrightarrow> foreign_error a \<and> foreign_error b"
  by (auto simp: foreign_error_def)

lemma join_close_Inr: "join_close r c = Inr xs \<Longrightarrow> r = Inr xs \<and> cur_close c = None"
  by (auto simp: join_close_def split: option.splits sum.splits)

lemma join_close_Inl:
  "join_close r c = Inl e \<Longrightarrow> cursor_foreign c \<Longrightarrow> (\<And>e'. r = Inl e' \<Longrightarrow> foreign_error e') \<Longrightarrow>
   foreign_error e"
  by (auto simp: join_close_def cursor_foreign_def split: option.splits sum.splits)

lemma page_all: "fo_Limit o1 = None \<Longrightarrow> fo_Skip o1 = None \<Longrightarrow> page o1 xs = xs"
  by (simp add: page_def)

lemma page_subset: "set (page o1 xs) \<subseteq> set xs"
  by (auto simp: page_def Let_def dest: in_set_takeD in_set_dropD split: option.splits)

lemma page_length: "fo_Limit o1 = Some n \<Longrightarrow> length (page o1 xs) \<le> nat n"
  by (simp add: page_def Let_def)

lemma list_options_simps [simp]:
  "fo_Limit (list_options f) = positive (lf_Limit f)"
  "fo_Skip (list_options f) = positive (lf_Skip f)"
  by (simp_all add: list_options_def)

lemma guarded_of_updated:
  assumes "one_updated jobs q u s s'"
    and "\<And>k j. jobs s k = Some j \<Longrightarrow> jm_JobID j = k"
    and "\<And>j. job_matches q j \<longleftrightarrow> jm_JobID j = jobID \<and> P j"
    and "\<And>j. P j \<Longrightarrow> apply_update u j = Some (f j)"
  shows "applied jobs jobID P f s s'"
proof -
  from assms(1) obtain k j j' where *: "jobs s k = Some j" "job_matches q j"
    "jobs s' = (jobs s)(k \<mapsto> j')" "\<And>x. apply_update u j = Some x \<Longrightarrow> j' = x"
    by (auto simp: one_updated_def)
  then have "k = jobID" "P j" using assms(2,3) by auto
  with * assms(4) [of j] show ?thesis by (auto simp: applied_def)
qed

context mongo_backend
begin

lemma matched_guarded:
  assumes "matched_result msg (be_update_one B q u s) = (rb, s')"
    and "\<And>j. job_matches q j \<longleftrightarrow> jm_JobID j = jobID \<and> P j"
    and "\<And>j. P j \<Longrightarrow> apply_update u j = Some (f j)"
  shows "guarded jobs jobID P f rb s s' \<and> logs s' = logs s"
proof -
  obtain r where u: "be_update_one B q u s = (r, s')"
    and rb: "rb = (case r of Inl e \<Rightarrow> Inl (wrap msg e) | Inr n \<Rightarrow> Inr (n > 0))"
    using assms(1) by (cases "be_update_one B q u s")
      (auto simp: matched_result_def split: sum.splits)
  have key: "\<And>k j. jobs s k = Some j \<Longrightarrow> jm_JobID j = k" by (rule job_key)
  have G: "one_updated jobs q u s s' \<Longrightarrow> applied jobs jobID P f s s'"
    by (rule guarded_of_updated [OF _ key assms(2,3)])
  show ?thesis
  proof (cases r)
    case (Inl e)
    from update_error [OF u [unfolded Inl]] have "foreign_error e"
      "jobs s' = jobs s \<or> applied jobs jobID P f s s'" using G by auto
    with Inl rb update_frame [OF u] show ?thesis by (simp add: guarded_def)
  next
    case (Inr n)
    with update_ok u have "(n = 0 \<and> (\<forall>k j. jobs s k = Some j \<longrightarrow> \<not> job_matches q j) \<and> jobs s' = jobs s)
       \<or> (n = 1 \<and> one_updated jobs q u s s')" by simp
    then show ?thesis
      using Inr rb G update_frame [OF u] assms(2) key by (auto simp: guarded_def)
  qed
qed

lemma direct_update:
  assumes "matched_or_not_found msg (be_update_one B (job_id_filter jobID) u s) = (r, s')"
    and "\<And>j. apply_update u j = Some (f j)"
  shows "direct jobs jobID f r s s' \<and> logs s' = logs s"
proof -
  obtain x where u: "be_update_one B (job_id_filter jobID) u s = (x, s')"
    and r: "r = (case x of Inl e \<Rightarrow> Some (wrap msg e)
                 | Inr n \<Rightarrow> if n = 0 then Some ErrJobNotFound else None)"
    using assms(1) by (cases "be_update_one B (job_id_filter jobID) u s")
      (auto simp: matched_or_not_found_def split: sum.splits)
  have key: "\<And>k j. jobs s k = Some j \<Longrightarrow> jm_JobID j = k" by (rule job_key)
  have G: "one_updated jobs (job_id_filter jobID) u s s' \<Longrightarrow> applied jobs jobID (\<lambda>_. True) f s s'"
    by (rule guarded_of_updated [OF _ key _ assms(2)]) (auto simp only: job_id_filter_matches simp_thms)
  show ?thesis
  proof (cases x)
    case (Inl e)
    from update_error [OF u [unfolded Inl]] have "foreign_error e"
      "jobs s' = jobs s \<or> applied jobs jobID (\<lambda>_. True) f s s'" using G by auto
    with Inl r update_frame [OF u] show ?thesis by (simp add: direct_def)
  next
    case (Inr n)
    with update_ok u have "(n = 0 \<and> (\<forall>k j. jobs s k = Some j \<longrightarrow> \<not> job_matches (job_id_filter jobID) j)
        \<and> jobs s' = jobs s) \<or> (n = 1 \<and> one_updated jobs (job_id_filter jobID) u s s')" by simp
    then show ?thesis
    proof (elim disjE conjE)
      assume "n = 0" and none: "\<forall>k j. jobs s k = Some j \<longrightarrow> \<not> job_matches (job_id_filter jobID) j"
        and "jobs s' = jobs s"
      moreover have "jobs s jobID = None"
        using none key by (cases "jobs s jobID") (auto simp: job_id_filter_matches)
      ultimately show ?thesis using Inr r update_frame [OF u] by (simp add: direct_def)
    next
      assume "n = 1" and "one_updated jobs (job_id_filter jobID) u s s'"
      then show ?thesis using Inr r G update_frame [OF u] by (simp add: direct_def)
    qed
  qed
qed

lemma list_delivers:
  assumes "Reader_List B f s = (Inr js, s')"
  shows "\<exists>ys. distinct ys \<and> set ys = {j \<in> ran (jobs s). filter_accepts f j}
     \<and> sorted_wrt (in_order job_field (list_options f)) ys \<and> js = page (list_options f) ys"
proof -
  obtain c where f: "be_find B (buildListQuery f) (list_options f) s = (Inr c, s')"
    and "join_close (read_cursor ''failed to decode job'' ''cursor error'' c) c = Inr js"
    using assms by (auto simp: Reader_List_def split: prod.splits sum.splits)
  then have "delivers c js" by (auto dest: join_close_Inr read_cursor_Inr)
  from find_delivers [OF f this] show ?thesis by (simp add: buildListQuery_matches)
qed

lemma list_member:
  "Reader_List B f s = (Inr js, s') \<Longrightarrow> j \<in> set js \<Longrightarrow>
   jobs s (jm_JobID j) = Some j \<and> filter_accepts f j"
proof -
  assume "Reader_List B f s = (Inr js, s')" "j \<in> set js"
  then obtain ys where "set ys = {j \<in> ran (jobs s). filter_accepts f j}" "js = page (list_options f) ys"
    using list_delivers by metis
  with \<open>j \<in> set js\<close> page_subset [of "list_options f" ys]
  have "j \<in> ran (jobs s)" "filter_accepts f j" by auto
  then show ?thesis by (auto simp: ran_def dest: job_key)
qed

lemma list_all_jobs:
  "Reader_List B f s = (Inr js, s') \<Longrightarrow> lf_Limit f \<le> 0 \<Longrightarrow> lf_Skip f \<le> 0 \<Longrightarrow>
   set js = {j \<in> ran (jobs s). filter_accepts f j} \<and> distinct js"
  using list_delivers [of f s js s'] by (auto simp: page_all positive_def)

lemma list_at_most:
  "Reader_List B f s = (Inr js, s') \<Longrightarrow> 0 < lf_Limit f \<Longrightarrow> int (length js) \<le> lf_Limit f"
proof -
  assume "Reader_List B f s = (Inr js, s')" "0 < lf_Limit f"
  moreover then obtain ys where "js = page (list_options f) ys" using list_delivers by metis
  ultimately show ?thesis
    using page_length [of "list_options f" "lf_Limit f" ys] by (simp add: positive_def)
qed

lemma writer_update_direct:
  assumes "Writer_Update B jobID p s = (r, s')" "p \<noteq> empty_patch"
  shows "direct jobs jobID (patch_effect p) r s s' \<and> logs s' = logs s"
proof -
  obtain d where d: "update_set_doc p = Inr d" by (simp add: update_set_doc_eq)
  with assms(2) have "d \<noteq> []" by (simp add: patch_doc_empty)
  moreover have "apply_update (BDoc [(''$set'', BDoc d)]) j = Some (patch_effect p j)" for j
    using d by (simp add: apply_set_update patch_set_doc)
  ultimately show ?thesis
    using assms(1) d by (intro direct_update) (simp_all add: Writer_Update_def)
qed

end

sublocale mongo_backend \<subseteq> reader: jobs_reader "MongoJobsReader B" jobs logs
proof
  fix jobID s rg s' assume "rd_Get (MongoJobsReader B) jobID s = (rg, s')"
  then show "jobs s' = jobs s \<and> logs s' = logs s"
    by (auto simp: MongoJobsReader_def Reader_Get_def dest: find_one_frame
        split: prod.splits sum.splits if_splits)
next
  fix jobID s j s' assume "rd_Get (MongoJobsReader B) jobID s = (Inr j, s')"
  then show "jobs s jobID = Some j"
    by (auto simp: MongoJobsReader_def Reader_Get_def job_id_filter_matches dest!: find_one_found
        split: prod.splits sum.splits if_splits)
next
  fix jobID s e s' assume "rd_Get (MongoJobsReader B) jobID s = (Inl e, s')"
  then obtain e' where f: "be_find_one B (job_id_filter jobID) s = (Inl e', s')"
    and e: "e = (if errors_is e' DriverNoDocuments then ErrJobNotFound
                 else wrap ''failed to get job'' e')"
    by (auto simp: MongoJobsReader_def Reader_Get_def split: prod.splits sum.splits if_splits)
  show "e = ErrJobNotFound \<and> jobs s jobID = None \<or> foreign_error e"
  proof (cases "errors_is e' DriverNoDocuments")
    case True
    have "jobs s jobID = None"
    proof (cases "jobs s jobID")
      case (Some j)
      with find_one_none [OF f True] have "\<not> job_matches (job_id_filter jobID) j" by blast
      with job_key [OF Some] show ?thesis by (simp add: job_id_filter_matches)
    qed
    with True e show ?thesis by simp
  next
    case False
    with e find_one_foreign [OF f] show ?thesis by simp
  qed
next
  fix f s rl s' assume "rd_List (MongoJobsReader B) f s = (rl, s')"
  then show "jobs s' = jobs s \<and> logs s' = logs s"
    by (auto simp: MongoJobsReader_def Reader_List_def dest: find_frame split: prod.splits sum.splits)
next
  fix f s js s' j assume "rd_List (MongoJobsReader B) f s = (Inr js, s')" "j \<in> set js"
  then show "jobs s (jm_JobID j) = Some j \<and> filter_accepts f j"
    by (intro list_member) (simp_all add: MongoJobsReader_def)
next
  fix f s js s' assume "rd_List (MongoJobsReader B) f s = (Inr js, s')" "lf_Limit f \<le> 0" "lf_Skip f \<le> 0"
  then show "set js = {j \<in> ran (jobs s). filter_accepts f j} \<and> distinct js"
    by (intro list_all_jobs) (simp_all add: MongoJobsReader_def)
next
  fix f s js s' assume "rd_List (MongoJobsReader B) f s = (Inr js, s')" "0 < lf_Limit f"
  then show "int (length js) \<le> lf_Limit f"
    by (intro list_at_most) (simp_all add: MongoJobsReader_def)
next
  fix f s rc s' assume "rd_CountJobs (MongoJobsReader B) f s = (rc, s')"
  then show "jobs s' = jobs s \<and> logs s' = logs s"
    by (auto simp: MongoJobsReader_def Reader_CountJobs_def dest: count_frame
        split: prod.splits sum.splits)
next
  fix f s n s' assume "rd_CountJobs (MongoJobsReader B) f s = (Inr n, s')"
  then show "n = int (card {j \<in> ran (jobs s). filter_accepts f j})"
    by (auto simp: MongoJobsReader_def Reader_CountJobs_def buildListQuery_matches dest: count_ok
        split: prod.splits sum.splits)
qed

lemma guarded_weaken_states:
  "guarded jobs jobID P f r s s' \<Longrightarrow> jobs s0 = jobs s \<Longrightarrow> guarded jobs jobID P f r s0 s'"
  by (simp add: guarded_def applied_def split: sum.splits bool.splits)

sublocale mongo_backend \<subseteq> writer: jobs_writer "MongoJobsWriter B" jobs logs
proof
  fix j s s' assume "wr_Create (MongoJobsWriter B) j s = (None, s')"
  then show "one_inserted jobs j s s' \<and> logs s' = logs s"
    by (auto simp: MongoJobsWriter_def Writer_Create_def dest: insert_ok insert_frame
        split: prod.splits option.splits if_splits)
next
  fix j s e s' assume "wr_Create (MongoJobsWriter B) j s = (Some e, s')"
  then obtain e' where "be_insert_one B j s = (Some e', s')"
    by (auto simp: MongoJobsWriter_def Writer_Create_def split: prod.splits option.splits if_splits)
  from insert_error [OF this] insert_frame [OF this]
  show "(jobs s' = jobs s \<or> one_inserted jobs j s s') \<and> logs s' = logs s" by simp
next
  fix jobID s
  show "wr_Update (MongoJobsWriter B) jobID empty_patch s = (Some ErrEmptyUpdateJob, s)"
    by (simp add: MongoJobsWriter_def Writer_Update_def update_set_doc_eq)
       (simp add: empty_patch_def optional_key_def)
next
  fix jobID p s r s' assume "wr_Update (MongoJobsWriter B) jobID p s = (r, s')" "p \<noteq> empty_patch"
  then show "direct jobs jobID (patch_effect p) r s s' \<and> logs s' = logs s"
    by (intro writer_update_direct) (simp_all add: MongoJobsWriter_def)
next
  fix jobID s r s' assume "wr_IncrementRetryCount (MongoJobsWriter B) jobID s = (r, s')"
  then show "direct jobs jobID IncrementRetryCount r s s' \<and> logs s' = logs s"
    by (intro direct_update [OF _ increment_update])
       (simp add: MongoJobsWriter_def Writer_IncrementRetryCount_def)
next
  fix jobID s r s' assume "wr_ClearJobExecutionTimestamps (MongoJobsWriter B) jobID s = (r, s')"
  then show "direct jobs jobID clear_timestamps_effect r s s' \<and> logs s' = logs s"
    by (intro direct_update [OF _ clear_update])
       (simp add: MongoJobsWriter_def Writer_ClearJobExecutionTimestamps_def)
next
  fix jobID t s rb s' assume "wr_MarkDispatchedIfPending (MongoJobsWriter B) jobID t s = (rb, s')"
  then show "guarded jobs jobID (\<lambda>j. jm_DispatchStatus j = DispatchStatusPending)
      (mark_dispatched_effect t) rb s s' \<and> logs s' = logs s"
    by (intro matched_guarded [OF _ pending_filter_matches mark_dispatched_update])
       (simp add: MongoJobsWriter_def Writer_MarkDispatchedIfPending_def)
next
  fix jobID n msg s rb s'
  assume "wr_RecordDispatchAttemptIfPending (MongoJobsWriter B) jobID n msg s = (rb, s')"
  then show "guarded jobs jobID (\<lambda>j. jm_DispatchStatus j = DispatchStatusPending)
      (record_attempt_effect n msg) rb s s' \<and> logs s' = logs s"
    by (intro matched_guarded [OF _ pending_filter_matches record_attempt_update])
       (simp add: MongoJobsWriter_def Writer_RecordDispatchAttemptIfPending_def)
next
  fix jobID msg s rb s'
  assume w: "wr_MarkDispatchFailedIfPending (MongoJobsWriter B) jobID msg s = (rb, s')"
  obtain t s1 where now: "be_now B s = (t, s1)" by fastforce
  let ?P = "\<lambda>j. jm_DispatchStatus j = DispatchStatusPending"
  from w now have "guarded jobs jobID ?P (dispatch_failed_effect msg t) rb s1 s' \<and> logs s' = logs s1"
    by (intro matched_guarded [OF _ pending_filter_matches dispatch_failed_update])
       (simp add: MongoJobsWriter_def Writer_MarkDispatchFailedIfPending_def dispatch_error_def Let_def)
  then have "guarded jobs jobID ?P (dispatch_failed_effect msg t) rb s s' \<and> logs s' = logs s"
    using now_ok [OF now] by (auto intro: guarded_weaken_states)
  then show "\<exists>t. guarded jobs jobID ?P (dispatch_failed_effect msg t) rb s s' \<and> logs s' = logs s"
    by (rule exI)
next
  fix jobID t s rb s' assume "wr_MarkRunningIfDispatched (MongoJobsWriter B) jobID t s = (rb, s')"
  then show "guarded jobs jobID (\<lambda>j. jm_ExecutionStatus j = ExecutionStatusNotStarted)
      (mark_running_effect t) rb s s' \<and> logs s' = logs s"
    by (intro matched_guarded [OF _ execution_filter_matches mark_running_update])
       (simp add: MongoJobsWriter_def Writer_MarkRunningIfDispatched_def)
next
  fix jobID t meta s rb s' assume "wr_CompleteIfRunning (MongoJobsWriter B) jobID t meta s = (rb, s')"
  then show "guarded jobs jobID (\<lambda>j. jm_ExecutionStatus j = ExecutionStatusRunning)
      (complete_effect t meta) rb s s' \<and> logs s' = logs s"
    by (intro matched_guarded [OF _ execution_filter_matches complete_update])
       (simp add: MongoJobsWriter_def Writer_CompleteIfRunning_def Let_def)
next
  fix jobID entry t s rb s'
  assume "wr_FailIfNotTerminal (MongoJobsWriter B) jobID entry t s = (rb, s')"
    and "\<not> is_field_path (je_Error entry)"
  then show "guarded jobs jobID (\<lambda>j. jm_ExecutionStatus j = ExecutionStatusRunning
      \<or> jm_ExecutionStatus j = ExecutionStatusNotStarted) (fail_effect entry t) rb s s' \<and> logs s' = logs s"
    by (intro matched_guarded [OF _ failable_filter_matches fail_update])
       (simp_all add: MongoJobsWriter_def Writer_FailIfNotTerminal_def fail_stage_def)
next
  fix l s r s' assume "wr_AddLog (MongoJobsWriter B) l s = (r, s')"
  then show "jobs s' = jobs s"
    by (auto simp: MongoJobsWriter_def Writer_AddLog_def dest: log_insert_frame
        split: prod.splits option.splits)
next
  fix d s rn s' assume "wr_DeleteOldLogs (MongoJobsWriter B) d s = (rn, s')"
  then show "jobs s' = jobs s"
    by (auto simp: MongoJobsWriter_def Writer_DeleteOldLogs_def Let_def
        dest!: log_delete_frame now_ok split: prod.splits sum.splits)
qed

sublocale mongo_backend \<subseteq> store: jobs_store "MongoJobsReader B" "MongoJobsWriter B" jobs logs "be_now B"
  by unfold_locales (rule now_ok)

end
