(* ===== verification/SagaInterfaces.thy ===== *)
theory SagaInterfaces
  imports Interfaces
begin

text \<open>
  The interfaces through which the two workers change a job: \<open>dispatch.JobUpdater\<close> (the
  dispatcher confirms a publish or records its failure), \<open>executor.JobLifecycle\<close> (the
  executor claims a job and settles it) and \<open>dispatch.JobDispatchPublisher\<close>, with the
  projection of a job that travels to the broker (\<open>dispatch/types.go\<close>,
  \<open>executor/handler.go\<close>). Their contracts are stated over the stored jobs; the service
  layer provides them and the workers rely on nothing else.
\<close>

section \<open>The dispatch projection\<close>

record JobDispatchProjection =
  dp_JobID :: string
  dp_Name :: string
  dp_Topic :: string
  dp_Payload :: gomap
  dp_DispatchAttempts :: int

definition JobDispatchFromMetadata :: "job \<Rightarrow> JobDispatchProjection" where
  "JobDispatchFromMetadata m =
     \<lparr>dp_JobID = jm_JobID m, dp_Name = jm_Name m, dp_Topic = jm_Topic m,
      dp_Payload = (if jm_Payload m = None then Some [] else jm_Payload m),
      dp_DispatchAttempts = jm_DispatchAttempts m\<rparr>"

lemma JobDispatchFromMetadata_simps [simp]:
  "dp_JobID (JobDispatchFromMetadata m) = jm_JobID m"
  "dp_Name (JobDispatchFromMetadata m) = jm_Name m"
  "dp_Topic (JobDispatchFromMetadata m) = jm_Topic m"
  "dp_DispatchAttempts (JobDispatchFromMetadata m) = jm_DispatchAttempts m"
  by (simp_all add: JobDispatchFromMetadata_def)

section \<open>The interfaces\<close>

record 's JobUpdater =
  up_MarkJobDispatched :: "string \<Rightarrow> ('s, goerror option) op"
  up_RecordDispatchAttempt :: "string \<Rightarrow> int \<Rightarrow> string \<Rightarrow> ('s, goerror option) op"
  up_MarkJobDispatchFailed :: "string \<Rightarrow> goerror option \<Rightarrow> ('s, goerror option) op"

record 's JobLifecycle =
  lc_StartJob :: "string \<Rightarrow> ('s, goerror + bool) op"
  lc_CompleteJob :: "string \<Rightarrow> gomap \<Rightarrow> ('s, goerror option) op"
  lc_FailJob :: "string \<Rightarrow> goerror option \<Rightarrow> ('s, goerror option) op"

type_synonym 's JobDispatchPublisher = "JobDispatchProjection \<Rightarrow> ('s, goerror option) op"

text \<open>\<open>err.Error()\<close>, with the empty string for a nil error.\<close>

definition message_of :: "goerror option \<Rightarrow> string" where
  "message_of err = (case err of None \<Rightarrow> [] | Some e \<Rightarrow> error_text e)"

lemma message_of_simps [simp]: "message_of None = []" "message_of (Some e) = error_text e"
  by (simp_all add: message_of_def)

section \<open>Shapes of an outcome\<close>

text \<open>
  A conditional write behind an error result that hides whether it matched: \<open>None\<close> covers
  the write that was applied and the one its guard refused.
\<close>

definition confirmed ::
  "('s \<Rightarrow> string \<Rightarrow> job option) \<Rightarrow> string \<Rightarrow> (job \<Rightarrow> bool) \<Rightarrow> (job \<Rightarrow> job)
     \<Rightarrow> goerror option \<Rightarrow> 's \<Rightarrow> 's \<Rightarrow> bool" where
  "confirmed jobs jobID P f r s s' =
     (case r of
        None \<Rightarrow> applied jobs jobID P f s s'
                \<or> ((\<forall>j. jobs s jobID = Some j \<longrightarrow> \<not> P j) \<and> jobs s' = jobs s)
      | Some e \<Rightarrow> foreign_error e \<and> (jobs s' = jobs s \<or> applied jobs jobID P f s s'))"

text \<open>A transition that either happened, or is reported as an error.\<close>

definition settled ::
  "('s \<Rightarrow> string \<Rightarrow> job option) \<Rightarrow> string \<Rightarrow> (job \<Rightarrow> bool) \<Rightarrow> (job \<Rightarrow> job)
     \<Rightarrow> goerror option \<Rightarrow> 's \<Rightarrow> 's \<Rightarrow> bool" where
  "settled jobs jobID P f r s s' =
     (case r of
        None \<Rightarrow> applied jobs jobID P f s s'
      | Some e \<Rightarrow> jobs s' = jobs s \<or> (foreign_error e \<and> applied jobs jobID P f s s'))"

definition reports_terminal ::
  "('s \<Rightarrow> string \<Rightarrow> job option) \<Rightarrow> string \<Rightarrow> goerror option \<Rightarrow> 's \<Rightarrow> 's \<Rightarrow> bool" where
  "reports_terminal jobs jobID r s s' =
     (case r of
        None \<Rightarrow> True
      | Some e \<Rightarrow> errors_is e ErrJobAlreadyTerminal \<longrightarrow>
          jobs s' = jobs s \<and> (\<exists>j. jobs s jobID = Some j \<and> JobStatus_IsTerminal (DisplayStatus j)))"

abbreviation is_pending :: "job \<Rightarrow> bool" where
  "is_pending j \<equiv> jm_DispatchStatus j = DispatchStatusPending"

abbreviation not_started :: "job \<Rightarrow> bool" where
  "not_started j \<equiv> jm_ExecutionStatus j = ExecutionStatusNotStarted"

abbreviation is_running :: "job \<Rightarrow> bool" where
  "is_running j \<equiv> jm_ExecutionStatus j = ExecutionStatusRunning"

abbreviation failable :: "job \<Rightarrow> bool" where
  "failable j \<equiv> jm_ExecutionStatus j = ExecutionStatusRunning
     \<or> jm_ExecutionStatus j = ExecutionStatusNotStarted"

section \<open>The contracts\<close>

locale job_updater =
  fixes U :: "'s JobUpdater"
    and jobs :: "'s \<Rightarrow> string \<Rightarrow> job option"
  assumes dispatched: "up_MarkJobDispatched U jobID s = (r, s') \<Longrightarrow>
      \<exists>t. confirmed jobs jobID is_pending (mark_dispatched_effect t) r s s'"
    and attempt: "up_RecordDispatchAttempt U jobID n msg s = (r, s') \<Longrightarrow>
      confirmed jobs jobID is_pending (record_attempt_effect n msg) r s s'"
    and failed: "up_MarkJobDispatchFailed U jobID err s = (r, s') \<Longrightarrow>
      \<exists>t. confirmed jobs jobID is_pending (dispatch_failed_effect (message_of err) t) r s s'"

locale job_lifecycle =
  fixes L :: "'s JobLifecycle"
    and jobs :: "'s \<Rightarrow> string \<Rightarrow> job option"
  assumes start: "lc_StartJob L jobID s = (rb, s') \<Longrightarrow>
      \<exists>t. t \<noteq> 0 \<and> guarded jobs jobID not_started (mark_running_effect t) rb s s'"
    and complete: "lc_CompleteJob L jobID None s = (r, s') \<Longrightarrow>
      \<exists>t. t \<noteq> 0 \<and> settled jobs jobID is_running (complete_effect t None) r s s'"
    and complete_terminal: "lc_CompleteJob L jobID res s = (r, s') \<Longrightarrow>
      reports_terminal jobs jobID r s s'"
    and fail: "lc_FailJob L jobID err s = (r, s') \<Longrightarrow> \<not> is_field_path (message_of err) \<Longrightarrow>
      \<exists>t entry. t \<noteq> 0 \<and> je_Type entry = JobErrorTypeExecution \<and> je_Error entry = message_of err
        \<and> settled jobs jobID failable (fail_effect entry t) r s s'"
    and fail_terminal: "lc_FailJob L jobID err s = (r, s') \<Longrightarrow> \<not> is_field_path (message_of err) \<Longrightarrow>
      reports_terminal jobs jobID r s s'"

text \<open>A publisher talks to the broker and leaves the stored jobs alone.\<close>

locale job_publisher =
  fixes P :: "'s JobDispatchPublisher"
    and jobs :: "'s \<Rightarrow> string \<Rightarrow> job option"
  assumes publish_frame: "P projection s = (r, s') \<Longrightarrow> jobs s' = jobs s"

section \<open>Facts about the shapes\<close>

lemma confirmedE:
  assumes "confirmed jobs jobID P f r s s'"
  obtains (applied) j where "jobs s jobID = Some j" "P j" "jobs s' = (jobs s)(jobID \<mapsto> f j)"
    | (unchanged) "jobs s' = jobs s"
        "r = None \<Longrightarrow> (\<forall>j. jobs s jobID = Some j \<longrightarrow> \<not> P j)"
  using assms by (auto simp: confirmed_def applied_def split: option.splits)

lemma confirmed_None_pendingD:
  "confirmed jobs jobID P f None s s' \<Longrightarrow> jobs s jobID = Some j \<Longrightarrow> P j \<Longrightarrow>
   jobs s' = (jobs s)(jobID \<mapsto> f j)"
  by (auto simp: confirmed_def applied_def)

lemma settled_NoneD:
  "settled jobs jobID P f None s s' \<Longrightarrow>
   \<exists>j. jobs s jobID = Some j \<and> P j \<and> jobs s' = (jobs s)(jobID \<mapsto> f j)"
  by (auto simp: settled_def applied_def)

lemma settledE:
  assumes "settled jobs jobID P f r s s'"
  obtains (applied) j where "jobs s jobID = Some j" "P j" "jobs s' = (jobs s)(jobID \<mapsto> f j)"
      "\<And>e. r = Some e \<Longrightarrow> foreign_error e"
    | (unchanged) e where "jobs s' = jobs s" "r = Some e"
  using assms by (auto simp: settled_def applied_def split: option.splits)

lemma confirmed_congs:
  "confirmed jobs jobID P f r s s' \<Longrightarrow> jobs s0 = jobs s \<Longrightarrow> confirmed jobs jobID P f r s0 s'"
  "confirmed jobs jobID P f r s s' \<Longrightarrow> jobs s1 = jobs s' \<Longrightarrow> confirmed jobs jobID P f r s s1"
  by (auto simp: confirmed_def applied_def split: option.splits)

lemma settled_congs:
  "settled jobs jobID P f r s s' \<Longrightarrow> jobs s0 = jobs s \<Longrightarrow> settled jobs jobID P f r s0 s'"
  "settled jobs jobID P f r s s' \<Longrightarrow> jobs s1 = jobs s' \<Longrightarrow> settled jobs jobID P f r s s1"
  by (auto simp: settled_def applied_def split: option.splits)

lemma guarded_congs:
  "guarded jobs jobID P f b s s' \<Longrightarrow> jobs s0 = jobs s \<Longrightarrow> guarded jobs jobID P f b s0 s'"
  "guarded jobs jobID P f b s s' \<Longrightarrow> jobs s1 = jobs s' \<Longrightarrow> guarded jobs jobID P f b s s1"
  by (auto simp: guarded_def applied_def split: sum.splits bool.splits)

end
