(* ===== verification/GoText.thy ===== *)
theory GoText
  imports Prelude
begin

text \<open>
  What the code prints durations and instants with: \<open>time.Duration.String\<close> and the format
  \<open>time.RFC3339\<close> of Go's standard library.
\<close>

section \<open>Durations\<close>

definition millisecond :: int where "millisecond = 1000000"
definition one_second :: int where "one_second = 1000000000"

text \<open>\<open>time.Duration.String\<close>: the largest unit that fits, with a fraction cut after its last
  digit that is not zero.\<close>

fun fraction_digits :: "nat \<Rightarrow> int \<Rightarrow> string" where
  "fraction_digits 0 v = []"
| "fraction_digits (Suc prec) v = fraction_digits prec (v div 10) @ go_int (v mod 10)"

definition fraction :: "nat \<Rightarrow> int \<Rightarrow> string" where
  "fraction prec v =
     (let kept = rev (dropWhile (\<lambda>c. c = CHR ''0'') (rev (fraction_digits prec v)))
      in if kept = [] then [] else CHR ''.'' # kept)"

definition unit_text :: "int \<Rightarrow> nat \<Rightarrow> string \<Rightarrow> string" where
  "unit_text v prec u = go_int (v div 10 ^ prec) @ fraction prec (v mod 10 ^ prec) @ u"

definition go_duration :: "int \<Rightarrow> string" where
  "go_duration d =
     (let u = \<bar>d\<bar>; sign = (if d < 0 then ''-'' else []) in
      if u = 0 then ''0s''
      else sign @
       (if u < 1000 then unit_text u 0 ''ns''
        else if u < 1000000 then unit_text u 3 (CHR 0xC2 # CHR 0xB5 # ''s'')
        else if u < 1000000000 then unit_text u 6 ''ms''
        else
          (let secs = u div 1000000000; mins = secs div 60; hours = mins div 60;
               s_text = unit_text (u mod 60000000000) 9 ''s''
           in if mins = 0 then s_text
              else if hours = 0 then go_int mins @ ''m'' @ s_text
              else go_int hours @ ''h'' @ go_int (mins mod 60) @ ''m'' @ s_text)))"

section \<open>Instants\<close>

text \<open>
  The civil date of a day, counted from 1 January of the year 1: whole periods of 400, 100, 4
  and 1 years are taken off in turn.
\<close>

definition leap_year :: "int \<Rightarrow> bool" where
  "leap_year y \<longleftrightarrow> 4 dvd y \<and> (\<not> 100 dvd y \<or> 400 dvd y)"

definition month_days :: "int \<Rightarrow> int list" where
  "month_days y = [31, if leap_year y then 29 else 28, 31, 30, 31, 30, 31, 31, 30, 31, 30, 31]"

fun month_loop :: "int \<Rightarrow> int list \<Rightarrow> int \<Rightarrow> int \<times> int" where
  "month_loop m [] d = (m, d)"
| "month_loop m (n # ns) d = (if d < n then (m, d) else month_loop (m + 1) ns (d - n))"

definition civil_date :: "int \<Rightarrow> int \<times> int \<times> int" where
  "civil_date day =
     (let r400 = day mod 146097; n100 = min 3 (r400 div 36524);
          r100 = r400 - 36524 * n100; n4 = r100 div 1461;
          r4 = r100 mod 1461; n1 = min 3 (r4 div 365);
          y = 400 * (day div 146097) + 100 * n100 + 4 * n4 + n1 + 1;
          (m, d) = month_loop 1 (month_days y) (r4 - 365 * n1)
      in (y, m, d + 1))"

definition padded :: "nat \<Rightarrow> int \<Rightarrow> string" where
  "padded w i =
     (let ds = go_int \<bar>i\<bar> in (if i < 0 then ''-'' else []) @ replicate (w - length ds) (CHR ''0'') @ ds)"

definition rfc3339 :: "instant \<Rightarrow> string" where
  "rfc3339 t =
     (let secs = t div 1000; (y, m, d) = civil_date (secs div 86400); r = secs mod 86400
      in padded 4 y @ ''-'' @ padded 2 m @ ''-'' @ padded 2 d @ ''T''
         @ padded 2 (r div 3600) @ '':'' @ padded 2 (r div 60 mod 60) @ '':'' @ padded 2 (r mod 60) @ ''Z'')"

end
