(* ===== verification/MetadataService.thy ===== *)
theory MetadataService
  imports Store SagaInterfaces GoText
begin

text \<open>
  \<open>internal/jobs/service/metadata_service.go\<close>: the business operations on jobs, over a reader
  and a writer. Every handler is modelled whole: its reads, its conditional write, the log
  entry it adds and every error it returns. Adding the log entry is best effort in the code:
  its error is printed and dropped, so only the state it leaves is kept here. The clock and
  the UUID generator the code reaches through package functions are two more fields of the
  service record. \<open>metadata.AsJobModel\<close> only rejects foreign implementations of the model
  interface, which the adapters never return, and is the identity here.
\<close>

section \<open>The service\<close>

record 's MetadataService =
  ms_reader :: "'s JobsReader"
  ms_writer :: "'s JobsWriter"
  ms_now :: "('s, instant) op"
  ms_uuid :: "('s, string) op"

definition NewMetadataService ::
  "'s JobsReader \<Rightarrow> 's JobsWriter \<Rightarrow> ('s, instant) op \<Rightarrow> ('s, string) op \<Rightarrow> 's MetadataService" where
  "NewMetadataService R W clock uuid =
     \<lparr>ms_reader = R, ms_writer = W, ms_now = clock, ms_uuid = uuid\<rparr>"

lemma NewMetadataService_simps [simp]:
  "ms_reader (NewMetadataService R W clock uuid) = R"
  "ms_writer (NewMetadataService R W clock uuid) = W"
  "ms_now (NewMetadataService R W clock uuid) = clock"
  "ms_uuid (NewMetadataService R W clock uuid) = uuid"
  by (simp_all add: NewMetadataService_def)

text \<open>Build an entry at the current time and add it, whatever comes of it.\<close>

definition log_best_effort :: "'s MetadataService \<Rightarrow> (instant \<Rightarrow> JobLog) \<Rightarrow> 's \<Rightarrow> 's" where
  "log_best_effort S entry s =
     (case ms_now S s of (now, s1) \<Rightarrow> snd (wr_AddLog (ms_writer S) (entry now) s1))"

section \<open>CreateJob\<close>

record CreateJobOptions =
  co_Priority :: "int option"
  co_Tags :: "string list"
  co_Metadata :: gomap
  co_Topic :: string

definition no_options :: CreateJobOptions where
  "no_options = \<lparr>co_Priority = None, co_Tags = [], co_Metadata = None, co_Topic = []\<rparr>"

definition gomap_len :: "gomap \<Rightarrow> nat" where
  "gomap_len m = (case m of None \<Rightarrow> 0 | Some kvs \<Rightarrow> length kvs)"

definition with_options :: "job \<Rightarrow> CreateJobOptions \<Rightarrow> job" where
  "with_options j opts =
     j\<lparr>jm_Priority := (case co_Priority opts of None \<Rightarrow> jm_Priority j | Some p \<Rightarrow> p),
       jm_Tags := (if length (co_Tags opts) > 0 then co_Tags opts else jm_Tags j),
       jm_Metadata := (if gomap_len (co_Metadata opts) > 0 then co_Metadata opts else jm_Metadata j),
       jm_Topic := (if co_Topic opts \<noteq> [] then co_Topic opts else jm_Topic j)\<rparr>"

definition CreateJob ::
  "'s MetadataService \<Rightarrow> string \<Rightarrow> gomap \<Rightarrow> CreateJobOptions \<Rightarrow> ('s, goerror + job) op" where
  "CreateJob S name payload options s =
     (case ms_uuid S s of (jobID, s1) \<Rightarrow>
      case ms_now S s1 of (now, s2) \<Rightarrow>
        let j = with_options (NewJobMetadata jobID name payload now) options in
        case Validate j of
          Some err \<Rightarrow> (Inl (wrap ''invalid job'' err), s2)
        | None \<Rightarrow>
            (case wr_Create (ms_writer S) j s2 of
               (Some err, s3) \<Rightarrow> (Inl (wrap ''failed to create job'' err), s3)
             | (None, s3) \<Rightarrow>
                 (Inr j, log_best_effort S
                    (NewJobLogWithSource jobID LogLevelInfo (''Job created: '' @ name) ''service'') s3)))"

section \<open>Reads\<close>

definition GetJob :: "'s MetadataService \<Rightarrow> string \<Rightarrow> ('s, goerror + job) op" where
  "GetJob S jobID = rd_Get (ms_reader S) jobID"

definition ListJobs :: "'s MetadataService \<Rightarrow> ListFilter \<Rightarrow> ('s, goerror + job list) op" where
  "ListJobs S filt = rd_List (ms_reader S) filt"

definition GetJobLogs ::
  "'s MetadataService \<Rightarrow> string \<Rightarrow> LogFilter \<Rightarrow> ('s, goerror + JobLog list) op" where
  "GetJobLogs S jobID filt = rd_GetLogs (ms_reader S) jobID filt"

section \<open>The dispatcher's operations\<close>

definition MarkJobDispatched :: "'s MetadataService \<Rightarrow> string \<Rightarrow> ('s, goerror option) op" where
  "MarkJobDispatched S jobID s =
     (case ms_now S s of (now, s1) \<Rightarrow>
      case wr_MarkDispatchedIfPending (ms_writer S) jobID now s1 of
        (Inl err, s2) \<Rightarrow> (Some (wrap ''failed to mark job dispatched'' err), s2)
      | (Inr matched, s2) \<Rightarrow>
          if \<not> matched then (None, s2)
          else (None, log_best_effort S
                  (NewJobLogWithSource jobID LogLevelInfo ''Job dispatched to queue'' ''service'') s2))"

definition RecordDispatchAttempt ::
  "'s MetadataService \<Rightarrow> string \<Rightarrow> int \<Rightarrow> string \<Rightarrow> ('s, goerror option) op" where
  "RecordDispatchAttempt S jobID attempts lastError s =
     (case wr_RecordDispatchAttemptIfPending (ms_writer S) jobID attempts lastError s of
        (Inl err, s1) \<Rightarrow> (Some (wrap ''failed to record dispatch attempt'' err), s1)
      | (Inr matched, s1) \<Rightarrow> (None, s1))"

definition MarkJobDispatchFailed ::
  "'s MetadataService \<Rightarrow> string \<Rightarrow> goerror option \<Rightarrow> ('s, goerror option) op" where
  "MarkJobDispatchFailed S jobID dispatchErr s =
     (case wr_MarkDispatchFailedIfPending (ms_writer S) jobID (message_of dispatchErr) s of
        (Inl err, s1) \<Rightarrow> (Some (wrap ''failed to mark job dispatch failed'' err), s1)
      | (Inr matched, s1) \<Rightarrow> (None, s1))"

section \<open>The executor's operations\<close>

text \<open>When the claim did not match, the job is read again only for the diagnostic.\<close>

definition StartJob :: "'s MetadataService \<Rightarrow> string \<Rightarrow> ('s, goerror + bool) op" where
  "StartJob S jobID s =
     (case ms_now S s of (now, s1) \<Rightarrow>
      case wr_MarkRunningIfDispatched (ms_writer S) jobID now s1 of
        (Inl err, s2) \<Rightarrow> (Inl (wrap ''failed to mark job running'' err), s2)
      | (Inr matched, s2) \<Rightarrow>
          if \<not> matched then (Inr False, snd (rd_Get (ms_reader S) jobID s2))
          else (Inr True, log_best_effort S
                  (NewJobLogWithSource jobID LogLevelInfo ''Job started'' ''service'') s2))"

definition complete_metadata ::
  "'s MetadataService \<Rightarrow> string \<Rightarrow> gomap \<Rightarrow> ('s, goerror + gomap option) op" where
  "complete_metadata S jobID res s =
     (case res of
        None \<Rightarrow> (Inr None, s)
      | Some kvs \<Rightarrow>
          (case rd_Get (ms_reader S) jobID s of
             (Inl err, s1) \<Rightarrow> (Inl (wrap ''failed to get job'' err), s1)
           | (Inr model, s1) \<Rightarrow>
               (Inr (Some (jm_Metadata (SetMetadataField model ''result'' (GMap kvs)))), s1)))"

definition CompleteJob :: "'s MetadataService \<Rightarrow> string \<Rightarrow> gomap \<Rightarrow> ('s, goerror option) op" where
  "CompleteJob S jobID res s =
     (case ms_now S s of (now, s1) \<Rightarrow>
      case complete_metadata S jobID res s1 of
        (Inl err, s2) \<Rightarrow> (Some err, s2)
      | (Inr metaPtr, s2) \<Rightarrow>
          (case wr_CompleteIfRunning (ms_writer S) jobID now metaPtr s2 of
             (Inl err, s3) \<Rightarrow> (Some (wrap ''failed to complete job'' err), s3)
           | (Inr matched, s3) \<Rightarrow>
               if matched then
                 (case rd_Get (ms_reader S) jobID s3 of (got, s4) \<Rightarrow>
                    let logCtx = (case got of
                          Inr model \<Rightarrow> Some [(''duration'', GStr (go_duration (millisecond * Duration model)))]
                        | Inl getErr \<Rightarrow> None)
                    in (None, log_best_effort S
                          (NewJobLogWithContext jobID LogLevelInfo ''Job completed successfully'' logCtx) s4))
               else
                 (case rd_Get (ms_reader S) jobID s3 of
                    (Inl err, s4) \<Rightarrow> (Some (wrap ''failed to get job after complete miss'' err), s4)
                  | (Inr model, s4) \<Rightarrow>
                      if JobStatus_IsTerminal (GetStatus model) then (Some ErrJobAlreadyTerminal, s4)
                      else if jm_ExecutionStatus model = ExecutionStatusNotStarted then
                        (Some (ErrorString (''cannot complete job '' @ jobID
                                 @ '' before execution has started'')), s4)
                      else (Some (ErrorString (''unexpected job status ''
                                 @ JobStatus_String (GetStatus model) @ '' for complete'')), s4))))"

definition FailJob :: "'s MetadataService \<Rightarrow> string \<Rightarrow> goerror option \<Rightarrow> ('s, goerror option) op" where
  "FailJob S jobID jobErr s =
     (case rd_Get (ms_reader S) jobID s of
        (Inl err, s1) \<Rightarrow> (Some (wrap ''failed to get job'' err), s1)
      | (Inr j, s1) \<Rightarrow>
          (let errMsg = message_of jobErr in
           case ms_now S s1 of (stamp, s2) \<Rightarrow>
           case ms_now S s2 of (now, s3) \<Rightarrow>
             let entry = \<lparr>je_Type = JobErrorTypeExecution, je_RetryAttempt = jm_RetryCount j,
                          je_Error = errMsg, je_Timestamp = stamp\<rparr> in
             case wr_FailIfNotTerminal (ms_writer S) jobID entry now s3 of
               (Inl err, s4) \<Rightarrow> (Some (wrap ''failed to fail job'' err), s4)
             | (Inr matched, s4) \<Rightarrow>
                 if matched then
                   (None, log_best_effort S
                      (NewJobLogWithContext jobID LogLevelError ''Job failed''
                         (Some [(''error'', GStr errMsg)])) s4)
                 else
                   (case rd_Get (ms_reader S) jobID s4 of
                      (Inl err, s5) \<Rightarrow> (Some (wrap ''failed to get job after fail miss'' err), s5)
                    | (Inr refreshed, s5) \<Rightarrow>
                        if JobStatus_IsTerminal (GetStatus refreshed)
                        then (Some ErrJobAlreadyTerminal, s5)
                        else (Some (ErrorString (''unexpected job status ''
                                @ JobStatus_String (GetStatus refreshed) @ '' for fail'')), s5))))"

section \<open>The API's operations\<close>

definition cancelled_model :: "string \<Rightarrow> instant \<Rightarrow> job \<Rightarrow> job" where
  "cancelled_model reason now model =
     (let m1 = model\<lparr>jm_ExecutionStatus := ExecutionStatusCancelled,
                     jm_Status := JobStatusCancelled,
                     jm_StartedAt := default_instant (jm_StartedAt model) now,
                     jm_CompletedAt := default_instant (jm_CompletedAt model) now\<rparr>
      in if reason \<noteq> [] then SetMetadataField m1 ''cancellation_reason'' (GStr reason) else m1)"

definition cancel_patch :: "job \<Rightarrow> UpdateJob" where
  "cancel_patch model =
     empty_patch\<lparr>uj_Status := Some (jm_Status model),
                 uj_ExecutionStatus := Some (jm_ExecutionStatus model),
                 uj_StartedAt := jm_StartedAt model,
                 uj_CompletedAt := jm_CompletedAt model,
                 uj_Metadata := Some (jm_Metadata model)\<rparr>"

definition CancelJob :: "'s MetadataService \<Rightarrow> string \<Rightarrow> string \<Rightarrow> ('s, goerror option) op" where
  "CancelJob S jobID reason s =
     (case rd_Get (ms_reader S) jobID s of
        (Inl err, s1) \<Rightarrow> (Some (wrap ''failed to get job'' err), s1)
      | (Inr model, s1) \<Rightarrow>
          if ExecutionStatus_IsTerminal (jm_ExecutionStatus model) then
            (Some (ErrorString (''cannot cancel job in ''
                     @ ExecutionStatus_String (jm_ExecutionStatus model) @ '' state'')), s1)
          else
            (case ms_now S s1 of (now, s2) \<Rightarrow>
             case wr_Update (ms_writer S) jobID (cancel_patch (cancelled_model reason now model)) s2 of
               (Some err, s3) \<Rightarrow> (Some (wrap ''failed to update job'' err), s3)
             | (None, s3) \<Rightarrow>
                 (None, log_best_effort S
                    (NewJobLogWithContext jobID LogLevelWarn ''Job cancelled''
                       (Some [(''reason'', GStr reason)])) s3)))"

definition retry_patch :: UpdateJob where
  "retry_patch =
     empty_patch\<lparr>uj_Status := Some JobStatusPendingDispatch,
                 uj_DispatchStatus := Some DispatchStatusPending,
                 uj_ExecutionStatus := Some ExecutionStatusNotStarted,
                 uj_DispatchAttempts := Some 0\<rparr>"

definition RetryJob :: "'s MetadataService \<Rightarrow> string \<Rightarrow> ('s, goerror option) op" where
  "RetryJob S jobID s =
     (case rd_Get (ms_reader S) jobID s of
        (Inl err, s1) \<Rightarrow> (Some (wrap ''failed to get job'' err), s1)
      | (Inr model, s1) \<Rightarrow>
          if jm_ExecutionStatus model \<noteq> ExecutionStatusFailed then
            (Some (ErrorString ''only failed jobs can be retried''), s1)
          else
            (case wr_IncrementRetryCount (ms_writer S) jobID s1 of
               (Some err, s2) \<Rightarrow> (Some (wrap ''failed to increment retry count'' err), s2)
             | (None, s2) \<Rightarrow>
            (case wr_Update (ms_writer S) jobID retry_patch s2 of
               (Some err, s3) \<Rightarrow> (Some (wrap ''failed to update job'' err), s3)
             | (None, s3) \<Rightarrow>
            (case wr_ClearJobExecutionTimestamps (ms_writer S) jobID s3 of
               (Some err, s4) \<Rightarrow> (Some (wrap ''failed to clear job timestamps after retry'' err), s4)
             | (None, s4) \<Rightarrow>
            (case rd_Get (ms_reader S) jobID s4 of
               (Inl err, s5) \<Rightarrow> (Some (wrap ''failed to reload job after retry'' err), s5)
             | (Inr refreshed, s5) \<Rightarrow>
                 (None, log_best_effort S
                    (NewJobLogWithContext jobID LogLevelInfo ''Job retry initiated''
                       (Some [(''retryCount'', GInt (jm_RetryCount refreshed))])) s5))))))"

definition AddJobLog ::
  "'s MetadataService \<Rightarrow> string \<Rightarrow> LogLevel \<Rightarrow> string \<Rightarrow> gomap \<Rightarrow> ('s, goerror option) op" where
  "AddJobLog S jobID level message logCtx s =
     (case ms_now S s of (now, s1) \<Rightarrow>
        wr_AddLog (ms_writer S)
          ((NewJobLogWithContext jobID level message logCtx now)\<lparr>jl_Source := ''api''\<rparr>) s1)"

section \<open>Statistics\<close>

record JobStats =
  st_Total :: int
  st_PendingDispatch :: int
  st_Dispatched :: int
  st_DispatchFailed :: int
  st_Running :: int
  st_Completed :: int
  st_Failed :: int
  st_Cancelled :: int

definition zero_stats :: JobStats where
  "zero_stats = \<lparr>st_Total = 0, st_PendingDispatch = 0, st_Dispatched = 0, st_DispatchFailed = 0,
     st_Running = 0, st_Completed = 0, st_Failed = 0, st_Cancelled = 0\<rparr>"

fun set_stat :: "JobStatus \<Rightarrow> int \<Rightarrow> JobStats \<Rightarrow> JobStats" where
  "set_stat JobStatusPendingDispatch n st = st\<lparr>st_PendingDispatch := n\<rparr>"
| "set_stat JobStatusDispatched n st = st\<lparr>st_Dispatched := n\<rparr>"
| "set_stat JobStatusDispatchFailed n st = st\<lparr>st_DispatchFailed := n\<rparr>"
| "set_stat JobStatusRunning n st = st\<lparr>st_Running := n\<rparr>"
| "set_stat JobStatusCompleted n st = st\<lparr>st_Completed := n\<rparr>"
| "set_stat JobStatusFailed n st = st\<lparr>st_Failed := n\<rparr>"
| "set_stat JobStatusCancelled n st = st\<lparr>st_Cancelled := n\<rparr>"
| "set_stat (JobStatusOther x) n st = st"

definition all_statuses :: "JobStatus list" where
  "all_statuses =
     [JobStatusPendingDispatch, JobStatusDispatched, JobStatusDispatchFailed, JobStatusRunning,
      JobStatusCompleted, JobStatusFailed, JobStatusCancelled]"

text \<open>The loop; on an error the partial statistics are returned with it.\<close>

fun count_statuses ::
  "'s MetadataService \<Rightarrow> JobStatus list \<Rightarrow> JobStats \<Rightarrow> ('s, JobStats \<times> goerror option) op" where
  "count_statuses S [] stats s = ((stats, None), s)"
| "count_statuses S (status # rest) stats s =
     (case rd_CountJobs (ms_reader S) (empty_filter\<lparr>lf_Statuses := [status]\<rparr>) s of
        (Inl err, s1) \<Rightarrow>
          ((stats, Some (wrap (''failed to count '' @ JobStatus_String status @ '' jobs'') err)), s1)
      | (Inr n, s1) \<Rightarrow> count_statuses S rest (set_stat status n stats) s1)"

definition GetJobStats :: "'s MetadataService \<Rightarrow> ('s, JobStats \<times> goerror option) op" where
  "GetJobStats S s =
     (case count_statuses S all_statuses zero_stats s of
        ((stats, Some err), s1) \<Rightarrow> ((stats, Some err), s1)
      | ((stats, None), s1) \<Rightarrow>
          ((stats\<lparr>st_Total := st_PendingDispatch stats + st_Dispatched stats + st_DispatchFailed stats
                    + st_Running stats + st_Completed stats + st_Failed stats
                    + st_Cancelled stats\<rparr>, None), s1))"

section \<open>The service as the workers see it\<close>

definition service_updater :: "'s MetadataService \<Rightarrow> 's JobUpdater" where
  "service_updater S =
     \<lparr>up_MarkJobDispatched = MarkJobDispatched S, up_RecordDispatchAttempt = RecordDispatchAttempt S,
      up_MarkJobDispatchFailed = MarkJobDispatchFailed S\<rparr>"

definition service_lifecycle :: "'s MetadataService \<Rightarrow> 's JobLifecycle" where
  "service_lifecycle S =
     \<lparr>lc_StartJob = StartJob S, lc_CompleteJob = CompleteJob S, lc_FailJob = FailJob S\<rparr>"

section \<open>What the operations do to the stored jobs\<close>

locale metadata_service = jobs_store R W jobs logs clock
  for R :: "'s JobsReader" and W :: "'s JobsWriter"
    and jobs :: "'s \<Rightarrow> string \<Rightarrow> job option" and logs :: "'s \<Rightarrow> JobLog list"
    and clock :: "('s, instant) op" +
  fixes uuid :: "('s, string) op"
  assumes uuid_frame: "uuid s = (u, s') \<Longrightarrow> jobs s' = jobs s \<and> logs s' = logs s \<and> length u = 36"
begin

abbreviation S :: "'s MetadataService" where
  "S \<equiv> NewMetadataService R W clock uuid"

lemma log_frame [simp]: "jobs (log_best_effort S entry s) = jobs s"
proof -
  obtain t s1 where c: "clock s = (t, s1)" by fastforce
  obtain r s2 where a: "wr_AddLog W (entry t) s1 = (r, s2)" by fastforce
  from clock_ok [OF c] add_log_ok [OF a] show ?thesis by (simp add: log_best_effort_def c a)
qed

lemma mark_dispatched_confirmed:
  assumes "MarkJobDispatched S jobID s = (r, s')"
  shows "\<exists>t. confirmed jobs jobID is_pending (mark_dispatched_effect t) r s s'"
proof -
  obtain t s1 where c: "clock s = (t, s1)" by fastforce
  obtain b s2 where w: "wr_MarkDispatchedIfPending W jobID t s1 = (b, s2)" by fastforce
  note G = mark_dispatched_ok [OF w]
  have "confirmed jobs jobID is_pending (mark_dispatched_effect t) r s1 s'"
  proof (cases b)
    case (Inl e)
    with assms c w have "r = Some (wrap ''failed to mark job dispatched'' e)" "s' = s2"
      by (simp_all add: MarkJobDispatched_def)
    with Inl G show ?thesis by (simp add: confirmed_def guarded_def)
  next
    case (Inr x)
    with assms c w have "r = None" "jobs s' = jobs s2"
      by (auto simp: MarkJobDispatched_def split: if_splits)
    with Inr G show ?thesis by (cases x) (auto simp: confirmed_def guarded_def applied_def)
  qed
  then have "confirmed jobs jobID is_pending (mark_dispatched_effect t) r s s'"
    using clock_ok [OF c] by (auto intro: confirmed_congs)
  then show ?thesis by (rule exI)
qed

lemma record_attempt_confirmed:
  assumes "RecordDispatchAttempt S jobID n msg s = (r, s')"
  shows "confirmed jobs jobID is_pending (record_attempt_effect n msg) r s s'"
proof -
  obtain b s2 where w: "wr_RecordDispatchAttemptIfPending W jobID n msg s = (b, s2)" by fastforce
  with assms record_attempt_ok [OF w] show ?thesis
    by (cases b) (auto simp: RecordDispatchAttempt_def confirmed_def guarded_def split: bool.splits)
qed

lemma dispatch_failed_confirmed:
  assumes "MarkJobDispatchFailed S jobID err s = (r, s')"
  shows "\<exists>t. confirmed jobs jobID is_pending (dispatch_failed_effect (message_of err) t) r s s'"
proof -
  obtain b s2 where w: "wr_MarkDispatchFailedIfPending W jobID (message_of err) s = (b, s2)" by fastforce
  from dispatch_failed_ok [OF w] obtain t where
    "guarded jobs jobID is_pending (dispatch_failed_effect (message_of err) t) b s s2" by blast
  with assms w have "confirmed jobs jobID is_pending (dispatch_failed_effect (message_of err) t) r s s'"
    by (cases b) (auto simp: MarkJobDispatchFailed_def confirmed_def guarded_def split: bool.splits)
  then show ?thesis by (rule exI)
qed

lemma start_guarded:
  assumes "StartJob S jobID s = (rb, s')"
  shows "\<exists>t. t \<noteq> 0 \<and> guarded jobs jobID not_started (mark_running_effect t) rb s s'"
proof -
  obtain t s1 where c: "clock s = (t, s1)" by fastforce
  obtain b s2 where w: "wr_MarkRunningIfDispatched W jobID t s1 = (b, s2)" by fastforce
  obtain g s3 where g: "rd_Get R jobID s2 = (g, s3)" by fastforce
  note G = mark_running_ok [OF w]
  have "guarded jobs jobID not_started (mark_running_effect t) rb s1 s'"
  proof (cases b)
    case (Inl e)
    with assms c w have "rb = Inl (wrap ''failed to mark job running'' e)" "s' = s2"
      by (simp_all add: StartJob_def)
    with Inl G show ?thesis by (simp add: guarded_def)
  next
    case (Inr x)
    with assms c w g get_frame [OF g] have "rb = b" "jobs s' = jobs s2"
      by (auto simp: StartJob_def split: if_splits)
    with G show ?thesis by (auto intro: guarded_congs)
  qed
  then have "guarded jobs jobID not_started (mark_running_effect t) rb s s'"
    using clock_ok [OF c] by (auto intro: guarded_congs)
  with clock_ok [OF c] show ?thesis by blast
qed

lemma get_not_terminal: "rd_Get R jobID s = (Inl e, s') \<Longrightarrow> \<not> errors_is e ErrJobAlreadyTerminal"
  using get_error [of jobID s e s'] foreign_errorD(1) [of e] by auto

lemma complete_metadata_frame:
  "complete_metadata S jobID res s = (m, s') \<Longrightarrow> jobs s' = jobs s"
  by (auto simp: complete_metadata_def dest: get_frame split: option.splits prod.splits sum.splits)

lemma complete_metadata_value:
  "complete_metadata S jobID res s = (Inr m, s') \<Longrightarrow>
   (case res of None \<Rightarrow> m = None
    | Some kvs \<Rightarrow> \<exists>j. jobs s jobID = Some j \<and> m = Some (jm_Metadata (SetMetadataField j ''result'' (GMap kvs))))"
  by (auto simp: complete_metadata_def dest: get_found split: option.splits prod.splits sum.splits)

lemma complete_metadata_error:
  "complete_metadata S jobID res s = (Inl e, s') \<Longrightarrow> \<not> errors_is e ErrJobAlreadyTerminal"
  by (auto simp: complete_metadata_def dest: get_not_terminal split: option.splits prod.splits sum.splits)

text \<open>Every way through \<open>CompleteJob\<close>.\<close>

lemma complete_outcome:
  assumes "CompleteJob S jobID res s = (r, s')"
  shows "\<exists>t meta. t \<noteq> 0 \<and> (case res of None \<Rightarrow> meta = None
            | Some kvs \<Rightarrow> \<forall>j. jobs s jobID = Some j \<longrightarrow>
                meta = Some (jm_Metadata (SetMetadataField j ''result'' (GMap kvs))))
          \<and> settled jobs jobID is_running (complete_effect t meta) r s s'
          \<and> reports_terminal jobs jobID r s s'"
proof -
  obtain t s1 where c: "clock s = (t, s1)" by fastforce
  obtain m s2 where m: "complete_metadata S jobID res s1 = (m, s2)" by fastforce
  have j12: "jobs s1 = jobs s" "t \<noteq> 0" "jobs s2 = jobs s"
    using clock_ok [OF c] complete_metadata_frame [OF m] by auto
  show ?thesis
  proof (cases m)
    case (Inl e)
    with assms c m have r: "r = Some e" "s' = s2" by (simp_all add: CompleteJob_def)
    define meta where "meta = (case res of None \<Rightarrow> None
        | Some kvs \<Rightarrow> map_option (\<lambda>j. jm_Metadata (SetMetadataField j ''result'' (GMap kvs))) (jobs s jobID))"
    have "settled jobs jobID is_running (complete_effect t meta) r s s'"
      "reports_terminal jobs jobID r s s'"
      using r j12 complete_metadata_error [OF m [unfolded Inl]]
      by (simp_all add: settled_def reports_terminal_def)
    moreover have "case res of None \<Rightarrow> meta = None | Some kvs \<Rightarrow> \<forall>j. jobs s jobID = Some j \<longrightarrow>
        meta = Some (jm_Metadata (SetMetadataField j ''result'' (GMap kvs)))"
      by (simp add: meta_def split: option.splits)
    ultimately show ?thesis using j12 by blast
  next
    case (Inr meta)
    obtain b s3 where w: "wr_CompleteIfRunning W jobID t meta s2 = (b, s3)" by fastforce
    obtain g s4 where g: "rd_Get R jobID s3 = (g, s4)" by fastforce
    have G: "guarded jobs jobID is_running (complete_effect t meta) b s s3"
      using complete_ok [OF w] j12 by (auto intro: guarded_congs)
    note gf = get_frame [OF g]
    have "settled jobs jobID is_running (complete_effect t meta) r s s'
        \<and> reports_terminal jobs jobID r s s'"
    proof (cases b)
      case (Inl e)
      with assms c m Inr w have "r = Some (wrap ''failed to complete job'' e)" "s' = s3"
        by (simp_all add: CompleteJob_def)
      with Inl G show ?thesis
        by (auto simp: settled_def reports_terminal_def guarded_def dest: foreign_errorD)
    next
      case b: (Inr x)
      show ?thesis
      proof (cases x)
        case True
        with assms c m Inr w b g gf have "r = None" "jobs s' = jobs s3"
          by (auto simp: CompleteJob_def Let_def)
        with G b True show ?thesis
          by (simp add: settled_def reports_terminal_def guarded_def applied_def)
      next
        case False
        with G b have same: "jobs s3 = jobs s" by (simp add: guarded_def)
        have "\<exists>e. r = Some e \<and> jobs s' = jobs s \<and> (errors_is e ErrJobAlreadyTerminal \<longrightarrow>
            (\<exists>j. jobs s jobID = Some j \<and> JobStatus_IsTerminal (DisplayStatus j)))"
        proof (cases g)
          case (Inl e)
          with assms c m \<open>m = Inr meta\<close> w b False g
          have "r = Some (wrap ''failed to get job after complete miss'' e)" "s' = s4"
            by (simp_all add: CompleteJob_def)
          with gf get_not_terminal [OF g [unfolded Inl]] same show ?thesis by simp
        next
          case (Inr j)
          with get_found [OF g [unfolded Inr]] same have "jobs s jobID = Some j" by simp
          with assms c m \<open>m = Inr meta\<close> w b False g gf Inr same show ?thesis
            by (auto simp: CompleteJob_def GetStatus_def split: if_splits)
        qed
        then show ?thesis by (auto simp: settled_def reports_terminal_def)
      qed
    qed
    with complete_metadata_value [OF m [unfolded Inr]] j12 show ?thesis
      by (intro exI [of _ t] exI [of _ meta]) (auto split: option.splits)
  qed
qed

text \<open>Every way through \<open>FailJob\<close>.\<close>

lemma fail_outcome:
  assumes "FailJob S jobID err s = (r, s')" and "\<not> is_field_path (message_of err)"
  shows "\<exists>t entry. t \<noteq> 0 \<and> je_Type entry = JobErrorTypeExecution \<and> je_Error entry = message_of err
          \<and> (\<forall>j. jobs s jobID = Some j \<longrightarrow> je_RetryAttempt entry = jm_RetryCount j)
          \<and> settled jobs jobID failable (fail_effect entry t) r s s'
          \<and> reports_terminal jobs jobID r s s'"
proof -
  obtain g s1 where g: "rd_Get R jobID s = (g, s1)" by fastforce
  obtain stamp s2 where c2: "clock s1 = (stamp, s2)" by fastforce
  obtain t s3 where c3: "clock s2 = (t, s3)" by fastforce
  have frames: "jobs s1 = jobs s" "jobs s2 = jobs s" "jobs s3 = jobs s" "t \<noteq> 0"
    using get_frame [OF g] clock_ok [OF c2] clock_ok [OF c3] by auto
  define retry where "retry = (case g of Inl e \<Rightarrow> (case jobs s jobID of None \<Rightarrow> 0 | Some j \<Rightarrow> jm_RetryCount j)
      | Inr j \<Rightarrow> jm_RetryCount j)"
  define entry where "entry = \<lparr>je_Type = JobErrorTypeExecution, je_RetryAttempt = retry,
      je_Error = message_of err, je_Timestamp = stamp\<rparr>"
  have retry: "\<forall>j. jobs s jobID = Some j \<longrightarrow> retry = jm_RetryCount j"
    using get_found g by (auto simp: retry_def split: sum.splits)
  have "settled jobs jobID failable (fail_effect entry t) r s s' \<and> reports_terminal jobs jobID r s s'"
  proof (cases g)
    case (Inl e)
    with assms g have "r = Some (wrap ''failed to get job'' e)" "s' = s1" by (simp_all add: FailJob_def)
    with frames get_not_terminal [OF g [unfolded Inl]] show ?thesis
      by (simp add: settled_def reports_terminal_def)
  next
    case (Inr j)
    then have entry: "\<lparr>je_Type = JobErrorTypeExecution, je_RetryAttempt = jm_RetryCount j,
      je_Error = message_of err, je_Timestamp = stamp\<rparr> = entry" by (simp add: entry_def retry_def)
    obtain b s4 where w: "wr_FailIfNotTerminal W jobID entry t s3 = (b, s4)" by fastforce
    obtain g5 s5 where g5: "rd_Get R jobID s4 = (g5, s5)" by fastforce
    have "\<not> is_field_path (je_Error entry)" using assms(2) by (simp add: entry_def)
    from fail_ok [OF w this] frames
    have G: "guarded jobs jobID failable (fail_effect entry t) b s s4" by (auto intro: guarded_congs)
    note gf = get_frame [OF g5]
    note run = assms(1) [unfolded FailJob_def g Inr c2 c3 Let_def NewMetadataService_simps
        prod.case sum.case entry w]
    show ?thesis
    proof (cases b)
      case (Inl e)
      with run have "r = Some (wrap ''failed to fail job'' e)" "s' = s4" by simp_all
      with Inl G show ?thesis
        by (auto simp: settled_def reports_terminal_def guarded_def dest: foreign_errorD)
    next
      case b: (Inr x)
      show ?thesis
      proof (cases x)
        case True
        with run b have "r = None" "jobs s' = jobs s4" by auto
        with G b True show ?thesis
          by (simp add: settled_def reports_terminal_def guarded_def applied_def)
      next
        case False
        with G b have same: "jobs s4 = jobs s" by (simp add: guarded_def)
        have "\<exists>e. r = Some e \<and> jobs s' = jobs s \<and> (errors_is e ErrJobAlreadyTerminal \<longrightarrow>
            (\<exists>j. jobs s jobID = Some j \<and> JobStatus_IsTerminal (DisplayStatus j)))"
        proof (cases g5)
          case (Inl e)
          with run b False g5 have "r = Some (wrap ''failed to get job after fail miss'' e)" "s' = s5"
            by simp_all
          with gf get_not_terminal [OF g5 [unfolded Inl]] same show ?thesis by simp
        next
          case (Inr j')
          with get_found [OF g5 [unfolded Inr]] same have "jobs s jobID = Some j'" by simp
          with run b False g5 gf Inr same show ?thesis
            by (auto simp: GetStatus_def split: if_splits)
        qed
        then show ?thesis by (auto simp: settled_def reports_terminal_def)
      qed
    qed
  qed
  with retry frames show ?thesis
    by (intro exI [of _ t] exI [of _ entry]) (simp add: entry_def)
qed

end

section \<open>The effects keep a job valid\<close>

text \<open>
  What every stored job satisfies: the rules of \<open>Validate\<close>, and a topic, which creation
  demands and nothing removes.
\<close>

definition storable :: "job \<Rightarrow> bool" where
  "storable j \<longleftrightarrow> well_formed j \<and> jm_Topic j \<noteq> []"

lemma storable_effects:
  "storable j \<Longrightarrow> storable (mark_dispatched_effect t j)"
  "storable j \<Longrightarrow> 0 \<le> n \<Longrightarrow> storable (record_attempt_effect n msg j)"
  "storable j \<Longrightarrow> storable (dispatch_failed_effect msg t j)"
  "storable j \<Longrightarrow> not_started j \<Longrightarrow> storable (mark_running_effect t j)"
  "storable j \<Longrightarrow> is_running j \<Longrightarrow> storable (complete_effect t meta j)"
  "storable j \<Longrightarrow> storable (fail_effect entry t j)"
  "storable j \<Longrightarrow> storable (IncrementRetryCount j)"
  by (simp_all add: storable_def effect_defs IncrementRetryCount_def well_formed_defs
      split: ExecutionStatus.splits)

lemma SetMetadataField_frame [simp]:
  "jm_JobID (SetMetadataField j k v) = jm_JobID j"
  "jm_Name (SetMetadataField j k v) = jm_Name j"
  "jm_Status (SetMetadataField j k v) = jm_Status j"
  "jm_DispatchStatus (SetMetadataField j k v) = jm_DispatchStatus j"
  "jm_ExecutionStatus (SetMetadataField j k v) = jm_ExecutionStatus j"
  "jm_Priority (SetMetadataField j k v) = jm_Priority j"
  "jm_CreatedAt (SetMetadataField j k v) = jm_CreatedAt j"
  "jm_StartedAt (SetMetadataField j k v) = jm_StartedAt j"
  "jm_CompletedAt (SetMetadataField j k v) = jm_CompletedAt j"
  "jm_Errors (SetMetadataField j k v) = jm_Errors j"
  "jm_RetryCount (SetMetadataField j k v) = jm_RetryCount j"
  "jm_Topic (SetMetadataField j k v) = jm_Topic j"
  "jm_DispatchAttempts (SetMetadataField j k v) = jm_DispatchAttempts j"
  by (simp_all add: SetMetadataField_def Let_def)

lemma cancelled_model_frame [simp]:
  "jm_JobID (cancelled_model reason t j) = jm_JobID j"
  "jm_Name (cancelled_model reason t j) = jm_Name j"
  "jm_Status (cancelled_model reason t j) = JobStatusCancelled"
  "jm_DispatchStatus (cancelled_model reason t j) = jm_DispatchStatus j"
  "jm_ExecutionStatus (cancelled_model reason t j) = ExecutionStatusCancelled"
  "jm_Priority (cancelled_model reason t j) = jm_Priority j"
  "jm_CreatedAt (cancelled_model reason t j) = jm_CreatedAt j"
  "jm_StartedAt (cancelled_model reason t j) = default_instant (jm_StartedAt j) t"
  "jm_CompletedAt (cancelled_model reason t j) = default_instant (jm_CompletedAt j) t"
  "jm_Errors (cancelled_model reason t j) = jm_Errors j"
  "jm_RetryCount (cancelled_model reason t j) = jm_RetryCount j"
  "jm_Topic (cancelled_model reason t j) = jm_Topic j"
  "jm_DispatchAttempts (cancelled_model reason t j) = jm_DispatchAttempts j"
  by (simp_all add: cancelled_model_def Let_def)

lemma storable_cancelled: "storable j \<Longrightarrow> storable (cancelled_model reason t j)"
  by (simp add: storable_def well_formed_defs)

text \<open>The patch of a cancellation carries the changed fields over to the same document.\<close>

lemma cancel_patch_effect:
  "patch_effect (cancel_patch (cancelled_model reason t j)) j = cancelled_model reason t j"
  by (cases "jm_StartedAt j"; cases "jm_CompletedAt j")
     (simp_all add: patch_effect_def cancel_patch_def empty_patch_def,
      simp_all add: cancelled_model_def SetMetadataField_def Let_def)

lemma cancel_patch_not_empty: "cancel_patch m \<noteq> empty_patch"
  by (simp add: cancel_patch_def empty_patch_def)

definition reset_effect :: "job \<Rightarrow> job" where
  "reset_effect = patch_effect retry_patch"

definition retried :: "job \<Rightarrow> job" where
  "retried j = clear_timestamps_effect (reset_effect (IncrementRetryCount j))"

lemma reset_effect_eq:
  "reset_effect j = j\<lparr>jm_Status := JobStatusPendingDispatch,
     jm_DispatchStatus := DispatchStatusPending, jm_ExecutionStatus := ExecutionStatusNotStarted,
     jm_DispatchAttempts := 0\<rparr>"
  by (simp add: reset_effect_def patch_effect_def retry_patch_def empty_patch_def)

lemma retried_eq:
  "retried j = j\<lparr>jm_RetryCount := jm_RetryCount j + 1, jm_Status := JobStatusPendingDispatch,
     jm_DispatchStatus := DispatchStatusPending, jm_ExecutionStatus := ExecutionStatusNotStarted,
     jm_DispatchAttempts := 0, jm_StartedAt := None, jm_CompletedAt := None\<rparr>"
  by (simp add: retried_def reset_effect_eq clear_timestamps_effect_def IncrementRetryCount_def)

lemma retry_patch_not_empty: "retry_patch \<noteq> empty_patch"
  by (simp add: retry_patch_def empty_patch_def)

lemma storable_retried: "storable j \<Longrightarrow> storable (retried j)"
  by (simp add: storable_def retried_eq well_formed_defs)

lemma reset_breaks_wellformedness:
  "well_formed j \<Longrightarrow> jm_ExecutionStatus j = ExecutionStatusFailed \<Longrightarrow> \<not> well_formed (reset_effect j)"
  by (simp add: reset_effect_eq well_formed_defs)

lemma with_options_frame [simp]:
  "jm_JobID (with_options j opts) = jm_JobID j" "jm_Name (with_options j opts) = jm_Name j"
  "jm_Status (with_options j opts) = jm_Status j"
  "jm_DispatchStatus (with_options j opts) = jm_DispatchStatus j"
  "jm_ExecutionStatus (with_options j opts) = jm_ExecutionStatus j"
  "jm_CreatedAt (with_options j opts) = jm_CreatedAt j"
  "jm_StartedAt (with_options j opts) = jm_StartedAt j"
  "jm_CompletedAt (with_options j opts) = jm_CompletedAt j"
  "jm_Payload (with_options j opts) = jm_Payload j"
  "jm_RetryCount (with_options j opts) = jm_RetryCount j"
  "jm_Errors (with_options j opts) = jm_Errors j"
  "jm_DispatchAttempts (with_options j opts) = jm_DispatchAttempts j"
  by (simp_all add: with_options_def)

context metadata_service
begin

lemma create_outcome:
  assumes "CreateJob S name payload opts s = (Inr j, s')"
  shows "Validate j = None \<and> DisplayStatus j = JobStatusPendingDispatch \<and> jm_Name j = name
       \<and> is_pending j \<and> one_inserted jobs j s s'"
proof -
  obtain u s1 where u: "uuid s = (u, s1)" by fastforce
  obtain t s2 where c: "clock s1 = (t, s2)" by fastforce
  let ?j = "with_options (NewJobMetadata u name payload t) opts"
  obtain r s3 where w: "wr_Create W ?j s2 = (r, s3)" by fastforce
  from assms u c w have v: "Validate ?j = None" and j: "j = ?j" and "r = None" and s': "jobs s' = jobs s3"
    by (auto simp: CreateJob_def Let_def split: option.splits)
  with create_ok [of ?j s2 s3] w have "one_inserted jobs j s2 s3" by simp
  with uuid_frame [OF u] clock_ok [OF c] s' have "one_inserted jobs j s s'"
    by (simp add: one_inserted_def)
  moreover have "DisplayStatus j = JobStatusPendingDispatch" "jm_Name j = name" "is_pending j"
    by (simp_all add: j DisplayStatus_simps NewJobMetadata_def)
  ultimately show ?thesis using v j by simp
qed

lemma create_error:
  assumes "CreateJob S name payload opts s = (Inl e, s')"
  shows "jobs s' = jobs s \<or> (\<exists>j. Validate j = None \<and> is_pending j \<and> one_inserted jobs j s s')"
proof -
  obtain u s1 where u: "uuid s = (u, s1)" by fastforce
  obtain t s2 where c: "clock s1 = (t, s2)" by fastforce
  let ?j = "with_options (NewJobMetadata u name payload t) opts"
  obtain r s3 where w: "wr_Create W ?j s2 = (r, s3)" by fastforce
  have same: "jobs s2 = jobs s" using uuid_frame [OF u] clock_ok [OF c] by simp
  show ?thesis
  proof (cases "Validate ?j")
    case (Some v)
    with assms u c same show ?thesis by (auto simp: CreateJob_def Let_def)
  next
    case None
    with assms u c w obtain err where "r = Some err" "s' = s3"
      by (auto simp: CreateJob_def Let_def split: option.splits)
    with create_error [of ?j s2 err s3] w
    have "jobs s' = jobs s2 \<or> one_inserted jobs ?j s2 s'" by simp
    then have "jobs s' = jobs s \<or> one_inserted jobs ?j s s'"
      unfolding one_inserted_def same .
    moreover have "is_pending ?j" by (simp add: NewJobMetadata_def)
    ultimately show ?thesis using None by blast
  qed
qed

lemma direct_settled:
  "direct jobs jobID f r s s' \<Longrightarrow> (\<And>j. jobs s jobID = Some j \<Longrightarrow> P j \<and> f j = g j) \<Longrightarrow>
   settled jobs jobID P g r s s'"
  by (auto simp: direct_def settled_def applied_def split: option.splits)

lemma cancel_outcome:
  assumes "CancelJob S jobID reason s = (r, s')"
  shows "\<exists>t. t \<noteq> 0 \<and> settled jobs jobID (\<lambda>j. \<not> ExecutionStatus_IsTerminal (jm_ExecutionStatus j))
            (cancelled_model reason t) r s s'"
proof -
  obtain g s1 where g: "rd_Get R jobID s = (g, s1)" by fastforce
  obtain t s2 where c: "clock s1 = (t, s2)" by fastforce
  have frames: "jobs s1 = jobs s" "jobs s2 = jobs s" "t \<noteq> 0"
    using get_frame [OF g] clock_ok [OF c] by auto
  let ?P = "\<lambda>j. \<not> ExecutionStatus_IsTerminal (jm_ExecutionStatus j)"
  have "settled jobs jobID ?P (cancelled_model reason t) r s s'"
  proof (cases g)
    case (Inl e)
    with assms g frames show ?thesis by (auto simp: CancelJob_def settled_def)
  next
    case (Inr j)
    with get_found [OF g [unfolded Inr]] have j: "jobs s jobID = Some j" by simp
    obtain x s3 where w: "wr_Update W jobID (cancel_patch (cancelled_model reason t j)) s2 = (x, s3)"
      by fastforce
    show ?thesis
    proof (cases "?P j")
      case False
      with assms g Inr frames show ?thesis by (auto simp: CancelJob_def settled_def)
    next
      case True
      have "settled jobs jobID ?P (cancelled_model reason t) x s2 s3"
        using update_ok [OF w cancel_patch_not_empty] frames j True
        by (intro direct_settled [of jobID "patch_effect (cancel_patch (cancelled_model reason t j))"])
           (simp_all add: cancel_patch_effect)
      then have "settled jobs jobID ?P (cancelled_model reason t) x s s3"
        by (rule settled_congs) (simp add: frames)
      then show ?thesis
        using assms g Inr c w True by (cases x) (auto simp: CancelJob_def settled_def applied_def)
    qed
  qed
  with frames show ?thesis by blast
qed

text \<open>
  The three writes of a retry, one after the other: where it stops tells which of them
  took effect.
\<close>

lemma retry_ok:
  assumes "RetryJob S jobID s = (None, s')"
  shows "\<exists>j. jobs s jobID = Some j \<and> jm_ExecutionStatus j = ExecutionStatusFailed
           \<and> jobs s' = (jobs s)(jobID \<mapsto> retried j)"
proof -
  obtain g s1 where g: "rd_Get R jobID s = (g, s1)" by fastforce
  obtain a s2 where a: "wr_IncrementRetryCount W jobID s1 = (a, s2)" by fastforce
  obtain b s3 where b: "wr_Update W jobID retry_patch s2 = (b, s3)" by fastforce
  obtain c s4 where c: "wr_ClearJobExecutionTimestamps W jobID s3 = (c, s4)" by fastforce
  obtain h s5 where h: "rd_Get R jobID s4 = (h, s5)" by fastforce
  from assms g a b c h obtain j where j: "g = Inr j" "jm_ExecutionStatus j = ExecutionStatusFailed"
    and oks: "a = None" "b = None" "c = None" and s': "jobs s' = jobs s5"
    by (auto simp: RetryJob_def split: sum.splits if_splits option.splits)
  have j0: "jobs s1 = jobs s" "jobs s jobID = Some j"
    using get_frame [OF g] get_found g j by auto
  have "jobs s2 = (jobs s)(jobID \<mapsto> IncrementRetryCount j)"
    using increment_ok [OF a] oks j0 by (auto simp: direct_def applied_def)
  then have "jobs s3 = (jobs s)(jobID \<mapsto> reset_effect (IncrementRetryCount j))"
    using update_ok [OF b retry_patch_not_empty] oks by (auto simp: direct_def applied_def reset_effect_def)
  then have "jobs s4 = (jobs s)(jobID \<mapsto> retried j)"
    using clear_ok [OF c] oks by (auto simp: direct_def applied_def retried_def)
  with s' get_frame [OF h] j j0 show ?thesis by auto
qed

end

subsection \<open>The invariant of the store\<close>

definition all_storable :: "('s \<Rightarrow> string \<Rightarrow> job option) \<Rightarrow> 's \<Rightarrow> bool" where
  "all_storable jobs s \<longleftrightarrow> (\<forall>k j. jobs s k = Some j \<longrightarrow> storable j)"

lemma all_storable_cong: "jobs s' = jobs s \<Longrightarrow> all_storable jobs s' = all_storable jobs s"
  by (simp add: all_storable_def)

lemma all_storable_upd:
  "all_storable jobs s \<Longrightarrow> jobs s' = (jobs s)(k \<mapsto> j) \<Longrightarrow> storable j \<Longrightarrow> all_storable jobs s'"
  by (simp add: all_storable_def)

lemma all_storable_step:
  assumes "all_storable jobs s" "\<And>j. storable j \<Longrightarrow> P j \<Longrightarrow> storable (f j)"
    "jobs s k = Some j" "P j" "jobs s' = (jobs s)(k \<mapsto> f j)"
  shows "all_storable jobs s'"
proof (rule all_storable_upd [OF assms(1,5)])
  from assms(1,3) have "storable j" by (simp add: all_storable_def)
  then show "storable (f j)" using assms(2,4) by blast
qed

lemma all_storable_guarded:
  assumes "all_storable jobs s" "guarded jobs k P f r s s'"
    "\<And>j. storable j \<Longrightarrow> P j \<Longrightarrow> storable (f j)"
  shows "all_storable jobs s'"
  using assms(2)
proof (cases rule: guardedE)
  case (applied j)
  from all_storable_step [of jobs s P f k j s', OF assms(1,3) applied(1-3)] show ?thesis .
next
  case refused
  with assms(1) show ?thesis by (simp add: all_storable_def)
qed

lemma all_storable_confirmed:
  assumes "all_storable jobs s" "confirmed jobs k P f r s s'"
    "\<And>j. storable j \<Longrightarrow> P j \<Longrightarrow> storable (f j)"
  shows "all_storable jobs s'"
  using assms(2)
proof (cases rule: confirmedE)
  case (applied j)
  from all_storable_step [of jobs s P f k j s', OF assms(1,3) applied(1-3)] show ?thesis .
next
  case unchanged
  with assms(1) show ?thesis by (simp add: all_storable_def)
qed

lemma all_storable_settled:
  assumes "all_storable jobs s" "settled jobs k P f r s s'"
    "\<And>j. storable j \<Longrightarrow> P j \<Longrightarrow> storable (f j)"
  shows "all_storable jobs s'"
  using assms(2)
proof (cases rule: settledE)
  case (applied j)
  from all_storable_step [of jobs s P f k j s', OF assms(1,3) applied(1-3)] show ?thesis .
next
  case (unchanged e)
  with assms(1) show ?thesis by (simp add: all_storable_def)
qed

lemma all_storable_inserted:
  assumes "all_storable jobs s" "one_inserted jobs j s s'" "Validate j = None"
    "jm_DispatchStatus j = DispatchStatusPending"
  shows "all_storable jobs s'"
proof -
  from assms(2) obtain oid where ins: "jobs s' = (jobs s)(jm_JobID j \<mapsto> j\<lparr>jm_ID := oid\<rparr>)"
    by (auto simp: one_inserted_def)
  have "well_formed j" using assms(3) by (simp add: Validate_None_iff)
  with assms(4) have "storable (j\<lparr>jm_ID := oid\<rparr>)" by (simp add: storable_def well_formed_defs split: ExecutionStatus.splits)
  with assms(1) ins show ?thesis by (rule all_storable_upd)
qed

section \<open>Statistics\<close>

definition in_phase :: "JobStatus \<Rightarrow> job \<Rightarrow> bool" where
  "in_phase st j \<longleftrightarrow> JobStatus_IsValid st \<and> sub_states j = statusToSubFields st"

lemma filter_accepts_one_status:
  "filter_accepts (empty_filter\<lparr>lf_Statuses := [st]\<rparr>) j \<longleftrightarrow> in_phase st j"
  by (simp add: filter_accepts_def empty_filter_def within_def strictly_within_def in_phase_def)

lemma in_phase_display: "in_phase st j \<Longrightarrow> DisplayStatus j = st"
  by (simp add: in_phase_def sub_states_display statusToSubFields_display)

context metadata_service
begin

abbreviation phase_count :: "'s \<Rightarrow> JobStatus \<Rightarrow> int" where
  "phase_count s st \<equiv> int (card {j \<in> ran (jobs s). in_phase st j})"

lemma count_statuses_ok:
  "count_statuses S sts stats s = ((st, None), s') \<Longrightarrow>
   st = foldl (\<lambda>acc x. set_stat x (phase_count s x) acc) stats sts \<and> jobs s' = jobs s"
proof (induction sts arbitrary: stats s)
  case Nil
  then show ?case by simp
next
  case (Cons x sts)
  obtain r s1 where c: "rd_CountJobs R (empty_filter\<lparr>lf_Statuses := [x]\<rparr>) s = (r, s1)" by fastforce
  with Cons.prems obtain n where n: "r = Inr n" by (cases r) auto
  from c n Cons.prems have "count_statuses S sts (set_stat x n stats) s1 = ((st, None), s')" by simp
  note IH = Cons.IH [OF this]
  have "jobs s1 = jobs s" using count_frame [OF c] by simp
  moreover from this have "phase_count s1 = phase_count s" by (intro ext) simp
  moreover have "n = phase_count s x"
    using count_exact [OF c [unfolded n]] unfolding filter_accepts_one_status .
  ultimately show ?case using IH by simp
qed

lemma stats_exact:
  assumes "GetJobStats S s = ((st, None), s')"
  shows "st_PendingDispatch st = phase_count s JobStatusPendingDispatch
       \<and> st_Dispatched st = phase_count s JobStatusDispatched
       \<and> st_DispatchFailed st = phase_count s JobStatusDispatchFailed
       \<and> st_Running st = phase_count s JobStatusRunning
       \<and> st_Completed st = phase_count s JobStatusCompleted
       \<and> st_Failed st = phase_count s JobStatusFailed
       \<and> st_Cancelled st = phase_count s JobStatusCancelled
       \<and> st_Total st = (\<Sum>x\<in>set all_statuses. phase_count s x)"
proof -
  obtain st0 where c: "count_statuses S all_statuses zero_stats s = ((st0, None), s')"
    and st: "st = st0\<lparr>st_Total := st_PendingDispatch st0 + st_Dispatched st0 + st_DispatchFailed st0
       + st_Running st0 + st_Completed st0 + st_Failed st0 + st_Cancelled st0\<rparr>"
    using assms by (auto simp: GetJobStats_def split: prod.splits option.splits)
  from count_statuses_ok [OF c] st show ?thesis
    by (simp add: all_statuses_def)
qed

lemma total_counts_consistent:
  assumes "GetJobStats S s = ((st, None), s')" and "finite (ran (jobs s))"
  shows "st_Total st = int (card {j \<in> ran (jobs s). in_phase (DisplayStatus j) j})"
proof -
  let ?A = "\<lambda>x. {j \<in> ran (jobs s). in_phase x j}"
  have "(\<Sum>x\<in>set all_statuses. card (?A x)) = card (\<Union>x\<in>set all_statuses. ?A x)"
    by (subst card_UN_disjoint) (auto simp: assms(2) dest: in_phase_display)
  also have "(\<Union>x\<in>set all_statuses. ?A x) = {j \<in> ran (jobs s). in_phase (DisplayStatus j) j}"
  proof -
    have "in_phase x j \<Longrightarrow> x = DisplayStatus j" for x j using in_phase_display by simp
    moreover have "DisplayStatus j \<in> set all_statuses" for j
      using DisplayStatus_valid [of j] by (cases "DisplayStatus j") (simp_all add: all_statuses_def)
    ultimately show ?thesis by auto
  qed
  finally show ?thesis
    using stats_exact [OF assms(1)] by (simp flip: of_nat_sum)
qed

end

section \<open>The service provides what the workers rely on\<close>

sublocale metadata_service \<subseteq> updater: job_updater "service_updater (NewMetadataService R W clock uuid)" jobs
  by unfold_locales
     (simp_all add: service_updater_def mark_dispatched_confirmed record_attempt_confirmed
        dispatch_failed_confirmed)

sublocale metadata_service \<subseteq> lifecycle: job_lifecycle "service_lifecycle (NewMetadataService R W clock uuid)" jobs
proof
  fix jobID s rb s' assume "lc_StartJob (service_lifecycle S) jobID s = (rb, s')"
  then show "\<exists>t. t \<noteq> 0 \<and> guarded jobs jobID not_started (mark_running_effect t) rb s s'"
    by (intro start_guarded) (simp add: service_lifecycle_def)
next
  fix jobID s r s' assume "lc_CompleteJob (service_lifecycle S) jobID None s = (r, s')"
  then have "CompleteJob S jobID None s = (r, s')" by (simp add: service_lifecycle_def)
  from complete_outcome [OF this]
  show "\<exists>t. t \<noteq> 0 \<and> settled jobs jobID is_running (complete_effect t None) r s s'" by auto
next
  fix jobID res s r s' assume "lc_CompleteJob (service_lifecycle S) jobID res s = (r, s')"
  then have "CompleteJob S jobID res s = (r, s')" by (simp add: service_lifecycle_def)
  from complete_outcome [OF this] show "reports_terminal jobs jobID r s s'" by blast
next
  fix jobID err s r s'
  assume "lc_FailJob (service_lifecycle S) jobID err s = (r, s')" and "\<not> is_field_path (message_of err)"
  then have "FailJob S jobID err s = (r, s')" "\<not> is_field_path (message_of err)"
    by (simp_all add: service_lifecycle_def)
  from fail_outcome [OF this]
  show "\<exists>t entry. t \<noteq> 0 \<and> je_Type entry = JobErrorTypeExecution \<and> je_Error entry = message_of err
      \<and> settled jobs jobID failable (fail_effect entry t) r s s'" by blast
next
  fix jobID err s r s'
  assume "lc_FailJob (service_lifecycle S) jobID err s = (r, s')" and "\<not> is_field_path (message_of err)"
  then have "FailJob S jobID err s = (r, s')" "\<not> is_field_path (message_of err)"
    by (simp_all add: service_lifecycle_def)
  from fail_outcome [OF this] show "reports_terminal jobs jobID r s s'" by blast
qed

sublocale mongo_backend \<subseteq> service: metadata_service
  "MongoJobsReader B" "MongoJobsWriter B" jobs logs "be_now B" "be_uuid B"
  by unfold_locales (rule uuid_ok)

text \<open>The service over the driver: what the binaries assemble.\<close>

definition mongo_service :: "'s backend \<Rightarrow> 's MetadataService" where
  "mongo_service B = NewMetadataService (MongoJobsReader B) (MongoJobsWriter B) (be_now B) (be_uuid B)"

context mongo_backend
begin

lemmas service_create = service.create_outcome [folded mongo_service_def]
lemmas service_create_error = service.create_error [folded mongo_service_def]
lemmas service_dispatched = service.mark_dispatched_confirmed [folded mongo_service_def]
lemmas service_attempt = service.record_attempt_confirmed [folded mongo_service_def]
lemmas service_dispatch_failed = service.dispatch_failed_confirmed [folded mongo_service_def]
lemmas service_start = service.start_guarded [folded mongo_service_def]
lemmas service_complete = service.complete_outcome [folded mongo_service_def]
lemmas service_fail = service.fail_outcome [folded mongo_service_def]
lemmas service_cancel = service.cancel_outcome [folded mongo_service_def]
lemmas service_retry = service.retry_ok [folded mongo_service_def]
lemmas service_stats = service.stats_exact [folded mongo_service_def]
lemmas service_total = service.total_counts_consistent [folded mongo_service_def]

lemma finite_jobs: "finite (ran (jobs s))"
  by (rule finite_ran) (rule jobs_finite)

end

subsection \<open>Steps of the service, one handler at a time\<close>

text \<open>
  The handlers that change jobs, each run to its end. A retry is a step when it succeeded;
  a failure message that the pipeline of \<open>FailIfNotTerminal\<close> would read as a field path is
  left out, since the database's documentation does not say what it stores then.
\<close>

inductive service_step :: "'s MetadataService \<Rightarrow> 's \<Rightarrow> 's \<Rightarrow> bool" for S where
  create: "CreateJob S name payload opts s = (rj, s') \<Longrightarrow> service_step S s s'"
| dispatched: "MarkJobDispatched S jobID s = (r, s') \<Longrightarrow> service_step S s s'"
| attempt: "RecordDispatchAttempt S jobID n msg s = (r, s') \<Longrightarrow> 0 \<le> n \<Longrightarrow> service_step S s s'"
| dispatch_failed: "MarkJobDispatchFailed S jobID err s = (r, s') \<Longrightarrow> service_step S s s'"
| start: "StartJob S jobID s = (rb, s') \<Longrightarrow> service_step S s s'"
| complete: "CompleteJob S jobID res s = (r, s') \<Longrightarrow> service_step S s s'"
| fail: "FailJob S jobID err s = (r, s') \<Longrightarrow> \<not> is_field_path (message_of err) \<Longrightarrow> service_step S s s'"
| cancel: "CancelJob S jobID reason s = (r, s') \<Longrightarrow> service_step S s s'"
| retry: "RetryJob S jobID s = (None, s') \<Longrightarrow> service_step S s s'"

context mongo_backend
begin

lemma create_keeps_storable:
  assumes "all_storable jobs s" "CreateJob (mongo_service B) name payload opts s = (rj, s')"
  shows "all_storable jobs s'"
proof (cases rj)
  case (Inr j)
  with service_create assms(2) have "one_inserted jobs j s s'" "Validate j = None" "is_pending j"
    by blast+
  then show ?thesis by (rule all_storable_inserted [OF assms(1)])
next
  case (Inl e)
  from service_create_error [OF assms(2) [unfolded Inl]] show ?thesis
  proof (elim disjE exE conjE)
    assume "jobs s' = jobs s"
    with assms(1) show ?thesis by (simp add: all_storable_def)
  next
    fix j assume "Validate j = None" "is_pending j" and "one_inserted jobs j s s'"
    then show ?thesis by (intro all_storable_inserted [OF assms(1)])
  qed
qed

lemma step_keeps_storable:
  assumes "service_step (mongo_service B) s s'" and inv: "all_storable jobs s"
  shows "all_storable jobs s'"
  using assms(1)
proof cases
  case (create name payload opts rj)
  with inv show ?thesis by (blast intro: create_keeps_storable)
next
  case (dispatched jobID r)
  then obtain t where "confirmed jobs jobID is_pending (mark_dispatched_effect t) r s s'"
    using service_dispatched by blast
  with inv show ?thesis by (rule all_storable_confirmed) (rule storable_effects)
next
  case (attempt jobID n msg r)
  then have "confirmed jobs jobID is_pending (record_attempt_effect n msg) r s s'"
    using service_attempt by blast
  with inv show ?thesis
    by (rule all_storable_confirmed) (rule storable_effects, assumption, rule attempt)
next
  case (dispatch_failed jobID err r)
  then obtain t where
    "confirmed jobs jobID is_pending (dispatch_failed_effect (message_of err) t) r s s'"
    using service_dispatch_failed by blast
  with inv show ?thesis by (rule all_storable_confirmed) (rule storable_effects)
next
  case (start jobID rb)
  then obtain t where "guarded jobs jobID not_started (mark_running_effect t) rb s s'"
    using service_start by blast
  with inv show ?thesis by (rule all_storable_guarded) (rule storable_effects)
next
  case (complete jobID res r)
  then obtain t meta where "settled jobs jobID is_running (complete_effect t meta) r s s'"
    using service_complete by blast
  with inv show ?thesis by (rule all_storable_settled) (rule storable_effects)
next
  case (fail jobID err r)
  then obtain t entry where "settled jobs jobID failable (fail_effect entry t) r s s'"
    using service_fail by blast
  with inv show ?thesis by (rule all_storable_settled) (rule storable_effects)
next
  case (cancel jobID reason r)
  then obtain t where "settled jobs jobID (\<lambda>j. \<not> ExecutionStatus_IsTerminal (jm_ExecutionStatus j))
      (cancelled_model reason t) r s s'"
    using service_cancel by blast
  with inv show ?thesis by (rule all_storable_settled) (rule storable_cancelled)
next
  case (retry jobID)
  then obtain j where j: "jobs s jobID = Some j" "jobs s' = (jobs s)(jobID \<mapsto> retried j)"
    using service_retry by blast
  with inv have "storable (retried j)" by (intro storable_retried) (simp add: all_storable_def)
  with inv j(2) show ?thesis by (rule all_storable_upd)
qed

lemma steps_keep_storable:
  "(service_step (mongo_service B))\<^sup>*\<^sup>* s s' \<Longrightarrow> all_storable jobs s \<Longrightarrow> all_storable jobs s'"
proof (induction rule: rtranclp_induct)
  case (step y z)
  from step_keeps_storable [OF step(2)] step(3,4) show ?case by blast
qed

end

section \<open>Running the service on the driver in memory\<close>

text \<open>
  The rewrite rules that run a handler on \<open>mem_backend\<close>: definitions of the driver and of the
  adapters, and the selections and updates proved above in place of their evaluation.
\<close>

lemma mem_operations:
  "be_now mem_backend = mem_now"
  "be_uuid mem_backend = mem_uuid"
  "be_find_one mem_backend q s = scripted s Inl (\<lambda>s.
     (case mem_select q s of [] \<Rightarrow> Inl DriverNoDocuments | j # _ \<Rightarrow> Inr j, s))"
  "be_find mem_backend q opts s = scripted s Inl (\<lambda>s.
     (Inr (list_cursor (page opts (sort_key (rank job_field opts) (mem_select q s)))), s))"
  "be_count mem_backend q s = scripted s Inl (\<lambda>s. (Inr (int (length (mem_select q s))), s))"
  "be_insert_one mem_backend j s = scripted s Some (mem_insert j)"
  "be_update_one mem_backend q u s = scripted s Inl (mem_update q u)"
  "be_log_insert_one mem_backend l s = scripted s Some (\<lambda>s.
     (None, s\<lparr>mem_logs := mem_logs s @ [l]\<rparr>))"
  by (simp_all add: mem_backend_def)

lemma adapter_operations:
  "rd_Get (MongoJobsReader B) = Reader_Get B"
  "rd_List (MongoJobsReader B) = Reader_List B"
  "rd_GetLogs (MongoJobsReader B) = Reader_GetLogs B"
  "rd_CountJobs (MongoJobsReader B) = Reader_CountJobs B"
  "rd_GetJobsByStatus (MongoJobsReader B) = Reader_GetJobsByStatus B"
  "rd_GetPendingJobs (MongoJobsReader B) = Reader_GetPendingJobs B"
  "rd_GetDispatchedJobs (MongoJobsReader B) = Reader_GetDispatchedJobs B"
  "rd_GetRecentLogs (MongoJobsReader B) = Reader_GetRecentLogs B"
  "rd_GetErrorLogs (MongoJobsReader B) = Reader_GetErrorLogs B"
  "wr_Create (MongoJobsWriter B) = Writer_Create B"
  "wr_Update (MongoJobsWriter B) = Writer_Update B"
  "wr_Delete (MongoJobsWriter B) = Writer_Delete B"
  "wr_IncrementRetryCount (MongoJobsWriter B) = Writer_IncrementRetryCount B"
  "wr_ClearJobExecutionTimestamps (MongoJobsWriter B) = Writer_ClearJobExecutionTimestamps B"
  "wr_MarkDispatchedIfPending (MongoJobsWriter B) = Writer_MarkDispatchedIfPending B"
  "wr_RecordDispatchAttemptIfPending (MongoJobsWriter B) = Writer_RecordDispatchAttemptIfPending B"
  "wr_MarkDispatchFailedIfPending (MongoJobsWriter B) = Writer_MarkDispatchFailedIfPending B"
  "wr_MarkRunningIfDispatched (MongoJobsWriter B) = Writer_MarkRunningIfDispatched B"
  "wr_CompleteIfRunning (MongoJobsWriter B) = Writer_CompleteIfRunning B"
  "wr_FailIfNotTerminal (MongoJobsWriter B) = Writer_FailIfNotTerminal B"
  "wr_AddLog (MongoJobsWriter B) = Writer_AddLog B"
  "wr_DeleteOldLogs (MongoJobsWriter B) = Writer_DeleteOldLogs B"
  by (simp_all add: MongoJobsReader_def MongoJobsWriter_def)

lemma mem_Writer_Update:
  "p \<noteq> empty_patch \<Longrightarrow>
   Writer_Update mem_backend jobID p s = matched_or_not_found ''failed to update job''
     (scripted s Inl (\<lambda>s.
        (case mem_select (job_id_filter jobID) s of
           [] \<Rightarrow> (Inr 0, s)
         | j # _ \<Rightarrow> (Inr 1, s\<lparr>mem_jobs := replace_job (patch_effect p j) (unique_jobs (mem_jobs s))\<rparr>))))"
proof -
  assume "p \<noteq> empty_patch"
  obtain d where d: "update_set_doc p = Inr d" by (simp add: update_set_doc_eq)
  with \<open>p \<noteq> empty_patch\<close> have "d \<noteq> []" by (simp add: patch_doc_empty)
  moreover have "mem_update (job_id_filter jobID) (BDoc [(''$set'', BDoc d)]) = (\<lambda>s.
      (case mem_select (job_id_filter jobID) s of
         [] \<Rightarrow> (Inr 0, s)
       | j # _ \<Rightarrow> (Inr 1, s\<lparr>mem_jobs := replace_job (patch_effect p j) (unique_jobs (mem_jobs s))\<rparr>)))"
    by (intro ext) (simp add: mem_update_def apply_set_update patch_set_doc [OF d] split: list.splits)
  ultimately show ?thesis by (simp add: Writer_Update_def d mem_operations)
qed

lemmas mem_driver =
  mem_operations scripted_def mem_now_def mem_uuid_def mem_select_def mem_update_def
  mem_insert_def mem_with_def mem_empty_def mem_coll_def keyed_def replace_job_def list_cursor_def

lemmas mem_adapters =
  adapter_operations mongo_service_def Reader_Get_def
  Writer_Create_def mem_Writer_Update Writer_IncrementRetryCount_def
  Writer_ClearJobExecutionTimestamps_def Writer_AddLog_def Writer_MarkDispatchedIfPending_def
  Writer_RecordDispatchAttemptIfPending_def Writer_MarkDispatchFailedIfPending_def
  Writer_MarkRunningIfDispatched_def Writer_CompleteIfRunning_def Writer_FailIfNotTerminal_def
  matched_result_def matched_or_not_found_def log_best_effort_def

lemmas mem_updates =
  filter_matches apply_set_update set_field_simps dispatch_failed_update increment_update clear_update
  fail_update [unfolded fail_stage_def] is_field_path_def

lemmas mem_run = mem_driver mem_adapters mem_updates cancel_patch_not_empty retry_patch_not_empty

lemmas mem_counts =
  Reader_CountJobs_def buildListQuery_matches filter_accepts_one_status in_phase_def sub_states_def
  all_statuses_def zero_stats_def

end
