(* ===== verification/Samples.thy ===== *)
theory Samples
  imports MetadataService
begin

text \<open>
  One stored job in each phase of its life, on which the properties are applied with the
  driver in memory.
\<close>


definition sample_dispatched_job :: job where
  "sample_dispatched_job = sample_job\<lparr>jm_Status := JobStatusDispatched,
     jm_DispatchStatus := DispatchStatusDispatched, jm_DispatchedAt := Some 2000\<rparr>"

definition sample_running_job :: job where
  "sample_running_job = mark_running_effect 2500 sample_dispatched_job"

definition sample_cancelled_job :: job where
  "sample_cancelled_job = cancelled_model [] 2000 sample_job"

abbreviation sample_id :: string where
  "sample_id \<equiv> replicate 36 (CHR ''a'')"

lemma sample_ids [simp]:
  "jm_JobID sample_job = sample_id" "jm_JobID sample_dispatched_job = sample_id"
  "jm_JobID sample_running_job = sample_id" "jm_JobID sample_cancelled_job = sample_id"
  "jm_JobID sample_failed_job = sample_id"
  by (simp_all add: sample_dispatched_job_def sample_running_job_def sample_cancelled_job_def
      sample_failed_job_def sample_job_def NewJobMetadata_def mark_running_effect_def)

lemma sample_states [simp]:
  "jm_DispatchStatus sample_job = DispatchStatusPending"
  "jm_ExecutionStatus sample_job = ExecutionStatusNotStarted"
  "jm_DispatchStatus sample_dispatched_job = DispatchStatusDispatched"
  "jm_ExecutionStatus sample_dispatched_job = ExecutionStatusNotStarted"
  "jm_DispatchStatus sample_running_job = DispatchStatusDispatched"
  "jm_ExecutionStatus sample_running_job = ExecutionStatusRunning"
  "jm_DispatchStatus sample_cancelled_job = DispatchStatusPending"
  "jm_ExecutionStatus sample_cancelled_job = ExecutionStatusCancelled"
  "jm_DispatchStatus sample_failed_job = DispatchStatusDispatched"
  "jm_ExecutionStatus sample_failed_job = ExecutionStatusFailed"
  by (simp_all add: sample_dispatched_job_def sample_running_job_def sample_cancelled_job_def
      sample_failed_job_def sample_job_def NewJobMetadata_def mark_running_effect_def)

lemma sample_stored:
  "mem_coll (mem_with [sample_job] []) = [sample_id \<mapsto> sample_job]"
  "mem_coll (mem_with [sample_dispatched_job] []) = [sample_id \<mapsto> sample_dispatched_job]"
  "mem_coll (mem_with [sample_running_job] []) = [sample_id \<mapsto> sample_running_job]"
  "mem_coll (mem_with [sample_cancelled_job] []) = [sample_id \<mapsto> sample_cancelled_job]"
  "mem_coll (mem_with [sample_failed_job] []) = [sample_id \<mapsto> sample_failed_job]"
  by (simp_all add: mem_coll_def mem_with_def keyed_def)

lemma sample_storable: "storable sample_job" "storable sample_failed_job"
  by (simp_all add: storable_def well_formed_defs sample_failed_job_def sample_job_def
      NewJobMetadata_def)

end
