(* ===== verification/ServiceProperties.thy ===== *)
theory ServiceProperties
  imports Samples
begin

text \<open>
  What the metadata service guarantees to its callers, over a driver that behaves as
  documented (\<open>mongo_backend\<close>), each with an application to the reference driver in memory.
  The statements speak of \<open>mongo_service B\<close>: the handlers of the service over the adapters of
  \<open>Store\<close>, down to the filters and update documents they send.
\<close>

section \<open>Properties\<close>

text \<open>
  C4. A job \<open>CreateJob\<close> returns passes \<open>Validate\<close>, is displayed as pending dispatch, carries
  the name asked for and an id that no stored job had, and is now stored under that id
  (with the key the database gave it) while every other job is as before.
\<close>

theorem create_job_stores_valid_job:
  assumes "mongo_backend B jobs logs"
    and "CreateJob (mongo_service B) name payload opts s = (Inr j, s')"
  shows "Validate j = None \<and> DisplayStatus j = JobStatusPendingDispatch \<and> jm_Name j = name
    \<and> jobs s (jm_JobID j) = None
    \<and> (\<exists>oid. jobs s' = (jobs s)(jm_JobID j \<mapsto> j\<lparr>jm_ID := oid\<rparr>))"
  using mongo_backend.service_create [OF assms] by (auto simp: one_inserted_def)

theorem create_job_stores_valid_job_witness:
  "case CreateJob (mongo_service mem_backend) ''echo'' None (no_options\<lparr>co_Topic := ''t''\<rparr>) mem_empty of
     (Inr j, s') \<Rightarrow> Validate j = None \<and> mem_coll s' (jm_JobID j) \<noteq> None
   | (Inl e, s') \<Rightarrow> False"
proof -
  let ?r = "CreateJob (mongo_service mem_backend) ''echo'' None (no_options\<lparr>co_Topic := ''t''\<rparr>) mem_empty"
  obtain j where "fst ?r = Inr j"
    by (simp add: CreateJob_def mem_run Let_def Validate_def with_options_def gomap_len_def
        NewJobMetadata_def no_options_def DisplayStatus_simps status_defs)
  then have "?r = (Inr j, snd ?r)" by (metis prod.collapse)
  from create_job_stores_valid_job [OF mem.mongo_backend_axioms this] this show ?thesis
    by (auto split: prod.splits)
qed

text \<open>
  C5. The claim of a job is exclusive. When \<open>StartJob\<close> answers true, the job was not started
  and is now running with a start time; no later \<open>StartJob\<close> of the same job answers true as
  long as its document has not left that state, so a message delivered twice runs the
  handler once.
\<close>

theorem start_job_claims_once:
  assumes "mongo_backend B jobs logs"
    and "StartJob (mongo_service B) jobID s = (Inr True, s')"
    and "jobs s2 jobID = jobs s' jobID"
    and "StartJob (mongo_service B) jobID s2 = (r, s3)"
  shows "(\<exists>j t. jobs s jobID = Some j \<and> jm_ExecutionStatus j = ExecutionStatusNotStarted \<and> t \<noteq> 0
            \<and> jobs s' = (jobs s)(jobID \<mapsto> j\<lparr>jm_ExecutionStatus := ExecutionStatusRunning,
                 jm_Status := JobStatusRunning, jm_StartedAt := Some t\<rparr>))
       \<and> r \<noteq> Inr True \<and> jobs s3 = jobs s2"
proof -
  note start = mongo_backend.service_start [OF assms(1)]
  from start [OF assms(2)] obtain t j where j: "t \<noteq> 0" "jobs s jobID = Some j" "not_started j"
    "jobs s' = (jobs s)(jobID \<mapsto> mark_running_effect t j)"
    by (auto dest: guarded_TrueD)
  from start [OF assms(4)] obtain t2 where "guarded jobs jobID not_started (mark_running_effect t2) r s2 s3"
    by blast
  moreover have "jobs s2 jobID = Some (mark_running_effect t j)" using j assms(3) by simp
  ultimately have "r \<noteq> Inr True \<and> jobs s3 = jobs s2"
    by (auto simp: guarded_def applied_def mark_running_effect_def split: sum.splits bool.splits)
  with j show ?thesis by (auto simp: mark_running_effect_def)
qed

theorem start_job_claims_once_witness:
  "let s = mem_with [sample_dispatched_job] [];
       s' = snd (StartJob (mongo_service mem_backend) sample_id s)
   in fst (StartJob (mongo_service mem_backend) sample_id s') \<noteq> Inr True"
proof -
  let ?s = "mem_with [sample_dispatched_job] []"
  let ?r = "StartJob (mongo_service mem_backend) sample_id ?s"
  have "fst ?r = Inr True" by (simp add: StartJob_def mem_run)
  then have "?r = (Inr True, snd ?r)" by (metis prod.collapse)
  from start_job_claims_once [OF mem.mongo_backend_axioms this refl prod.collapse [symmetric]]
  show ?thesis by (simp add: Let_def)
qed

text \<open>
  C6. \<open>CompleteJob\<close> either moves a running job to completed, adding a completion time and, when
  a result is given, that result under the key \<open>result\<close> of the metadata it had; or it reports
  an error. An error that says the job is already terminal is only given for a stored job in
  a terminal state, with nothing changed, and any other error that comes with a change is an
  infrastructure error.
\<close>

theorem complete_job_outcomes:
  assumes "mongo_backend B jobs logs"
    and "CompleteJob (mongo_service B) jobID res s = (r, s')"
  shows "\<exists>t meta. t \<noteq> 0
    \<and> (r = None \<longrightarrow> (\<exists>j. jobs s jobID = Some j \<and> jm_ExecutionStatus j = ExecutionStatusRunning
          \<and> (case res of None \<Rightarrow> meta = None
             | Some kvs \<Rightarrow> meta = Some (jm_Metadata (SetMetadataField j ''result'' (GMap kvs))))
          \<and> jobs s' = (jobs s)(jobID \<mapsto> complete_effect t meta j)))
    \<and> (\<forall>e. r = Some e \<and> errors_is e ErrJobAlreadyTerminal \<longrightarrow> jobs s' = jobs s
          \<and> (\<exists>j. jobs s jobID = Some j \<and> JobStatus_IsTerminal (DisplayStatus j)))
    \<and> (\<forall>e. r = Some e \<and> jobs s' \<noteq> jobs s \<longrightarrow> foreign_error e)"
proof -
  from mongo_backend.service_complete [OF assms] obtain t meta where t: "t \<noteq> 0"
    and meta: "case res of None \<Rightarrow> meta = None | Some kvs \<Rightarrow> \<forall>j. jobs s jobID = Some j \<longrightarrow>
        meta = Some (jm_Metadata (SetMetadataField j ''result'' (GMap kvs)))"
    and st: "settled jobs jobID is_running (complete_effect t meta) r s s'"
    and rt: "reports_terminal jobs jobID r s s'" by blast
  have "r = None \<longrightarrow> (\<exists>j. jobs s jobID = Some j \<and> is_running j
      \<and> (case res of None \<Rightarrow> meta = None
         | Some kvs \<Rightarrow> meta = Some (jm_Metadata (SetMetadataField j ''result'' (GMap kvs))))
      \<and> jobs s' = (jobs s)(jobID \<mapsto> complete_effect t meta j))"
  proof
    assume "r = None"
    with st obtain j where j: "jobs s jobID = Some j" "is_running j"
      "jobs s' = (jobs s)(jobID \<mapsto> complete_effect t meta j)" by (auto dest: settled_NoneD)
    then show "\<exists>j. jobs s jobID = Some j \<and> is_running j
      \<and> (case res of None \<Rightarrow> meta = None
         | Some kvs \<Rightarrow> meta = Some (jm_Metadata (SetMetadataField j ''result'' (GMap kvs))))
      \<and> jobs s' = (jobs s)(jobID \<mapsto> complete_effect t meta j)"
      using meta by (intro exI [of _ j]) (cases res; simp)
  qed
  moreover have "\<forall>e. r = Some e \<and> errors_is e ErrJobAlreadyTerminal \<longrightarrow> jobs s' = jobs s
      \<and> (\<exists>j. jobs s jobID = Some j \<and> JobStatus_IsTerminal (DisplayStatus j))"
    using rt by (auto simp: reports_terminal_def)
  moreover have "\<forall>e. r = Some e \<and> jobs s' \<noteq> jobs s \<longrightarrow> foreign_error e"
    using st by (auto simp: settled_def)
  ultimately show ?thesis using t by blast
qed

theorem complete_job_outcomes_witness:
  "\<exists>j t. mem_coll (snd (CompleteJob (mongo_service mem_backend) sample_id None
           (mem_with [sample_running_job] []))) sample_id
     = Some (complete_effect t None j)"
proof -
  let ?s = "mem_with [sample_running_job] []"
  let ?r = "CompleteJob (mongo_service mem_backend) sample_id None ?s"
  have "fst ?r = None" by (simp add: CompleteJob_def complete_metadata_def mem_run Let_def)
  with complete_job_outcomes [OF mem.mongo_backend_axioms prod.collapse [symmetric, of ?r]]
  obtain j t where "mem_coll (snd ?r) = (mem_coll ?s)(sample_id \<mapsto> complete_effect t None j)"
    by auto
  then have "mem_coll (snd ?r) sample_id = Some (complete_effect t None j)" by simp
  then show ?thesis by (intro exI)
qed

text \<open>
  C7. \<open>FailJob\<close> either moves a job that is running or was never started to failed, appending one
  execution error with the given message and the current retry count to its history and
  making sure it has a start and a completion time; or it reports an error. The terminal
  error is only given for a stored job in a terminal state, with nothing changed. A message
  that starts with a dollar sign is excluded: the update is a pipeline, which reads such a
  message as a path to a field.
\<close>

theorem fail_job_outcomes:
  assumes "mongo_backend B jobs logs"
    and "FailJob (mongo_service B) jobID err s = (r, s')"
    and "\<not> is_field_path (message_of err)"
  shows "\<exists>t entry. t \<noteq> 0
    \<and> (r = None \<longrightarrow> (\<exists>j. jobs s jobID = Some j
          \<and> jm_ExecutionStatus j \<in> {ExecutionStatusRunning, ExecutionStatusNotStarted}
          \<and> je_Type entry = JobErrorTypeExecution \<and> je_Error entry = message_of err
          \<and> je_RetryAttempt entry = jm_RetryCount j
          \<and> jobs s' = (jobs s)(jobID \<mapsto> fail_effect entry t j)))
    \<and> (\<forall>e. r = Some e \<and> errors_is e ErrJobAlreadyTerminal \<longrightarrow> jobs s' = jobs s
          \<and> (\<exists>j. jobs s jobID = Some j \<and> JobStatus_IsTerminal (DisplayStatus j)))
    \<and> (\<forall>e. r = Some e \<and> jobs s' \<noteq> jobs s \<longrightarrow> foreign_error e)"
proof -
  from mongo_backend.service_fail [OF assms] obtain t entry where t: "t \<noteq> 0"
    and entry: "je_Type entry = JobErrorTypeExecution" "je_Error entry = message_of err"
      "\<forall>j. jobs s jobID = Some j \<longrightarrow> je_RetryAttempt entry = jm_RetryCount j"
    and st: "settled jobs jobID failable (fail_effect entry t) r s s'"
    and rt: "reports_terminal jobs jobID r s s'" by blast
  have "r = None \<longrightarrow> (\<exists>j. jobs s jobID = Some j
      \<and> jm_ExecutionStatus j \<in> {ExecutionStatusRunning, ExecutionStatusNotStarted}
      \<and> je_Type entry = JobErrorTypeExecution \<and> je_Error entry = message_of err
      \<and> je_RetryAttempt entry = jm_RetryCount j \<and> jobs s' = (jobs s)(jobID \<mapsto> fail_effect entry t j))"
  proof
    assume "r = None"
    with st obtain j where "jobs s jobID = Some j" "failable j"
      "jobs s' = (jobs s)(jobID \<mapsto> fail_effect entry t j)" by (auto dest: settled_NoneD)
    with entry show "\<exists>j. jobs s jobID = Some j
        \<and> jm_ExecutionStatus j \<in> {ExecutionStatusRunning, ExecutionStatusNotStarted}
        \<and> je_Type entry = JobErrorTypeExecution \<and> je_Error entry = message_of err
        \<and> je_RetryAttempt entry = jm_RetryCount j \<and> jobs s' = (jobs s)(jobID \<mapsto> fail_effect entry t j)"
      by (intro exI [of _ j]) simp
  qed
  moreover have "\<forall>e. r = Some e \<and> errors_is e ErrJobAlreadyTerminal \<longrightarrow> jobs s' = jobs s
      \<and> (\<exists>j. jobs s jobID = Some j \<and> JobStatus_IsTerminal (DisplayStatus j))"
    using rt by (auto simp: reports_terminal_def)
  moreover have "\<forall>e. r = Some e \<and> jobs s' \<noteq> jobs s \<longrightarrow> foreign_error e"
    using st by (auto simp: settled_def)
  ultimately show ?thesis using t by blast
qed

theorem fail_job_outcomes_witness:
  "\<exists>j t entry. je_Error entry = ''boom'' \<and>
     mem_coll (snd (FailJob (mongo_service mem_backend) sample_id (Some (ErrorString ''boom''))
           (mem_with [sample_dispatched_job] []))) sample_id = Some (fail_effect entry t j)"
proof -
  let ?s = "mem_with [sample_dispatched_job] []"
  let ?r = "FailJob (mongo_service mem_backend) sample_id (Some (ErrorString ''boom'')) ?s"
  have "fst ?r = None" by (simp add: FailJob_def mem_run Let_def)
  moreover have "\<not> is_field_path (message_of (Some (ErrorString ''boom'')))"
    by (simp add: is_field_path_def)
  ultimately obtain j t entry where "je_Error entry = ''boom''"
    "mem_coll (snd ?r) = (mem_coll ?s)(sample_id \<mapsto> fail_effect entry t j)"
    using fail_job_outcomes [OF mem.mongo_backend_axioms prod.collapse [symmetric, of ?r]] by auto
  then have "je_Error entry = ''boom'' \<and> mem_coll (snd ?r) sample_id = Some (fail_effect entry t j)"
    by simp
  then show ?thesis by (intro exI)
qed

text \<open>
  C9. \<open>CancelJob\<close> refuses a job whose execution is already terminal and leaves it untouched. If
  it succeeds the job is cancelled, its dispatch status is the one it had, it has both
  timestamps (those it had are kept), and no other job changed. A cancelled job that was
  still pending stays pending for the dispatcher.
\<close>

theorem cancel_job_outcomes:
  assumes "mongo_backend B jobs logs"
    and "CancelJob (mongo_service B) jobID reason s = (r, s')"
  shows "(\<forall>j. jobs s jobID = Some j \<and> ExecutionStatus_IsTerminal (jm_ExecutionStatus j) \<longrightarrow>
            r \<noteq> None \<and> jobs s' = jobs s)
    \<and> (r = None \<longrightarrow> (\<exists>j j'. jobs s jobID = Some j \<and> jobs s' = (jobs s)(jobID \<mapsto> j')
          \<and> DisplayStatus j' = JobStatusCancelled \<and> jm_DispatchStatus j' = jm_DispatchStatus j
          \<and> jm_StartedAt j' \<noteq> None \<and> jm_CompletedAt j' \<noteq> None
          \<and> (jm_StartedAt j \<noteq> None \<longrightarrow> jm_StartedAt j' = jm_StartedAt j)
          \<and> (reason \<noteq> [] \<longrightarrow> gomap_get (jm_Metadata j') ''cancellation_reason'' = Some (GStr reason))))"
proof -
  from mongo_backend.service_cancel [OF assms] obtain t where
    st: "settled jobs jobID (\<lambda>j. \<not> ExecutionStatus_IsTerminal (jm_ExecutionStatus j))
      (cancelled_model reason t) r s s'" by blast
  have "\<forall>j. jobs s jobID = Some j \<and> ExecutionStatus_IsTerminal (jm_ExecutionStatus j) \<longrightarrow>
      r \<noteq> None \<and> jobs s' = jobs s"
    using st by (auto simp: settled_def applied_def split: option.splits)
  moreover have "\<exists>j j'. jobs s jobID = Some j \<and> jobs s' = (jobs s)(jobID \<mapsto> j')
      \<and> DisplayStatus j' = JobStatusCancelled \<and> jm_DispatchStatus j' = jm_DispatchStatus j
      \<and> jm_StartedAt j' \<noteq> None \<and> jm_CompletedAt j' \<noteq> None
      \<and> (jm_StartedAt j \<noteq> None \<longrightarrow> jm_StartedAt j' = jm_StartedAt j)
      \<and> (reason \<noteq> [] \<longrightarrow> gomap_get (jm_Metadata j') ''cancellation_reason'' = Some (GStr reason))"
    if "r = None"
  proof -
    from st that obtain j where j: "jobs s jobID = Some j"
      "jobs s' = (jobs s)(jobID \<mapsto> cancelled_model reason t j)" by (auto dest: settled_NoneD)
    have "gomap_get (jm_Metadata (cancelled_model reason t j)) ''cancellation_reason'' = Some (GStr reason)"
      if "reason \<noteq> []" using that by (simp add: cancelled_model_def SetMetadataField_def Let_def)
    then show ?thesis
      using j by (rule_tac exI [of _ j], rule_tac exI [of _ "cancelled_model reason t j"])
        (auto simp: DisplayStatus_simps)
  qed
  ultimately show ?thesis by blast
qed

theorem cancel_job_outcomes_witness:
  "\<exists>j'. mem_coll (snd (CancelJob (mongo_service mem_backend) sample_id ''late''
           (mem_with [sample_job] []))) sample_id = Some j' \<and> DisplayStatus j' = JobStatusCancelled"
proof -
  let ?r = "CancelJob (mongo_service mem_backend) sample_id ''late'' (mem_with [sample_job] [])"
  have "fst ?r = None" by (simp add: CancelJob_def mem_run status_defs)
  with cancel_job_outcomes [OF mem.mongo_backend_axioms prod.collapse [symmetric, of ?r]]
  obtain j' where "mem_coll (snd ?r) = (mem_coll (mem_with [sample_job] []))(sample_id \<mapsto> j')"
    "DisplayStatus j' = JobStatusCancelled" by auto
  then have "mem_coll (snd ?r) sample_id = Some j' \<and> DisplayStatus j' = JobStatusCancelled" by simp
  then show ?thesis by (rule exI)
qed

text \<open>
  C8. A successful \<open>RetryJob\<close> takes a valid failed job back to a valid pending one: one more
  retry, no dispatch attempts, no execution timestamps, and the error history, topic and
  payload it had. Nothing but a failed execution can be retried.
\<close>

theorem retry_job_resets:
  assumes "mongo_backend B jobs logs" and "all_storable jobs s"
    and "RetryJob (mongo_service B) jobID s = (None, s')"
  shows "\<exists>j j'. jobs s jobID = Some j \<and> jm_ExecutionStatus j = ExecutionStatusFailed
    \<and> jobs s' = (jobs s)(jobID \<mapsto> j') \<and> Validate j' = None
    \<and> DisplayStatus j' = JobStatusPendingDispatch \<and> jm_RetryCount j' = jm_RetryCount j + 1
    \<and> jm_DispatchAttempts j' = 0 \<and> jm_StartedAt j' = None \<and> jm_CompletedAt j' = None
    \<and> jm_Errors j' = jm_Errors j \<and> jm_Topic j' = jm_Topic j \<and> jm_Payload j' = jm_Payload j"
proof -
  from mongo_backend.service_retry [OF assms(1,3)] obtain j where j: "jobs s jobID = Some j"
    "jm_ExecutionStatus j = ExecutionStatusFailed" "jobs s' = (jobs s)(jobID \<mapsto> retried j)" by blast
  have "storable (retried j)"
    using assms(2) j(1) by (intro storable_retried) (simp add: all_storable_def)
  then have "Validate (retried j) = None" by (simp add: Validate_None_iff storable_def)
  then show ?thesis
    using j by (intro exI [of _ j] exI [of _ "retried j"]) (simp add: retried_eq DisplayStatus_simps)
qed

lemma sample_failed_storable: "all_storable mem_coll (mem_with [sample_failed_job] [])"
  by (simp add: all_storable_def sample_stored sample_storable split: if_splits)

theorem retry_job_resets_witness:
  "\<exists>j'. mem_coll (snd (RetryJob (mongo_service mem_backend) sample_id
           (mem_with [sample_failed_job] []))) sample_id = Some j' \<and> Validate j' = None"
proof -
  let ?r = "RetryJob (mongo_service mem_backend) sample_id (mem_with [sample_failed_job] [])"
  have "fst ?r = None" by (simp add: RetryJob_def mem_run IncrementRetryCount_def patch_effect_def)
  then have "?r = (None, snd ?r)" by (metis prod.collapse)
  from retry_job_resets [OF mem.mongo_backend_axioms sample_failed_storable this]
  obtain j' where "mem_coll (snd ?r) = (mem_coll (mem_with [sample_failed_job] []))(sample_id \<mapsto> j')"
    "Validate j' = None" by blast
  then have "mem_coll (snd ?r) sample_id = Some j' \<and> Validate j' = None" by simp
  then show ?thesis by (rule exI)
qed

text \<open>
  The three writes of a retry are not atomic: when the last one, which clears the
  timestamps, meets an infrastructure error, \<open>RetryJob\<close> reports it and leaves behind a pending
  job that \<open>Validate\<close> rejects, because it still has the completion time of the failed run.
\<close>

theorem retry_job_interrupted_leaves_invalid_job:
  "case RetryJob (mongo_service mem_backend) sample_id
      (mem_with [sample_failed_job] [None, None, None, Some ''connection reset'']) of
     (r, s') \<Rightarrow> r \<noteq> None \<and> (case mem_coll s' sample_id of
         None \<Rightarrow> False
       | Some j \<Rightarrow> DisplayStatus j = JobStatusPendingDispatch \<and> Validate j \<noteq> None)"
  by (simp add: RetryJob_def mem_run IncrementRetryCount_def reset_effect_eq [unfolded reset_effect_def]
      DisplayStatus_simps Validate_None_iff well_formed_defs)
     (simp add: sample_failed_job_def)



text \<open>
  A job cancelled while it was pending is displayed as cancelled, yet neither the statistics
  nor a list of the cancelled jobs has it.
\<close>

theorem cancelled_pending_job_not_counted:
  "DisplayStatus sample_cancelled_job = JobStatusCancelled
   \<and> fst (GetJobStats (mongo_service mem_backend) (mem_with [sample_cancelled_job] []))
       = (zero_stats, None)
   \<and> fst (ListJobs (mongo_service mem_backend) (empty_filter\<lparr>lf_Statuses := [JobStatusCancelled]\<rparr>)
            (mem_with [sample_cancelled_job] [])) = Inr []"
  by (simp add: DisplayStatus_simps GetJobStats_def ListJobs_def Reader_List_def read_cursor_def
      join_close_def page_def Let_def positive_def mem_run mem_counts)



end
