(* ===== verification/Lifecycle.thy ===== *)
theory Lifecycle
  imports ServiceProperties
begin

text \<open>
  The abstract specification of the metadata service: a state machine on the pair of states of
  one job, whose moves are those of the transition tables of \<open>metadata/interface.go\<close> and the
  reset of a retry. Every handler of the service, run to its end on any outcome of the
  database, makes at most one such move of at most one job.
\<close>

section \<open>The state machine of a job\<close>

abbreviation new_job :: CompositeStatus where
  "new_job \<equiv> \<lparr>Dispatch = DispatchStatusPending, Execution = ExecutionStatusNotStarted\<rparr>"

inductive moves :: "CompositeStatus option \<Rightarrow> CompositeStatus option \<Rightarrow> bool" where
  created: "moves None (Some new_job)"
| dispatching: "DispatchStatus_CanTransitionTo d d' \<Longrightarrow>
    moves (Some \<lparr>Dispatch = d, Execution = e\<rparr>) (Some \<lparr>Dispatch = d', Execution = e\<rparr>)"
| executing: "ExecutionStatus_CanTransitionTo e e' \<Longrightarrow>
    moves (Some \<lparr>Dispatch = d, Execution = e\<rparr>) (Some \<lparr>Dispatch = d, Execution = e'\<rparr>)"
| retrying: "moves (Some \<lparr>Dispatch = d, Execution = ExecutionStatusFailed\<rparr>) (Some new_job)"

inductive_cases moves_NoneE: "moves None y"
inductive_cases moves_SomeE: "moves (Some \<lparr>Dispatch = d, Execution = e\<rparr>) y"
inductive_simps moves_to_None: "moves x None"

text \<open>A job is never deleted, and a finished execution is final.\<close>

lemma moves_keep_finished:
  assumes "moves\<^sup>*\<^sup>* (Some p) y" and "Execution p \<in> {ExecutionStatusCompleted, ExecutionStatusCancelled}"
  shows "\<exists>q. y = Some q \<and> Execution q = Execution p"
  using assms(1)
proof (induction rule: rtranclp_induct)
  case base
  then show ?case by simp
next
  case (step y z)
  then obtain q where q: "y = Some q" "Execution q = Execution p" by blast
  obtain d e where "q = \<lparr>Dispatch = d, Execution = e\<rparr>" by (cases q)
  with q step.hyps(2) have "moves (Some \<lparr>Dispatch = d, Execution = Execution p\<rparr>) z" by simp
  then show ?case
    using assms(2)
    by (auto elim!: moves_SomeE simp: ExecutionStatus_CanTransitionTo_def ExecutionStatus_IsTerminal_def
        split: if_splits)
qed

lemma moves_keep_job: "moves\<^sup>*\<^sup>* x y \<Longrightarrow> x \<noteq> None \<Longrightarrow> y \<noteq> None"
  by (induction rule: rtranclp_induct) (metis moves_to_None)+

text \<open>Every state a job can reach is one of the valid pairs.\<close>

lemma moves_valid:
  "moves x y \<Longrightarrow> pred_option CompositeStatus_IsValid x \<Longrightarrow> pred_option CompositeStatus_IsValid y"
  by (induction rule: moves.induct)
     (auto simp: CompositeStatus_IsValid_def DispatchStatus_CanTransitionTo_def
        ExecutionStatus_CanTransitionTo_def split: if_splits)

section \<open>What a handler may do\<close>

definition life :: "('s \<Rightarrow> string \<Rightarrow> job option) \<Rightarrow> 's \<Rightarrow> string \<Rightarrow> CompositeStatus option" where
  "life jobs s jobID = map_option sub_states (jobs s jobID)"

definition one_move :: "('s \<Rightarrow> string \<Rightarrow> job option) \<Rightarrow> 's \<Rightarrow> 's \<Rightarrow> bool" where
  "one_move jobs s s' \<longleftrightarrow>
     (\<exists>k. (\<forall>i. i \<noteq> k \<longrightarrow> jobs s' i = jobs s i) \<and> moves\<^sup>=\<^sup>= (life jobs s k) (life jobs s' k))"

definition valid_states :: "('s \<Rightarrow> string \<Rightarrow> job option) \<Rightarrow> 's \<Rightarrow> bool" where
  "valid_states jobs s \<longleftrightarrow> (\<forall>k. pred_option CompositeStatus_IsValid (life jobs s k))"

lemma valid_statesD: "valid_states jobs s \<Longrightarrow> jobs s k = Some j \<Longrightarrow> CompositeStatus_IsValid (sub_states j)"
  by (auto simp: valid_states_def life_def dest!: spec [of _ k])

lemma one_move_unchanged: "jobs s' = jobs s \<Longrightarrow> one_move jobs s s'"
  by (simp add: one_move_def life_def)

lemma one_move_applied:
  assumes "jobs s k = Some j" and "jobs s' = (jobs s)(k \<mapsto> j')"
    and "moves\<^sup>=\<^sup>= (Some (sub_states j)) (Some (sub_states j'))"
  shows "one_move jobs s s'"
  unfolding one_move_def using assms by (intro exI [of _ k]) (simp add: life_def)

lemma one_move_inserted:
  "one_inserted jobs j s s' \<Longrightarrow> sub_states j = new_job \<Longrightarrow> one_move jobs s s'"
  by (auto simp: one_move_def one_inserted_def life_def sub_states_def
      intro!: exI [of _ "jm_JobID j"] moves.created)

lemma one_move_confirmed:
  "confirmed jobs k P f r s s' \<Longrightarrow>
   (\<And>j. jobs s k = Some j \<Longrightarrow> P j \<Longrightarrow> moves\<^sup>=\<^sup>= (Some (sub_states j)) (Some (sub_states (f j)))) \<Longrightarrow>
   one_move jobs s s'"
  by (erule confirmedE) (blast intro: one_move_applied one_move_unchanged)+

lemma one_move_guarded:
  "guarded jobs k P f r s s' \<Longrightarrow>
   (\<And>j. jobs s k = Some j \<Longrightarrow> P j \<Longrightarrow> moves\<^sup>=\<^sup>= (Some (sub_states j)) (Some (sub_states (f j)))) \<Longrightarrow>
   one_move jobs s s'"
  by (erule guardedE) (blast intro: one_move_applied one_move_unchanged)+

lemma one_move_settled:
  "settled jobs k P f r s s' \<Longrightarrow>
   (\<And>j. jobs s k = Some j \<Longrightarrow> P j \<Longrightarrow> moves\<^sup>=\<^sup>= (Some (sub_states j)) (Some (sub_states (f j)))) \<Longrightarrow>
   one_move jobs s s'"
  by (erule settledE) (blast intro: one_move_applied one_move_unchanged)+

lemma one_move_life:
  assumes "one_move jobs s s'"
  shows "moves\<^sup>=\<^sup>= (life jobs s i) (life jobs s' i)"
proof -
  from assms obtain k where k: "\<And>i. i \<noteq> k \<Longrightarrow> jobs s' i = jobs s i" "moves\<^sup>=\<^sup>= (life jobs s k) (life jobs s' k)"
    by (auto simp: one_move_def)
  show ?thesis
  proof (cases "i = k")
    case False
    with k(1) show ?thesis by (simp add: life_def)
  qed (simp only: k(2))
qed

lemma one_move_valid:
  assumes "one_move jobs s s'" and "valid_states jobs s"
  shows "valid_states jobs s'"
  unfolding valid_states_def
proof
  fix k
  from one_move_life [OF assms(1), of k] assms(2)
  show "pred_option CompositeStatus_IsValid (life jobs s' k)"
    by (auto simp: valid_states_def dest: moves_valid) (metis assms(2) valid_states_def)
qed

text \<open>The effects of the writes, as moves.\<close>

lemmas state_defs = sub_states_def DispatchStatus_CanTransitionTo_def ExecutionStatus_CanTransitionTo_def
  ExecutionStatus_IsTerminal_def

lemma dispatch_moves:
  "is_pending j \<Longrightarrow> moves (Some (sub_states j)) (Some (sub_states (mark_dispatched_effect t j)))"
  "is_pending j \<Longrightarrow> moves (Some (sub_states j)) (Some (sub_states (dispatch_failed_effect msg t j)))"
  "sub_states (record_attempt_effect n msg j) = sub_states j"
  by (auto simp: state_defs effect_defs intro!: moves.dispatching)

lemma execution_moves:
  "not_started j \<Longrightarrow> moves (Some (sub_states j)) (Some (sub_states (mark_running_effect t j)))"
  "is_running j \<Longrightarrow> moves (Some (sub_states j)) (Some (sub_states (complete_effect t meta j)))"
  "failable j \<Longrightarrow> moves (Some (sub_states j)) (Some (sub_states (fail_effect e t j)))"
  by (auto simp: state_defs effect_defs intro!: moves.executing)

lemma cancel_moves:
  "\<not> ExecutionStatus_IsTerminal (jm_ExecutionStatus j) \<Longrightarrow> CompositeStatus_IsValid (sub_states j) \<Longrightarrow>
   moves (Some (sub_states j)) (Some (sub_states (cancelled_model reason t j)))"
  by (cases "jm_ExecutionStatus j")
     (auto simp: state_defs CompositeStatus_IsValid_def intro!: moves.executing)

lemma retry_moves:
  "jm_ExecutionStatus j = ExecutionStatusFailed \<Longrightarrow> moves (Some (sub_states j)) (Some new_job)"
  by (simp add: sub_states_def moves.retrying)

section \<open>The handlers refine the state machine\<close>

text \<open>
  A handler of the service that ran to its end. Unlike in \<open>service_step\<close>, a retry counts
  whatever it returned.
\<close>

inductive handler_step :: "'s MetadataService \<Rightarrow> 's \<Rightarrow> 's \<Rightarrow> bool" for S where
  service: "service_step S s s' \<Longrightarrow> handler_step S s s'"
| any_retry: "RetryJob S jobID s = (r, s') \<Longrightarrow> handler_step S s s'"

context metadata_service
begin

lemma created_move:
  assumes "CreateJob S name payload opts s = (rj, s')"
  shows "one_move jobs s s'"
proof -
  obtain u s1 where u: "uuid s = (u, s1)" by fastforce
  obtain t s2 where c: "clock s1 = (t, s2)" by fastforce
  let ?j = "with_options (NewJobMetadata u name payload t) opts"
  obtain r s3 where w: "wr_Create W ?j s2 = (r, s3)" by fastforce
  have same: "jobs s2 = jobs s" using uuid_frame [OF u] clock_ok [OF c] by simp
  have "sub_states ?j = new_job" by (simp add: sub_states_def NewJobMetadata_def)
  moreover have "jobs s' = jobs s \<or> one_inserted jobs ?j s s'"
  proof -
    have "jobs s3 = jobs s2 \<or> one_inserted jobs ?j s2 s3"
      using w create_ok [of ?j s2 s3] jobs_writer.create_error [OF jobs_writer_axioms, of ?j s2 _ s3]
      by (cases r) blast+
    then have "jobs s3 = jobs s \<or> one_inserted jobs ?j s s3" unfolding one_inserted_def same .
    with assms same show ?thesis
      by (auto simp: CreateJob_def Let_def u c w one_inserted_def split: option.splits)
  qed
  ultimately show ?thesis by (blast intro: one_move_inserted one_move_unchanged)
qed

lemma direct_stepD:
  assumes "direct jobs k f r s s'"
  shows "jobs s' = jobs s \<or> (\<exists>j. jobs s k = Some j \<and> jobs s' = (jobs s)(k \<mapsto> f j))"
    and "r = None \<Longrightarrow> \<exists>j. jobs s k = Some j \<and> jobs s' = (jobs s)(k \<mapsto> f j)"
  using assms by (auto simp: direct_def applied_def split: option.splits)

text \<open>
  An interrupted retry leaves the job where it was, with one more retry counted, or already
  reset.
\<close>

lemma retry_move:
  assumes "RetryJob S jobID s = (r, s')"
  shows "one_move jobs s s'"
proof -
  obtain g s1 where g: "rd_Get R jobID s = (g, s1)" by fastforce
  obtain a s2 where a: "wr_IncrementRetryCount W jobID s1 = (a, s2)" by fastforce
  obtain b s3 where b: "wr_Update W jobID retry_patch s2 = (b, s3)" by fastforce
  obtain c s4 where c: "wr_ClearJobExecutionTimestamps W jobID s3 = (c, s4)" by fastforce
  obtain h s5 where h: "rd_Get R jobID s4 = (h, s5)" by fastforce
  have s1: "jobs s1 = jobs s" using get_frame [OF g] by simp
  note A = direct_stepD [OF increment_ok [OF a, THEN conjunct1]]
  note B = direct_stepD [OF update_ok [OF b retry_patch_not_empty, THEN conjunct1]]
  note C = direct_stepD [OF clear_ok [OF c, THEN conjunct1]]
  note run = assms [unfolded RetryJob_def NewMetadataService_simps g a b c h prod.case]
  show ?thesis
  proof (cases "\<exists>j. g = Inr j \<and> jm_ExecutionStatus j = ExecutionStatusFailed")
    case False
    with run have "jobs s' = jobs s1" by (cases g) auto
    with s1 show ?thesis by (simp add: one_move_unchanged)
  next
    case True
    then obtain j where gj: "g = Inr j" "jm_ExecutionStatus j = ExecutionStatusFailed" by blast
    then have j: "jobs s jobID = Some j" using get_found g by simp
    note run' = run [unfolded gj(1) sum.case]
    have one: "jobs s2 = jobs s \<or> jobs s2 = (jobs s)(jobID \<mapsto> IncrementRetryCount j)"
      using A(1) j s1 by auto
    have two: "jobs s3 = jobs s2 \<or> jobs s3 = (jobs s)(jobID \<mapsto> reset_effect (IncrementRetryCount j))"
      if "a = None" using B(1) A(2) that j s1 by (auto simp: reset_effect_def)
    have three: "jobs s4 = (jobs s)(jobID \<mapsto> reset_effect (IncrementRetryCount j))
        \<or> jobs s4 = (jobs s)(jobID \<mapsto> retried j)" if "a = None" "b = None"
      using C(1) A(2) B(2) that j s1 by (auto simp: reset_effect_def retried_def)
    have "jobs s5 = jobs s4" using get_frame [OF h] by simp
    have "jobs s' \<in> {jobs s, (jobs s)(jobID \<mapsto> IncrementRetryCount j),
        (jobs s)(jobID \<mapsto> reset_effect (IncrementRetryCount j)), (jobs s)(jobID \<mapsto> retried j)}"
    proof (cases a)
      case (Some e)
      with run' gj(2) have "s' = s2" by simp
      with one show ?thesis by blast
    next
      case a: None
      show ?thesis
      proof (cases b)
        case (Some e)
        with run' gj(2) a have "s' = s3" by simp
        with one two [OF a] show ?thesis by auto
      next
        case b: None
        have "jobs s' = jobs s4"
          using run' gj(2) a b \<open>jobs s5 = jobs s4\<close> by (cases c; cases h) auto
        with three [OF a b] show ?thesis by auto
      qed
    qed
    moreover have "sub_states (IncrementRetryCount j) = sub_states j"
      "sub_states (reset_effect (IncrementRetryCount j)) = new_job" "sub_states (retried j) = new_job"
      by (simp_all add: sub_states_def IncrementRetryCount_def reset_effect_eq retried_eq)
    ultimately show ?thesis
      using j retry_moves [OF gj(2)] by (auto intro: one_move_applied one_move_unchanged)
  qed
qed

end

context mongo_backend
begin

lemmas service_created_move = service.created_move [folded mongo_service_def]
lemmas service_retry_move = service.retry_move [folded mongo_service_def]

lemma service_one_move:
  assumes "service_step (mongo_service B) s s'" and "valid_states jobs s"
  shows "one_move jobs s s'"
  using assms(1)
proof cases
  case (create name payload opts rj)
  then show ?thesis by (rule service_created_move)
next
  case (dispatched jobID r)
  then obtain t where "confirmed jobs jobID is_pending (mark_dispatched_effect t) r s s'"
    using service_dispatched by blast
  then show ?thesis by (rule one_move_confirmed) (simp add: dispatch_moves)
next
  case (attempt jobID n msg r)
  then have "confirmed jobs jobID is_pending (record_attempt_effect n msg) r s s'"
    using service_attempt by blast
  then show ?thesis by (rule one_move_confirmed) (simp add: dispatch_moves)
next
  case (dispatch_failed jobID err r)
  then obtain t where
    "confirmed jobs jobID is_pending (dispatch_failed_effect (message_of err) t) r s s'"
    using service_dispatch_failed by blast
  then show ?thesis by (rule one_move_confirmed) (simp add: dispatch_moves)
next
  case (start jobID rb)
  then obtain t where "guarded jobs jobID not_started (mark_running_effect t) rb s s'"
    using service_start by blast
  then show ?thesis by (rule one_move_guarded) (simp add: execution_moves)
next
  case (complete jobID res r)
  then obtain t meta where "settled jobs jobID is_running (complete_effect t meta) r s s'"
    using service_complete by blast
  then show ?thesis by (rule one_move_settled) (simp add: execution_moves)
next
  case (fail jobID err r)
  then obtain t entry where "settled jobs jobID failable (fail_effect entry t) r s s'"
    using service_fail by blast
  then show ?thesis by (rule one_move_settled) (simp add: execution_moves)
next
  case (cancel jobID reason r)
  then obtain t where "settled jobs jobID (\<lambda>j. \<not> ExecutionStatus_IsTerminal (jm_ExecutionStatus j))
      (cancelled_model reason t) r s s'"
    using service_cancel by blast
  then show ?thesis
    by (rule one_move_settled) (simp add: cancel_moves valid_statesD [OF assms(2)])
next
  case (retry jobID)
  then show ?thesis by (rule service_retry_move)
qed

lemma handler_one_move:
  "handler_step (mongo_service B) s s' \<Longrightarrow> valid_states jobs s \<Longrightarrow> one_move jobs s s'"
  by (induction rule: handler_step.induct) (auto intro: service_one_move service_retry_move)

lemma handlers_move:
  "(handler_step (mongo_service B))\<^sup>*\<^sup>* s s' \<Longrightarrow> valid_states jobs s \<Longrightarrow>
   valid_states jobs s' \<and> moves\<^sup>*\<^sup>* (life jobs s i) (life jobs s' i)"
proof (induction rule: rtranclp_induct)
  case base
  then show ?case by simp
next
  case (step y z)
  then have m: "one_move jobs y z" by (blast intro: handler_one_move)
  from one_move_life [OF this, of i] step show ?case
    by (auto intro: one_move_valid [OF m] rtranclp.rtrancl_into_rtrancl)
qed

end

section \<open>Properties\<close>

text \<open>
  C11. Refinement of the state machine: a handler of the service, whatever it returns, changes at
  most one job, and the pair of states of that job is unchanged or makes one move of the
  machine: a move of the dispatch table, a move of the execution table, the reset of a retry,
  or its creation. Jobs with valid states keep valid states.
\<close>

theorem service_refines_lifecycle:
  assumes "mongo_backend B jobs logs"
    and "handler_step (mongo_service B) s s'" and "valid_states jobs s"
  shows "valid_states jobs s'
    \<and> (\<exists>k. (\<forall>i. i \<noteq> k \<longrightarrow> jobs s' i = jobs s i)
          \<and> (life jobs s' k = life jobs s k \<or> moves (life jobs s k) (life jobs s' k)))"
proof -
  note m = mongo_backend.handler_one_move [OF assms]
  from m have "\<exists>k. (\<forall>i. i \<noteq> k \<longrightarrow> jobs s' i = jobs s i)
          \<and> (life jobs s' k = life jobs s k \<or> moves (life jobs s k) (life jobs s' k))"
    by (auto simp: one_move_def)
  with one_move_valid [OF m assms(3)] show ?thesis by blast
qed

lemma sample_valid_states: "valid_states mem_coll (mem_with [sample_job] [])"
  by (simp add: valid_states_def life_def sample_stored sub_states_def CompositeStatus_IsValid_def)

theorem service_refines_lifecycle_witness:
  "let s = mem_with [sample_job] [] in
   \<exists>s'. handler_step (mongo_service mem_backend) s s'
     \<and> valid_states mem_coll s' \<and> jm_ExecutionStatus (the (mem_coll s' sample_id)) = ExecutionStatusRunning"
proof -
  let ?s = "mem_with [sample_job] []"
  let ?r = "StartJob (mongo_service mem_backend) sample_id ?s"
  have "?r = (fst ?r, snd ?r)" by simp
  then have step: "handler_step (mongo_service mem_backend) ?s (snd ?r)"
    by (intro handler_step.service service_step.start)
  have "fst ?r = Inr True" by (simp add: StartJob_def mem_run)
  then have "?r = (Inr True, snd ?r)" by (metis prod.collapse)
  from mem.service_start [OF this] have
    "jm_ExecutionStatus (the (mem_coll (snd ?r) sample_id)) = ExecutionStatusRunning"
    by (auto dest!: guarded_TrueD simp: mark_running_effect_def)
  with step service_refines_lifecycle [OF mem.mongo_backend_axioms step sample_valid_states]
  show ?thesis by auto
qed

text \<open>
  C12. Over any sequence of handlers a stored job is never lost, and a job that is completed or
  cancelled is displayed so for ever: no retry, late failure, late completion or second
  delivery changes how it ended.
\<close>

theorem finished_jobs_stay_finished:
  assumes "mongo_backend B jobs logs"
    and "(handler_step (mongo_service B))\<^sup>*\<^sup>* s s'" and "valid_states jobs s"
    and "jobs s jobID = Some j"
  shows "\<exists>j'. jobs s' jobID = Some j'
    \<and> (DisplayStatus j \<in> {JobStatusCompleted, JobStatusCancelled} \<longrightarrow> DisplayStatus j' = DisplayStatus j)"
proof -
  from mongo_backend.handlers_move [OF assms(1-3)]
  have m: "moves\<^sup>*\<^sup>* (life jobs s jobID) (life jobs s' jobID)" and v: "valid_states jobs s'" by blast+
  from moves_keep_job [OF m] assms(4) obtain j' where j': "jobs s' jobID = Some j'"
    by (auto simp: life_def)
  have "DisplayStatus j' = DisplayStatus j" if "DisplayStatus j \<in> {JobStatusCompleted, JobStatusCancelled}"
  proof -
    from valid_statesD [OF assms(3,4)] that
    have e: "Execution (sub_states j) \<in> {ExecutionStatusCompleted, ExecutionStatusCancelled}"
      by (auto simp: sub_states_def DisplayStatus_def CompositeStatus_DisplayStatus_def
          CompositeStatus_IsValid_def split: ExecutionStatus.splits DispatchStatus.splits)
    with m assms(4) have "moves\<^sup>*\<^sup>* (Some (sub_states j)) (life jobs s' jobID)" by (simp add: life_def)
    from moves_keep_finished [OF this e] j' have "jm_ExecutionStatus j' = jm_ExecutionStatus j"
      by (simp add: life_def sub_states_def)
    with e show ?thesis by (auto simp: sub_states_def DisplayStatus_simps)
  qed
  with j' show ?thesis by blast
qed

theorem finished_jobs_stay_finished_witness:
  "let s = mem_with [sample_cancelled_job] [];
       s1 = snd (RetryJob (mongo_service mem_backend) sample_id s);
       s2 = snd (StartJob (mongo_service mem_backend) sample_id s1)
   in DisplayStatus (the (mem_coll s2 sample_id)) = JobStatusCancelled"
proof -
  let ?s = "mem_with [sample_cancelled_job] []"
  let ?S = "mongo_service mem_backend"
  let ?r = "RetryJob ?S sample_id ?s"
  let ?q = "StartJob ?S sample_id (snd ?r)"
  have valid: "valid_states mem_coll ?s"
    by (simp add: valid_states_def life_def sample_stored sub_states_def CompositeStatus_IsValid_def)
  have "?r = (fst ?r, snd ?r)" "?q = (fst ?q, snd ?q)" by simp_all
  then have "handler_step ?S ?s (snd ?r)" "handler_step ?S (snd ?r) (snd ?q)"
    by (blast intro: handler_step.intros service_step.start)+
  then have "(handler_step ?S)\<^sup>*\<^sup>* ?s (snd ?q)" by simp
  moreover have "mem_coll ?s sample_id = Some sample_cancelled_job" by (simp add: sample_stored)
  ultimately obtain j' where "mem_coll (snd ?q) sample_id = Some j'"
    "DisplayStatus sample_cancelled_job \<in> {JobStatusCompleted, JobStatusCancelled} \<longrightarrow>
      DisplayStatus j' = DisplayStatus sample_cancelled_job"
    using finished_jobs_stay_finished [OF mem.mongo_backend_axioms _ valid] by metis
  then show ?thesis by (simp add: DisplayStatus_simps)
qed

text \<open>
  The stored field \<open>status\<close> does not follow the pair of states. An executor that receives
  the message before the dispatcher has recorded the publication starts the job; the record
  of the dispatch then sets the field back to \<open>dispatched\<close> while the job is running, and it
  stays so in what the API returns until the next transition.
\<close>

theorem late_dispatch_mark_rewinds_status:
  "let s = mem_with [sample_job] [];
       s1 = snd (StartJob (mongo_service mem_backend) sample_id s);
       j1 = the (mem_coll s1 sample_id);
       j2 = the (mem_coll (snd (MarkJobDispatched (mongo_service mem_backend) sample_id s1)) sample_id)
   in jm_Status j1 = JobStatusRunning \<and> jm_Status j2 = JobStatusDispatched
      \<and> DisplayStatus j2 = JobStatusRunning"
  by (simp add: StartJob_def MarkJobDispatched_def mem_run effect_defs DisplayStatus_simps)

end
