(* ===== verification/JobLogs.thy ===== *)
theory JobLogs
  imports Samples
begin

text \<open>
  The log of a job, as the readers and writers of the log collection and the service offer it:
  what an entry that was added looks like when it is read back, which entries a filter
  selects, and how their pages are ordered.
\<close>

lemma decode_all_found: "decode_all msg (map Inr xs) acc = Inr (acc @ xs)"
  by (induction xs arbitrary: acc) simp_all

section \<open>What a log filter selects\<close>

definition log_accepts :: "string \<Rightarrow> LogFilter \<Rightarrow> JobLog \<Rightarrow> bool" where
  "log_accepts jobID f l \<longleftrightarrow>
     jl_JobID l = jobID
   \<and> (gf_Levels f = [] \<or> jl_Level l \<in> set (gf_Levels f))
   \<and> within (gf_Since f) (gf_Until f) (jl_Timestamp l)"

lemma buildLogsQuery_matches: "log_matches (buildLogsQuery jobID f) l \<longleftrightarrow> log_accepts jobID f l"
proof -
  have id: "clause_matches (\<lambda>k. log_field k l) (''jobId'', BStr jobID) \<longleftrightarrow> jl_JobID l = jobID"
    by (simp add: query_match_defs log_field_def)
  have lv: "clause_matches (\<lambda>k. log_field k l) (''level'', BDoc [(''$in'', BArr (map BLevel ls))])
      \<longleftrightarrow> jl_Level l \<in> set ls" for ls
    by (auto simp: query_match_defs log_field_def)
  have ts: "clause_matches (\<lambda>k. log_field k l)
      (''timestamp'', BDoc (optional_key ''$gte'' BTime lo @ optional_key ''$lte'' BTime hi))
      \<longleftrightarrow> within lo hi (jl_Timestamp l)" for lo hi
    by (auto simp: query_match_defs log_field_def within_def optional_key_def split: option.splits)
  have "within None None (jl_Timestamp l)" by (simp add: within_def)
  then show ?thesis
    by (auto simp: buildLogsQuery_def log_accepts_def query_matches_opt id lv ts query_matches_def
        simp del: list_all_append)
qed

section \<open>The contract\<close>

text \<open>
  A page is a stretch of the selected entries in the order asked for: newest first, after the
  entries that were skipped.
\<close>

definition newest_entries_first :: "JobLog list \<Rightarrow> bool" where
  "newest_entries_first ls \<longleftrightarrow> sorted_wrt (\<lambda>a b. jl_Timestamp b \<le> jl_Timestamp a) ls"

definition log_page :: "LogFilter \<Rightarrow> JobLog list \<Rightarrow> JobLog list" where
  "log_page f ys =
     (let d = drop (nat (gf_Skip f)) ys in if gf_Limit f > 0 then take (nat (gf_Limit f)) d else d)"

locale log_store =
  fixes R :: "'s JobsReader" and W :: "'s JobsWriter"
    and jobs :: "'s \<Rightarrow> string \<Rightarrow> job option"
    and logs :: "'s \<Rightarrow> JobLog list"
    and clock :: "('s, instant) op"
  assumes get_logs_frame: "rd_GetLogs R jobID f s = (rl, s') \<Longrightarrow> jobs s' = jobs s \<and> logs s' = logs s"
    and get_logs_page: "rd_GetLogs R jobID f s = (Inr ls, s') \<Longrightarrow>
      \<exists>ys. mset ys = mset (filter (log_accepts jobID f) (logs s)) \<and> newest_entries_first ys
         \<and> ls = log_page f ys"
    and add_appends: "wr_AddLog W l s = (r, s') \<Longrightarrow>
      jobs s' = jobs s \<and> (case r of None \<Rightarrow> logs s' = logs s @ [l]
         | Some e \<Rightarrow> foreign_error e \<and> (logs s' = logs s \<or> logs s' = logs s @ [l]))"
    and log_clock: "clock s = (t, s') \<Longrightarrow> jobs s' = jobs s \<and> logs s' = logs s \<and> t \<noteq> 0"
begin

abbreviation LS :: "(('s, string) op) \<Rightarrow> 's MetadataService" where
  "LS uuid \<equiv> NewMetadataService R W clock uuid"

lemma page_within: "set (log_page f ys) \<subseteq> set ys"
  by (auto simp: log_page_def Let_def dest: in_set_takeD in_set_dropD split: if_splits)

lemma page_sorted: "newest_entries_first ys \<Longrightarrow> newest_entries_first (log_page f ys)"
  by (simp add: newest_entries_first_def log_page_def Let_def sorted_wrt_drop sorted_wrt_take)

lemma page_at_most: "0 < gf_Limit f \<Longrightarrow> int (length (log_page f ys)) \<le> gf_Limit f"
  by (auto simp: log_page_def Let_def)

lemma page_everything: "gf_Limit f \<le> 0 \<Longrightarrow> gf_Skip f \<le> 0 \<Longrightarrow> log_page f ys = ys"
  by (simp add: log_page_def)

lemma read_logs:
  assumes "GetJobLogs (LS uuid) jobID f s = (Inr ls, s')"
  shows "newest_entries_first ls \<and> (0 < gf_Limit f \<longrightarrow> int (length ls) \<le> gf_Limit f)
    \<and> (\<forall>l\<in>set ls. l \<in> set (logs s) \<and> log_accepts jobID f l)
    \<and> (gf_Limit f \<le> 0 \<and> gf_Skip f \<le> 0 \<longrightarrow> mset ls = mset (filter (log_accepts jobID f) (logs s)))
    \<and> logs s' = logs s \<and> jobs s' = jobs s"
proof -
  from assms have g: "rd_GetLogs R jobID f s = (Inr ls, s')" by (simp add: GetJobLogs_def)
  from get_logs_page [OF g] obtain ys where ys: "mset ys = mset (filter (log_accepts jobID f) (logs s))"
    "newest_entries_first ys" "ls = log_page f ys" by blast
  from ys(1) have "set ys = set (filter (log_accepts jobID f) (logs s))" by (metis set_mset_mset)
  with ys page_within [of f ys] page_sorted page_at_most page_everything get_logs_frame [OF g]
  show ?thesis by auto
qed

lemma added_entry:
  assumes "AddJobLog (LS uuid) jobID level message ctx s = (None, s')"
  shows "\<exists>t. t \<noteq> 0 \<and> jobs s' = jobs s
    \<and> logs s' = logs s @ [(NewJobLogWithContext jobID level message ctx t)\<lparr>jl_Source := ''api''\<rparr>]"
proof -
  obtain t s1 where c: "clock s = (t, s1)" by fastforce
  let ?l = "(NewJobLogWithContext jobID level message ctx t)\<lparr>jl_Source := ''api''\<rparr>"
  from assms c have "wr_AddLog W ?l s1 = (None, s')" by (simp add: AddJobLog_def)
  with add_appends [of ?l s1 None s'] log_clock [OF c] show ?thesis by auto
qed

lemma added_then_read:
  assumes "AddJobLog (LS uuid) jobID level message ctx s = (None, s1)"
    and "GetJobLogs (LS uuid) jobID empty_log_filter s1 = (Inr ls, s2)"
  shows "\<exists>l. mset ls = add_mset l (mset (filter (log_accepts jobID empty_log_filter) (logs s)))
    \<and> jl_JobID l = jobID \<and> jl_Level l = level \<and> jl_Message l = message \<and> jl_Context l = ctx
    \<and> jl_Source l = ''api''"
proof -
  from added_entry [OF assms(1)] obtain t where
    l: "logs s1 = logs s @ [(NewJobLogWithContext jobID level message ctx t)\<lparr>jl_Source := ''api''\<rparr>]"
    by blast
  let ?l = "(NewJobLogWithContext jobID level message ctx t)\<lparr>jl_Source := ''api''\<rparr>"
  have f: "jl_JobID ?l = jobID" "jl_Level ?l = level" "jl_Message ?l = message" "jl_Context ?l = ctx"
    "jl_Source ?l = ''api''"
    by (simp_all add: NewJobLogWithContext_def NewJobLog_def)
  have "log_accepts jobID empty_log_filter ?l"
    using f by (simp add: log_accepts_def empty_log_filter_def within_def)
  with read_logs [OF assms(2)] l
  have "mset ls = add_mset ?l (mset (filter (log_accepts jobID empty_log_filter) (logs s)))"
    by (simp add: empty_log_filter_def)
  with f show ?thesis by blast
qed

end

section \<open>The adapters provide it\<close>

context mongo_backend
begin

lemma log_page_eq:
  "page \<lparr>fo_Limit = positive (gf_Limit f), fo_Skip = positive (gf_Skip f), fo_Sort = srt\<rparr> ys
     = log_page f ys"
  by (simp add: page_def log_page_def positive_def Let_def)

lemma log_order:
  "sorted_wrt (in_order log_field \<lparr>fo_Limit = a, fo_Skip = b, fo_Sort = [(''timestamp'', - 1)]\<rparr>) ys
     \<longleftrightarrow> newest_entries_first ys"
proof -
  have "in_order log_field \<lparr>fo_Limit = a, fo_Skip = b, fo_Sort = [(''timestamp'', - 1)]\<rparr>
      = (\<lambda>a b. jl_Timestamp b \<le> jl_Timestamp a)"
    by (intro ext) (simp add: in_order_def log_field_def)
  then show ?thesis by (simp add: newest_entries_first_def)
qed

lemma get_logs_delivers:
  assumes "Reader_GetLogs B jobID f s = (Inr ls, s')"
  shows "\<exists>ys. mset ys = mset (filter (log_accepts jobID f) (logs s)) \<and> newest_entries_first ys
    \<and> ls = log_page f ys"
proof -
  let ?o = "\<lparr>fo_Limit = positive (gf_Limit f), fo_Skip = positive (gf_Skip f),
    fo_Sort = [(''timestamp'', - 1)]\<rparr>"
  obtain c where f: "be_log_find B (buildLogsQuery jobID f) ?o s = (Inr c, s')"
    and "join_close (read_cursor ''failed to decode log'' ''cursor error'' c) c = Inr ls"
    using assms by (auto simp: Reader_GetLogs_def split: prod.splits sum.splits)
  then have "delivers c ls" by (auto dest: join_close_Inr read_cursor_Inr)
  from log_find_delivers [OF f this] show ?thesis
    by (simp add: log_order log_page_eq buildLogsQuery_matches)
qed

end

sublocale mongo_backend \<subseteq> log: log_store "MongoJobsReader B" "MongoJobsWriter B" jobs logs "be_now B"
proof
  fix jobID f s rl s' assume "rd_GetLogs (MongoJobsReader B) jobID f s = (rl, s')"
  then show "jobs s' = jobs s \<and> logs s' = logs s"
    by (auto simp: MongoJobsReader_def Reader_GetLogs_def dest: log_find_frame
        split: prod.splits sum.splits)
next
  fix jobID f s ls s' assume "rd_GetLogs (MongoJobsReader B) jobID f s = (Inr ls, s')"
  then show "\<exists>ys. mset ys = mset (filter (log_accepts jobID f) (logs s)) \<and> newest_entries_first ys
      \<and> ls = log_page f ys"
    by (intro get_logs_delivers) (simp add: MongoJobsReader_def)
next
  fix l s r s' assume "wr_AddLog (MongoJobsWriter B) l s = (r, s')"
  then show "jobs s' = jobs s \<and> (case r of None \<Rightarrow> logs s' = logs s @ [l]
      | Some e \<Rightarrow> foreign_error e \<and> (logs s' = logs s \<or> logs s' = logs s @ [l]))"
    by (auto simp: MongoJobsWriter_def Writer_AddLog_def
        dest: log_insert_frame log_insert_ok log_insert_error split: prod.splits option.splits)
next
  fix s t s' assume "be_now B s = (t, s')"
  then show "jobs s' = jobs s \<and> logs s' = logs s \<and> t \<noteq> 0" by (rule now_ok)
qed

context mongo_backend
begin

lemmas service_read_logs = log.read_logs [of "be_uuid B", folded mongo_service_def]
lemmas service_added_then_read = log.added_then_read [of "be_uuid B", folded mongo_service_def]

end

section \<open>Properties\<close>

text \<open>
  C29. An entry added through the service is read back with its level, message, context and the
  source \<open>api\<close>, beside exactly the entries of the job that were there before; every page of
  the log has only entries of the job that the filter selects, newest first, and no more
  than the limit.
\<close>

theorem log_roundtrip:
  assumes "mongo_backend B jobs logs"
    and "AddJobLog (mongo_service B) jobID level message ctx s = (None, s1)"
    and "GetJobLogs (mongo_service B) jobID empty_log_filter s1 = (Inr ls, s2)"
    and "GetJobLogs (mongo_service B) jobID f s2 = (Inr pg, s3)"
  shows "(\<exists>l. mset ls = add_mset l (mset (filter (\<lambda>e. jl_JobID e = jobID) (logs s)))
        \<and> jl_Level l = level \<and> jl_Message l = message \<and> jl_Context l = ctx \<and> jl_Source l = ''api'')
    \<and> set pg \<subseteq> {l \<in> set ls. log_accepts jobID f l}
    \<and> sorted_wrt (\<lambda>a b. jl_Timestamp b \<le> jl_Timestamp a) pg
    \<and> (0 < gf_Limit f \<longrightarrow> int (length pg) \<le> gf_Limit f)"
proof -
  have all: "log_accepts jobID empty_log_filter = (\<lambda>e. jl_JobID e = jobID)"
    by (intro ext) (simp add: log_accepts_def empty_log_filter_def within_def)
  note r1 = mongo_backend.service_read_logs [OF assms(1) assms(3)]
  note r2 = mongo_backend.service_read_logs [OF assms(1) assms(4)]
  have unlimited: "gf_Limit empty_log_filter \<le> 0" "gf_Skip empty_log_filter \<le> 0"
    by (simp_all add: empty_log_filter_def)
  with r1 have "mset ls = mset (filter (\<lambda>e. jl_JobID e = jobID) (logs s1))" "logs s2 = logs s1"
    unfolding all by blast+
  then have "set ls = {l \<in> set (logs s2). jl_JobID l = jobID}"
    by (metis mset_eq_setD set_filter)
  with r2 have "set pg \<subseteq> {l \<in> set ls. log_accepts jobID f l}" by (auto simp: log_accepts_def)
  with mongo_backend.service_added_then_read [OF assms(1-3)] r2 show ?thesis
    unfolding all newest_entries_first_def by blast
qed

theorem log_roundtrip_witness:
  "\<exists>l. fst (GetJobLogs (mongo_service mem_backend) sample_id empty_log_filter
          (snd (AddJobLog (mongo_service mem_backend) sample_id LogLevelInfo ''hello'' None mem_empty)))
       = Inr [l] \<and> jl_Message l = ''hello''"
proof -
  let ?a = "AddJobLog (mongo_service mem_backend) sample_id LogLevelInfo ''hello'' None mem_empty"
  let ?g = "\<lambda>s. GetJobLogs (mongo_service mem_backend) sample_id empty_log_filter s"
  have logs: "mem_logs mem_empty = []" and script: "mem_script mem_empty = []"
    by (simp_all add: mem_empty_def)
  have a: "?a = (None, snd ?a)" and sc: "mem_script (snd ?a) = []"
    by (simp_all add: AddJobLog_def mem_run)
  have g: "\<exists>ls. ?g s = (Inr ls, s)" if "mem_script s = []" for s
    using that
    by (simp add: GetJobLogs_def mongo_service_def adapter_operations Reader_GetLogs_def mem_backend_def
        scripted_def join_close_def read_cursor_def list_cursor_def decode_all_found)
  from g [OF sc] obtain ls where ls: "?g (snd ?a) = (Inr ls, snd ?a)" by blast
  from log_roundtrip [OF mem.mongo_backend_axioms a ls ls] logs
  obtain l where "mset ls = {#l#}" "jl_Message l = ''hello''" by auto
  then have "ls = [l]" by simp
  with ls \<open>jl_Message l = ''hello''\<close> show ?thesis by simp
qed

end
