(* ===== verification/QueryProperties.thy ===== *)
theory QueryProperties
  imports JobLogs
begin

text \<open>
  The documents the adapters send, against reference definitions that never mention BSON: the
  filter of a list or of the log selects what its fields say, and the set document built by
  reflection over an \<open>UpdateJob\<close> changes exactly the fields the patch gives.
\<close>


text \<open>
  C31. For every patch the reflective loop succeeds, its document is empty only for the patch that
  sets nothing, and applying it with \<open>$set\<close> gives the job in which each field is the one of
  the patch if the patch has it, and the one of the job otherwise.
\<close>

theorem patch_document_sets_its_fields:
  "\<exists>d. update_set_doc p = Inr d \<and> (d = [] \<longleftrightarrow> p = empty_patch)
     \<and> apply_update (BDoc [(''$set'', BDoc d)]) j = Some (patch_effect p j)"
proof -
  obtain d where d: "update_set_doc p = Inr d" by (simp add: update_set_doc_eq)
  with patch_doc_empty patch_set_doc [OF d, of j] show ?thesis
    by (simp add: apply_set_update)
qed

end
