(* ===== verification/Topics.thy ===== *)
theory Topics
  imports Prelude
begin

text \<open>
  \<open>internal/jobs/pulsar/topic_resolver.go\<close>: the registry that maps job names to Pulsar topics,
  loaded from a YAML manifest. Reading the file and parsing YAML (a third-party package) are
  the first two arguments of \<open>NewFileTopicResolver\<close>; the parsed map arrives as the list of its
  entries in the order in which Go happens to iterate over it. The name of a job is trimmed
  on both sides: when the manifest is loaded and when a topic is looked up.
\<close>

section \<open>The interface\<close>

type_synonym TopicResolver = "string \<Rightarrow> goerror + string"

text \<open>
  What the enqueue service relies on: the answer depends on the trimmed name only, and a
  name without a topic is reported with \<open>ErrUnknownJobType\<close>.
\<close>

locale topic_resolver =
  fixes resolve :: TopicResolver
  assumes resolve_trimmed: "resolve (trim_space name) = resolve name"
    and resolve_unknown: "resolve name = Inl e \<Longrightarrow> errors_is e ErrUnknownJobType"
    and resolve_blank: "trim_space name = [] \<Longrightarrow> resolve name = Inl ErrUnknownJobType"
begin

lemma resolved_not_blank: "resolve name = Inr topic \<Longrightarrow> trim_space name \<noteq> []"
  using resolve_blank [of name] by auto

lemma resolve_same: "trim_space a = trim_space b \<Longrightarrow> resolve a = resolve b"
  using resolve_trimmed [of a] resolve_trimmed [of b] by simp

end

section \<open>The file resolver\<close>

record jobTopicEntry =
  te_Topic :: string
  te_Domain :: string

record FileTopicResolver =
  tr_byName :: "(string \<times> string) list"

text \<open>The loop over the entries, with the map built so far.\<close>

fun load_topics ::
  "(string \<times> jobTopicEntry) list \<Rightarrow> (string \<times> string) list \<Rightarrow> goerror + (string \<times> string) list" where
  "load_topics [] byName = Inr byName"
| "load_topics ((rawName, entry) # rest) byName =
     (let name = trim_space rawName; topic = trim_space (te_Topic entry) in
      if name = [] then Inl (ErrorString ''job topics config: empty job name key'')
      else if topic = [] then
        Inl (ErrorString (''job topics config: topic for '' @ go_quote name @ '' is empty''))
      else if trim_space (te_Domain entry) = [] then
        Inl (ErrorString (''job topics config: domain for '' @ go_quote name @ '' is empty''))
      else load_topics rest (AList.update name topic byName))"

definition NewFileTopicResolver ::
  "(string \<Rightarrow> goerror + string) \<Rightarrow> (string \<Rightarrow> goerror + (string \<times> jobTopicEntry) list)
     \<Rightarrow> string \<Rightarrow> goerror + FileTopicResolver" where
  "NewFileTopicResolver read_file parse_yaml path =
     (case read_file path of
        Inl err \<Rightarrow> Inl (wrap ''read job topics config'' err)
      | Inr contents \<Rightarrow>
          (case parse_yaml contents of
             Inl err \<Rightarrow> Inl (wrap ''parse job topics config'' err)
           | Inr topics \<Rightarrow>
               if length topics = 0 then
                 Inl (ErrorString ''job topics config: topics map is empty'')
               else (case load_topics topics [] of
                       Inl err \<Rightarrow> Inl err
                     | Inr byName \<Rightarrow> Inr \<lparr>tr_byName = byName\<rparr>)))"

definition Resolve :: "FileTopicResolver \<Rightarrow> TopicResolver" where
  "Resolve r jobName =
     (let jobName = trim_space jobName in
      if jobName = [] then Inl ErrUnknownJobType
      else case map_of (tr_byName r) jobName of
        None \<Rightarrow> Inl (Wrapped [] ErrUnknownJobType ('': '' @ go_quote jobName))
      | Some topic \<Rightarrow> Inr topic)"

fun unique_loop :: "(string \<times> string) list \<Rightarrow> string list \<Rightarrow> string list \<Rightarrow> string list" where
  "unique_loop [] seen topics = topics"
| "unique_loop ((name, topic) # rest) seen topics =
     (if topic \<in> set seen then unique_loop rest seen topics
      else unique_loop rest (topic # seen) (topics @ [topic]))"

definition UniqueTopics :: "FileTopicResolver \<Rightarrow> string list" where
  "UniqueTopics r = unique_loop (tr_byName r) [] []"

section \<open>Facts\<close>

interpretation file_topics: topic_resolver "Resolve r" for r
proof
  fix name show "Resolve r (trim_space name) = Resolve r name"
    by (simp add: Resolve_def)
next
  fix name e assume "Resolve r name = Inl e"
  then show "errors_is e ErrUnknownJobType"
    by (auto simp: Resolve_def Let_def split: if_splits option.splits)
next
  fix name assume "trim_space name = []"
  then show "Resolve r name = Inl ErrUnknownJobType" by (simp add: Resolve_def)
qed

text \<open>A registry as loading leaves it: one entry for each name, nothing blank or padded.\<close>

definition clean_registry :: "(string \<times> string) list \<Rightarrow> bool" where
  "clean_registry m \<longleftrightarrow> distinct (map fst m)
     \<and> (\<forall>(name, topic)\<in>set m. name \<noteq> [] \<and> trim_space name = name
          \<and> topic \<noteq> [] \<and> trim_space topic = topic)"

lemma clean_registry_update:
  assumes "clean_registry m" "trim_space n \<noteq> []" "trim_space t \<noteq> []"
  shows "clean_registry (AList.update (trim_space n) (trim_space t) m)"
proof -
  have "set (AList.update (trim_space n) (trim_space t) m) \<subseteq> insert (trim_space n, trim_space t) (set m)"
    by (induction m) auto
  with assms show ?thesis by (auto simp: clean_registry_def distinct_update)
qed

lemma load_topics_clean:
  "load_topics entries m = Inr m' \<Longrightarrow> clean_registry m \<Longrightarrow> clean_registry m'"
  by (induction entries m rule: load_topics.induct)
     (auto simp: Let_def clean_registry_update split: if_splits)

lemma load_topics_names:
  "load_topics entries m = Inr m' \<Longrightarrow>
   fst ` set m' = fst ` set m \<union> (trim_space \<circ> fst) ` set entries"
  by (induction entries m rule: load_topics.induct)
     (auto simp: Let_def dom_update split: if_splits)

lemma load_topics_topics:
  "load_topics entries m = Inr m' \<Longrightarrow> (n, t) \<in> set m' \<Longrightarrow> clean_registry m \<Longrightarrow>
   (n, t) \<in> set m \<or> (\<exists>(n', e)\<in>set entries. n = trim_space n' \<and> t = trim_space (te_Topic e))"
proof (induction entries m rule: load_topics.induct)
  case (1 m)
  then show ?case by simp
next
  case (2 raw e rest m)
  let ?m = "AList.update (trim_space raw) (trim_space (te_Topic e)) m"
  from "2.prems" have ne: "trim_space raw \<noteq> []" "trim_space (te_Topic e) \<noteq> []"
    "trim_space (te_Domain e) \<noteq> []" and l: "load_topics rest ?m = Inr m'"
    by (auto simp: Let_def split: if_splits)
  have "clean_registry ?m" using "2.prems"(3) ne by (simp add: clean_registry_update)
  with "2.IH" [OF refl refl ne l] "2.prems"(2) have
    "(n, t) \<in> set ?m \<or> (\<exists>(n', e)\<in>set rest. n = trim_space n' \<and> t = trim_space (te_Topic e))" by blast
  moreover have "set ?m \<subseteq> insert (trim_space raw, trim_space (te_Topic e)) (set m)"
    by (induction m) auto
  ultimately show ?case by auto
qed

lemma unique_loop_set:
  "set seen = set topics \<Longrightarrow> distinct topics \<Longrightarrow>
   set (unique_loop m seen topics) = set topics \<union> snd ` set m \<and> distinct (unique_loop m seen topics)"
  by (induction m seen topics rule: unique_loop.induct) auto

lemma UniqueTopics_set: "set (UniqueTopics r) = snd ` set (tr_byName r)"
  and UniqueTopics_distinct: "distinct (UniqueTopics r)"
  using unique_loop_set [of "[]" "[]" "tr_byName r"] by (simp_all add: UniqueTopics_def)

lemma Resolve_InrD:
  "Resolve r name = Inr topic \<Longrightarrow> map_of (tr_byName r) (trim_space name) = Some topic \<and> trim_space name \<noteq> []"
  by (auto simp: Resolve_def Let_def split: if_splits option.splits)

lemma loaded_clean: "NewFileTopicResolver read_file parse_yaml path = Inr r \<Longrightarrow> clean_registry (tr_byName r)"
  by (auto simp: NewFileTopicResolver_def clean_registry_def dest!: load_topics_clean
      split: if_splits sum.splits)

lemma loaded_topic:
  assumes "NewFileTopicResolver read_file parse_yaml path = Inr r" and "Resolve r name = Inr topic"
  shows "topic \<in> set (UniqueTopics r) \<and> topic \<noteq> [] \<and> trim_space topic = topic"
  using Resolve_InrD [OF assms(2)] loaded_clean [OF assms(1)]
  by (auto simp: UniqueTopics_set clean_registry_def dest: map_of_SomeD intro: rev_image_eqI)

section \<open>Properties\<close>

text \<open>
  C25. A resolver that loaded: the topic of every job is neither empty nor padded and is one
  of the topics the executors subscribe to, each listed once; the names that resolve are
  exactly those whose trimmed form is the trimmed form of a key of the manifest.
\<close>

theorem loaded_topics_are_subscribed:
  assumes "NewFileTopicResolver read_file parse_yaml path = Inr r"
    and "read_file path = Inr contents" and "parse_yaml contents = Inr entries"
  shows "distinct (UniqueTopics r) \<and> UniqueTopics r \<noteq> []
    \<and> (\<forall>name topic. Resolve r name = Inr topic \<longrightarrow>
          topic \<in> set (UniqueTopics r) \<and> topic \<noteq> [] \<and> trim_space topic = topic)
    \<and> (\<forall>name. (\<exists>topic. Resolve r name = Inr topic) \<longleftrightarrow>
          trim_space name \<in> (trim_space \<circ> fst) ` set entries)"
proof -
  from assms have l: "load_topics entries [] = Inr (tr_byName r)" and ne: "entries \<noteq> []"
    by (auto simp: NewFileTopicResolver_def split: if_splits sum.splits)
  note clean = loaded_clean [OF assms(1)]
  have names: "fst ` set (tr_byName r) = (trim_space \<circ> fst) ` set entries"
    using load_topics_names [OF l] by simp
  have "UniqueTopics r \<noteq> []"
  proof -
    from ne names have "set (tr_byName r) \<noteq> {}" by (cases entries) auto
    then have "set (UniqueTopics r) \<noteq> {}" by (simp add: UniqueTopics_set)
    then show ?thesis by auto
  qed
  moreover have "topic \<in> set (UniqueTopics r) \<and> topic \<noteq> [] \<and> trim_space topic = topic"
    if "Resolve r name = Inr topic" for name topic
    using loaded_topic [OF assms(1) that] .
  moreover have "(\<exists>topic. Resolve r name = Inr topic) \<longleftrightarrow> trim_space name \<in> (trim_space \<circ> fst) ` set entries"
    for name
  proof -
    have "(\<exists>topic. Resolve r name = Inr topic) \<longleftrightarrow>
        trim_space name \<noteq> [] \<and> trim_space name \<in> fst ` set (tr_byName r)"
      by (auto simp: Resolve_def Let_def map_of_eq_None_iff split: option.splits)
        (metis domI dom_map_of_conv_image_fst option.exhaust)
    also have "\<dots> \<longleftrightarrow> trim_space name \<in> fst ` set (tr_byName r)"
      using clean by (auto simp: clean_registry_def)
    finally show ?thesis by (simp add: names)
  qed
  ultimately show ?thesis using UniqueTopics_distinct by blast
qed

definition sample_manifest :: "(string \<times> jobTopicEntry) list" where
  "sample_manifest =
     [('' echo '', \<lparr>te_Topic = ''t-a'', te_Domain = ''d''\<rparr>),
      (''load'', \<lparr>te_Topic = ''t-b '', te_Domain = ''d''\<rparr>),
      (''store'', \<lparr>te_Topic = ''t-a'', te_Domain = ''d''\<rparr>)]"

definition sample_registry :: FileTopicResolver where
  "sample_registry = \<lparr>tr_byName = [(''echo'', ''t-a''), (''load'', ''t-b''), (''store'', ''t-a'')]\<rparr>"

lemma sample_registry_loads:
  "NewFileTopicResolver (\<lambda>p. Inr []) (\<lambda>c. Inr sample_manifest) [] = Inr sample_registry"
  by (simp add: NewFileTopicResolver_def sample_manifest_def sample_registry_def trim_space_def
      is_space_def Let_def)

lemma sample_registry_resolves:
  "Resolve sample_registry ''echo'' = Inr ''t-a''"
  "Resolve sample_registry ''nope'' = Inl (Wrapped [] ErrUnknownJobType ('': '' @ go_quote ''nope''))"
  by (simp_all add: Resolve_def sample_registry_def trim_space_def is_space_def)

theorem loaded_topics_are_subscribed_witness:
  "Resolve sample_registry ''echo'' = Inr ''t-a'' \<and> ''t-a'' \<in> set (UniqueTopics sample_registry)"
  using loaded_topics_are_subscribed [OF sample_registry_loads refl refl] sample_registry_resolves(1)
  by blast

end
