(* ===== verification/Enqueue.thy ===== *)
theory Enqueue
  imports MetadataService Topics
begin

text \<open>
  \<open>internal/jobs/service/enqueue_service.go\<close>: a job is accepted when its name has a topic,
  and is stored with that topic in one write; publishing is left to the dispatcher.
\<close>

record 's EnqueueService =
  en_metadata :: "'s MetadataService"
  en_topics :: TopicResolver

definition NewEnqueueService :: "'s MetadataService \<Rightarrow> TopicResolver \<Rightarrow> 's EnqueueService" where
  "NewEnqueueService S topics = \<lparr>en_metadata = S, en_topics = topics\<rparr>"

definition Enqueue ::
  "'s EnqueueService \<Rightarrow> string \<Rightarrow> gomap \<Rightarrow> CreateJobOptions \<Rightarrow> ('s, goerror + job) op" where
  "Enqueue E name payload opts s =
     (case en_topics E name of
        Inl err \<Rightarrow>
          if errors_is err ErrUnknownJobType then (Inl err, s)
          else (Inl (wrap ''resolve topic'' err), s)
      | Inr topic \<Rightarrow> CreateJob (en_metadata E) name payload (opts\<lparr>co_Topic := topic\<rparr>) s)"

locale enqueue_service =
  metadata_service R W jobs logs clock uuid + topic_resolver resolve
  for R :: "'s JobsReader" and W :: "'s JobsWriter"
    and jobs :: "'s \<Rightarrow> string \<Rightarrow> job option" and logs :: "'s \<Rightarrow> JobLog list"
    and clock :: "('s, instant) op" and uuid :: "('s, string) op" and resolve :: TopicResolver
begin

abbreviation E :: "'s EnqueueService" where
  "E \<equiv> NewEnqueueService S resolve"

lemma create_topic:
  assumes "CreateJob S name payload opts s = (Inr j, s')" and "co_Topic opts \<noteq> []"
  shows "jm_Topic j = co_Topic opts"
  using assms by (auto simp: CreateJob_def Let_def with_options_def split: prod.splits option.splits)

text \<open>A name without a topic is refused with nothing done; the caller sees which error it was.\<close>

lemma enqueue_unknown:
  assumes "resolve name = Inl e"
  shows "Enqueue E name payload opts s = (Inl e, s) \<and> errors_is e ErrUnknownJobType"
  using assms resolve_unknown [OF assms] by (simp add: Enqueue_def NewEnqueueService_def)

lemma enqueue_known:
  assumes "resolve name = Inr topic" and "topic \<noteq> []"
    and "Enqueue E name payload opts s = (Inr j, s')"
  shows "Validate j = None \<and> DisplayStatus j = JobStatusPendingDispatch \<and> jm_Name j = name
    \<and> jm_Topic j = topic \<and> one_inserted jobs j s s'"
proof -
  let ?o = "opts\<lparr>co_Topic := topic\<rparr>"
  from assms have c: "CreateJob S name payload ?o s = (Inr j, s')"
    by (simp add: Enqueue_def NewEnqueueService_def)
  from create_outcome [OF c] create_topic [OF c] assms(2) show ?thesis by simp
qed

lemma enqueue_padded_name:
  assumes "Enqueue E name payload opts s = (Inr j, s')"
  shows "trim_space name \<noteq> [] \<and> jm_Name j = name"
proof -
  obtain topic where t: "resolve name = Inr topic"
    using assms by (cases "resolve name")
      (auto simp: Enqueue_def NewEnqueueService_def split: if_splits)
  with assms have "CreateJob S name payload (opts\<lparr>co_Topic := topic\<rparr>) s = (Inr j, s')"
    by (simp add: Enqueue_def NewEnqueueService_def)
  from create_outcome [OF this] resolved_not_blank [OF t] show ?thesis by simp
qed

end

sublocale mongo_backend \<subseteq> enqueue: enqueue_service
  "MongoJobsReader B" "MongoJobsWriter B" jobs logs "be_now B" "be_uuid B" "Resolve r" for r
  by unfold_locales

definition mongo_enqueue :: "'s backend \<Rightarrow> FileTopicResolver \<Rightarrow> 's EnqueueService" where
  "mongo_enqueue B r = NewEnqueueService (mongo_service B) (Resolve r)"

context mongo_backend
begin

lemma mongo_enqueue_unknown:
  "Resolve r name = Inl e \<Longrightarrow>
   Enqueue (mongo_enqueue B r) name payload opts s = (Inl e, s) \<and> errors_is e ErrUnknownJobType"
  using enqueue.enqueue_unknown by (simp add: mongo_enqueue_def mongo_service_def)

lemma mongo_enqueue_known:
  "Resolve r name = Inr topic \<Longrightarrow> topic \<noteq> [] \<Longrightarrow>
   Enqueue (mongo_enqueue B r) name payload opts s = (Inr j, s') \<Longrightarrow>
   Validate j = None \<and> DisplayStatus j = JobStatusPendingDispatch \<and> jm_Name j = name
    \<and> jm_Topic j = topic \<and> one_inserted jobs j s s'"
  using enqueue.enqueue_known [of r name topic] by (simp add: mongo_enqueue_def mongo_service_def)

end

section \<open>Properties\<close>

text \<open>
  With a loaded registry, \<open>Enqueue\<close> either stores a valid pending job whose topic is one of
  the topics the executors subscribe to, or stores nothing but possibly, on a database
  error, such a job. A name that is not in the registry is refused with the sentinel the
  HTTP layer maps to 400, and nothing happens.
\<close>

theorem enqueue_outcomes:
  assumes "mongo_backend B jobs logs"
    and "NewFileTopicResolver read_file parse_yaml path = Inr r"
    and "Enqueue (mongo_enqueue B r) name payload opts s = (res, s')"
  shows "case res of
      Inr j \<Rightarrow> Validate j = None \<and> DisplayStatus j = JobStatusPendingDispatch
        \<and> jm_Topic j \<in> set (UniqueTopics r) \<and> Resolve r name = Inr (jm_Topic j)
        \<and> (\<exists>oid. jobs s' = (jobs s)(jm_JobID j \<mapsto> j\<lparr>jm_ID := oid\<rparr>))
    | Inl e \<Rightarrow> (case Resolve r name of
        Inl e' \<Rightarrow> e = e' \<and> s' = s \<and> errors_is e ErrUnknownJobType
      | Inr topic \<Rightarrow> jobs s' = jobs s \<or> (\<exists>j. Validate j = None \<and> one_inserted jobs j s s'))"
proof (cases "Resolve r name")
  case (Inl e')
  from mongo_backend.mongo_enqueue_unknown [OF assms(1) Inl] assms(3) have
    "res = Inl e'" "s' = s" "errors_is e' ErrUnknownJobType" by auto
  with Inl show ?thesis by simp
next
  case (Inr topic)
  from loaded_topic [OF assms(2) Inr] have t: "topic \<noteq> []" "topic \<in> set (UniqueTopics r)" by simp_all
  show ?thesis
  proof (cases res)
    case res: (Inr j)
    from mongo_backend.mongo_enqueue_known [OF assms(1) Inr t(1)] assms(3) res
    have "Validate j = None" "DisplayStatus j = JobStatusPendingDispatch" "jm_Topic j = topic"
      "one_inserted jobs j s s'" by blast+
    with res Inr t show ?thesis by (auto simp: one_inserted_def)
  next
    case res: (Inl e)
    with Inr assms(3) have
      "CreateJob (mongo_service B) name payload (opts\<lparr>co_Topic := topic\<rparr>) s = (Inl e, s')"
      by (simp add: Enqueue_def mongo_enqueue_def NewEnqueueService_def)
    from mongo_backend.service_create_error [OF assms(1) this] res Inr show ?thesis by auto
  qed
qed

theorem enqueue_outcomes_witness:
  "fst (Enqueue (mongo_enqueue mem_backend sample_registry) ''nope'' None no_options mem_empty)
     = Inl (Wrapped [] ErrUnknownJobType ('': '' @ go_quote ''nope''))"
proof -
  let ?run = "Enqueue (mongo_enqueue mem_backend sample_registry) ''nope'' None no_options mem_empty"
  have "?run = (fst ?run, snd ?run)" by simp
  from enqueue_outcomes [OF mem.mongo_backend_axioms sample_registry_loads this] show ?thesis
    by (cases "fst ?run") (simp_all add: sample_registry_resolves)
qed

end
