(* ===== verification/Config.thy ===== *)
theory Config
  imports GoText
begin

text \<open>
  \<open>internal/config\<close>: the settings each process reads from its environment (\<open>types.go\<close>) and
  the checks made on them after parsing (\<open>validation.go\<close>). Parsing the environment is done by
  a third-party package through struct tags and is not modelled. A \<open>time.Duration\<close> is its
  number of nanoseconds; the pool sizes are of type \<open>uint64\<close>, natural numbers here.
\<close>

section \<open>The settings\<close>

record ServerConfig =
  sv_Port :: string

record PulsarConfig =
  pu_ServiceURL :: string
  pu_SubscriptionName :: string

record MongoDispatchWorkerConfig =
  dw_PollInterval :: int
  dw_BatchSize :: int
  dw_MaxAttempts :: int
  dw_StreamMaxPoolSize :: nat
  dw_StreamMongoDBResumeTokenPath :: string

record JobTopicsConfig =
  jt_ConfigPath :: string

record MongoConfig =
  mg_URI :: string
  mg_Database :: string
  mg_CollectionMetadata :: string
  mg_CollectionLogs :: string
  mg_Timeout :: int
  mg_MaxPoolSize :: nat
  mg_MinPoolSize :: nat

section \<open>What the checks use of the standard library\<close>

text \<open>\<open>strconv.Atoi\<close>: an optional sign, then digits, within the range of a 64-bit int.\<close>

definition digit_value :: "char \<Rightarrow> int" where
  "digit_value c = int (of_char c) - 48"

definition is_digit :: "char \<Rightarrow> bool" where
  "is_digit c \<longleftrightarrow> 48 \<le> (of_char c :: nat) \<and> (of_char c :: nat) \<le> 57"

definition digits_value :: "string \<Rightarrow> int option" where
  "digits_value s =
     (if s \<noteq> [] \<and> list_all is_digit s then Some (fold (\<lambda>c n. 10 * n + digit_value c) s 0) else None)"

definition go_atoi :: "string \<Rightarrow> int option" where
  "go_atoi s =
     (let v = (case s of
                 [] \<Rightarrow> None
               | c # rest \<Rightarrow>
                   if c = CHR ''+'' then digits_value rest
                   else if c = CHR ''-'' then map_option uminus (digits_value rest)
                   else digits_value s)
      in case v of
           None \<Rightarrow> None
         | Some n \<Rightarrow> if - (2 ^ 63) \<le> n \<and> n < 2 ^ 63 then Some n else None)"

text \<open>\<open>errors.Join\<close>.\<close>

fun errors_join :: "goerror list \<Rightarrow> goerror option" where
  "errors_join [] = None"
| "errors_join [e] = Some e"
| "errors_join (e # es) = map_option (Joined e) (errors_join es)"

lemma errors_join_None [simp]: "errors_join es = None \<longleftrightarrow> es = []"
  by (induction es rule: errors_join.induct) auto

section \<open>The checks\<close>

definition check :: "bool \<Rightarrow> string \<Rightarrow> goerror list" where
  "check bad msg = (if bad then [ErrorString msg] else [])"

definition starts_with :: "string \<Rightarrow> string \<Rightarrow> bool" where
  "starts_with p s \<longleftrightarrow> take (length p) s = p"

definition PulsarConfig_Validate :: "PulsarConfig \<Rightarrow> goerror option" where
  "PulsarConfig_Validate c =
     (let url = trim_space (pu_ServiceURL c) in
      errors_join
        (check (trim_space (pu_SubscriptionName c) = [])
           ''PULSAR_SUBSCRIPTION_NAME must be non-empty: set a subscription name (default is jobber)''
         @ check (url \<noteq> [] \<and> \<not> starts_with ''pulsar://'' url \<and> \<not> starts_with ''pulsar+ssl://'' url)
           (''PULSAR_SERVICE_URL ('' @ go_quote (pu_ServiceURL c)
              @ '') must start with pulsar:// or pulsar+ssl://'')))"

definition MongoDispatchWorkerConfig_Validate :: "MongoDispatchWorkerConfig \<Rightarrow> goerror option" where
  "MongoDispatchWorkerConfig_Validate c =
     errors_join
       (check (dw_PollInterval c < 100 * millisecond)
          (''DISPATCH_POLL_INTERVAL ('' @ go_duration (dw_PollInterval c) @ '') must be at least 100ms'')
        @ check (dw_BatchSize c < 1)
          (''DISPATCH_POLL_BATCH_SIZE ('' @ go_int (dw_BatchSize c) @ '') must be at least 1'')
        @ check (dw_MaxAttempts c < 1)
          (''DISPATCH_MAX_ATTEMPTS ('' @ go_int (dw_MaxAttempts c) @ '') must be at least 1'')
        @ check (dw_StreamMaxPoolSize c < 1 \<or> dw_StreamMaxPoolSize c > 10)
          (''DISPATCH_STREAM_MAX_POOL_SIZE ('' @ go_int (int (dw_StreamMaxPoolSize c))
             @ '') must be between 1 and 10''))"

definition JobTopicsConfig_Validate :: "JobTopicsConfig \<Rightarrow> goerror option" where
  "JobTopicsConfig_Validate c =
     (if trim_space (jt_ConfigPath c) = []
      then Some (ErrorString ''JOB_TOPICS_CONFIG_PATH must be non-empty'') else None)"

definition MongoConfig_Validate :: "MongoConfig \<Rightarrow> goerror option" where
  "MongoConfig_Validate c =
     errors_join
       (check (mg_MaxPoolSize c < mg_MinPoolSize c)
          (''MONGODB_MAX_POOL_SIZE ('' @ go_int (int (mg_MaxPoolSize c))
             @ '') must be >= MONGODB_MIN_POOL_SIZE ('' @ go_int (int (mg_MinPoolSize c))
             @ ''): raise max, lower min, or align both with your cluster capacity'')
        @ check (mg_Timeout c < one_second)
          (''MONGODB_TIMEOUT ('' @ go_duration (mg_Timeout c)
             @ '') must be at least 1s (e.g. 1s, 10s): short timeouts cause flaky connects'')
        @ check (mg_MaxPoolSize c > 1000)
          (''MONGODB_MAX_POOL_SIZE ('' @ go_int (int (mg_MaxPoolSize c))
             @ '') exceeds the allowed maximum (1000): reduce to stay within driver and server limits''))"

definition ServerConfig_Validate :: "ServerConfig \<Rightarrow> goerror option" where
  "ServerConfig_Validate c =
     (case go_atoi (sv_Port c) of
        None \<Rightarrow>
          Some (ErrorString (''APP_PORT must be a valid integer (got '' @ go_quote (sv_Port c)
            @ ''): set APP_PORT to a numeric listen port''))
      | Some port \<Rightarrow>
          if port < 1024 \<or> port > 65535
          then Some (ErrorString (''APP_PORT ('' @ go_int port
            @ '') must be between 1024 and 65535 (non-privileged range): choose a port your process may bind to''))
          else None)"

section \<open>Properties\<close>

lemma check_empty [simp]: "check bad msg = [] \<longleftrightarrow> \<not> bad"
  by (simp add: check_def)

text \<open>
  What each check accepts. In particular an accepted dispatch worker polls at a positive interval
  (a ticker panics otherwise), in bounded batches and with at least one attempt for each job.
\<close>

definition dispatch_settings :: "MongoDispatchWorkerConfig \<Rightarrow> bool" where
  "dispatch_settings w \<longleftrightarrow> 100 * millisecond \<le> dw_PollInterval w \<and> 1 \<le> dw_BatchSize w
     \<and> 1 \<le> dw_MaxAttempts w \<and> dw_StreamMaxPoolSize w \<in> {1..10}"

definition mongo_settings :: "MongoConfig \<Rightarrow> bool" where
  "mongo_settings c \<longleftrightarrow> mg_MinPoolSize c \<le> mg_MaxPoolSize c \<and> mg_MaxPoolSize c \<le> 1000
     \<and> one_second \<le> mg_Timeout c"

definition pulsar_settings :: "PulsarConfig \<Rightarrow> bool" where
  "pulsar_settings p \<longleftrightarrow> trim_space (pu_SubscriptionName p) \<noteq> []
     \<and> (case trim_space (pu_ServiceURL p) of
          [] \<Rightarrow> True
        | url \<Rightarrow> starts_with ''pulsar://'' url \<or> starts_with ''pulsar+ssl://'' url)"

lemma MongoDispatchWorkerConfig_Validate_iff:
  "MongoDispatchWorkerConfig_Validate w = None \<longleftrightarrow> dispatch_settings w"
  unfolding MongoDispatchWorkerConfig_Validate_def dispatch_settings_def by auto

lemma MongoConfig_Validate_iff: "MongoConfig_Validate c = None \<longleftrightarrow> mongo_settings c"
  unfolding MongoConfig_Validate_def mongo_settings_def by auto

lemma ServerConfig_Validate_iff:
  "ServerConfig_Validate v = None \<longleftrightarrow> (\<exists>n. go_atoi (sv_Port v) = Some n \<and> n \<in> {1024..65535})"
  unfolding ServerConfig_Validate_def by (auto split: option.splits)

lemma PulsarConfig_Validate_iff: "PulsarConfig_Validate p = None \<longleftrightarrow> pulsar_settings p"
  unfolding PulsarConfig_Validate_def pulsar_settings_def Let_def by (auto split: list.splits)

lemma JobTopicsConfig_Validate_iff:
  "JobTopicsConfig_Validate t = None \<longleftrightarrow> trim_space (jt_ConfigPath t) \<noteq> []"
  unfolding JobTopicsConfig_Validate_def by auto

end
