(* ===== verification/HttpApi.thy ===== *)
theory HttpApi
  imports Enqueue JobLogs Config
begin

text \<open>
  \<open>internal/jobs/http/jobs_handler.go\<close>: the HTTP endpoints over the two services. Routing,
  decoding a request and writing a response are the web framework's: a handler here is given
  the parameters of its request, with the outcome of decoding its body, and returns the
  status code with the value the framework writes as JSON. A Go panic is an outcome of its own.
\<close>

section \<open>Requests and responses\<close>

text \<open>
  \<open>rq_id\<close> is the path parameter, \<open>rq_query\<close> the values of a query parameter in the order they
  were given, the empty list when it is absent.
\<close>

record http_request =
  rq_id :: string
  rq_query :: "string \<Rightarrow> string list"
  rq_ContentLength :: int

datatype body =
    BodyError string
  | BodyMessage string
  | BodyJob job
  | BodyJobs "job list" nat
  | BodyLogs "JobLog list" nat
  | BodyStats JobStats

datatype outcome = Responds nat body | Panics string

text \<open>\<open>c.Query\<close> and \<open>c.DefaultQuery\<close>: the first value; a parameter given empty is present.\<close>

definition Query :: "http_request \<Rightarrow> string \<Rightarrow> string" where
  "Query rq key = (case rq_query rq key of [] \<Rightarrow> [] | v # _ \<Rightarrow> v)"

definition DefaultQuery :: "http_request \<Rightarrow> string \<Rightarrow> string \<Rightarrow> string" where
  "DefaultQuery rq key dflt = (case rq_query rq key of [] \<Rightarrow> dflt | v # _ \<Rightarrow> v)"

definition parseIntQuery :: "http_request \<Rightarrow> string \<Rightarrow> int \<Rightarrow> int" where
  "parseIntQuery rq key defaultValue =
     (let v = Query rq key in
      if v \<noteq> [] then (case go_atoi v of Some parsed \<Rightarrow> parsed | None \<Rightarrow> defaultValue)
      else defaultValue)"

definition bindOptionalJSON :: "http_request \<Rightarrow> 'r \<Rightarrow> goerror + 'r \<Rightarrow> goerror + 'r" where
  "bindOptionalJSON rq zero decoded = (if rq_ContentLength rq = 0 then Inr zero else decoded)"

section \<open>The handlers\<close>

record 's JobsHandler =
  hd_svc :: "'s MetadataService"
  hd_enqueue :: "'s EnqueueService"

definition NewJobsHandler :: "'s MetadataService \<Rightarrow> 's EnqueueService \<Rightarrow> 's JobsHandler" where
  "NewJobsHandler svc enqueue = \<lparr>hd_svc = svc, hd_enqueue = enqueue\<rparr>"

record EnqueueJobRequest =
  eq_Name :: string
  eq_Payload :: gomap
  eq_Priority :: "int option"
  eq_Tags :: "string list"
  eq_Metadata :: gomap

definition api_EnqueueJob ::
  "'s JobsHandler \<Rightarrow> goerror + EnqueueJobRequest \<Rightarrow> ('s, outcome) op" where
  "api_EnqueueJob h decoded s =
     (case decoded of
        Inl err \<Rightarrow> (Responds 400 (BodyError (error_text err)), s)
      | Inr req \<Rightarrow>
          if (case eq_Priority req of None \<Rightarrow> False | Some p \<Rightarrow> p < 0 \<or> p > 10)
          then (Responds 400 (BodyError ''priority must be between 0 and 10''), s)
          else
            (let options = \<lparr>co_Priority = eq_Priority req, co_Tags = eq_Tags req,
                            co_Metadata = eq_Metadata req, co_Topic = []\<rparr> in
             case Enqueue (hd_enqueue h) (eq_Name req) (eq_Payload req) options s of
               (Inl err, s1) \<Rightarrow>
                 if errors_is err ErrUnknownJobType
                 then (Responds 400 (BodyError (error_text err)), s1)
                 else (Responds 500 (BodyError (error_text err)), s1)
             | (Inr j, s1) \<Rightarrow> (Responds 201 (BodyJob j), s1)))"

definition api_GetJob :: "'s JobsHandler \<Rightarrow> http_request \<Rightarrow> ('s, outcome) op" where
  "api_GetJob h rq s =
     (case GetJob (hd_svc h) (rq_id rq) s of
        (Inl err, s1) \<Rightarrow>
          if errors_is err ErrJobNotFound then (Responds 404 (BodyError ''job not found''), s1)
          else (Responds 500 (BodyError (error_text err)), s1)
      | (Inr j, s1) \<Rightarrow> (Responds 200 (BodyJob j), s1))"

definition list_request_filter :: "http_request \<Rightarrow> ListFilter" where
  "list_request_filter rq =
     empty_filter\<lparr>lf_Limit := parseIntQuery rq ''limit'' 50,
                  lf_Skip := parseIntQuery rq ''skip'' 0,
                  lf_SortBy := DefaultQuery rq ''sortBy'' ''createdAt'',
                  lf_SortDesc := (DefaultQuery rq ''sortDesc'' ''true'' = ''true''),
                  lf_Tags := rq_query rq ''tags'',
                  lf_Names := rq_query rq ''names''\<rparr>"

definition api_ListJobs :: "'s JobsHandler \<Rightarrow> http_request \<Rightarrow> ('s, outcome) op" where
  "api_ListJobs h rq s =
     (let statusStr = Query rq ''status''; st = JobStatus_of_string statusStr;
          filter = list_request_filter rq in
      if statusStr \<noteq> [] \<and> \<not> JobStatus_IsValid st
      then (Responds 400 (BodyError (''invalid status: '' @ go_quote statusStr)), s)
      else
        (case ListJobs (hd_svc h)
                (if statusStr \<noteq> [] then filter\<lparr>lf_Statuses := [st]\<rparr> else filter) s of
           (Inl err, s1) \<Rightarrow> (Responds 500 (BodyError (error_text err)), s1)
         | (Inr js, s1) \<Rightarrow> (Responds 200 (BodyJobs js (length js)), s1)))"

text \<open>\<open>req.Errors[0]\<close> of a request without entries panics.\<close>

definition failJobMessage :: "JobError list \<Rightarrow> (goerror + string) option" where
  "failJobMessage errors =
     (case errors of
        [] \<Rightarrow> None
      | e # _ \<Rightarrow>
          (let msg = trim_space (je_Error e) in
           Some (if msg = [] then Inl (ErrorString ''errors[0].error is required'') else Inr msg)))"

definition api_FailJob ::
  "'s JobsHandler \<Rightarrow> http_request \<Rightarrow> goerror + JobError list \<Rightarrow> ('s, outcome) op" where
  "api_FailJob h rq decoded s =
     (case decoded of
        Inl err \<Rightarrow> (Responds 400 (BodyError (error_text err)), s)
      | Inr errors \<Rightarrow>
          (case failJobMessage errors of
             None \<Rightarrow> (Panics ''index out of range [0] with length 0'', s)
           | Some (Inl err) \<Rightarrow> (Responds 400 (BodyError (error_text err)), s)
           | Some (Inr errMsg) \<Rightarrow>
               (case FailJob (hd_svc h) (rq_id rq) (Some (ErrorString errMsg)) s of
                  (Some err, s1) \<Rightarrow>
                    if errors_is err ErrJobNotFound
                    then (Responds 404 (BodyError ''job not found''), s1)
                    else (Responds 400 (BodyError (error_text err)), s1)
                | (None, s1) \<Rightarrow>
                    (case GetJob (hd_svc h) (rq_id rq) s1 of
                       (Inl err, s2) \<Rightarrow> (Responds 500 (BodyError (error_text err)), s2)
                     | (Inr j, s2) \<Rightarrow> (Responds 200 (BodyJob j), s2)))))"

definition api_CancelJob ::
  "'s JobsHandler \<Rightarrow> http_request \<Rightarrow> goerror + string \<Rightarrow> ('s, outcome) op" where
  "api_CancelJob h rq decoded s =
     (case bindOptionalJSON rq [] decoded of
        Inl err \<Rightarrow> (Responds 400 (BodyError (error_text err)), s)
      | Inr reason \<Rightarrow>
          (case CancelJob (hd_svc h) (rq_id rq) reason s of
             (Some err, s1) \<Rightarrow>
               if errors_is err ErrJobNotFound
               then (Responds 404 (BodyError ''job not found''), s1)
               else (Responds 400 (BodyError (error_text err)), s1)
           | (None, s1) \<Rightarrow> (Responds 200 (BodyMessage ''job cancelled''), s1)))"

definition api_RetryJob :: "'s JobsHandler \<Rightarrow> http_request \<Rightarrow> ('s, outcome) op" where
  "api_RetryJob h rq s =
     (case RetryJob (hd_svc h) (rq_id rq) s of
        (Some err, s1) \<Rightarrow>
          if errors_is err ErrJobNotFound
          then (Responds 404 (BodyError ''job not found''), s1)
          else (Responds 400 (BodyError (error_text err)), s1)
      | (None, s1) \<Rightarrow> (Responds 200 (BodyMessage ''job retry initiated''), s1))"

text \<open>The loop over the levels stops at the first that is not one.\<close>

fun parse_levels :: "string list \<Rightarrow> string + LogLevel list" where
  "parse_levels [] = Inr []"
| "parse_levels (l # rest) =
     (let lvl = LogLevel_of_string l in
      if \<not> LogLevel_IsValid lvl then Inl l
      else (case parse_levels rest of Inl bad \<Rightarrow> Inl bad | Inr lvls \<Rightarrow> Inr (lvl # lvls)))"

definition api_GetJobLogs :: "'s JobsHandler \<Rightarrow> http_request \<Rightarrow> ('s, outcome) op" where
  "api_GetJobLogs h rq s =
     (case parse_levels (rq_query rq ''levels'') of
        Inl l \<Rightarrow> (Responds 400 (BodyError (''invalid log level: '' @ go_quote l)), s)
      | Inr levels \<Rightarrow>
          (case GetJobLogs (hd_svc h) (rq_id rq)
                  (empty_log_filter\<lparr>gf_Limit := parseIntQuery rq ''limit'' 100,
                                    gf_Skip := parseIntQuery rq ''skip'' 0,
                                    gf_Levels := levels\<rparr>) s of
             (Inl err, s1) \<Rightarrow> (Responds 500 (BodyError (error_text err)), s1)
           | (Inr ls, s1) \<Rightarrow> (Responds 200 (BodyLogs ls (length ls)), s1)))"

definition api_GetJobStats :: "'s JobsHandler \<Rightarrow> ('s, outcome) op" where
  "api_GetJobStats h s =
     (case GetJobStats (hd_svc h) s of
        ((stats, Some err), s1) \<Rightarrow> (Responds 500 (BodyError (error_text err)), s1)
      | ((stats, None), s1) \<Rightarrow> (Responds 200 (BodyStats stats), s1))"

section \<open>What the endpoints do to the stored jobs\<close>

context metadata_service
begin

text \<open>The errors the endpoints turn into 404 are those of a job that is not stored.\<close>

lemma get_not_found:
  "rd_Get R jobID s = (Inl e, s') \<Longrightarrow> errors_is e ErrJobNotFound \<Longrightarrow> jobs s jobID = None"
  using get_error foreign_errorD(2) by blast

lemma fail_not_found:
  assumes "FailJob S jobID err s = (Some e, s')" and "errors_is e ErrJobNotFound"
    and "\<not> is_field_path (message_of err)"
  shows "jobs s jobID = None \<and> jobs s' = jobs s"
proof -
  obtain g s1 where g: "rd_Get R jobID s = (g, s1)" by fastforce
  obtain stamp s2 where c2: "clock s1 = (stamp, s2)" by fastforce
  obtain t s3 where c3: "clock s2 = (t, s3)" by fastforce
  have frames: "jobs s1 = jobs s" "jobs s3 = jobs s"
    using get_frame [OF g] clock_ok [OF c2] clock_ok [OF c3] by auto
  show ?thesis
  proof (cases g)
    case (Inl e')
    with assms g have "e = wrap ''failed to get job'' e'" "s' = s1" by (simp_all add: FailJob_def)
    with assms(2) get_not_found [OF g [unfolded Inl]] frames show ?thesis by simp
  next
    case (Inr j)
    let ?entry = "\<lparr>je_Type = JobErrorTypeExecution, je_RetryAttempt = jm_RetryCount j,
      je_Error = message_of err, je_Timestamp = stamp\<rparr>"
    obtain b s4 where w: "wr_FailIfNotTerminal W jobID ?entry t s3 = (b, s4)" by fastforce
    obtain g5 s5 where g5: "rd_Get R jobID s4 = (g5, s5)" by fastforce
    have "\<not> is_field_path (je_Error ?entry)" using assms(3) by simp
    note G = fail_ok [OF w this]
    have "jobs s3 jobID = Some j" using get_found g Inr frames by simp
    with G have stored: "jobs s4 jobID \<noteq> None"
      by (auto simp: guarded_def applied_def split: sum.splits bool.splits)
    show ?thesis
      using assms(1,2) G stored get_not_found [of jobID s4] g5
      by (auto simp: FailJob_def g Inr c2 c3 Let_def w guarded_def
          dest: foreign_errorD split: sum.splits if_splits bool.splits)
  qed
qed

lemma cancel_not_found:
  assumes "CancelJob S jobID reason s = (Some e, s')" and "errors_is e ErrJobNotFound"
  shows "jobs s jobID = None \<and> jobs s' = jobs s"
proof -
  obtain g s1 where g: "rd_Get R jobID s = (g, s1)" by fastforce
  obtain t s2 where c: "clock s1 = (t, s2)" by fastforce
  have frames: "jobs s1 = jobs s" "jobs s2 = jobs s" using get_frame [OF g] clock_ok [OF c] by auto
  show ?thesis
  proof (cases g)
    case (Inl e')
    with assms g get_not_found [OF g [unfolded Inl]] frames show ?thesis
      by (auto simp: CancelJob_def)
  next
    case (Inr j)
    obtain x s3 where w: "wr_Update W jobID (cancel_patch (cancelled_model reason t j)) s2 = (x, s3)"
      by fastforce
    from update_ok [OF w cancel_patch_not_empty] frames get_found g Inr
    have "x = Some e' \<Longrightarrow> foreign_error e'" for e' by (auto simp: direct_def)
    with assms g Inr c w show ?thesis
      by (auto simp: CancelJob_def dest: foreign_errorD split: if_splits option.splits)
  qed
qed

lemma retry_not_found:
  assumes "RetryJob S jobID s = (Some e, s')" and "errors_is e ErrJobNotFound"
  shows "jobs s jobID = None \<and> jobs s' = jobs s"
proof -
  obtain g s1 where g: "rd_Get R jobID s = (g, s1)" by fastforce
  obtain a s2 where a: "wr_IncrementRetryCount W jobID s1 = (a, s2)" by fastforce
  obtain b s3 where b: "wr_Update W jobID retry_patch s2 = (b, s3)" by fastforce
  obtain c s4 where c: "wr_ClearJobExecutionTimestamps W jobID s3 = (c, s4)" by fastforce
  obtain h s5 where h: "rd_Get R jobID s4 = (h, s5)" by fastforce
  have frame: "jobs s1 = jobs s" using get_frame [OF g] by simp
  show ?thesis
  proof (cases g)
    case (Inl e')
    with assms g get_not_found [OF g [unfolded Inl]] frame show ?thesis by (auto simp: RetryJob_def)
  next
    case (Inr j)
    with get_found g frame have "jobs s1 jobID \<noteq> None" by simp
    with increment_ok [OF a] have A: "jobs s2 jobID \<noteq> None" "a = Some e' \<Longrightarrow> foreign_error e'" for e'
      by (auto simp: direct_def applied_def split: option.splits)
    with update_ok [OF b retry_patch_not_empty]
    have B: "jobs s3 jobID \<noteq> None" "b = Some e' \<Longrightarrow> foreign_error e'" for e'
      by (auto simp: direct_def applied_def split: option.splits)
    with clear_ok [OF c] have C: "jobs s4 jobID \<noteq> None" "c = Some e' \<Longrightarrow> foreign_error e'" for e'
      by (auto simp: direct_def applied_def split: option.splits)
    have H: "h = Inl e' \<Longrightarrow> \<not> errors_is e' ErrJobNotFound" for e'
      using get_not_found [of jobID s4 e' s5] h C(1) by auto
    show ?thesis
      using assms A(2) B(2) C(2) H
      by (auto simp: RetryJob_def g Inr a b c h dest: foreign_errorD
          split: if_splits option.splits sum.splits)
  qed
qed

lemma stats_frame: "GetJobStats S s = (r, s') \<Longrightarrow> jobs s' = jobs s"
proof -
  have "count_statuses S sts st s = (r, s') \<Longrightarrow> jobs s' = jobs s" for sts st s r s'
    by (induction sts arbitrary: st s) (auto dest: count_frame split: prod.splits sum.splits)
  then show "GetJobStats S s = (r, s') \<Longrightarrow> jobs s' = jobs s"
    by (fastforce simp: GetJobStats_def split: prod.splits option.splits)
qed

end

text \<open>The handlers over the adapters, as \<open>cmd/jobs-server\<close> assembles them.\<close>

definition mongo_handler :: "'s backend \<Rightarrow> FileTopicResolver \<Rightarrow> 's JobsHandler" where
  "mongo_handler B r = NewJobsHandler (mongo_service B) (mongo_enqueue B r)"

lemma mongo_handler_parts [simp]:
  "hd_svc (mongo_handler B r) = mongo_service B" "hd_enqueue (mongo_handler B r) = mongo_enqueue B r"
  by (simp_all add: mongo_handler_def NewJobsHandler_def)

context mongo_backend
begin

lemmas service_fail_not_found = service.fail_not_found [folded mongo_service_def]
lemmas service_cancel_not_found = service.cancel_not_found [folded mongo_service_def]
lemmas service_retry_not_found = service.retry_not_found [folded mongo_service_def]
lemmas service_stats_frame = service.stats_frame [folded mongo_service_def]

lemma service_get:
  assumes "GetJob (mongo_service B) jobID s = (rg, s')"
  shows "jobs s' = jobs s \<and> (case rg of
      Inr j \<Rightarrow> jobs s jobID = Some j
    | Inl e \<Rightarrow> if errors_is e ErrJobNotFound then jobs s jobID = None else foreign_error e)"
proof -
  from assms have g: "rd_Get (MongoJobsReader B) jobID s = (rg, s')"
    by (simp add: GetJob_def mongo_service_def)
  from reader.get_frame [OF g] have "jobs s' = jobs s" by simp
  moreover have "case rg of
      Inr j \<Rightarrow> jobs s jobID = Some j
    | Inl e \<Rightarrow> if errors_is e ErrJobNotFound then jobs s jobID = None else foreign_error e"
  proof (cases rg)
    case (Inl e)
    with reader.get_error [OF g [unfolded Inl]] show ?thesis by (auto dest: foreign_errorD)
  next
    case (Inr j)
    with reader.get_found g show ?thesis by auto
  qed
  ultimately show ?thesis by simp
qed

lemma create_error_known:
  assumes "CreateJob (mongo_service B) name payload opts s = (Inl e, s')"
  shows "\<not> errors_is e ErrUnknownJobType"
proof -
  have "Validate j = Some e' \<Longrightarrow> \<not> errors_is e' ErrUnknownJobType" for j e'
    by (auto simp: Validate_def split: if_splits)
  moreover have "Writer_Create B j s1 = (Some e', s2) \<Longrightarrow> \<not> errors_is e' ErrUnknownJobType" for j s1 e' s2
    by (auto simp: Writer_Create_def dest!: insert_error foreign_errorD(3)
        split: prod.splits option.splits if_splits)
  ultimately show ?thesis
    using assms by (auto simp: CreateJob_def Let_def mongo_service_def MongoJobsWriter_def
        split: prod.splits option.splits)
qed

lemma list_frame:
  "ListJobs (mongo_service B) f s = (r, s') \<Longrightarrow> jobs s' = jobs s"
  unfolding ListJobs_def mongo_service_def NewMetadataService_simps by (drule reader.list_frame) (rule conjunct1)

lemma list_answers:
  assumes "ListJobs (mongo_service B) f s = (Inr js, s')"
  shows "(\<forall>j\<in>set js. jobs s (jm_JobID j) = Some j \<and> filter_accepts f j)
    \<and> (0 < lf_Limit f \<longrightarrow> int (length js) \<le> lf_Limit f)"
proof -
  from assms have l: "rd_List (MongoJobsReader B) f s = (Inr js, s')"
    by (simp add: ListJobs_def mongo_service_def)
  from reader.list_sound [OF l] reader.list_limited [OF l] show ?thesis by blast
qed

lemma logs_frame: "GetJobLogs (mongo_service B) jobID f s = (r, s') \<Longrightarrow> jobs s' = jobs s"
  unfolding GetJobLogs_def mongo_service_def NewMetadataService_simps by (drule log.get_logs_frame) (rule conjunct1)

lemma api_get:
  assumes "api_GetJob (mongo_handler B r) rq s = (out, s')"
  shows "jobs s' = jobs s \<and>
    ((\<exists>j. out = Responds 200 (BodyJob j) \<and> jobs s (rq_id rq) = Some j)
     \<or> (out = Responds 404 (BodyError ''job not found'') \<and> jobs s (rq_id rq) = None)
     \<or> (\<exists>m. out = Responds 500 (BodyError m)))"
proof -
  obtain g s1 where g: "GetJob (mongo_service B) (rq_id rq) s = (g, s1)" by fastforce
  from assms g service_get [OF g] show ?thesis
    by (cases g) (auto simp: api_GetJob_def split: if_splits)
qed

lemma api_list:
  assumes "api_ListJobs (mongo_handler B r) rq s = (out, s')"
  shows "jobs s' = jobs s \<and>
    ((\<exists>m. out = Responds 400 (BodyError m) \<and> Query rq ''status'' \<noteq> []
        \<and> \<not> JobStatus_IsValid (JobStatus_of_string (Query rq ''status'')))
     \<or> (\<exists>m. out = Responds 500 (BodyError m))
     \<or> (\<exists>js. out = Responds 200 (BodyJobs js (length js))
        \<and> (\<forall>j\<in>set js. jobs s (jm_JobID j) = Some j
             \<and> (Query rq ''status'' \<noteq> [] \<longrightarrow> JobStatus_String (DisplayStatus j) = Query rq ''status'')
             \<and> (rq_query rq ''names'' \<noteq> [] \<longrightarrow> jm_Name j \<in> set (rq_query rq ''names'')))
        \<and> (0 < parseIntQuery rq ''limit'' 50 \<longrightarrow> int (length js) \<le> parseIntQuery rq ''limit'' 50)))"
proof -
  let ?q = "Query rq ''status''" and ?st = "JobStatus_of_string (Query rq ''status'')"
  let ?f = "if ?q \<noteq> [] then (list_request_filter rq)\<lparr>lf_Statuses := [?st]\<rparr> else list_request_filter rq"
  obtain l s1 where l: "ListJobs (mongo_service B) ?f s = (l, s1)" by fastforce
  note run = assms [unfolded api_ListJobs_def Let_def mongo_handler_parts l prod.case]
  show ?thesis
  proof (cases "?q \<noteq> [] \<and> \<not> JobStatus_IsValid ?st")
    case True
    with run show ?thesis by auto
  next
    case ok: False
    show ?thesis
    proof (cases l)
      case (Inl e)
      with run ok list_frame [OF l] show ?thesis by auto
    next
      case (Inr js)
      have lim: "lf_Limit ?f = parseIntQuery rq ''limit'' 50"
        and nm: "lf_Names ?f = rq_query rq ''names''"
        by (simp_all add: list_request_filter_def)
      have st: "JobStatus_String (DisplayStatus j) = ?q" if "filter_accepts ?f j" "?q \<noteq> []" for j
      proof -
        from that ok have v: "JobStatus_IsValid ?st" and "sub_states j = statusToSubFields ?st"
          by (auto simp: filter_accepts_def)
        then have "DisplayStatus j = ?st"
          using statusToSubFields_display [of ?st] by (simp add: sub_states_display)
        with JobStatus_of_string_valid [OF v] show ?thesis by simp
      qed
      have names: "rq_query rq ''names'' \<noteq> [] \<longrightarrow> jm_Name j \<in> set (rq_query rq ''names'')"
        if "filter_accepts ?f j" for j
        using that nm unfolding filter_accepts_def by metis
      from list_answers [OF l [unfolded Inr]] lim st names
      have "(\<forall>j\<in>set js. jobs s (jm_JobID j) = Some j
             \<and> (?q \<noteq> [] \<longrightarrow> JobStatus_String (DisplayStatus j) = ?q)
             \<and> (rq_query rq ''names'' \<noteq> [] \<longrightarrow> jm_Name j \<in> set (rq_query rq ''names'')))
        \<and> (0 < parseIntQuery rq ''limit'' 50 \<longrightarrow> int (length js) \<le> parseIntQuery rq ''limit'' 50)"
        unfolding lim by blast
      moreover from run ok Inr have "out = Responds 200 (BodyJobs js (length js))" "s' = s1" by auto
      ultimately show ?thesis using list_frame [OF l] by blast
    qed
  qed
qed

lemma api_logs_stats_frame:
  "api_GetJobLogs (mongo_handler B r) rq s = (out, s') \<Longrightarrow> jobs s' = jobs s"
  "api_GetJobStats (mongo_handler B r) s = (out, s') \<Longrightarrow> jobs s' = jobs s"
  by (auto simp: api_GetJobLogs_def api_GetJobStats_def dest: logs_frame service_stats_frame
      split: prod.splits sum.splits option.splits)

lemma api_fail:
  assumes "api_FailJob (mongo_handler B r) rq (Inr (entry # rest)) s = (out, s')"
    and "\<not> is_field_path (trim_space (je_Error entry))"
  shows "(\<exists>j. out = Responds 200 (BodyJob j) \<and> jobs s' (rq_id rq) = Some j
            \<and> DisplayStatus j = JobStatusFailed
            \<and> (\<exists>t e j0. jobs s (rq_id rq) = Some j0 \<and> failable j0 \<and> j = fail_effect e t j0
                 \<and> je_Error e = trim_space (je_Error entry) \<and> jobs s' = (jobs s)(rq_id rq \<mapsto> j)))
     \<or> (\<exists>m. out = Responds 400 (BodyError m))
     \<or> (out = Responds 404 (BodyError ''job not found'') \<and> jobs s (rq_id rq) = None \<and> jobs s' = jobs s)
     \<or> (\<exists>m t e. out = Responds 500 (BodyError m)
            \<and> je_Error e = trim_space (je_Error entry)
            \<and> applied jobs (rq_id rq) failable (fail_effect e t) s s')"
proof (cases "trim_space (je_Error entry) = []")
  case True
  with assms(1) show ?thesis by (auto simp: api_FailJob_def failJobMessage_def)
next
  case False
  let ?err = "Some (ErrorString (trim_space (je_Error entry)))"
  have nf: "\<not> is_field_path (message_of ?err)" using assms(2) by simp
  obtain x s1 where f: "FailJob (mongo_service B) (rq_id rq) ?err s = (x, s1)" by fastforce
  obtain g s2 where g: "GetJob (mongo_service B) (rq_id rq) s1 = (g, s2)" by fastforce
  note run = assms(1) [unfolded api_FailJob_def failJobMessage_def sum.case list.case Let_def
      option.case if_not_P [OF False] mongo_handler_parts f prod.case g]
  show ?thesis
  proof (cases x)
    case (Some e)
    with run have out: "out = (if errors_is e ErrJobNotFound then Responds 404 (BodyError ''job not found'')
        else Responds 400 (BodyError (error_text e)))" "s' = s1" by (simp_all split: if_splits)
    with service_fail_not_found [OF f [unfolded Some] _ nf] show ?thesis by (simp split: if_splits)
  next
    case None
    from service_fail [OF f nf] None obtain t en j0 where
      j0: "je_Error en = trim_space (je_Error entry)" "jobs s (rq_id rq) = Some j0" "failable j0"
        "jobs s1 = (jobs s)(rq_id rq \<mapsto> fail_effect en t j0)"
      by (auto dest!: settled_NoneD)
    have s2: "jobs s2 = jobs s1" using service_get [OF g] by simp
    show ?thesis
    proof (cases g)
      case (Inl e)
      with run None have "out = Responds 500 (BodyError (error_text e))" "s' = s2" by simp_all
      moreover from j0 s2 have "applied jobs (rq_id rq) failable (fail_effect en t) s s2"
        by (auto simp: applied_def)
      ultimately show ?thesis using j0(1) by blast
    next
      case (Inr j)
      with run None have "out = Responds 200 (BodyJob j)" "s' = s2" by simp_all
      moreover from service_get [OF g] Inr j0 s2 have "j = fail_effect en t j0"
        "jobs s2 = (jobs s)(rq_id rq \<mapsto> j)" by simp_all
      moreover have "DisplayStatus (fail_effect en t j0) = JobStatusFailed"
        by (simp add: fail_effect_def DisplayStatus_simps)
      ultimately show ?thesis using j0 by (auto simp: applied_def)
    qed
  qed
qed

lemma api_cancel:
  assumes "api_CancelJob (mongo_handler B r) rq decoded s = (out, s')"
  shows "(out = Responds 200 (BodyMessage ''job cancelled'')
            \<and> (\<exists>j t reason. jobs s (rq_id rq) = Some j \<and> \<not> ExecutionStatus_IsTerminal (jm_ExecutionStatus j)
                 \<and> jobs s' = (jobs s)(rq_id rq \<mapsto> cancelled_model reason t j)))
     \<or> (\<exists>m. out = Responds 400 (BodyError m))
     \<or> (out = Responds 404 (BodyError ''job not found'') \<and> jobs s (rq_id rq) = None \<and> jobs s' = jobs s)"
proof (cases "bindOptionalJSON rq [] decoded")
  case (Inl e)
  with assms show ?thesis by (auto simp: api_CancelJob_def)
next
  case (Inr reason)
  obtain x s1 where f: "CancelJob (mongo_service B) (rq_id rq) reason s = (x, s1)" by fastforce
  note run = assms [unfolded api_CancelJob_def Inr sum.case mongo_handler_parts f prod.case]
  show ?thesis
  proof (cases x)
    case (Some e)
    with run service_cancel_not_found [OF f [unfolded Some]] show ?thesis by (auto split: if_splits)
  next
    case None
    with run service_cancel [OF f] show ?thesis by (auto dest!: settled_NoneD)
  qed
qed

lemma api_retry:
  assumes "api_RetryJob (mongo_handler B r) rq s = (out, s')"
  shows "(out = Responds 200 (BodyMessage ''job retry initiated'')
            \<and> (\<exists>j. jobs s (rq_id rq) = Some j \<and> jm_ExecutionStatus j = ExecutionStatusFailed
                 \<and> jobs s' = (jobs s)(rq_id rq \<mapsto> retried j)))
     \<or> (\<exists>m. out = Responds 400 (BodyError m))
     \<or> (out = Responds 404 (BodyError ''job not found'') \<and> jobs s (rq_id rq) = None \<and> jobs s' = jobs s)"
proof -
  obtain x s1 where f: "RetryJob (mongo_service B) (rq_id rq) s = (x, s1)" by fastforce
  note run = assms [unfolded api_RetryJob_def mongo_handler_parts f prod.case]
  show ?thesis
  proof (cases x)
    case (Some e)
    with run service_retry_not_found [OF f [unfolded Some]] show ?thesis by (auto split: if_splits)
  next
    case None
    with run service_retry f show ?thesis by auto
  qed
qed

end

section \<open>Properties\<close>




section \<open>The endpoints on the driver in memory\<close>

definition sample_request :: http_request where
  "sample_request = \<lparr>rq_id = sample_id, rq_query = (\<lambda>_. []), rq_ContentLength = 0\<rparr>"

abbreviation sample_handler :: "mem JobsHandler" where
  "sample_handler \<equiv> mongo_handler mem_backend sample_registry"




end
