(* ===== verification/Seed.thy ===== *)
theory Seed
  imports Samples "HOL-Library.State_Monad"
begin

text \<open>
  \<open>internal/jobs/metadata/seed\<close>: synthetic jobs and logs for development databases. The random
  draws come from a third-party generator, a record of operations over the state of the world,
  threaded in the order the code makes them. \<open>newFaker\<close>, which only seeds it, is left out.
\<close>

section \<open>The generator of random values\<close>

record 's faker =
  fk_IntRange :: "int \<Rightarrow> int \<Rightarrow> ('s, int) state"
  fk_RandomString :: "string list \<Rightarrow> ('s, string) state"
  fk_Word :: "('s, string) state"
  fk_Sentence :: "int \<Rightarrow> ('s, string) state"
  fk_Bool :: "('s, bool) state"
  fk_UUID :: "('s, string) state"
  fk_DateRange :: "instant \<Rightarrow> instant \<Rightarrow> ('s, instant) state"
  fk_now :: "('s, instant) state"
  fk_jobID :: "('s, string) state"

abbreviation give :: "'a \<Rightarrow> ('s, 'a) state" where
  "give \<equiv> State_Monad.return"

section \<open>Random parts of a job\<close>

definition defaultJobNames :: "string list" where
  "defaultJobNames = [''process-kml'', ''export-report'', ''sync-inventory'', ''send-notification'',
     ''cleanup-storage'', ''import-csv'', ''rebuild-cache'']"

definition defaultTags :: "string list" where
  "defaultTags = [''urgent'', ''batch'', ''retry'', ''nightly'', ''manual'', ''scheduled'', ''backfill'']"

definition logSources :: "string list" where
  "logSources = [''worker'', ''service'', ''scheduler'', ''handler'']"

definition statusDistribution :: "(CompositeStatus \<times> int) list" where
  "statusDistribution =
     [(\<lparr>Dispatch = DispatchStatusPending, Execution = ExecutionStatusNotStarted\<rparr>, 5),
      (\<lparr>Dispatch = DispatchStatusDispatched, Execution = ExecutionStatusNotStarted\<rparr>, 3),
      (\<lparr>Dispatch = DispatchStatusFailed, Execution = ExecutionStatusNotStarted\<rparr>, 2),
      (\<lparr>Dispatch = DispatchStatusDispatched, Execution = ExecutionStatusRunning\<rparr>, 5),
      (\<lparr>Dispatch = DispatchStatusDispatched, Execution = ExecutionStatusCompleted\<rparr>, 70),
      (\<lparr>Dispatch = DispatchStatusDispatched, Execution = ExecutionStatusFailed\<rparr>, 10),
      (\<lparr>Dispatch = DispatchStatusDispatched, Execution = ExecutionStatusCancelled\<rparr>, 5)]"

text \<open>The walk along the weights, with what it returns when it runs off their end.\<close>

fun pick_loop :: "int \<Rightarrow> (CompositeStatus \<times> int) list \<Rightarrow> CompositeStatus" where
  "pick_loop n [] = \<lparr>Dispatch = DispatchStatusDispatched, Execution = ExecutionStatusCompleted\<rparr>"
| "pick_loop n ((pair, weight) # rest) =
     (if n - weight \<le> 0 then pair else pick_loop (n - weight) rest)"

definition pickCompositeStatus :: "'s faker \<Rightarrow> ('s, CompositeStatus) state" where
  "pickCompositeStatus F = do {
     n \<leftarrow> fk_IntRange F 1 (sum_list (map snd statusDistribution));
     give (pick_loop n statusDistribution) }"

fun payload_loop :: "'s faker \<Rightarrow> nat \<Rightarrow> (string \<times> gval) list \<Rightarrow> ('s, (string \<times> gval) list) state" where
  "payload_loop F 0 payload = give payload"
| "payload_loop F (Suc n) payload = do {
     key \<leftarrow> fk_Word F;
     c \<leftarrow> fk_IntRange F 0 2;
     v \<leftarrow> (if c = 0 then do { k \<leftarrow> fk_IntRange F 1 5; t \<leftarrow> fk_Sentence F k; give (GStr t) }
          else if c = 1 then do { i \<leftarrow> fk_IntRange F 1 10000; give (GInt i) }
          else do { b \<leftarrow> fk_Bool F; give (GBool b) });
     payload_loop F n (AList.update key v payload) }"

definition randomPayload :: "'s faker \<Rightarrow> ('s, gomap) state" where
  "randomPayload F = do {
     size \<leftarrow> fk_IntRange F 1 4;
     payload \<leftarrow> payload_loop F (nat size) [];
     give (Some payload) }"

definition randomMetadata :: "'s faker \<Rightarrow> ('s, gomap) state" where
  "randomMetadata F = do {
     src \<leftarrow> fk_RandomString F logSources;
     worker \<leftarrow> fk_UUID F;
     a \<leftarrow> fk_IntRange F 0 3;
     b \<leftarrow> fk_IntRange F 0 9;
     c \<leftarrow> fk_IntRange F 0 20;
     give (Some [(''source'', GStr src), (''workerId'', GStr worker),
       (''version'', GStr (go_int a @ ''.'' @ go_int b @ ''.'' @ go_int c))]) }"

text \<open>
  The loop draws until it has enough different tags; nothing bounds the number of draws, so it
  has fuel here, and no result when that runs out.
\<close>

fun tags_loop :: "nat \<Rightarrow> 's faker \<Rightarrow> int \<Rightarrow> string list \<Rightarrow> ('s, string list option) state" where
  "tags_loop fuel F cnt tags =
     (if int (length tags) \<ge> cnt then give (Some tags)
      else case fuel of
        0 \<Rightarrow> give None
      | Suc n \<Rightarrow> do {
          tag \<leftarrow> fk_RandomString F defaultTags;
          if tag \<in> set tags then tags_loop n F cnt tags
          else tags_loop n F cnt (tags @ [tag]) })"

declare tags_loop.simps [simp del]

definition randomTags :: "nat \<Rightarrow> 's faker \<Rightarrow> ('s, string list option) state" where
  "randomTags fuel F = do {
     cnt \<leftarrow> fk_IntRange F 0 3;
     if cnt = 0 then give (Some []) else tags_loop fuel F cnt [] }"

text \<open>Durations are in milliseconds; the default age is 30 days.\<close>

definition randomCreatedAt :: "'s faker \<Rightarrow> int \<Rightarrow> ('s, instant) state" where
  "randomCreatedAt F maxAge = do {
     t \<leftarrow> fk_now F;
     t' \<leftarrow> fk_now F;
     fk_DateRange F (t - (if maxAge \<le> 0 then 30 * 24 * 3600 * 1000 else maxAge)) t' }"

definition fakeTopic :: "'s faker \<Rightarrow> ('s, string) state" where
  "fakeTopic F = do {
     w \<leftarrow> fk_Word F;
     give (''persistent://public/default/seed/'' @ w) }"

definition randomDuration :: "'s faker \<Rightarrow> int \<Rightarrow> int \<Rightarrow> ('s, int) state" where
  "randomDuration F lo hi =
     (if hi \<le> lo then give lo
      else do {
        seconds \<leftarrow> fk_IntRange F (lo div 1000) (hi div 1000);
        give ((if seconds < 1 then 1 else seconds) * 1000) })"

definition randomTimestampBetween :: "'s faker \<Rightarrow> instant \<Rightarrow> instant \<Rightarrow> ('s, instant) state" where
  "randomTimestampBetween F start end' =
     (if \<not> start < end' then give start else fk_DateRange F start end')"

section \<open>The state of a job\<close>

definition apply_dispatch :: "'s faker \<Rightarrow> CompositeStatus \<Rightarrow> job \<Rightarrow> ('s, job) state" where
  "apply_dispatch F pair j =
     (case Dispatch pair of
        DispatchStatusPending \<Rightarrow> do { topic \<leftarrow> fakeTopic F; give (j\<lparr>jm_Topic := topic\<rparr>) }
      | DispatchStatusDispatched \<Rightarrow> do {
          topic \<leftarrow> fakeTopic F;
          d \<leftarrow> randomDuration F 1000 1800000;
          give (j\<lparr>jm_Topic := topic, jm_DispatchedAt := Some (jm_CreatedAt j + d)\<rparr>) }
      | DispatchStatusFailed \<Rightarrow> do {
          topic \<leftarrow> fakeTopic F;
          n \<leftarrow> fk_IntRange F 1 5;
          k \<leftarrow> fk_IntRange F 3 8;
          msg \<leftarrow> fk_Sentence F k;
          give (j\<lparr>jm_Topic := topic, jm_DispatchAttempts := n, jm_DispatchLastError := msg\<rparr>) }
      | _ \<Rightarrow> give j)"

definition started_and_completed :: "'s faker \<Rightarrow> job \<Rightarrow> ('s, job) state" where
  "started_and_completed F j = do {
     a \<leftarrow> randomDuration F 60000 3600000;
     b \<leftarrow> randomDuration F 1000 1800000;
     give (j\<lparr>jm_StartedAt := Some (jm_CreatedAt j + a), jm_CompletedAt := Some (jm_CreatedAt j + a + b)\<rparr>) }"

definition apply_execution :: "'s faker \<Rightarrow> CompositeStatus \<Rightarrow> job \<Rightarrow> ('s, job) state" where
  "apply_execution F pair j =
     (case Execution pair of
        ExecutionStatusRunning \<Rightarrow> do {
          d \<leftarrow> randomDuration F 60000 7200000;
          give (j\<lparr>jm_StartedAt := Some (jm_CreatedAt j + d)\<rparr>) }
      | ExecutionStatusCompleted \<Rightarrow> started_and_completed F j
      | ExecutionStatusCancelled \<Rightarrow> started_and_completed F j
      | ExecutionStatusFailed \<Rightarrow> do {
          b \<leftarrow> fk_Bool F;
          j' \<leftarrow> (if b then started_and_completed F j
               else do {
                 d \<leftarrow> randomDuration F 60000 7200000;
                 give (j\<lparr>jm_CompletedAt := Some (jm_CreatedAt j + d)\<rparr>) });
          k \<leftarrow> fk_IntRange F 3 12;
          msg \<leftarrow> fk_Sentence F k;
          give (j'\<lparr>jm_Errors := [\<lparr>je_Type = JobErrorTypeExecution, je_RetryAttempt = jm_RetryCount j',
                   je_Error = msg, je_Timestamp = the (jm_CompletedAt j')\<rparr>]\<rparr>) }
      | _ \<Rightarrow> give j)"

definition applyCompositeStatus :: "'s faker \<Rightarrow> CompositeStatus \<Rightarrow> job \<Rightarrow> ('s, job) state" where
  "applyCompositeStatus F pair j =
     apply_dispatch F pair (j\<lparr>jm_DispatchStatus := Dispatch pair, jm_ExecutionStatus := Execution pair,
       jm_Status := CompositeStatus_DisplayStatus pair\<rparr>) \<bind> apply_execution F pair"

text \<open>One job, from its metadata on; and all of it, with no result when the fuel of its tags runs out.\<close>

definition finish_job :: "'s faker \<Rightarrow> job \<Rightarrow> ('s, goerror + job) state" where
  "finish_job F j = do {
     meta \<leftarrow> randomMetadata F;
     pair \<leftarrow> pickCompositeStatus F;
     j' \<leftarrow> applyCompositeStatus F pair (j\<lparr>jm_Metadata := meta\<rparr>);
     retries \<leftarrow> (if Execution pair = ExecutionStatusFailed \<or> Execution pair = ExecutionStatusCancelled
                then fk_IntRange F 0 3 else fk_IntRange F 0 1);
     give (case Validate (j'\<lparr>jm_RetryCount := retries\<rparr>) of
         Some err \<Rightarrow> Inl (wrap ''generated invalid job'' err)
       | None \<Rightarrow> Inr (j'\<lparr>jm_RetryCount := retries\<rparr>)) }"

definition BuildJob :: "nat \<Rightarrow> 's faker \<Rightarrow> int \<Rightarrow> ('s, (goerror + job) option) state" where
  "BuildJob fuel F maxAge = do {
     jobID \<leftarrow> fk_jobID F;
     name \<leftarrow> fk_RandomString F defaultJobNames;
     payload \<leftarrow> randomPayload F;
     now \<leftarrow> fk_now F;
     created \<leftarrow> randomCreatedAt F maxAge;
     priority \<leftarrow> fk_IntRange F 0 10;
     tags \<leftarrow> randomTags fuel F;
     (case tags of
        None \<Rightarrow> give None
      | Some ts \<Rightarrow> do {
          r \<leftarrow> finish_job F ((NewJobMetadata jobID name payload now)\<lparr>jm_CreatedAt := created,
                 jm_Priority := priority, jm_Tags := ts\<rparr>);
          give (Some r) }) }"

section \<open>Logs\<close>

definition log_levels :: "string list" where
  "log_levels = [''debug'', ''info'', ''info'', ''info'', ''warn'', ''error'']"

definition random_log :: "'s faker \<Rightarrow> job \<Rightarrow> int \<Rightarrow> instant \<Rightarrow> ('s, JobLog) state" where
  "random_log F j cnt end' = do {
     level \<leftarrow> fk_RandomString F log_levels;
     k \<leftarrow> fk_IntRange F 3 10;
     msg \<leftarrow> fk_Sentence F k;
     step \<leftarrow> fk_IntRange F 1 cnt;
     dur \<leftarrow> fk_IntRange F 10 5000;
     now \<leftarrow> fk_now F;
     stamp \<leftarrow> randomTimestampBetween F (jm_CreatedAt j) end';
     src \<leftarrow> fk_RandomString F logSources;
     (let l = (NewJobLogWithContext (jm_JobID j) (LogLevel_of_string level) msg
                 (Some [(''step'', GInt step), (''attempt'', GInt (jm_RetryCount j + 1)),
                        (''duration'', GInt dur)]) now)\<lparr>jl_Timestamp := stamp, jl_Source := src\<rparr> in
      if jl_Level l = LogLevelError \<or> jl_Level l = LogLevelFatal then do {
        k' \<leftarrow> fk_IntRange F 5 15;
        trace \<leftarrow> fk_Sentence F k';
        give (l\<lparr>jl_StackTrace := trace\<rparr>) }
      else give l) }"

fun logs_loop :: "'s faker \<Rightarrow> job \<Rightarrow> int \<Rightarrow> instant \<Rightarrow> nat \<Rightarrow> JobLog list \<Rightarrow> ('s, JobLog list) state" where
  "logs_loop F j cnt end' 0 logs = give logs"
| "logs_loop F j cnt end' (Suc n) logs = do {
     l \<leftarrow> random_log F j cnt end';
     logs_loop F j cnt end' n (logs @ [l]) }"

definition BuildLogs :: "job \<Rightarrow> int \<Rightarrow> int \<Rightarrow> 's faker \<Rightarrow> ('s, JobLog list) state" where
  "BuildLogs j lo hi F =
     (let hi' = (if hi < lo then lo else hi) in
      if hi' = 0 then give []
      else do {
        cnt \<leftarrow> fk_IntRange F lo hi';
        if cnt = 0 then give []
        else do {
          now \<leftarrow> fk_now F;
          logs_loop F j cnt
            (case jm_CompletedAt j of Some t \<Rightarrow> t
             | None \<Rightarrow> (case jm_StartedAt j of Some t \<Rightarrow> t | None \<Rightarrow> now))
            (nat cnt) [] } })"

section \<open>Inserting in batches\<close>

record SeedOptions =
  so_Count :: int
  so_LogsPerJobMin :: int
  so_LogsPerJobMax :: int
  so_WithLogs :: bool
  so_Seed :: int
  so_BatchSize :: int
  so_MaxAge :: int

record SeedResult =
  JobsInserted :: int
  LogsInserted :: int

text \<open>\<open>flushJobs\<close> and \<open>flushLogs\<close>: the batch is emptied and counted when it was inserted.\<close>

definition flushJobs ::
  "'s backend \<Rightarrow> job list \<Rightarrow> SeedResult \<Rightarrow> ('s, goerror option \<times> job list \<times> SeedResult) state" where
  "flushJobs B jobsBatch res =
     (if length jobsBatch = 0 then give (None, jobsBatch, res)
      else do {
        x \<leftarrow> State (Writer_InsertJobs B jobsBatch);
        give (case x of
          Inl err \<Rightarrow> (Some err, jobsBatch, res)
        | Inr n \<Rightarrow> (None, [], res\<lparr>JobsInserted := JobsInserted res + n\<rparr>)) })"

definition flushLogs ::
  "'s backend \<Rightarrow> JobLog list \<Rightarrow> SeedResult \<Rightarrow> ('s, goerror option \<times> JobLog list \<times> SeedResult) state" where
  "flushLogs B logsBatch res =
     (if length logsBatch = 0 then give (None, logsBatch, res)
      else do {
        x \<leftarrow> State (Writer_InsertLogs B logsBatch);
        give (case x of
          Inl err \<Rightarrow> (Some err, logsBatch, res)
        | Inr n \<Rightarrow> (None, [], res\<lparr>LogsInserted := LogsInserted res + n\<rparr>)) })"

text \<open>Both flushes, each under its condition; the first that fails ends the run.\<close>

definition flush_both ::
  "'s backend \<Rightarrow> bool \<Rightarrow> bool \<Rightarrow> job list \<Rightarrow> JobLog list \<Rightarrow> SeedResult
     \<Rightarrow> ('s, goerror option \<times> job list \<times> JobLog list \<times> SeedResult) state" where
  "flush_both B dueJobs dueLogs jb lb res = do {
     x \<leftarrow> (if dueJobs then flushJobs B jb res else give (None, jb, res));
     (case x of
        (Some err, jb1, res1) \<Rightarrow> give (Some (wrap ''insert jobs'' err), jb1, lb, res1)
      | (None, jb1, res1) \<Rightarrow> do {
          y \<leftarrow> (if dueLogs then flushLogs B lb res1 else give (None, lb, res1));
          give (case y of
            (Some err, lb1, res2) \<Rightarrow> (Some (wrap ''insert logs'' err), jb1, lb1, res2)
          | (None, lb1, res2) \<Rightarrow> (None, jb1, lb1, res2)) }) }"

text \<open>The loop over the jobs that are left, with the flush after it; \<open>i\<close> is the loop variable.\<close>

fun seed_loop ::
  "nat \<Rightarrow> 's backend \<Rightarrow> 's faker \<Rightarrow> SeedOptions \<Rightarrow> nat \<Rightarrow> int \<Rightarrow> job list \<Rightarrow> JobLog list \<Rightarrow> SeedResult
     \<Rightarrow> ('s, (SeedResult \<times> goerror option) option) state" where
  "seed_loop fuel B F opts 0 i jb lb res = do {
     x \<leftarrow> flush_both B True True jb lb res;
     give (case x of (err, _, _, res1) \<Rightarrow> Some (res1, err)) }"
| "seed_loop fuel B F opts (Suc n) i jb lb res = do {
     built \<leftarrow> BuildJob fuel F (so_MaxAge opts);
     (case built of
        None \<Rightarrow> give None
      | Some (Inl err) \<Rightarrow> give (Some (res, Some (wrap (''build job '' @ go_int (i + 1)) err)))
      | Some (Inr j) \<Rightarrow> do {
          new \<leftarrow> (if so_WithLogs opts
                 then BuildLogs j (so_LogsPerJobMin opts) (so_LogsPerJobMax opts) F else give []);
          (let jb1 = jb @ [j]; lb1 = lb @ new in do {
             x \<leftarrow> flush_both B (int (length jb1) \<ge> so_BatchSize opts) (int (length lb1) \<ge> so_BatchSize opts)
                    jb1 lb1 res;
             (case x of
                (Some err, _, _, res1) \<Rightarrow> give (Some (res1, Some err))
              | (None, jb2, lb2, res1) \<Rightarrow> seed_loop fuel B F opts n (i + 1) jb2 lb2 res1) }) }) }"

definition with_defaults :: "SeedOptions \<Rightarrow> SeedOptions" where
  "with_defaults opts =
     opts\<lparr>so_BatchSize := (if so_BatchSize opts < 1 then 500 else so_BatchSize opts),
          so_MaxAge := (if so_MaxAge opts \<le> 0 then 30 * 24 * 3600 * 1000 else so_MaxAge opts)\<rparr>"

definition seed_Run ::
  "nat \<Rightarrow> 's backend option \<Rightarrow> 's faker \<Rightarrow> SeedOptions \<Rightarrow> ('s, (SeedResult \<times> goerror option) option) state" where
  "seed_Run fuel writer F opts =
     (let none = \<lparr>JobsInserted = 0, LogsInserted = 0\<rparr>; opts' = with_defaults opts in
      case writer of
        None \<Rightarrow> give (Some (none, Some (ErrorString ''mongo writer is required'')))
      | Some B \<Rightarrow>
          if so_Count opts < 1 then give (Some (none, Some (ErrorString ''count must be at least 1'')))
          else if so_WithLogs opts' \<and> so_LogsPerJobMin opts' < 0 then
            give (Some (none, Some (ErrorString ''logs-per-job-min cannot be negative'')))
          else if so_WithLogs opts' \<and> so_LogsPerJobMax opts' < so_LogsPerJobMin opts' then
            give (Some (none, Some (ErrorString ''logs-per-job-max must be >= logs-per-job-min'')))
          else seed_loop fuel B F opts' (nat (so_Count opts')) 0 [] [] none)"

section \<open>What a computation yields\<close>

text \<open>Every run of \<open>m\<close> gives a value with \<open>P\<close> and leaves the stores as \<open>R\<close> says.\<close>

definition yields :: "('s \<Rightarrow> 's \<Rightarrow> bool) \<Rightarrow> ('s, 'a) state \<Rightarrow> ('a \<Rightarrow> bool) \<Rightarrow> bool" where
  "yields R m P \<longleftrightarrow> (\<forall>s x s'. run_state m s = (x, s') \<longrightarrow> P x \<and> R s s')"

definition same_store ::
  "('s \<Rightarrow> string \<Rightarrow> job option) \<Rightarrow> ('s \<Rightarrow> JobLog list) \<Rightarrow> 's \<Rightarrow> 's \<Rightarrow> bool" where
  "same_store jobs logs s s' \<longleftrightarrow> jobs s' = jobs s \<and> logs s' = logs s"

lemma yieldsD: "yields R m P \<Longrightarrow> run_state m s = (x, s') \<Longrightarrow> P x \<and> R s s'"
  by (auto simp: yields_def)

lemma yields_mono: "yields R m P \<Longrightarrow> (\<And>x. P x \<Longrightarrow> Q x) \<Longrightarrow> yields R m Q"
  by (auto simp: yields_def)

lemma yields_give: "P x \<Longrightarrow> yields (same_store jobs logs) (give x) P"
  by (simp add: yields_def same_store_def)

lemma yields_bind:
  "yields (same_store jobs logs) m Q \<Longrightarrow> (\<And>x. Q x \<Longrightarrow> yields (same_store jobs logs) (f x) P) \<Longrightarrow>
   yields (same_store jobs logs) (m \<bind> f) P"
  by (fastforce simp: yields_def same_store_def split: prod.splits)

lemma yields_if:
  "(b \<Longrightarrow> yields R m P) \<Longrightarrow> (\<not> b \<Longrightarrow> yields R m' P) \<Longrightarrow> yields R (if b then m else m') P"
  by simp

text \<open>
  The first draws of a tag, and a generator that shows three different tags within \<open>n\<close> draws
  from wherever it stands.
\<close>

fun tag_draws :: "'s faker \<Rightarrow> nat \<Rightarrow> ('s, string list) state" where
  "tag_draws F 0 = give []"
| "tag_draws F (Suc n) = do {
     tag \<leftarrow> fk_RandomString F defaultTags;
     ds \<leftarrow> tag_draws F n;
     give (tag # ds) }"

definition fair :: "'s faker \<Rightarrow> nat \<Rightarrow> bool" where
  "fair F n \<longleftrightarrow> (\<forall>s. 3 \<le> card (set (fst (run_state (tag_draws F n) s))))"

section \<open>What is generated\<close>

text \<open>What each half of \<open>applyCompositeStatus\<close> sets, the rest being as it was.\<close>

definition dispatch_applied :: "job \<Rightarrow> job \<Rightarrow> bool" where
  "dispatch_applied j j' \<longleftrightarrow>
     j' = j\<lparr>jm_Topic := jm_Topic j', jm_DispatchedAt := jm_DispatchedAt j',
            jm_DispatchAttempts := jm_DispatchAttempts j', jm_DispatchLastError := jm_DispatchLastError j'\<rparr>
     \<and> jm_Topic j' \<noteq> [] \<and> 0 \<le> jm_DispatchAttempts j'"

definition ran_from_to :: "job \<Rightarrow> bool \<Rightarrow> bool \<Rightarrow> bool" where
  "ran_from_to j started completed \<longleftrightarrow>
     (started \<longleftrightarrow> jm_StartedAt j \<noteq> None) \<and> (completed \<longleftrightarrow> jm_CompletedAt j \<noteq> None)
     \<and> (\<forall>t. jm_StartedAt j = Some t \<or> jm_CompletedAt j = Some t \<longrightarrow> jm_CreatedAt j < t)
     \<and> (\<forall>a b. jm_StartedAt j = Some a \<and> jm_CompletedAt j = Some b \<longrightarrow> a < b)"

definition execution_applied :: "CompositeStatus \<Rightarrow> job \<Rightarrow> job \<Rightarrow> bool" where
  "execution_applied pair j j' \<longleftrightarrow>
     j' = j\<lparr>jm_StartedAt := jm_StartedAt j', jm_CompletedAt := jm_CompletedAt j', jm_Errors := jm_Errors j'\<rparr>
     \<and> (case Execution pair of
          ExecutionStatusNotStarted \<Rightarrow> ran_from_to j' False False
        | ExecutionStatusRunning \<Rightarrow> ran_from_to j' True False
        | ExecutionStatusFailed \<Rightarrow> ran_from_to j' (jm_StartedAt j' \<noteq> None) True
            \<and> (\<exists>msg. jm_Errors j' = [\<lparr>je_Type = JobErrorTypeExecution, je_RetryAttempt = jm_RetryCount j,
                   je_Error = msg, je_Timestamp = the (jm_CompletedAt j')\<rparr>])
        | _ \<Rightarrow> ran_from_to j' True True)"

text \<open>The entries of a job carry its id, a valid level and a time no earlier than its creation.\<close>

definition entry_of :: "job \<Rightarrow> JobLog \<Rightarrow> bool" where
  "entry_of j l \<longleftrightarrow> jl_JobID l = jm_JobID j \<and> LogLevel_IsValid (jl_Level l) \<and> jm_CreatedAt j \<le> jl_Timestamp l"

section \<open>What the code relies on\<close>

text \<open>
  The documented ranges of the generator, and a clock that stays between \<open>t0\<close> and \<open>t0 + span\<close>
  while the command runs.
\<close>

locale random_source =
  fixes F :: "'s faker"
    and jobs :: "'s \<Rightarrow> string \<Rightarrow> job option" and logs :: "'s \<Rightarrow> JobLog list"
    and t0 span :: int
  assumes int_range: "lo \<le> hi \<Longrightarrow> yields (same_store jobs logs) (fk_IntRange F lo hi) (\<lambda>n. lo \<le> n \<and> n \<le> hi)"
    and random_string: "xs \<noteq> [] \<Longrightarrow> yields (same_store jobs logs) (fk_RandomString F xs) (\<lambda>x. x \<in> set xs)"
    and word: "yields (same_store jobs logs) (fk_Word F) (\<lambda>_. True)"
    and sentence: "yields (same_store jobs logs) (fk_Sentence F k) (\<lambda>_. True)"
    and bool: "yields (same_store jobs logs) (fk_Bool F) (\<lambda>_. True)"
    and fake_uuid: "yields (same_store jobs logs) (fk_UUID F) (\<lambda>_. True)"
    and date_range: "a \<le> b \<Longrightarrow> yields (same_store jobs logs) (fk_DateRange F a b) (\<lambda>t. a \<le> t \<and> t \<le> b)"
    and now: "yields (same_store jobs logs) (fk_now F) (\<lambda>t. t0 \<le> t \<and> t \<le> t0 + span)"
    and job_id: "yields (same_store jobs logs) (fk_jobID F) (\<lambda>u. length u = 36)"
begin

abbreviation gives :: "('s, 'a) state \<Rightarrow> ('a \<Rightarrow> bool) \<Rightarrow> bool" where
  "gives \<equiv> yields (same_store jobs logs)"

lemmas then_give = yields_bind [OF _ yields_give]

lemma any_int: "lo \<le> hi \<Longrightarrow> gives (fk_IntRange F lo hi) (\<lambda>_. True)"
  by (rule yields_mono [OF int_range]) simp_all

lemma payload_loop_gives: "gives (payload_loop F n m) (\<lambda>_. True)"
proof (induction n arbitrary: m)
  case 0
  show ?case by (simp add: yields_give)
next
  case (Suc n)
  show ?case
    unfolding payload_loop.simps
    by (intro yields_bind [OF word] yields_bind [OF any_int] yields_bind [OF sentence] yields_bind [OF bool]
        yields_bind [where Q = "\<lambda>_. True"] yields_if yields_give Suc.IH) simp_all
qed

lemma payload_gives: "gives (randomPayload F) (\<lambda>m. m \<noteq> None)"
  unfolding randomPayload_def
  by (intro yields_bind [OF any_int] yields_bind [OF payload_loop_gives] yields_give) simp_all

lemma metadata_gives: "gives (randomMetadata F) (\<lambda>m. m \<noteq> None)"
  unfolding randomMetadata_def
  by (intro yields_bind [OF random_string] yields_bind [OF fake_uuid] yields_bind [OF any_int] yields_give)
     (simp_all add: logSources_def)

lemma pick_loop_valid:
  "pick_loop n dist \<in> insert \<lparr>Dispatch = DispatchStatusDispatched, Execution = ExecutionStatusCompleted\<rparr>
     (fst ` set dist)"
  by (induction n dist rule: pick_loop.induct) auto

lemma pick_gives: "gives (pickCompositeStatus F) (\<lambda>p. p \<in> fst ` set statusDistribution)"
  unfolding pickCompositeStatus_def
proof (intro yields_bind [OF any_int] yields_give)
  show "1 \<le> sum_list (map snd statusDistribution)" by (simp add: statusDistribution_def)
  show "pick_loop n statusDistribution \<in> fst ` set statusDistribution" for n
    using pick_loop_valid [of n statusDistribution] by (auto simp: statusDistribution_def)
qed

lemma duration_gives: "1000 \<le> lo \<Longrightarrow> lo < hi \<Longrightarrow> gives (randomDuration F lo hi) (\<lambda>d. 1000 \<le> d \<and> d \<le> hi)"
  unfolding randomDuration_def
  by (simp only: not_le if_False simp_thms if_not_P)
     (rule yields_bind [OF int_range], simp add: zdiv_mono1, rule yields_give, auto)

lemma topic_gives: "gives (fakeTopic F) (\<lambda>t. t \<noteq> [])"
  unfolding fakeTopic_def by (rule yields_bind [OF word], rule yields_give) simp

lemma created_gives:
  assumes "0 \<le> span" "span \<le> maxAge" "0 < maxAge"
  shows "gives (randomCreatedAt F maxAge) (\<lambda>t. t0 - maxAge \<le> t \<and> t \<le> t0 + span)"
  unfolding randomCreatedAt_def
proof (rule yields_bind [OF now], rule yields_bind [OF now])
  fix t t' assume t: "t0 \<le> t \<and> t \<le> t0 + span" "t0 \<le> t' \<and> t' \<le> t0 + span"
  show "gives (fk_DateRange F (t - (if maxAge \<le> 0 then 30 * 24 * 3600 * 1000 else maxAge)) t')
      (\<lambda>x. t0 - maxAge \<le> x \<and> x \<le> t0 + span)"
    by (rule yields_mono [OF date_range]) (use t assms in auto)
qed

text \<open>The tags of a job are different, and there are as many as were drawn.\<close>

lemma tags_loop_gives:
  "distinct ts \<Longrightarrow> set ts \<subseteq> set defaultTags \<Longrightarrow> int (length ts) \<le> cnt \<Longrightarrow>
   gives (tags_loop n F cnt ts)
     (pred_option (\<lambda>r. distinct r \<and> set r \<subseteq> set defaultTags \<and> int (length r) = cnt))"
proof (induction n arbitrary: ts)
  case 0
  then show ?case by (simp add: tags_loop.simps [of 0] yields_give)
next
  case (Suc n)
  have "defaultTags \<noteq> []" by (simp add: defaultTags_def)
  with Suc show ?case
    by (subst tags_loop.simps) (auto intro!: yields_give yields_bind [OF random_string] Suc.IH)
qed

lemma tags_gives:
  "gives (randomTags n F) (pred_option (\<lambda>r. distinct r \<and> set r \<subseteq> set defaultTags \<and> length r \<le> 3))"
  unfolding randomTags_def
  by (rule yields_bind [OF int_range], simp, rule yields_if, rule yields_give, simp,
      rule yields_mono [OF tags_loop_gives], auto elim!: option.pred_mono_strong)

lemma dispatch_gives:
  assumes "DispatchStatus_IsValid (Dispatch pair)" and "0 \<le> jm_DispatchAttempts j"
  shows "gives (apply_dispatch F pair j) (dispatch_applied j)"
proof -
  have d: "gives (randomDuration F 1000 1800000) (\<lambda>_. True)"
    by (rule yields_mono [OF duration_gives]) simp_all
  have n: "gives (fk_IntRange F 1 5) (\<lambda>n. 0 \<le> n)" by (rule yields_mono [OF int_range]) simp_all
  show ?thesis
    using assms
    by (cases "Dispatch pair")
       (auto simp: apply_dispatch_def dispatch_applied_def intro!: yields_bind [OF topic_gives]
          yields_bind [OF d] yields_bind [OF n] yields_bind [OF any_int] yields_bind [OF sentence] yields_give)
qed

lemma started_and_completed_gives:
  "gives (started_and_completed F j) (\<lambda>j'.
     j' = j\<lparr>jm_StartedAt := jm_StartedAt j', jm_CompletedAt := jm_CompletedAt j'\<rparr> \<and> ran_from_to j' True True)"
  unfolding started_and_completed_def
  by (rule yields_bind [OF duration_gives], simp, simp, rule yields_bind [OF duration_gives], simp, simp,
      rule yields_give) (simp add: ran_from_to_def)

lemma execution_gives:
  assumes "ExecutionStatus_IsValid (Execution pair)" and "jm_StartedAt j = None" "jm_CompletedAt j = None"
  shows "gives (apply_execution F pair j) (execution_applied pair j)"
proof -
  have d: "gives (randomDuration F 60000 7200000) (\<lambda>d. 0 < d)"
    by (rule yields_mono [OF duration_gives]) simp_all
  have both: "gives (started_and_completed F j) (execution_applied pair j)"
    if "Execution pair \<in> {ExecutionStatusCompleted, ExecutionStatusCancelled}"
    using that by (auto intro!: yields_mono [OF started_and_completed_gives] simp: execution_applied_def)
  have failed: "gives (if b then started_and_completed F j
      else do { d \<leftarrow> randomDuration F 60000 7200000; give (j\<lparr>jm_CompletedAt := Some (jm_CreatedAt j + d)\<rparr>) })
      (\<lambda>j'. j' = j\<lparr>jm_StartedAt := jm_StartedAt j', jm_CompletedAt := jm_CompletedAt j'\<rparr>
         \<and> ran_from_to j' (jm_StartedAt j' \<noteq> None) True)" for b
    by (rule yields_if, rule yields_mono [OF started_and_completed_gives], simp add: ran_from_to_def,
        rule yields_bind [OF d], rule yields_give, simp add: ran_from_to_def assms)
  show ?thesis
  proof (cases "Execution pair")
    case ExecutionStatusFailed
    show ?thesis
      unfolding apply_execution_def ExecutionStatusFailed ExecutionStatus.case
      by (rule yields_bind [OF bool], rule yields_bind [OF failed], rule yields_bind [OF any_int], simp,
          rule yields_bind [OF sentence], rule yields_give)
         (auto simp: execution_applied_def ExecutionStatusFailed ran_from_to_def
            dest!: arg_cong [where f = jm_RetryCount])
  qed (use assms both d in \<open>auto simp: apply_execution_def execution_applied_def ran_from_to_def
         intro!: yields_give yields_bind [OF d]\<close>)
qed

definition built :: "int \<Rightarrow> job \<Rightarrow> bool" where
  "built maxAge j \<longleftrightarrow> Validate j = None \<and> jm_Topic j \<noteq> [] \<and> jm_Status j = DisplayStatus j
     \<and> sub_states j \<in> fst ` set statusDistribution
     \<and> t0 - maxAge \<le> jm_CreatedAt j \<and> jm_CreatedAt j \<le> t0 + span
     \<and> distinct (jm_Tags j) \<and> ran_from_to j (jm_StartedAt j \<noteq> None) (jm_CompletedAt j \<noteq> None)"

lemma built_facts:
  "built maxAge j \<Longrightarrow> Validate j = None \<and> jm_Topic j \<noteq> [] \<and> jm_Status j = DisplayStatus j
     \<and> sub_states j \<in> fst ` set statusDistribution
     \<and> t0 - maxAge \<le> jm_CreatedAt j \<and> jm_CreatedAt j \<le> t0 + span \<and> distinct (jm_Tags j)
     \<and> (\<forall>t. jm_StartedAt j = Some t \<or> jm_CompletedAt j = Some t \<longrightarrow> jm_CreatedAt j < t)
     \<and> (\<forall>a b. jm_StartedAt j = Some a \<and> jm_CompletedAt j = Some b \<longrightarrow> a < b)"
  by (simp add: built_def ran_from_to_def)

lemma composite_gives:
  assumes p: "pair \<in> fst ` set statusDistribution"
    and j: "jm_StartedAt j = None" "jm_CompletedAt j = None" "0 \<le> jm_DispatchAttempts j"
  shows "gives (applyCompositeStatus F pair j) (\<lambda>j'. \<exists>j1.
      dispatch_applied (j\<lparr>jm_DispatchStatus := Dispatch pair, jm_ExecutionStatus := Execution pair,
         jm_Status := CompositeStatus_DisplayStatus pair\<rparr>) j1 \<and> execution_applied pair j1 j')"
  unfolding applyCompositeStatus_def
proof (rule yields_bind [OF dispatch_gives])
  let ?j = "j\<lparr>jm_DispatchStatus := Dispatch pair, jm_ExecutionStatus := Execution pair,
    jm_Status := CompositeStatus_DisplayStatus pair\<rparr>"
  show "DispatchStatus_IsValid (Dispatch pair)" "0 \<le> jm_DispatchAttempts ?j"
    using p j(3) by (auto simp: statusDistribution_def)
  fix j1 assume d: "dispatch_applied ?j j1"
  then have e: "j1 = ?j\<lparr>jm_Topic := jm_Topic j1, jm_DispatchedAt := jm_DispatchedAt j1,
            jm_DispatchAttempts := jm_DispatchAttempts j1, jm_DispatchLastError := jm_DispatchLastError j1\<rparr>"
    by (simp only: dispatch_applied_def)
  have n: "jm_StartedAt j1 = None" "jm_CompletedAt j1 = None" by (subst e, simp add: j)+
  show "gives (apply_execution F pair j1) (\<lambda>j'. \<exists>j1. dispatch_applied ?j j1 \<and> execution_applied pair j1 j')"
    by (rule yields_mono [OF execution_gives]) (use p n d in \<open>auto simp: statusDistribution_def\<close>)
qed

lemma applied_built:
  assumes p: "pair \<in> fst ` set statusDistribution"
    and j: "j = (NewJobMetadata u name payload now')\<lparr>jm_CreatedAt := created, jm_Priority := priority,
        jm_Tags := ts, jm_Metadata := meta\<rparr>"
    and f: "length u = 36" "name \<in> set defaultJobNames" "0 \<le> priority \<and> priority \<le> 10" "0 < created"
      "distinct ts" "t0 - maxAge \<le> created \<and> created \<le> t0 + span" "0 \<le> retries"
    and d: "dispatch_applied (j\<lparr>jm_DispatchStatus := Dispatch pair, jm_ExecutionStatus := Execution pair,
         jm_Status := CompositeStatus_DisplayStatus pair\<rparr>) j1"
    and e: "execution_applied pair j1 j2"
  shows "built maxAge (j2\<lparr>jm_RetryCount := retries\<rparr>)"
proof -
  let ?j = "j2\<lparr>jm_RetryCount := retries\<rparr>"
  from d have j1: "j1 = j\<lparr>jm_DispatchStatus := Dispatch pair, jm_ExecutionStatus := Execution pair,
      jm_Status := CompositeStatus_DisplayStatus pair, jm_Topic := jm_Topic j1,
      jm_DispatchedAt := jm_DispatchedAt j1, jm_DispatchAttempts := jm_DispatchAttempts j1,
      jm_DispatchLastError := jm_DispatchLastError j1\<rparr>"
    and top: "jm_Topic j1 \<noteq> []" "0 \<le> jm_DispatchAttempts j1" by (simp_all add: dispatch_applied_def)
  from e have j2: "j2 = j1\<lparr>jm_StartedAt := jm_StartedAt j2, jm_CompletedAt := jm_CompletedAt j2,
      jm_Errors := jm_Errors j2\<rparr>" by (simp only: execution_applied_def)
  have frame: "jm_JobID ?j = u" "jm_Name ?j = name" "jm_Priority ?j = priority" "jm_CreatedAt ?j = created"
      "jm_Tags ?j = ts" "jm_DispatchStatus ?j = Dispatch pair" "jm_ExecutionStatus ?j = Execution pair"
      "jm_Status ?j = CompositeStatus_DisplayStatus pair" "jm_RetryCount ?j = retries"
      "jm_Topic ?j \<noteq> []" "0 \<le> jm_DispatchAttempts ?j"
    using top by (subst j2, subst j1, simp add: j NewJobMetadata_def)+
  have run: "ran_from_to ?j (jm_StartedAt ?j \<noteq> None) (jm_CompletedAt ?j \<noteq> None)"
    and ts: "timestamps_ok ?j"
    using e p frame(7)
    by (auto simp: statusDistribution_def execution_applied_def ran_from_to_def timestamps_ok_def)
  have names: "name \<noteq> [] \<and> length name \<le> 100" using f(2) by (auto simp: defaultJobNames_def)
  have st: "DispatchStatus_IsValid (Dispatch pair)" "ExecutionStatus_IsValid (Execution pair)"
      "JobStatus_IsValid (CompositeStatus_DisplayStatus pair)"
    using p by (auto simp: statusDistribution_def CompositeStatus_DisplayStatus_def)
  have pair: "\<lparr>Dispatch = Dispatch pair, Execution = Execution pair\<rparr> = pair" by simp
  have "well_formed ?j"
    unfolding well_formed_def identity_ok_def statuses_ok_def numbers_ok_def topic_ok_def frame
    using f names st ts frame(10,11) by simp
  moreover have "jm_Status ?j = DisplayStatus ?j" unfolding DisplayStatus_def frame pair ..
  moreover have "sub_states ?j \<in> fst ` set statusDistribution"
    unfolding sub_states_def frame pair using p .
  ultimately show ?thesis
    unfolding built_def Validate_None_iff frame using f run frame(10) by (simp add: frame)
qed

lemma finish_gives:
  assumes "length u = 36" "name \<in> set defaultJobNames" "0 \<le> priority \<and> priority \<le> 10" "0 < created"
    and "distinct ts" "t0 - maxAge \<le> created \<and> created \<le> t0 + span"
  shows "gives (finish_job F ((NewJobMetadata u name payload now')\<lparr>jm_CreatedAt := created,
      jm_Priority := priority, jm_Tags := ts\<rparr>)) (\<lambda>r. \<exists>j. r = Inr j \<and> built maxAge j)"
  unfolding finish_job_def
proof (rule yields_bind [OF metadata_gives], rule yields_bind [OF pick_gives])
  fix meta pair assume p: "pair \<in> fst ` set statusDistribution"
  let ?j = "(NewJobMetadata u name payload now')\<lparr>jm_CreatedAt := created, jm_Priority := priority,
    jm_Tags := ts, jm_Metadata := meta\<rparr>"
  have rt: "gives (if Execution pair = ExecutionStatusFailed \<or> Execution pair = ExecutionStatusCancelled
      then fk_IntRange F 0 3 else fk_IntRange F 0 1) (\<lambda>n. 0 \<le> n)"
    by (intro yields_if yields_mono [OF int_range]) simp_all
  show "gives (applyCompositeStatus F pair ?j \<bind> (\<lambda>j'.
      (if Execution pair = ExecutionStatusFailed \<or> Execution pair = ExecutionStatusCancelled
       then fk_IntRange F 0 3 else fk_IntRange F 0 1) \<bind> (\<lambda>retries.
      give (case Validate (j'\<lparr>jm_RetryCount := retries\<rparr>) of
          None \<Rightarrow> Inr (j'\<lparr>jm_RetryCount := retries\<rparr>)
        | Some err \<Rightarrow> Inl (wrap ''generated invalid job'' err)))))
     (\<lambda>r. \<exists>j. r = Inr j \<and> built maxAge j)"
  proof (rule yields_bind [OF composite_gives [OF p]], goal_cases)
    case (4 j2)
    then obtain j1 where d: "dispatch_applied (?j\<lparr>jm_DispatchStatus := Dispatch pair,
        jm_ExecutionStatus := Execution pair, jm_Status := CompositeStatus_DisplayStatus pair\<rparr>) j1"
      and e: "execution_applied pair j1 j2" by blast
    show ?case
    proof (rule yields_bind [OF rt], rule yields_give)
      fix r :: int assume "0 \<le> r"
      from applied_built [OF p refl assms this d e] have b: "built maxAge (j2\<lparr>jm_RetryCount := r\<rparr>)" .
      then have "Validate (j2\<lparr>jm_RetryCount := r\<rparr>) = None" by (simp add: built_def)
      with b show "\<exists>j. (case Validate (j2\<lparr>jm_RetryCount := r\<rparr>) of None \<Rightarrow> Inr (j2\<lparr>jm_RetryCount := r\<rparr>)
          | Some err \<Rightarrow> Inl (wrap ''generated invalid job'' err)) = Inr j \<and> built maxAge j" by simp
    qed
  qed (simp_all add: NewJobMetadata_def)
qed

lemma build_gives:
  assumes "0 \<le> span" "span \<le> maxAge" "0 < maxAge" "maxAge < t0"
  shows "gives (BuildJob n F maxAge) (pred_option (\<lambda>r. \<exists>j. r = Inr j \<and> built maxAge j))"
  unfolding BuildJob_def
proof (rule yields_bind [OF job_id], rule yields_bind [OF random_string], goal_cases)
  case 1
  show ?case by (simp add: defaultJobNames_def)
next
  case (2 u name)
  have pr: "gives (fk_IntRange F 0 10) (\<lambda>n. 0 \<le> n \<and> n \<le> 10)" by (rule int_range) simp
  show ?case
  proof (rule yields_bind [OF payload_gives], rule yields_bind [OF now],
      rule yields_bind [OF created_gives [OF assms(1-3)]], rule yields_bind [OF pr],
      rule yields_bind [OF tags_gives], goal_cases)
    case (1 payload now' created priority tags)
    show ?case
    proof (cases tags)
      case None
      then show ?thesis by (simp add: yields_give)
    next
      case (Some ts)
      then show ?thesis
        using 1 2 assms(4)
        by (auto intro!: yields_bind [OF finish_gives] yields_give)
    qed
  qed
qed

text \<open>
  The tag loop ends as soon as the draws have shown enough different tags: with fuel \<open>n\<close> it
  gives up only when its \<open>n\<close> draws, with the tags it had, are fewer than it needs.
\<close>

lemma tags_loop_ends:
  assumes "distinct ts" and "int (card (set ts \<union> set (fst (run_state (tag_draws F n) s)))) \<ge> cnt"
  shows "fst (run_state (tags_loop n F cnt ts) s) \<noteq> None"
  using assms
proof (induction n arbitrary: ts s)
  case 0
  then have "cnt \<le> int (length ts)" by (simp add: distinct_card)
  then show ?case by (simp add: tags_loop.simps [of 0])
next
  case (Suc n)
  obtain tag s1 where d: "run_state (fk_RandomString F defaultTags) s = (tag, s1)" by fastforce
  obtain ds s2 where ds: "run_state (tag_draws F n) s1 = (ds, s2)" by fastforce
  have draws: "fst (run_state (tag_draws F (Suc n)) s) = tag # ds" by (simp add: d ds)
  let ?ts = "if tag \<in> set ts then ts else ts @ [tag]"
  have "set ?ts \<union> set ds = set ts \<union> set (tag # ds)" and "distinct ?ts" using Suc.prems(1) by auto
  with Suc.prems(2) draws have "cnt \<le> int (card (set ?ts \<union> set (fst (run_state (tag_draws F n) s1))))"
    by (simp only: ds fst_conv)
  from Suc.IH [OF \<open>distinct ?ts\<close> this] show ?case
    by (subst tags_loop.simps) (simp add: d split: if_splits)
qed

lemma run_bind:
  "run_state (m \<bind> f) s = run_state (f (fst (run_state m s))) (snd (run_state m s))"
  by (simp add: split_beta)

lemma randomTags_ends: "fair F n \<Longrightarrow> fst (run_state (randomTags n F) s) \<noteq> None"
proof -
  assume f: "fair F n"
  obtain c s1 where c: "run_state (fk_IntRange F 0 3) s = (c, s1)" by fastforce
  have "c \<le> 3" using yieldsD [OF int_range c] by simp
  moreover have "3 \<le> int (card (set (fst (run_state (tag_draws F n) s1))))"
    using f by (simp add: fair_def)
  ultimately show ?thesis
    using tags_loop_ends [of "[]" c n s1] by (auto simp: randomTags_def c)
qed

lemma build_ends: "fair F n \<Longrightarrow> fst (run_state (BuildJob n F maxAge) s) \<noteq> None"
  unfolding BuildJob_def run_bind
  by (drule randomTags_ends) (auto split: option.splits simp: split_beta)

lemma stamp_gives: "gives (randomTimestampBetween F a b) (\<lambda>t. a \<le> t)"
  unfolding randomTimestampBetween_def
  by (intro yields_if yields_give yields_mono [OF date_range]) simp_all

lemma random_log_gives:
  assumes "0 < cnt"
  shows "gives (random_log F j cnt b) (entry_of j)"
  unfolding random_log_def
proof (rule yields_bind [OF random_string], goal_cases)
  case 1
  show ?case by (simp add: log_levels_def)
next
  case (2 level)
  then have valid: "LogLevel_IsValid (LogLevel_of_string level)"
    by (auto simp: log_levels_def LogLevel_of_string_def)
  have one: "1 \<le> cnt" and ranges: "(3::int) \<le> 10" "(10::int) \<le> 5000" "(5::int) \<le> 15" using assms by simp_all
  have src: "gives (fk_RandomString F logSources) (\<lambda>_. True)"
    by (rule yields_mono [OF random_string]) (simp_all add: logSources_def)
  have stamped: "entry_of j (l\<lparr>jl_Timestamp := t, jl_Source := x\<rparr>)
      \<and> entry_of j (l\<lparr>jl_Timestamp := t, jl_Source := x, jl_StackTrace := tr\<rparr>)"
    if "jm_CreatedAt j \<le> t" "l = NewJobLogWithContext (jm_JobID j) (LogLevel_of_string level) msg c n"
    for l t x tr msg c n
    using that valid by (simp add: entry_of_def NewJobLogWithContext_def NewJobLog_def)
  show ?case
    unfolding Let_def
    by (rule yields_bind [OF any_int [OF ranges(1)]], rule yields_bind [OF sentence],
        rule yields_bind [OF any_int [OF one]], rule yields_bind [OF any_int [OF ranges(2)]],
        rule yields_bind [OF now], rule yields_bind [OF stamp_gives], rule yields_bind [OF src],
        rule yields_if, rule yields_bind [OF any_int [OF ranges(3)]], rule yields_bind [OF sentence],
        rule yields_give, rule stamped [THEN conjunct2], assumption, rule refl,
        rule yields_give, rule stamped [THEN conjunct1], assumption, rule refl)
qed

lemma logs_loop_gives:
  "0 < cnt \<Longrightarrow> list_all (entry_of j) ls \<Longrightarrow>
   gives (logs_loop F j cnt b n ls) (\<lambda>r. list_all (entry_of j) r \<and> length r = length ls + n)"
proof (induction n arbitrary: ls)
  case 0
  then show ?case by (simp add: yields_give)
next
  case (Suc n)
  show ?case
    unfolding logs_loop.simps
  proof (rule yields_bind [OF random_log_gives [OF Suc.prems(1)]])
    fix l assume "entry_of j l"
    with Suc show "gives (logs_loop F j cnt b n (ls @ [l]))
        (\<lambda>r. list_all (entry_of j) r \<and> length r = length ls + Suc n)"
      by (intro yields_mono [OF Suc.IH]) simp_all
  qed
qed

lemma logs_gives:
  assumes "0 \<le> lo"
  shows "gives (BuildLogs j lo hi F) (\<lambda>r. list_all (entry_of j) r \<and> int (length r) \<le> max lo hi)"
proof -
  let ?h = "if hi < lo then lo else hi"
  have c: "gives (fk_IntRange F lo ?h) (\<lambda>n. lo \<le> n \<and> n \<le> ?h)" by (rule int_range) simp
  show ?thesis
    unfolding BuildLogs_def Let_def
  proof (rule yields_if, goal_cases)
    case 1
    then show ?case using assms by (intro yields_give) (simp split: if_splits)
  next
    case 2
    show ?case
    proof (rule yields_bind [OF c], rule yields_if, goal_cases)
      case (1 n)
      then show ?case using assms by (intro yields_give) simp
    next
      case (2 n)
      with assms have "0 < n" by simp
      then show ?case using 2
        by (intro yields_bind [OF now] yields_mono [OF logs_loop_gives]) (auto split: if_splits)
    qed
  qed
qed

end

section \<open>What a run inserts\<close>

text \<open>\<open>js\<close> are new jobs that \<open>s'\<close> stores beside those of \<open>s\<close>.\<close>

definition added :: "('s \<Rightarrow> string \<Rightarrow> job option) \<Rightarrow> job list \<Rightarrow> 's \<Rightarrow> 's \<Rightarrow> bool" where
  "added jobs js s s' \<longleftrightarrow>
     distinct (map jm_JobID js) \<and> (\<forall>j\<in>set js. jobs s (jm_JobID j) = None)
     \<and> jobs s' = jobs s ++ map_of (map (\<lambda>j. (jm_JobID j, j)) js)"

lemma added_Nil: "jobs s' = jobs s \<Longrightarrow> added jobs [] s s'"
  by (simp add: added_def)

lemma added_cong: "added jobs js s s1 \<Longrightarrow> jobs s2 = jobs s1 \<Longrightarrow> added jobs js s s2"
  by (simp add: added_def)

lemma added_ids: "added jobs js s s' \<Longrightarrow> dom (jobs s') = dom (jobs s) \<union> jm_JobID ` set js"
  by (auto simp: added_def dom_map_of_conv_image_fst image_image)

lemma added_many:
  assumes "added jobs js s s1" and "many_inserted jobs bs s1 s2"
  shows "\<exists>bs'. list_all2 (\<lambda>j j'. \<exists>oid. j' = j\<lparr>jm_ID := oid\<rparr>) bs bs' \<and> added jobs (bs' @ js) s s2"
proof -
  from assms(2) obtain bs' where l: "list_all2 (\<lambda>j j'. \<exists>oid. j' = j\<lparr>jm_ID := oid\<rparr>) bs bs'"
    and m: "jobs s2 = jobs s1 ++ map_of (map (\<lambda>j. (jm_JobID j, j)) bs')"
    and d: "distinct (map jm_JobID bs)" "\<forall>j\<in>set bs. jobs s1 (jm_JobID j) = None"
    by (auto simp: many_inserted_def)
  from l have ids: "map jm_JobID bs' = map jm_JobID bs"
    by (induction rule: list_all2_induct) auto
  then have set_ids: "jm_JobID ` set bs' = jm_JobID ` set bs" by (metis set_map)
  have "dom (jobs s1) = dom (jobs s) \<union> jm_JobID ` set js" using assms(1) by (rule added_ids)
  then have fresh: "jm_JobID j \<notin> dom (jobs s) \<union> jm_JobID ` set js" if "j \<in> set bs'" for j
    using that d(2) set_ids by (metis (no_types, lifting) domIff image_eqI imageE)
  moreover have "distinct (map jm_JobID bs')" using d(1) ids by simp
  ultimately have "added jobs (bs' @ js) s s2" using assms(1) m by (auto simp: added_def domIff)
  with l show ?thesis by blast
qed

lemma many_built:
  "list_all2 (\<lambda>j j'. \<exists>oid. j' = j\<lparr>jm_ID := oid\<rparr>) bs bs' \<Longrightarrow> (\<And>j oid. P j \<Longrightarrow> P (j\<lparr>jm_ID := oid\<rparr>)) \<Longrightarrow>
   list_all P bs \<Longrightarrow> list_all P bs'"
  by (induction rule: list_all2_induct) auto

locale seeding = mongo_backend B jobs logs + random_source F jobs logs t0 span
  for B :: "'s backend" and F :: "'s faker"
    and jobs :: "'s \<Rightarrow> string \<Rightarrow> job option" and logs :: "'s \<Rightarrow> JobLog list"
    and t0 span :: int
begin

lemma built_ID: "built m j \<Longrightarrow> built m (j\<lparr>jm_ID := oid\<rparr>)"
  by (simp add: built_def Validate_None_iff well_formed_defs DisplayStatus_def sub_states_def ran_from_to_def
      cong: ExecutionStatus.case_cong)

text \<open>What has been inserted since \<open>s0\<close>, exactly as counted, and at least as much as counted.\<close>

definition inserted :: "int \<Rightarrow> 's \<Rightarrow> SeedResult \<Rightarrow> 's \<Rightarrow> bool" where
  "inserted m s0 r s \<longleftrightarrow>
     (\<exists>js ls. added jobs js s0 s \<and> list_all (built m) js \<and> logs s = logs s0 @ ls
        \<and> int (length js) = JobsInserted r \<and> int (length ls) = LogsInserted r)"

definition at_least :: "int \<Rightarrow> 's \<Rightarrow> SeedResult \<Rightarrow> 's \<Rightarrow> bool" where
  "at_least m s0 r s \<longleftrightarrow>
     (\<exists>js. added jobs js s0 s \<and> list_all (built m) js \<and> JobsInserted r \<le> int (length js))"

lemma built_valid: "list_all (built m) js \<Longrightarrow> \<forall>j\<in>set js. Validate j = None"
  by (auto simp: list_all_iff built_def)

lemma inserted_new:
  "inserted m s0 r s \<Longrightarrow> \<exists>js. added jobs js s0 s \<and> (\<forall>j\<in>set js. Validate j = None)
     \<and> int (length js) = JobsInserted r \<and> (\<exists>ls. logs s = logs s0 @ ls \<and> LogsInserted r = int (length ls))"
  using built_valid by (auto simp: inserted_def)

lemma at_least_new:
  "at_least m s0 r s \<Longrightarrow> \<exists>js. added jobs js s0 s \<and> (\<forall>j\<in>set js. Validate j = None)
     \<and> JobsInserted r \<le> int (length js)"
  using built_valid by (auto simp: at_least_def)

lemma flushJobs_inserts:
  assumes "run_state (flushJobs B jb r) s = ((e, jb', r'), s')"
    and "inserted m s0 r s" and "list_all (built m) jb"
  shows "case e of
      None \<Rightarrow> inserted m s0 r' s' \<and> jb' = [] \<and> JobsInserted r' = JobsInserted r + int (length jb)
              \<and> LogsInserted r' = LogsInserted r
    | Some err \<Rightarrow> at_least m s0 r' s'"
proof (cases "jb = []")
  case True
  with assms show ?thesis by (auto simp: flushJobs_def)
next
  case False
  obtain x s1 where w: "be_insert_many B jb s = (x, s1)" by fastforce
  from assms(2) obtain js ls where js: "added jobs js s0 s" "list_all (built m) js" "logs s = logs s0 @ ls"
    "int (length js) = JobsInserted r" "int (length ls) = LogsInserted r" by (auto simp: inserted_def)
  have logs: "logs s1 = logs s" by (rule insert_many_frame [OF w])
  show ?thesis
  proof (cases x)
    case (Inl err)
    then have s': "e = Some (wrap ''failed to bulk insert jobs'' err)" "r' = r" "s' = s1"
      using assms(1) w False by (auto simp: flushJobs_def Writer_InsertJobs_def)
    from insert_many_error [OF w [unfolded Inl]] obtain k where "many_inserted jobs (take k jb) s s1" by blast
    from added_many [OF js(1) this] obtain bs where l: "list_all2 (\<lambda>j j'. \<exists>oid. j' = j\<lparr>jm_ID := oid\<rparr>) (take k jb) bs"
      and a: "added jobs (bs @ js) s0 s1" by blast
    have "list_all (built m) (take k jb)" using assms(3) by (auto simp: list_all_iff dest: in_set_takeD)
    then have "list_all (built m) bs" using many_built [OF l, of "built m"] built_ID by blast
    with a js s' show ?thesis by (auto simp: at_least_def intro!: exI [of _ "bs @ js"])
  next
    case (Inr n)
    then have s': "e = None" "jb' = []" "r' = r\<lparr>JobsInserted := JobsInserted r + n\<rparr>" "s' = s1"
      using assms(1) w False by (auto simp: flushJobs_def Writer_InsertJobs_def)
    from insert_many_ok [OF w [unfolded Inr]] have n: "n = int (length jb)" "many_inserted jobs jb s s1"
      by blast+
    from added_many [OF js(1) n(2)] obtain bs where l: "list_all2 (\<lambda>j j'. \<exists>oid. j' = j\<lparr>jm_ID := oid\<rparr>) jb bs"
      and a: "added jobs (bs @ js) s0 s1" by blast
    have "list_all (built m) bs" "length bs = length jb"
      using many_built [OF l, of "built m"] built_ID assms(3) list_all2_lengthD [OF l] by auto
    with a js s' n logs show ?thesis
      by (auto simp: inserted_def intro!: exI [of _ "bs @ js"] exI [of _ ls])
  qed
qed

lemma flushLogs_inserts:
  assumes "run_state (flushLogs B lb r) s = ((e, lb', r'), s')" and "inserted m s0 r s"
  shows "case e of
      None \<Rightarrow> inserted m s0 r' s' \<and> lb' = [] \<and> JobsInserted r' = JobsInserted r
              \<and> LogsInserted r' = LogsInserted r + int (length lb)
    | Some err \<Rightarrow> at_least m s0 r' s'"
proof (cases "lb = []")
  case True
  with assms show ?thesis by (auto simp: flushLogs_def)
next
  case False
  obtain x s1 where w: "be_log_insert_many B lb s = (x, s1)" by fastforce
  from assms(2) obtain js ls where js: "added jobs js s0 s" "list_all (built m) js" "logs s = logs s0 @ ls"
    "int (length js) = JobsInserted r" "int (length ls) = LogsInserted r" by (auto simp: inserted_def)
  have a: "added jobs js s0 s1" using js(1) log_insert_many_frame [OF w] by (rule added_cong)
  show ?thesis
  proof (cases x)
    case (Inl err)
    then have "e = Some (wrap ''failed to bulk insert logs'' err)" "r' = r" "s' = s1"
      using assms(1) w False by (auto simp: flushLogs_def Writer_InsertLogs_def)
    with a js show ?thesis by (auto simp: at_least_def)
  next
    case (Inr n)
    then have "e = None" "lb' = []" "r' = r\<lparr>LogsInserted := LogsInserted r + n\<rparr>" "s' = s1"
      using assms(1) w False by (auto simp: flushLogs_def Writer_InsertLogs_def)
    moreover from log_insert_many_ok [OF w [unfolded Inr]] have "n = int (length lb)" "logs s1 = logs s @ lb"
      by blast+
    ultimately show ?thesis
      using a js by (auto simp: inserted_def intro!: exI [of _ js] exI [of _ "ls @ lb"])
  qed
qed

lemma inserted_at_least: "inserted m s0 r s \<Longrightarrow> at_least m s0 r s"
  by (auto simp: inserted_def at_least_def)

lemma inserted_still: "inserted m s0 r s \<Longrightarrow> same_store jobs logs s s1 \<Longrightarrow> inserted m s0 r s1"
  by (auto simp: inserted_def same_store_def added_def)

lemma flush_both_inserts:
  assumes run: "run_state (flush_both B dj dl jb lb r) s = ((e, jb', lb', r'), s')"
    and inv: "inserted m s0 r s" and jb: "list_all (built m) jb"
  shows "case e of
      None \<Rightarrow> inserted m s0 r' s' \<and> list_all (built m) jb' \<and> (dj \<longrightarrow> jb' = []) \<and> (dl \<longrightarrow> lb' = [])
              \<and> JobsInserted r' + int (length jb') = JobsInserted r + int (length jb)
    | Some err \<Rightarrow> at_least m s0 r' s'"
proof -
  obtain e1 jb1 r1 s1 where f: "run_state (if dj then flushJobs B jb r else give (None, jb, r)) s
      = ((e1, jb1, r1), s1)" by (metis prod.exhaust)
  obtain e2 lb2 r2 s2 where g: "run_state (if dl then flushLogs B lb r1 else give (None, lb, r1)) s1
      = ((e2, lb2, r2), s2)" by (metis prod.exhaust)
  have F: "case e1 of
      None \<Rightarrow> inserted m s0 r1 s1 \<and> list_all (built m) jb1 \<and> (dj \<longrightarrow> jb1 = [])
              \<and> JobsInserted r1 + int (length jb1) = JobsInserted r + int (length jb)
    | Some err \<Rightarrow> at_least m s0 r1 s1"
  proof (cases dj)
    case True
    with flushJobs_inserts [OF _ inv jb] f show ?thesis by (cases e1) auto
  next
    case False
    with f inv jb show ?thesis by auto
  qed
  show ?thesis
  proof (cases e1)
    case (Some err)
    with run f F show ?thesis by (auto simp: flush_both_def)
  next
    case None
    with F have i1: "inserted m s0 r1 s1" by simp
    have G: "case e2 of
        None \<Rightarrow> inserted m s0 r2 s2 \<and> (dl \<longrightarrow> lb2 = []) \<and> JobsInserted r2 = JobsInserted r1
      | Some err \<Rightarrow> at_least m s0 r2 s2"
    proof (cases dl)
      case True
      with g have "run_state (flushLogs B lb r1) s1 = ((e2, lb2, r2), s2)" by simp
      from flushLogs_inserts [OF this i1] show ?thesis by (cases e2) auto
    next
      case False
      with g i1 show ?thesis by auto
    qed
    from run f g None have "e = map_option (wrap ''insert logs'') e2" "jb' = jb1" "lb' = lb2" "r' = r2" "s' = s2"
      by (auto simp: flush_both_def split: option.splits)
    with F G None show ?thesis by (cases e2) auto
  qed
qed

text \<open>What the whole run ends with.\<close>

definition run_outcome :: "int \<Rightarrow> 's \<Rightarrow> int \<Rightarrow> (SeedResult \<times> goerror option) option \<Rightarrow> 's \<Rightarrow> bool" where
  "run_outcome m s0 cnt out s' \<longleftrightarrow>
     (\<exists>r e. out = Some (r, e) \<and> at_least m s0 r s'
        \<and> (e = None \<longrightarrow> inserted m s0 r s' \<and> JobsInserted r = cnt))"

lemma seed_loop_outcome:
  assumes "fair F fuel" and "0 \<le> span" "span \<le> so_MaxAge opts" "0 < so_MaxAge opts" "so_MaxAge opts < t0"
    and "so_WithLogs opts \<Longrightarrow> 0 \<le> so_LogsPerJobMin opts"
    and "inserted (so_MaxAge opts) s0 r s" and "list_all (built (so_MaxAge opts)) jb"
    and "run_state (seed_loop fuel B F opts n i jb lb r) s = (out, s')"
  shows "run_outcome (so_MaxAge opts) s0 (JobsInserted r + int (length jb) + int n) out s'"
  using assms(7-9)
proof (induction n arbitrary: i jb lb r s)
  case 0
  obtain e jb' lb' r' s1 where f: "run_state (flush_both B True True jb lb r) s = ((e, jb', lb', r'), s1)"
    by (metis prod.exhaust)
  from flush_both_inserts [OF f 0(1,2)] 0(3) f show ?case
    by (cases e) (auto simp: run_outcome_def intro: inserted_at_least)
next
  case (Suc n)
  let ?m = "so_MaxAge opts"
  obtain b s1 where b: "run_state (BuildJob fuel F ?m) s = (b, s1)" by fastforce
  from yieldsD [OF build_gives [OF assms(2-5)] b] build_ends [OF assms(1), of ?m s] b
  obtain j where j: "b = Some (Inr j)" "built ?m j" and same: "same_store jobs logs s s1" by (cases b) auto
  have lg: "gives (if so_WithLogs opts
      then BuildLogs j (so_LogsPerJobMin opts) (so_LogsPerJobMax opts) F else give []) (\<lambda>_. True)"
    by (intro yields_if yields_give yields_mono [OF logs_gives] assms(6)) simp_all
  obtain new s2 where new: "run_state (if so_WithLogs opts
      then BuildLogs j (so_LogsPerJobMin opts) (so_LogsPerJobMax opts) F else give []) s1 = (new, s2)" by fastforce
  have inv: "inserted ?m s0 r s2"
    using inserted_still [OF inserted_still [OF Suc.prems(1) same]] yieldsD [OF lg new] by blast
  have jb: "list_all (built ?m) (jb @ [j])" using Suc.prems(2) j(2) by simp
  let ?f = "flush_both B (int (length (jb @ [j])) \<ge> so_BatchSize opts)
    (int (length (lb @ new)) \<ge> so_BatchSize opts) (jb @ [j]) (lb @ new) r"
  obtain e jb' lb' r' s3 where f: "run_state ?f s2 = ((e, jb', lb', r'), s3)" by (metis prod.exhaust)
  note fl = flush_both_inserts [OF f inv jb]
  note run = Suc.prems(3) [unfolded seed_loop.simps(2) run_state_bind b j(1) prod.case option.case sum.case
      new Let_def f]
  show ?case
  proof (cases e)
    case (Some err)
    with fl run show ?thesis by (auto simp: run_outcome_def)
  next
    case None
    with fl have ok: "inserted ?m s0 r' s3" "list_all (built ?m) jb'"
      "JobsInserted r' + int (length jb') = JobsInserted r + int (length (jb @ [j]))" by simp_all
    from run None have "run_state (seed_loop fuel B F opts n (i + 1) jb' lb' r') s3 = (out, s')" by simp
    from Suc.IH [OF ok(1,2) this] ok(3) show ?thesis by (simp add: algebra_simps)
  qed
qed

lemma seed_outcome:
  assumes "fair F fuel" and "0 \<le> span" "span \<le> so_MaxAge (with_defaults opts)"
    and "so_MaxAge (with_defaults opts) < t0"
    and run: "run_state (seed_Run fuel (Some B) F opts) s = (out, s')"
  shows "run_outcome (so_MaxAge (with_defaults opts)) s (so_Count opts) out s'"
proof -
  let ?o = "with_defaults opts" and ?r = "\<lparr>JobsInserted = 0, LogsInserted = 0\<rparr>"
  have start: "inserted (so_MaxAge ?o) s ?r s"
    by (auto simp: inserted_def intro!: added_Nil exI [of _ "[]"])
  have pos: "0 < so_MaxAge ?o" by (simp add: with_defaults_def)
  show ?thesis
  proof (cases "so_Count opts < 1 \<or> so_WithLogs ?o \<and> so_LogsPerJobMin ?o < 0
      \<or> so_WithLogs ?o \<and> so_LogsPerJobMax ?o < so_LogsPerJobMin ?o")
    case True
    with run inserted_at_least [OF start] show ?thesis
      by (auto simp: seed_Run_def Let_def run_outcome_def split: if_splits)
  next
    case False
    with run have l: "run_state (seed_loop fuel B F ?o (nat (so_Count ?o)) 0 [] [] ?r) s = (out, s')"
      by (auto simp: seed_Run_def Let_def)
    have "so_WithLogs ?o \<Longrightarrow> 0 \<le> so_LogsPerJobMin ?o" using False by auto
    from seed_loop_outcome [OF assms(1-3) pos assms(4) this start _ l] False show ?thesis
      by (simp add: with_defaults_def)
  qed
qed

end

section \<open>A generator for the driver in memory\<close>

text \<open>The lowest number of a range, the strings in turn, and a clock that stands still.\<close>

definition mem_faker :: "mem faker" where
  "mem_faker = \<lparr>fk_IntRange = (\<lambda>lo hi. give lo),
     fk_RandomString = (\<lambda>xs. State (\<lambda>s. (xs ! (mem_serial s mod length xs), s\<lparr>mem_serial := Suc (mem_serial s)\<rparr>))),
     fk_Word = give ''word'', fk_Sentence = (\<lambda>k. give ''A sentence.''), fk_Bool = give True,
     fk_UUID = give ''worker'', fk_DateRange = (\<lambda>a b. give a), fk_now = give 63000000000000,
     fk_jobID = State (be_uuid mem_backend)\<rparr>"

lemma mem_serial_store: "same_store mem_coll mem_logs s (s\<lparr>mem_serial := n\<rparr>)"
  by (simp add: same_store_def mem_coll_def)

interpretation mem_seed: seeding mem_backend mem_faker mem_coll mem_logs 63000000000000 0
proof
  fix u s s'
  show "yields (same_store mem_coll mem_logs) (fk_jobID mem_faker) (\<lambda>u. length u = 36)"
    using mem.uuid_ok by (auto simp: yields_def same_store_def mem_faker_def)
qed (auto simp: mem_faker_def yields_def same_store_def mem_coll_def)

lemma mem_faker_fair: "fair mem_faker 3"
proof -
  have "3 \<le> card (set (fst (run_state (tag_draws mem_faker 3) s)))" for s
  proof -
    let ?n = "mem_serial s"
    have d: "distinct defaultTags" and len: "length defaultTags = 7" by (simp_all add: defaultTags_def)
    have "fst (run_state (tag_draws mem_faker 3) s)
        = map ((!) defaultTags) [?n mod 7, Suc ?n mod 7, Suc (Suc ?n) mod 7]"
      by (simp add: numeral_3_eq_3 mem_faker_def len)
    moreover have "distinct [?n mod 7, Suc ?n mod 7, Suc (Suc ?n) mod 7]"
      by (auto simp: mod_Suc)
    then have "distinct (map ((!) defaultTags) [?n mod 7, Suc ?n mod 7, Suc (Suc ?n) mod 7])"
      using d len by (simp add: nth_eq_iff_index_eq)
    ultimately show ?thesis
      by (simp only: distinct_card) simp
  qed
  then show ?thesis by (simp add: fair_def)
qed

section \<open>Properties\<close>



text \<open>
  C33. A run of the seed command on any database either inserts exactly the number of jobs asked
  for, in batches of any size, and reports that number with the number of entries it added to
  the logs, or reports an error with a number that is at most what it has inserted. All the
  jobs it stores are new and valid and no other job is touched; with a generator that shows
  three different tags, the run ends.
\<close>

theorem seed_run_inserts:
  assumes "seeding B F jobs logs t0 span" and "fair F fuel"
    and "0 \<le> span" "span \<le> so_MaxAge (with_defaults opts)" "so_MaxAge (with_defaults opts) < t0"
    and "run_state (seed_Run fuel (Some B) F opts) s = (out, s')"
  shows "\<exists>r e js. out = Some (r, e) \<and> added jobs js s s' \<and> (\<forall>j\<in>set js. Validate j = None)
    \<and> JobsInserted r \<le> int (length js)
    \<and> (e = None \<longrightarrow> int (length js) = so_Count opts \<and> JobsInserted r = so_Count opts
          \<and> (\<exists>ls. logs s' = logs s @ ls \<and> LogsInserted r = int (length ls)))"
proof -
  from seeding.seed_outcome [OF assms(1-6)] obtain r e where out: "out = Some (r, e)"
    and al: "seeding.at_least jobs t0 span (so_MaxAge (with_defaults opts)) s r s'"
    and ins: "e = None \<longrightarrow> seeding.inserted jobs logs t0 span (so_MaxAge (with_defaults opts)) s r s'
      \<and> JobsInserted r = so_Count opts"
    by (auto simp: seeding.run_outcome_def [OF assms(1)])
  show ?thesis
  proof (cases e)
    case None
    with ins have i: "seeding.inserted jobs logs t0 span (so_MaxAge (with_defaults opts)) s r s'"
      "JobsInserted r = so_Count opts" by simp_all
    from seeding.inserted_new [OF assms(1) i(1)] obtain js where "added jobs js s s'"
      "\<forall>j\<in>set js. Validate j = None" "int (length js) = JobsInserted r"
      "\<exists>ls. logs s' = logs s @ ls \<and> LogsInserted r = int (length ls)" by blast
    with out None i(2) show ?thesis by (intro exI [of _ r] exI [of _ e] exI [of _ js]) simp
  next
    case (Some err)
    with al seeding.at_least_new [OF assms(1)] out show ?thesis by blast
  qed
qed

theorem seed_run_inserts_witness:
  "let opts = \<lparr>so_Count = 1, so_LogsPerJobMin = 1, so_LogsPerJobMax = 1, so_WithLogs = True, so_Seed = 7,
       so_BatchSize = 0, so_MaxAge = 1000\<rparr>
   in \<exists>r e. fst (run_state (seed_Run 3 (Some mem_backend) mem_faker opts) mem_empty) = Some (r, e)"
proof -
  let ?o = "\<lparr>so_Count = 1, so_LogsPerJobMin = 1, so_LogsPerJobMax = 1, so_WithLogs = True, so_Seed = 7,
       so_BatchSize = 0, so_MaxAge = 1000\<rparr>"
  let ?r = "run_state (seed_Run 3 (Some mem_backend) mem_faker ?o) mem_empty"
  have "?r = (fst ?r, snd ?r)" by simp
  from seed_run_inserts [OF mem_seed.seeding_axioms mem_faker_fair _ _ _ this]
  show ?thesis by (auto simp: with_defaults_def)
qed

end
