(* ===== verification/Pending.thy ===== *)
theory Pending
  imports Store SagaInterfaces
begin

text \<open>
  \<open>internal/jobs/mongodb/pending.go\<close>: the query of the poll fallback, which returns the jobs
  that still await dispatch, oldest first.
\<close>

section \<open>The interface\<close>

text \<open>\<open>dispatch.PendingJobFetcher\<close> and what the worker may rely on.\<close>

type_synonym 's PendingJobFetcher = "int \<Rightarrow> int \<Rightarrow> ('s, goerror + JobDispatchProjection list) op"

definition awaits_dispatch :: "int \<Rightarrow> job \<Rightarrow> bool" where
  "awaits_dispatch maxAttempts j \<longleftrightarrow>
     is_pending j \<and> jm_DispatchAttempts j < maxAttempts \<and> jm_Topic j \<noteq> []"

text \<open>The awaiting jobs fit into one batch; a batch size of 0 means no limit.\<close>

definition fits :: "('s \<Rightarrow> string \<Rightarrow> job option) \<Rightarrow> int \<Rightarrow> int \<Rightarrow> 's \<Rightarrow> bool" where
  "fits jobs m l s \<longleftrightarrow>
     l \<le> 0 \<or> int (card {k. \<exists>j. jobs s k = Some j \<and> awaits_dispatch m j}) \<le> l"

locale pending_fetcher =
  fixes fetch :: "'s PendingJobFetcher"
    and jobs :: "'s \<Rightarrow> string \<Rightarrow> job option"
  assumes fetch_frame: "fetch m l s = (r, s') \<Longrightarrow> jobs s' = jobs s"
    and fetch_sound: "fetch m l s = (Inr ps, s') \<Longrightarrow> p \<in> set ps \<Longrightarrow>
      \<exists>j. jobs s (dp_JobID p) = Some j \<and> p = JobDispatchFromMetadata j \<and> awaits_dispatch m j"
    and fetch_complete: "fetch m l s = (Inr ps, s') \<Longrightarrow> fits jobs m l s \<Longrightarrow> jobs s k = Some j \<Longrightarrow>
      awaits_dispatch m j \<Longrightarrow> JobDispatchFromMetadata j \<in> set ps"
    and fetch_distinct: "fetch m l s = (Inr ps, s') \<Longrightarrow> distinct (map dp_JobID ps)"
    and fetch_limited: "fetch m l s = (Inr ps, s') \<Longrightarrow> 0 < l \<Longrightarrow> int (length ps) \<le> l"

section \<open>PendingFetcher\<close>

definition awaiting_filter :: "int \<Rightarrow> bdoc" where
  "awaiting_filter maxAttempts =
     [(''dispatchStatus'', BDispatch DispatchStatusPending),
      (''dispatchAttempts'', BDoc [(''$lt'', BInt maxAttempts)]),
      (''topic'', BDoc [(''$exists'', BBool True), (''$ne'', BStr [])])]"

definition oldest_first :: "int \<Rightarrow> find_options" where
  "oldest_first limit = \<lparr>fo_Limit = positive limit, fo_Skip = None, fo_Sort = [(''createdAt'', 1)]\<rparr>"

definition FetchPending :: "'s backend \<Rightarrow> 's PendingJobFetcher" where
  "FetchPending B maxAttempts limit s =
     (case be_find B (awaiting_filter maxAttempts) (oldest_first limit) s of
        (Inl e, s1) \<Rightarrow> (Inl (wrap ''fetch pending dispatch jobs'' e), s1)
      | (Inr c, s1) \<Rightarrow>
          (map_sum id (map JobDispatchFromMetadata)
             (join_close (read_cursor ''decode pending dispatch job'' ''pending dispatch cursor'' c) c),
           s1))"

lemma awaiting_filter_matches:
  "job_matches (awaiting_filter maxAttempts) j \<longleftrightarrow> awaits_dispatch maxAttempts j"
  by (auto simp: awaiting_filter_def awaits_dispatch_def query_match_defs job_field_def)

lemma oldest_first_simps [simp]:
  "fo_Limit (oldest_first l) = positive l" "fo_Skip (oldest_first l) = None"
  by (simp_all add: oldest_first_def)

lemma oldest_first_order:
  "in_order job_field (oldest_first l) = (\<lambda>x y. jm_CreatedAt x \<le> jm_CreatedAt y)"
  by (intro ext) (simp add: in_order_def oldest_first_def job_field_def)

context mongo_backend
begin

text \<open>What a successful fetch read: a prefix of all awaiting jobs in order of creation.\<close>

lemma fetch_pending_page:
  assumes "FetchPending B m l s = (Inr ps, s')"
  obtains ys where "distinct ys" "set ys = {j \<in> ran (jobs s). awaits_dispatch m j}"
    "sorted_wrt (\<lambda>x y. jm_CreatedAt x \<le> jm_CreatedAt y) ys"
    "ps = map JobDispatchFromMetadata (page (oldest_first l) ys)"
proof -
  obtain c js where f: "be_find B (awaiting_filter m) (oldest_first l) s = (Inr c, s')"
    and j: "join_close (read_cursor ''decode pending dispatch job'' ''pending dispatch cursor'' c) c
              = Inr js"
    and ps: "ps = map JobDispatchFromMetadata js"
    using assms
    by (cases "be_find B (awaiting_filter m) (oldest_first l) s")
       (auto simp: FetchPending_def map_sum_def split: sum.splits)
  from j have "delivers c js" by (auto dest: join_close_Inr read_cursor_Inr)
  from find_delivers [OF f this] obtain ys where "distinct ys"
    "set ys = {j \<in> ran (jobs s). awaits_dispatch m j}"
    "sorted_wrt (\<lambda>x y. jm_CreatedAt x \<le> jm_CreatedAt y) ys" "js = page (oldest_first l) ys"
    by (auto simp: awaiting_filter_matches oldest_first_order)
  with ps show thesis by (intro that) simp_all
qed

lemma page_prefix: "\<exists>n. page (oldest_first l) ys = take n ys"
  by (cases "positive l") (auto simp: page_def intro: exI [of _ "length ys"])

lemma ran_jobs_key: "j \<in> ran (jobs s) \<Longrightarrow> jobs s (jm_JobID j) = Some j"
  by (auto simp: ran_def dest: job_key)

end

sublocale mongo_backend \<subseteq> pending: pending_fetcher "FetchPending B" jobs
proof
  fix m l s r s' assume "FetchPending B m l s = (r, s')"
  then show "jobs s' = jobs s"
    by (auto simp: FetchPending_def dest: find_frame split: prod.splits sum.splits)
next
  fix m l s ps s' p assume "FetchPending B m l s = (Inr ps, s')" "p \<in> set ps"
  then obtain ys j where ys: "set ys = {j \<in> ran (jobs s). awaits_dispatch m j}"
    and j: "j \<in> set (page (oldest_first l) ys)" "p = JobDispatchFromMetadata j"
    by (elim fetch_pending_page) auto
  with page_subset [of "oldest_first l" ys] have "j \<in> ran (jobs s)" "awaits_dispatch m j" by blast+
  with j ran_jobs_key
  show "\<exists>j. jobs s (dp_JobID p) = Some j \<and> p = JobDispatchFromMetadata j \<and> awaits_dispatch m j"
    by auto
next
  fix m l s ps s' k j
  assume f: "FetchPending B m l s = (Inr ps, s')" and fit: "fits jobs m l s"
    and j: "jobs s k = Some j" "awaits_dispatch m j"
  from f obtain ys where ys: "distinct ys" "set ys = {j \<in> ran (jobs s). awaits_dispatch m j}"
    "ps = map JobDispatchFromMetadata (page (oldest_first l) ys)"
    by (rule fetch_pending_page)
  have "page (oldest_first l) ys = ys"
  proof (cases "l \<le> 0")
    case True
    then show ?thesis by (simp add: page_all positive_def)
  next
    case False
    have "{k. \<exists>j. jobs s k = Some j \<and> awaits_dispatch m j} = jm_JobID ` set ys"
      using ys(2) job_key by (fastforce simp: ran_def image_iff)
    moreover have "inj_on jm_JobID (set ys)"
      by (rule inj_onI) (metis (no_types, lifting) mem_Collect_eq option.inject ran_jobs_key ys(2))
    ultimately have "length ys \<le> nat l"
      using fit False ys(1) by (simp add: fits_def card_image distinct_card)
    then show ?thesis using False by (simp add: page_def positive_def)
  qed
  with ys j show "JobDispatchFromMetadata j \<in> set ps" by (auto simp: ran_def)
next
  fix m l s ps s' assume "FetchPending B m l s = (Inr ps, s')"
  then obtain ys where ys: "distinct ys" "set ys = {j \<in> ran (jobs s). awaits_dispatch m j}"
    and ps: "ps = map JobDispatchFromMetadata (page (oldest_first l) ys)"
    by (rule fetch_pending_page)
  have "inj_on jm_JobID (set ys)"
    by (rule inj_onI) (metis (no_types, lifting) mem_Collect_eq option.inject ran_jobs_key ys(2))
  with ys(1) have "distinct (map jm_JobID ys)" by (simp add: distinct_map)
  moreover obtain n where "page (oldest_first l) ys = take n ys" using page_prefix by blast
  ultimately show "distinct (map dp_JobID ps)" using ps
    by (simp add: comp_def flip: take_map)
next
  fix m l s ps s' assume "FetchPending B m l s = (Inr ps, s')" "0 < l"
  moreover from this(1) obtain ys where "ps = map JobDispatchFromMetadata (page (oldest_first l) ys)"
    by (rule fetch_pending_page)
  ultimately show "int (length ps) \<le> l"
    using page_length [of "oldest_first l" l ys] by (simp add: positive_def)
qed

context mongo_backend
begin

lemmas fetcher = pending.pending_fetcher_axioms
lemmas pending_frame = pending.fetch_frame
lemmas pending_distinct = pending.fetch_distinct

end

section \<open>Properties\<close>

text \<open>
  C18. The poll fallback reads only jobs that are pending with fewer attempts than the limit and
  a topic, each once and oldest first; and a batch limit never skips an older awaiting job in
  favour of a younger one. Whether the job was cancelled in the meantime plays no role.
\<close>

theorem poll_batch_is_oldest_awaiting:
  assumes "mongo_backend B jobs logs" and "FetchPending B m l s = (Inr ps, s')"
  shows "jobs s' = jobs s
    \<and> (\<exists>js. ps = map JobDispatchFromMetadata js \<and> distinct (map jm_JobID js)
        \<and> sorted_wrt (\<lambda>x y. jm_CreatedAt x \<le> jm_CreatedAt y) js
        \<and> (\<forall>j\<in>set js. jobs s (jm_JobID j) = Some j \<and> awaits_dispatch m j)
        \<and> (\<forall>k j. jobs s k = Some j \<and> awaits_dispatch m j \<and> j \<notin> set js \<longrightarrow>
             0 < l \<and> int (length js) = l \<and> (\<forall>x\<in>set js. jm_CreatedAt x \<le> jm_CreatedAt j)))"
proof -
  obtain ys where ys: "distinct ys" "set ys = {j \<in> ran (jobs s). awaits_dispatch m j}"
    "sorted_wrt (\<lambda>x y. jm_CreatedAt x \<le> jm_CreatedAt y) ys"
    "ps = map JobDispatchFromMetadata (page (oldest_first l) ys)"
    by (rule mongo_backend.fetch_pending_page [OF assms])
  obtain n where n: "page (oldest_first l) ys = take n ys"
    using mongo_backend.page_prefix [OF assms(1)] by blast
  let ?js = "take n ys"
  have frame: "jobs s' = jobs s"
    by (rule mongo_backend.pending_frame [OF assms])
  have "distinct (map dp_JobID ps)"
    by (rule mongo_backend.pending_distinct [OF assms])
  then have dist: "distinct (map jm_JobID ?js)" by (simp add: ys(4) n comp_def)
  have mem: "\<forall>j\<in>set ?js. jobs s (jm_JobID j) = Some j \<and> awaits_dispatch m j"
    using ys(2) mongo_backend.ran_jobs_key [OF assms(1)] by (auto dest: in_set_takeD)
  have sorted: "sorted_wrt (\<lambda>x y. jm_CreatedAt x \<le> jm_CreatedAt y) ?js"
    using ys(3) by (rule sorted_wrt_take)
  have skipped: "0 < l \<and> int (length ?js) = l \<and> (\<forall>x\<in>set ?js. jm_CreatedAt x \<le> jm_CreatedAt j)"
    if "jobs s k = Some j" "awaits_dispatch m j" "j \<notin> set ?js" for k j
  proof -
    have "j \<in> set ys" using that(1,2) ys(2) by (auto simp: ran_def)
    then have d: "j \<in> set (drop n ys)" using that(3) by (metis append_take_drop_id Un_iff set_append)
    then have len: "n < length ys" by (cases "n < length ys") auto
    have l: "0 < l"
    proof (rule ccontr)
      assume "\<not> 0 < l"
      then have "take n ys = ys" using n by (simp add: page_all positive_def)
      then have "length (take n ys) = length ys" by simp
      with len show False by simp
    qed
    then have "take n ys = take (nat l) ys" using n by (simp add: page_def positive_def)
    then have "length (take n ys) = length (take (nat l) ys)" by simp
    then have "n = nat l" using len by (simp add: min_def split: if_splits)
    then have "int (length ?js) = l" using len l by simp
    moreover have "\<forall>x\<in>set ?js. jm_CreatedAt x \<le> jm_CreatedAt j"
      using ys(3) d by (metis append_take_drop_id sorted_wrt_append)
    ultimately show ?thesis using l by simp
  qed
  have skipped': "\<forall>k j. jobs s k = Some j \<and> awaits_dispatch m j \<and> j \<notin> set ?js \<longrightarrow>
      0 < l \<and> int (length ?js) = l \<and> (\<forall>x\<in>set ?js. jm_CreatedAt x \<le> jm_CreatedAt j)"
    using skipped by (intro allI impI, elim conjE) blast
  have "ps = map JobDispatchFromMetadata ?js" using ys(4) n by simp
  with dist mem sorted have "ps = map JobDispatchFromMetadata ?js \<and> distinct (map jm_JobID ?js)
      \<and> sorted_wrt (\<lambda>x y. jm_CreatedAt x \<le> jm_CreatedAt y) ?js
      \<and> (\<forall>j\<in>set ?js. jobs s (jm_JobID j) = Some j \<and> awaits_dispatch m j)
      \<and> (\<forall>k j. jobs s k = Some j \<and> awaits_dispatch m j \<and> j \<notin> set ?js \<longrightarrow>
             0 < l \<and> int (length ?js) = l \<and> (\<forall>x\<in>set ?js. jm_CreatedAt x \<le> jm_CreatedAt j))"
    using skipped' by (intro conjI)
  then show ?thesis by (rule conjI [OF frame exI])
qed

theorem poll_batch_is_oldest_awaiting_witness:
  "\<exists>js. fst (FetchPending mem_backend 3 10 (mem_with [sample_job] []))
           = Inr (map JobDispatchFromMetadata js) \<and> length js = 1"
proof -
  let ?r = "FetchPending mem_backend 3 10 (mem_with [sample_job] [])"
  have "awaits_dispatch 3 sample_job"
    by (simp add: awaits_dispatch_def sample_job_def NewJobMetadata_def)
  then have r: "fst ?r = Inr [JobDispatchFromMetadata sample_job]"
    by (simp add: FetchPending_def mem_backend_def scripted_def mem_with_def mem_empty_def
        mem_select_def read_cursor_def join_close_def list_cursor_def page_def Let_def positive_def
        awaiting_filter_matches)
  then have "?r = (Inr [JobDispatchFromMetadata sample_job], snd ?r)" by (metis prod.collapse)
  from poll_batch_is_oldest_awaiting [OF mem.mongo_backend_axioms this] obtain js where
    "[JobDispatchFromMetadata sample_job] = map JobDispatchFromMetadata js"
    by (elim conjE exE) (rule that)
  moreover from arg_cong [OF this, of length] have "length js = 1" by simp
  ultimately have "fst ?r = Inr (map JobDispatchFromMetadata js) \<and> length js = 1" using r by simp
  then show ?thesis by (rule exI)
qed

end
