(* ===== verification/Dispatch.thy ===== *)
theory Dispatch
  imports MetadataService Pending
begin

text \<open>
  \<open>internal/jobs/dispatch\<close>: the publish and confirm steps of the saga (\<open>handler.go\<close>) and the
  worker's poll fallback (\<open>worker.go\<close>). The stream trigger runs the same handler; it is in
  \<open>Stream\<close>. A poll loop that ran until its context was cancelled is \<open>runPoll\<close> with the number
  of ticks it saw.
\<close>

section \<open>HandleDispatch\<close>

definition HandleDispatch ::
  "int \<Rightarrow> 's JobDispatchPublisher \<Rightarrow> 's JobUpdater \<Rightarrow> JobDispatchProjection \<Rightarrow> ('s, goerror option) op" where
  "HandleDispatch maxAttempts publish U job s =
     (if dp_Topic job = [] then
        (Some (ErrorString (''job '' @ dp_JobID job @ '' missing topic'')), s)
      else
        (case publish job s of
           (None, s1) \<Rightarrow> up_MarkJobDispatched U (dp_JobID job) s1
         | (Some publishErr, s1) \<Rightarrow>
             (let attempts = dp_DispatchAttempts job + 1 in
              case up_RecordDispatchAttempt U (dp_JobID job) attempts (error_text publishErr) s1 of
                (Some err, s2) \<Rightarrow> (Some err, s2)
              | (None, s2) \<Rightarrow>
                  if attempts \<ge> maxAttempts
                  then up_MarkJobDispatchFailed U (dp_JobID job) (Some publishErr) s2
                  else (None, s2))))"

section \<open>The worker\<close>

record WorkerConfig =
  wc_PollInterval :: int
  wc_BatchSize :: int
  wc_MaxAttempts :: int

text \<open>A job whose handling fails does not stop the others.\<close>

fun handle_all ::
  "(JobDispatchProjection \<Rightarrow> ('s, goerror option) op) \<Rightarrow> JobDispatchProjection list \<Rightarrow> 's \<Rightarrow> 's" where
  "handle_all handler [] s = s"
| "handle_all handler (job # rest) s = handle_all handler rest (snd (handler job s))"

definition pollOnce ::
  "WorkerConfig \<Rightarrow> (JobDispatchProjection \<Rightarrow> ('s, goerror option) op) \<Rightarrow> 's PendingJobFetcher \<Rightarrow> 's \<Rightarrow> 's" where
  "pollOnce cfg handler fetch s =
     (case fetch (wc_MaxAttempts cfg) (wc_BatchSize cfg) s of
        (Inl err, s1) \<Rightarrow> s1
      | (Inr js, s1) \<Rightarrow> handle_all handler js s1)"

fun runPoll ::
  "nat \<Rightarrow> WorkerConfig \<Rightarrow> (JobDispatchProjection \<Rightarrow> ('s, goerror option) op) \<Rightarrow> 's PendingJobFetcher \<Rightarrow> 's \<Rightarrow> 's" where
  "runPoll 0 cfg handler fetch s = pollOnce cfg handler fetch s"
| "runPoll (Suc ticks) cfg handler fetch s = runPoll ticks cfg handler fetch (pollOnce cfg handler fetch s)"

section \<open>The saga over its contracts\<close>

text \<open>
  The pending job after the handler answered without error: dispatched when the publish
  went through, else one attempt further, and given up when that was the last one.
\<close>

definition saga_outcome :: "int \<Rightarrow> goerror option \<Rightarrow> int \<Rightarrow> job \<Rightarrow> job \<Rightarrow> bool" where
  "saga_outcome m published attempts j j' \<longleftrightarrow>
     (case published of
        None \<Rightarrow> \<exists>t. j' = mark_dispatched_effect t j
      | Some e \<Rightarrow>
          if attempts \<ge> m
          then \<exists>t. j' = dispatch_failed_effect (error_text e) t (record_attempt_effect attempts (error_text e) j)
          else j' = record_attempt_effect attempts (error_text e) j)"

locale dispatch_saga = job_updater U jobs + job_publisher P jobs
  for U :: "'s JobUpdater" and P :: "'s JobDispatchPublisher"
    and jobs :: "'s \<Rightarrow> string \<Rightarrow> job option"
begin

text \<open>Whatever happens, only the job at hand is touched, and only while it is pending.\<close>

lemma confirmed_frame:
  "confirmed jobs k Q f r s s' \<Longrightarrow> k' \<noteq> k \<Longrightarrow> jobs s' k' = jobs s k'"
  by (auto simp: confirmed_def applied_def split: option.splits)

lemma confirmed_refused:
  "confirmed jobs k Q f r s s' \<Longrightarrow> (\<forall>j. jobs s k = Some j \<longrightarrow> \<not> Q j) \<Longrightarrow> jobs s' = jobs s"
  by (auto simp: confirmed_def applied_def split: option.splits)

lemma handle_other:
  assumes "HandleDispatch m P U job s = (r, s')" and "k \<noteq> dp_JobID job"
  shows "jobs s' k = jobs s k"
proof (cases "dp_Topic job = []")
  case True
  with assms show ?thesis by (simp add: HandleDispatch_def)
next
  case False
  obtain p s1 where p: "P job s = (p, s1)" by fastforce
  have s1: "jobs s1 = jobs s" by (rule publish_frame [OF p])
  show ?thesis
  proof (cases p)
    case None
    with assms False p have "up_MarkJobDispatched U (dp_JobID job) s1 = (r, s')"
      by (simp add: HandleDispatch_def)
    from dispatched [OF this] confirmed_frame assms(2) s1 show ?thesis by metis
  next
    case (Some e)
    obtain a s2 where a: "up_RecordDispatchAttempt U (dp_JobID job) (dp_DispatchAttempts job + 1)
        (error_text e) s1 = (a, s2)" by fastforce
    have s2: "jobs s2 k = jobs s k"
      using confirmed_frame [OF attempt [OF a] assms(2)] s1 by simp
    show ?thesis
    proof (cases "a = None \<and> dp_DispatchAttempts job + 1 \<ge> m")
      case True
      with assms False p Some a have
        "up_MarkJobDispatchFailed U (dp_JobID job) (Some e) s2 = (r, s')"
        by (simp add: HandleDispatch_def Let_def)
      from failed [OF this] confirmed_frame assms(2) s2 show ?thesis by metis
    next
      case no: False
      with assms False p Some a have "s' = s2"
        by (auto simp: HandleDispatch_def Let_def split: option.splits if_splits)
      with s2 show ?thesis by simp
    qed
  qed
qed

lemma handle_not_pending:
  assumes "HandleDispatch m P U job s = (r, s')"
    and "\<forall>j. jobs s (dp_JobID job) = Some j \<longrightarrow> \<not> is_pending j"
  shows "jobs s' = jobs s"
proof (cases "dp_Topic job = []")
  case True
  with assms show ?thesis by (simp add: HandleDispatch_def)
next
  case False
  obtain p s1 where p: "P job s = (p, s1)" by fastforce
  have s1: "jobs s1 = jobs s" by (rule publish_frame [OF p])
  show ?thesis
  proof (cases p)
    case None
    with assms False p have "up_MarkJobDispatched U (dp_JobID job) s1 = (r, s')"
      by (simp add: HandleDispatch_def)
    from dispatched [OF this] obtain t where
      "confirmed jobs (dp_JobID job) is_pending (mark_dispatched_effect t) r s1 s'" by blast
    from confirmed_refused [OF this] assms(2) s1 show ?thesis by simp
  next
    case (Some e)
    obtain a s2 where a: "up_RecordDispatchAttempt U (dp_JobID job) (dp_DispatchAttempts job + 1)
        (error_text e) s1 = (a, s2)" by fastforce
    have s2: "jobs s2 = jobs s" using confirmed_refused [OF attempt [OF a]] assms(2) s1 by simp
    show ?thesis
    proof (cases "a = None \<and> dp_DispatchAttempts job + 1 \<ge> m")
      case True
      with assms False p Some a have
        "up_MarkJobDispatchFailed U (dp_JobID job) (Some e) s2 = (r, s')"
        by (simp add: HandleDispatch_def Let_def)
      from failed [OF this] obtain t where
        "confirmed jobs (dp_JobID job) is_pending
           (dispatch_failed_effect (message_of (Some e)) t) r s2 s'" by blast
      from confirmed_refused [OF this] assms(2) s2 show ?thesis by simp
    next
      case no: False
      with assms False p Some a have "s' = s2"
        by (auto simp: HandleDispatch_def Let_def split: option.splits if_splits)
      with s2 show ?thesis by simp
    qed
  qed
qed

lemma handle_pending:
  assumes "HandleDispatch m P U job s = (None, s')" and "fst (P job s) = p"
    and "jobs s (dp_JobID job) = Some j" and "is_pending j"
  shows "dp_Topic job \<noteq> [] \<and>
    (\<exists>j'. jobs s' = (jobs s)(dp_JobID job \<mapsto> j') \<and> saga_outcome m p (dp_DispatchAttempts job + 1) j j')"
proof -
  have topic: "dp_Topic job \<noteq> []" using assms(1) by (auto simp: HandleDispatch_def)
  obtain s1 where p: "P job s = (p, s1)" using assms(2) by (cases "P job s") simp
  have s1: "jobs s1 = jobs s" by (rule publish_frame [OF p])
  have "\<exists>j'. jobs s' = (jobs s)(dp_JobID job \<mapsto> j') \<and> saga_outcome m p (dp_DispatchAttempts job + 1) j j'"
  proof (cases p)
    case None
    with assms topic p have "up_MarkJobDispatched U (dp_JobID job) s1 = (None, s')"
      by (simp add: HandleDispatch_def)
    from dispatched [OF this] obtain t where
      "confirmed jobs (dp_JobID job) is_pending (mark_dispatched_effect t) None s1 s'" by blast
    from confirmed_None_pendingD [OF this] assms s1 None show ?thesis
      by (auto simp: saga_outcome_def)
  next
    case (Some e)
    let ?n = "dp_DispatchAttempts job + 1"
    obtain a s2 where a: "up_RecordDispatchAttempt U (dp_JobID job) ?n (error_text e) s1 = (a, s2)"
      by fastforce
    from assms topic p Some a have "a = None"
      by (auto simp: HandleDispatch_def Let_def split: option.splits)
    from confirmed_None_pendingD [OF attempt [OF a [unfolded this]]] assms s1
    have s2: "jobs s2 = (jobs s)(dp_JobID job \<mapsto> record_attempt_effect ?n (error_text e) j)" by simp
    show ?thesis
    proof (cases "?n \<ge> m")
      case True
      with assms topic p Some a \<open>a = None\<close> have
        "up_MarkJobDispatchFailed U (dp_JobID job) (Some e) s2 = (None, s')"
        by (simp add: HandleDispatch_def Let_def)
      from failed [OF this] obtain t where c:
        "confirmed jobs (dp_JobID job) is_pending (dispatch_failed_effect (error_text e) t) None s2 s'"
        by auto
      have "jobs s2 (dp_JobID job) = Some (record_attempt_effect ?n (error_text e) j)"
        "is_pending (record_attempt_effect ?n (error_text e) j)"
        using s2 assms(4) by (simp_all add: record_attempt_effect_def)
      from confirmed_None_pendingD [OF c this] s2
      have "jobs s' = (jobs s)(dp_JobID job \<mapsto>
          dispatch_failed_effect (error_text e) t (record_attempt_effect ?n (error_text e) j))"
        by (simp only: fun_upd_upd)
      with Some True show ?thesis by (auto simp: saga_outcome_def)
    next
      case False
      with assms topic p Some a \<open>a = None\<close> have "s' = s2"
        by (simp add: HandleDispatch_def Let_def)
      with s2 Some False show ?thesis by (auto simp: saga_outcome_def)
    qed
  qed
  with topic show ?thesis by blast
qed

end

text \<open>The metadata service over the database updates jobs as the saga wants it to.\<close>

context mongo_backend
begin

lemma saga: "job_publisher P jobs \<Longrightarrow> dispatch_saga (service_updater (mongo_service B)) P jobs"
  using service.updater.job_updater_axioms [folded mongo_service_def] by (rule dispatch_saga.intro)

end

end
