(* ===== verification/DispatchProperties.thy ===== *)
theory DispatchProperties
  imports Dispatch Samples
begin

text \<open>
  What the dispatch saga guarantees over the metadata service and the database, for any
  publisher that leaves the stored jobs alone, and what the poll fallback achieves on top.
\<close>

section \<open>The worker over its contracts\<close>

text \<open>
  \<open>up\<close> is a set of states in which the database answers without error, closed under the
  operations of the dispatcher.
\<close>

locale dispatch_worker = dispatch_saga U P jobs + pending_fetcher fetch jobs
  for U :: "'s JobUpdater" and P :: "'s JobDispatchPublisher"
    and fetch :: "'s PendingJobFetcher" and jobs :: "'s \<Rightarrow> string \<Rightarrow> job option" +
  fixes cfg :: WorkerConfig
begin

abbreviation handler :: "JobDispatchProjection \<Rightarrow> ('s, goerror option) op" where
  "handler \<equiv> HandleDispatch (wc_MaxAttempts cfg) P U"

abbreviation poll :: "'s \<Rightarrow> 's" where
  "poll \<equiv> pollOnce cfg handler fetch"

lemma handle_all_other:
  "jobID \<notin> dp_JobID ` set ps \<Longrightarrow> jobs (handle_all handler ps s) jobID = jobs s jobID"
proof (induction ps arbitrary: s)
  case (Cons p ps)
  have "jobs (snd (handler p s)) jobID = jobs s jobID"
    by (rule handle_other [OF prod.collapse [symmetric]]) (use Cons.prems in auto)
  with Cons show ?case by simp
qed simp

lemma handle_all_member:
  assumes "distinct (map dp_JobID ps)" and "p \<in> set ps"
    and up: "up s" "\<And>q x. up x \<Longrightarrow> up (snd (handler q x))"
  shows "\<exists>x. up x \<and> jobs x (dp_JobID p) = jobs s (dp_JobID p)
     \<and> jobs (handle_all handler ps s) (dp_JobID p) = jobs (snd (handler p x)) (dp_JobID p)"
  using assms(1,2,3)
proof (induction ps arbitrary: s)
  case (Cons q ps)
  show ?case
  proof (cases "p = q")
    case True
    with Cons.prems have "dp_JobID p \<notin> dp_JobID ` set ps" by auto
    with True Cons.prems(3) show ?thesis
      by (intro exI [of _ s]) (simp add: handle_all_other)
  next
    case False
    with Cons.prems(2) have p: "p \<in> set ps" by simp
    then have "dp_JobID p \<in> dp_JobID ` set ps" by simp
    with Cons.prems(1) have ne: "dp_JobID p \<noteq> dp_JobID q" by auto
    let ?s = "snd (handler q s)"
    have same: "jobs ?s (dp_JobID p) = jobs s (dp_JobID p)"
      by (rule handle_other [OF prod.collapse [symmetric] ne])
    have "up ?s" by (rule up(2) [OF Cons.prems(3)])
    with Cons.IH [OF _ p this] Cons.prems(1) same show ?thesis by auto
  qed
qed simp

lemma handle_all_up:
  "up s \<Longrightarrow> (\<And>q x. up x \<Longrightarrow> up (snd (handler q x))) \<Longrightarrow> up (handle_all handler ps s)"
  by (induction ps arbitrary: s) auto

end

locale healthy_worker = dispatch_worker U P fetch jobs cfg
  for U :: "'s JobUpdater" and P :: "'s JobDispatchPublisher"
    and fetch :: "'s PendingJobFetcher" and jobs :: "'s \<Rightarrow> string \<Rightarrow> job option"
    and cfg :: WorkerConfig +
  fixes up :: "'s \<Rightarrow> bool"
  assumes up_fetch: "up s \<Longrightarrow> fetch m l s = (rf, s') \<Longrightarrow> (\<exists>ps. rf = Inr ps) \<and> up s'"
    and up_publish: "up s \<Longrightarrow> P p s = (r, s') \<Longrightarrow> up s'"
    and up_dispatched: "up s \<Longrightarrow> up_MarkJobDispatched U k s = (r, s') \<Longrightarrow> r = None \<and> up s'"
    and up_attempt: "up s \<Longrightarrow> up_RecordDispatchAttempt U k n msg s = (r, s') \<Longrightarrow> r = None \<and> up s'"
    and up_failed: "up s \<Longrightarrow> up_MarkJobDispatchFailed U k err s = (r, s') \<Longrightarrow> r = None \<and> up s'"
    and up_fits: "up s \<Longrightarrow> fits jobs (wc_MaxAttempts cfg) (wc_BatchSize cfg) s"
begin

lemma handler_up:
  assumes "up s"
  shows "up (snd (handler p s)) \<and> (dp_Topic p \<noteq> [] \<longrightarrow> fst (handler p s) = None)"
proof (cases "dp_Topic p = []")
  case True
  with assms show ?thesis by (simp add: HandleDispatch_def)
next
  case False
  obtain x s1 where p: "P p s = (x, s1)" by fastforce
  have u1: "up s1" by (rule up_publish [OF assms p])
  show ?thesis
  proof (cases x)
    case None
    obtain r s2 where r: "up_MarkJobDispatched U (dp_JobID p) s1 = (r, s2)" by fastforce
    from up_dispatched [OF u1 r] None p r False show ?thesis by (simp add: HandleDispatch_def)
  next
    case (Some e)
    obtain a s2 where a: "up_RecordDispatchAttempt U (dp_JobID p) (dp_DispatchAttempts p + 1)
        (error_text e) s1 = (a, s2)" by fastforce
    note u2 = up_attempt [OF u1 a]
    obtain r s3 where r: "up_MarkJobDispatchFailed U (dp_JobID p) (Some e) s2 = (r, s3)" by fastforce
    from u2 up_failed [OF _ r] Some p a r False show ?thesis
      by (auto simp: HandleDispatch_def Let_def)
  qed
qed

text \<open>One poll does to an awaiting job what the handler does to its projection.\<close>

lemma poll_one:
  assumes "up s" and "jobs s k = Some j" and "awaits_dispatch (wc_MaxAttempts cfg) j"
    and key: "jm_JobID j = k"
  shows "up (poll s) \<and> (\<exists>j' x. up x \<and> jobs (poll s) k = Some j'
     \<and> saga_outcome (wc_MaxAttempts cfg) (fst (P (JobDispatchFromMetadata j) x))
          (jm_DispatchAttempts j + 1) j j')"
proof -
  obtain r s1 where f: "fetch (wc_MaxAttempts cfg) (wc_BatchSize cfg) s = (r, s1)" by fastforce
  from up_fetch [OF assms(1) f] obtain ps where ps: "r = Inr ps" and u1: "up s1" by blast
  have s1: "jobs s1 = jobs s" by (rule fetch_frame [OF f])
  let ?p = "JobDispatchFromMetadata j"
  have mem: "?p \<in> set ps" by (rule fetch_complete [OF f [unfolded ps] up_fits [OF assms(1)] assms(2,3)])
  have dist: "distinct (map dp_JobID ps)" by (rule fetch_distinct [OF f [unfolded ps]])
  have up: "\<And>q x. up x \<Longrightarrow> up (snd (handler q x))" using handler_up by blast
  have poll: "poll s = handle_all handler ps s1" using f ps by (simp add: pollOnce_def)
  from handle_all_member [OF dist mem u1 up] s1 assms(2) key obtain x where x: "up x"
    "jobs x k = Some j" "jobs (poll s) k = jobs (snd (handler ?p x)) k"
    by (auto simp: poll)
  have "fst (handler ?p x) = None"
    using handler_up [OF x(1), of ?p] assms(3) by (simp add: awaits_dispatch_def)
  then have h: "handler ?p x = (None, snd (handler ?p x))" by (metis prod.collapse)
  from handle_pending [OF h refl] x(2) key assms(3) obtain j' where
    "jobs (snd (handler ?p x)) = (jobs x)(k \<mapsto> j')"
    "saga_outcome (wc_MaxAttempts cfg) (fst (P ?p x)) (jm_DispatchAttempts j + 1) j j'"
    by (auto simp: awaits_dispatch_def)
  with x have "up x \<and> jobs (poll s) k = Some j'
     \<and> saga_outcome (wc_MaxAttempts cfg) (fst (P ?p x)) (jm_DispatchAttempts j + 1) j j'" by simp
  moreover have "up (poll s)" by (simp only: poll) (rule handle_all_up [of up, OF u1 up])
  ultimately show ?thesis by blast
qed

text \<open>With a broker that refuses everything, each poll costs the job one attempt.\<close>

lemma gives_up:
  assumes dead: "\<And>p x. up x \<Longrightarrow> fst (P p x) \<noteq> None"
    and "up s" and "jobs s k = Some j" and "jm_JobID j = k" and "is_pending j" and "jm_Topic j \<noteq> []"
    and "jm_DispatchAttempts j + int (Suc n) = wc_MaxAttempts cfg"
  shows "\<exists>j' e. jobs (runPoll n cfg handler fetch s) k = Some j'
     \<and> jm_DispatchStatus j' = DispatchStatusFailed \<and> jm_DispatchAttempts j' = wc_MaxAttempts cfg
     \<and> jm_Errors j' = jm_Errors j @ [e] \<and> je_Type e = JobErrorTypeDispatch"
  using assms(2-)
proof (induction n arbitrary: s j)
  case 0
  then have "awaits_dispatch (wc_MaxAttempts cfg) j" by (simp add: awaits_dispatch_def)
  from poll_one [OF "0.prems"(1,2) this "0.prems"(3)] obtain j' x where x: "up x"
    "jobs (poll s) k = Some j'" "saga_outcome (wc_MaxAttempts cfg)
       (fst (P (JobDispatchFromMetadata j) x)) (jm_DispatchAttempts j + 1) j j'" by blast
  from dead [OF x(1)] obtain e where "fst (P (JobDispatchFromMetadata j) x) = Some e" by blast
  with x(2,3) "0.prems"(6) show ?case
    by (auto simp: saga_outcome_def dispatch_failed_effect_def record_attempt_effect_def
        dispatch_error_def)
next
  case (Suc n)
  then have a: "awaits_dispatch (wc_MaxAttempts cfg) j" by (simp add: awaits_dispatch_def)
  from poll_one [OF Suc.prems(1,2) a Suc.prems(3)] obtain j' x where x: "up x" "up (poll s)"
    "jobs (poll s) k = Some j'" "saga_outcome (wc_MaxAttempts cfg)
       (fst (P (JobDispatchFromMetadata j) x)) (jm_DispatchAttempts j + 1) j j'" by blast
  from dead [OF x(1)] obtain e where "fst (P (JobDispatchFromMetadata j) x) = Some e" by blast
  with x(4) Suc.prems(6) have "j' = record_attempt_effect (jm_DispatchAttempts j + 1) (error_text e) j"
    by (simp add: saga_outcome_def)
  then have "jm_JobID j' = k" "is_pending j'" "jm_Topic j' \<noteq> []"
    "jm_DispatchAttempts j' + int (Suc n) = wc_MaxAttempts cfg" "jm_Errors j' = jm_Errors j"
    using Suc.prems by (simp_all add: record_attempt_effect_def)
  with Suc.IH [OF x(2,3)] show ?case by simp
qed

lemma delivers_once:
  assumes alive: "\<And>p x. up x \<Longrightarrow> fst (P p x) = None"
    and "up s" and "jobs s k = Some j" and "jm_JobID j = k"
    and "awaits_dispatch (wc_MaxAttempts cfg) j"
  shows "\<exists>t. jobs (poll s) k = Some (mark_dispatched_effect t j)"
  using poll_one [OF assms(2,3,5,4)] alive by (fastforce simp: saga_outcome_def)

end

section \<open>Over the service and the database\<close>

lemma saga_worker:
  "mongo_backend B jobs logs \<Longrightarrow> job_publisher P jobs \<Longrightarrow>
   dispatch_saga (service_updater (mongo_service B)) P jobs"
  by (rule mongo_backend.saga)

lemma silent_publisher: "job_publisher (\<lambda>p s. (r p, s)) jobs"
  by unfold_locales simp

lemma decode_all_list: "decode_all msg (map Inr xs) acc = Inr (acc @ xs)"
  by (induction xs arbitrary: acc) simp_all

lemma read_list_cursor [simp]:
  "join_close (read_cursor m1 m2 (list_cursor xs)) (list_cursor xs) = Inr xs"
  by (simp add: join_close_def read_cursor_def list_cursor_def decode_all_list)

lemma mem_script_dispatcher:
  assumes "mem_script s = []"
  shows "up_MarkJobDispatched (service_updater (mongo_service mem_backend)) k s = (r, s') \<Longrightarrow>
      r = None \<and> mem_script s' = []"
    and "up_RecordDispatchAttempt (service_updater (mongo_service mem_backend)) k n msg s = (r, s') \<Longrightarrow>
      r = None \<and> mem_script s' = []"
    and "up_MarkJobDispatchFailed (service_updater (mongo_service mem_backend)) k err s = (r, s') \<Longrightarrow>
      r = None \<and> mem_script s' = []"
    and "FetchPending mem_backend m l s = (rf, s') \<Longrightarrow> (\<exists>ps. rf = Inr ps) \<and> mem_script s' = []"
  using assms
  by (auto simp: service_updater_def MarkJobDispatched_def RecordDispatchAttempt_def mem_run
      MarkJobDispatchFailed_def dispatch_failed_update [unfolded dispatch_error_def]
      FetchPending_def mem_operations scripted_def Let_def split: list.splits option.splits
      simp del: list_cursor_def)

lemma mem_awaits [simp]:
  "sample_id = jm_JobID j \<Longrightarrow> mem_coll (mem_with [j] []) sample_id = Some j"
  by (simp add: mem_coll_def mem_with_def keyed_def)

section \<open>Properties\<close>

text \<open>
  C15. One successful run of the handler decides the pending job: dispatched when the message was
  published; one attempt further when it was not; dispatch failed, with the broker's error in its
  history, when that was the last attempt allowed. No other job changes.
\<close>

theorem dispatch_outcomes:
  assumes "mongo_backend B jobs logs" and "job_publisher P jobs"
    and "jobs s (dp_JobID p) = Some j" and "jm_DispatchStatus j = DispatchStatusPending"
    and "HandleDispatch m P (service_updater (mongo_service B)) p s = (None, s')"
  shows "dp_Topic p \<noteq> [] \<and> (\<exists>j'. jobs s' = (jobs s)(dp_JobID p \<mapsto> j') \<and>
    (case fst (P p s) of
       None \<Rightarrow> \<exists>t. j' = mark_dispatched_effect t j
     | Some e \<Rightarrow>
         if dp_DispatchAttempts p + 1 \<ge> m
         then \<exists>t. j' = dispatch_failed_effect (error_text e) t
                       (record_attempt_effect (dp_DispatchAttempts p + 1) (error_text e) j)
         else j' = record_attempt_effect (dp_DispatchAttempts p + 1) (error_text e) j))"
  using dispatch_saga.handle_pending [OF saga_worker [OF assms(1,2)] assms(5) refl assms(3,4)]
  unfolding saga_outcome_def .

theorem dispatch_outcomes_witness:
  "\<exists>t. mem_coll (snd (HandleDispatch 1 (\<lambda>p s. (Some (ErrorString ''down''), s))
       (service_updater (mongo_service mem_backend)) (JobDispatchFromMetadata sample_job)
       (mem_with [sample_job] []))) sample_id
     = Some (dispatch_failed_effect ''down'' t (record_attempt_effect 1 ''down'' sample_job))"
proof -
  let ?P = "\<lambda>p (s :: mem). (Some (ErrorString ''down''), s)"
  let ?U = "service_updater (mongo_service mem_backend)"
  let ?p = "JobDispatchFromMetadata sample_job"
  let ?s = "mem_with [sample_job] []"
  let ?r = "HandleDispatch 1 ?P ?U ?p ?s"
  have n: "jm_DispatchAttempts sample_job = 0" "jm_Topic sample_job \<noteq> []"
    by (simp_all add: sample_job_def NewJobMetadata_def)
  have "mem_script ?s = []" by (simp add: mem_with_def)
  obtain a s2 where a: "up_RecordDispatchAttempt ?U sample_id 1 ''down'' ?s = (a, s2)" by fastforce
  note s2 = mem_script_dispatcher(2) [OF \<open>mem_script ?s = []\<close> a]
  obtain f s3 where f: "up_MarkJobDispatchFailed ?U sample_id (Some (ErrorString ''down'')) s2 = (f, s3)"
    by fastforce
  have "f = None" using mem_script_dispatcher(3) [OF _ f] s2 by blast
  with n a s2 f have "?r = (None, snd ?r)" by (simp add: HandleDispatch_def Let_def)
  from dispatch_outcomes [OF mem.mongo_backend_axioms silent_publisher _ _ this] n
  show ?thesis by (auto simp: sample_stored)
qed

text \<open>
  Duplicate deliveries are safe for the stored state: whatever the publisher answers, running
  the handler for a job that is no longer pending changes no stored job, so running it twice
  leaves what the first successful publish made of the job.
\<close>

theorem dispatch_is_idempotent:
  assumes "mongo_backend B jobs logs" and "job_publisher P jobs"
    and "\<forall>j. jobs s (dp_JobID p) = Some j \<longrightarrow> jm_DispatchStatus j \<noteq> DispatchStatusPending"
  shows "jobs (snd (HandleDispatch m P (service_updater (mongo_service B)) p s)) = jobs s"
  by (rule dispatch_saga.handle_not_pending [OF saga_worker [OF assms(1,2)] prod.collapse [symmetric]
        assms(3)])

theorem dispatch_is_idempotent_witness:
  "mem_coll (snd (HandleDispatch 3 (\<lambda>p s. (None, s)) (service_updater (mongo_service mem_backend))
       (JobDispatchFromMetadata sample_dispatched_job) (mem_with [sample_dispatched_job] [])))
     = [sample_id \<mapsto> sample_dispatched_job]"
  using dispatch_is_idempotent [OF mem.mongo_backend_axioms silent_publisher,
      of "mem_with [sample_dispatched_job] []" "JobDispatchFromMetadata sample_dispatched_job" 3
         "\<lambda>p. None"]
  by (simp add: sample_stored)

text \<open>
  C16. A broker that stays down costs a job its attempts and no more. While the database
  answers and the awaiting jobs fit into a batch, \<open>n + 1\<close> polls give up a pending job that had
  \<open>n + 1\<close> attempts left: it ends dispatch failed, with one more entry in its history.
\<close>

theorem dead_broker_gives_up:
  assumes "healthy_worker (service_updater (mongo_service B)) P (FetchPending B) jobs cfg up"
    and "\<And>p x. up x \<Longrightarrow> fst (P p x) \<noteq> None"
    and "up s" and "jobs s k = Some j" and "jm_JobID j = k"
    and "jm_DispatchStatus j = DispatchStatusPending" and "jm_Topic j \<noteq> []"
    and "jm_DispatchAttempts j + int (Suc n) = wc_MaxAttempts cfg"
  shows "\<exists>j' e. jobs (runPoll n cfg (HandleDispatch (wc_MaxAttempts cfg) P
        (service_updater (mongo_service B))) (FetchPending B) s) k = Some j'
     \<and> jm_DispatchStatus j' = DispatchStatusFailed \<and> jm_DispatchAttempts j' = wc_MaxAttempts cfg
     \<and> jm_Errors j' = jm_Errors j @ [e] \<and> je_Type e = JobErrorTypeDispatch"
  using assms by (rule healthy_worker.gives_up)

abbreviation default_worker :: WorkerConfig where
  "default_worker \<equiv> \<lparr>wc_PollInterval = 5000000000, wc_BatchSize = 50, wc_MaxAttempts = 5\<rparr>"

text \<open>
  The states of the driver in memory that answer every call and hold no more pending jobs than
  a batch takes. Nothing the dispatcher does makes a job pending.
\<close>

definition pending_keys :: "('s \<Rightarrow> string \<Rightarrow> job option) \<Rightarrow> 's \<Rightarrow> string set" where
  "pending_keys jobs s = {k. \<exists>j. jobs s k = Some j \<and> is_pending j}"

definition mem_up :: "int \<Rightarrow> mem \<Rightarrow> bool" where
  "mem_up l s \<longleftrightarrow> mem_script s = [] \<and> int (card (pending_keys mem_coll s)) \<le> l"

lemma pending_keys_confirmed:
  "confirmed jobs k is_pending f r s s' \<Longrightarrow> pending_keys jobs s' \<subseteq> pending_keys jobs s"
  by (auto simp: pending_keys_def elim!: confirmedE split: if_splits)

lemma finite_pending: "finite (pending_keys mem_coll s)"
proof -
  have "pending_keys mem_coll s \<subseteq> dom (mem_coll s)" by (auto simp: pending_keys_def)
  then show ?thesis by (rule finite_subset) (rule mem.jobs_finite)
qed

lemma mem_up_shrinks:
  "mem_up l s \<Longrightarrow> mem_script s' = [] \<Longrightarrow> pending_keys mem_coll s' \<subseteq> pending_keys mem_coll s \<Longrightarrow> mem_up l s'"
  unfolding mem_up_def using card_mono [OF finite_pending] by (smt (verit) of_nat_mono)

lemma mem_up_fits: "mem_up l s \<Longrightarrow> fits mem_coll m l s"
proof -
  assume "mem_up l s"
  moreover have "card {k. \<exists>j. mem_coll s k = Some j \<and> awaits_dispatch m j} \<le> card (pending_keys mem_coll s)"
    by (rule card_mono [OF finite_pending]) (auto simp: pending_keys_def awaits_dispatch_def)
  ultimately show ?thesis by (simp add: mem_up_def fits_def)
qed

lemma mem_healthy:
  "healthy_worker (service_updater (mongo_service mem_backend)) (\<lambda>p s. (r p, s))
     (FetchPending mem_backend) mem_coll default_worker (mem_up 50)"
proof (intro healthy_worker.intro dispatch_worker.intro healthy_worker_axioms.intro)
  let ?U = "service_updater (mongo_service mem_backend)"
  have saga: "dispatch_saga ?U (\<lambda>p s. (r p, s)) mem_coll"
    by (rule saga_worker [OF mem.mongo_backend_axioms silent_publisher])
  then show "dispatch_saga ?U (\<lambda>p s. (r p, s)) mem_coll" .
  have upd: "job_updater ?U mem_coll" using saga by (rule dispatch_saga.axioms)
  show "pending_fetcher (FetchPending mem_backend) mem_coll"
    by (rule mem.pending.pending_fetcher_axioms)
  fix s s' :: mem and m l rf x assume up: "mem_up 50 s"
  then have ok: "mem_script s = []" by (simp add: mem_up_def)
  have keep: "mem_up 50 s'" if "mem_script s' = []" "confirmed mem_coll k is_pending g x s s'" for k g
    by (rule mem_up_shrinks [OF up that(1)]) (rule pending_keys_confirmed [OF that(2)])
  show "fits mem_coll (wc_MaxAttempts default_worker) (wc_BatchSize default_worker) s"
    using mem_up_fits [OF up] by simp
  show "(\<exists>ps. rf = Inr ps) \<and> mem_up 50 s'" if f: "FetchPending mem_backend m l s = (rf, s')"
    using mem_script_dispatcher(4) [OF ok f] mem_up_shrinks [OF up, of s'] mem.pending.fetch_frame [OF f]
    by (simp add: pending_keys_def)
  show "mem_up 50 s'" if "(r p, s) = (x, s')" for p using that up by simp
  show "x = None \<and> mem_up 50 s'" if f: "up_MarkJobDispatched ?U k s = (x, s')" for k
    using mem_script_dispatcher(1) [OF ok f] job_updater.dispatched [OF upd f] keep by blast
  show "x = None \<and> mem_up 50 s'" if f: "up_RecordDispatchAttempt ?U k n msg s = (x, s')" for k n msg
    using mem_script_dispatcher(2) [OF ok f] job_updater.attempt [OF upd f] keep by blast
  show "x = None \<and> mem_up 50 s'" if f: "up_MarkJobDispatchFailed ?U k err s = (x, s')" for k err
    using mem_script_dispatcher(3) [OF ok f] job_updater.failed [OF upd f] keep by blast
qed

lemma mem_up_sample: "mem_up 50 (mem_with [sample_job] [])"
proof -
  have "pending_keys mem_coll (mem_with [sample_job] []) \<subseteq> {sample_id}"
    by (auto simp: pending_keys_def sample_stored split: if_splits)
  then have "card (pending_keys mem_coll (mem_with [sample_job] [])) \<le> card {sample_id}"
    by (rule card_mono [rotated]) simp
  then show ?thesis by (simp add: mem_up_def mem_with_def)
qed

theorem dead_broker_gives_up_witness:
  "\<exists>j'. mem_coll (runPoll 4 default_worker (HandleDispatch 5 (\<lambda>p s. (Some (ErrorString ''down''), s))
        (service_updater (mongo_service mem_backend))) (FetchPending mem_backend)
        (mem_with [sample_job] [])) sample_id = Some j' \<and> jm_DispatchStatus j' = DispatchStatusFailed"
proof -
  have j: "mem_coll (mem_with [sample_job] []) sample_id = Some sample_job" by (simp add: sample_stored)
  have t: "jm_Topic sample_job \<noteq> []" "jm_DispatchAttempts sample_job + int (Suc 4) = 5"
    by (simp_all add: sample_job_def NewJobMetadata_def)
  have d: "\<And>p x. mem_up 50 x \<Longrightarrow> fst (Some (ErrorString ''down''), x) \<noteq> None" by simp
  from dead_broker_gives_up [OF mem_healthy d mem_up_sample j] t show ?thesis by auto
qed

text \<open>
  C17. The poll fallback catches up: while the database and the broker answer and the awaiting
  jobs fit into a batch, every job that awaits dispatch is dispatched by the next poll.
\<close>

theorem next_poll_dispatches:
  assumes "healthy_worker (service_updater (mongo_service B)) P (FetchPending B) jobs cfg up"
    and "\<And>p x. up x \<Longrightarrow> fst (P p x) = None"
    and "up s" and "jobs s k = Some j" and "jm_JobID j = k"
    and "awaits_dispatch (wc_MaxAttempts cfg) j"
  shows "\<exists>t. jobs (pollOnce cfg (HandleDispatch (wc_MaxAttempts cfg) P
        (service_updater (mongo_service B))) (FetchPending B) s) k = Some (mark_dispatched_effect t j)"
  using assms by (rule healthy_worker.delivers_once)

theorem next_poll_dispatches_witness:
  "\<exists>t. mem_coll (pollOnce default_worker (HandleDispatch 5 (\<lambda>p s. (None, s))
        (service_updater (mongo_service mem_backend))) (FetchPending mem_backend)
        (mem_with [sample_job] [])) sample_id = Some (mark_dispatched_effect t sample_job)"
proof -
  have j: "mem_coll (mem_with [sample_job] []) sample_id = Some sample_job" by (simp add: sample_stored)
  have a: "awaits_dispatch 5 sample_job"
    by (simp add: awaits_dispatch_def sample_job_def NewJobMetadata_def)
  have d: "\<And>p x. mem_up 50 x \<Longrightarrow> fst (None, x) = None" by simp
  from next_poll_dispatches [OF mem_healthy d mem_up_sample j] a show ?thesis by simp
qed

text \<open>
  Cancelling does not stop a dispatch: a job cancelled while it was pending is published and
  confirmed like any other. It is displayed as cancelled, but its stored status says dispatched.
\<close>

theorem cancelled_job_is_still_dispatched:
  assumes "mongo_backend B jobs logs" and "job_publisher P jobs"
    and "jobs s (dp_JobID p) = Some j" and "jm_DispatchStatus j = DispatchStatusPending"
    and "jm_ExecutionStatus j = ExecutionStatusCancelled"
    and "HandleDispatch m P (service_updater (mongo_service B)) p s = (None, s')"
    and "fst (P p s) = None"
  shows "\<exists>j'. jobs s' (dp_JobID p) = Some j' \<and> DisplayStatus j' = JobStatusCancelled
    \<and> jm_Status j' = JobStatusDispatched \<and> jm_DispatchStatus j' = DispatchStatusDispatched"
proof -
  from dispatch_saga.handle_pending [OF saga_worker [OF assms(1,2)] assms(6) refl assms(3,4)]
  obtain t where "jobs s' = (jobs s)(dp_JobID p \<mapsto> mark_dispatched_effect t j)"
    using assms(7) by (auto simp: saga_outcome_def)
  then show ?thesis using assms(5) by (simp add: mark_dispatched_effect_def DisplayStatus_simps)
qed

theorem cancelled_job_is_still_dispatched_witness:
  "\<exists>j'. mem_coll (snd (HandleDispatch 3 (\<lambda>p s. (None, s)) (service_updater (mongo_service mem_backend))
       (JobDispatchFromMetadata sample_cancelled_job) (mem_with [sample_cancelled_job] []))) sample_id
     = Some j' \<and> DisplayStatus j' = JobStatusCancelled \<and> jm_Status j' = JobStatusDispatched"
proof -
  let ?P = "\<lambda>p (s :: mem). (None, s)"
  let ?U = "service_updater (mongo_service mem_backend)"
  let ?p = "JobDispatchFromMetadata sample_cancelled_job"
  let ?s = "mem_with [sample_cancelled_job] []"
  let ?r = "HandleDispatch 3 ?P ?U ?p ?s"
  have n: "jm_Topic sample_cancelled_job \<noteq> []"
    by (simp add: sample_cancelled_job_def cancelled_model_def sample_job_def NewJobMetadata_def)
  obtain a s2 where a: "up_MarkJobDispatched ?U sample_id ?s = (a, s2)" by fastforce
  with n mem_script_dispatcher(1) [OF _ a] have "?r = (None, snd ?r)"
    by (simp add: HandleDispatch_def mem_with_def)
  from cancelled_job_is_still_dispatched [OF mem.mongo_backend_axioms silent_publisher _ _ _ this]
  show ?thesis by (auto simp: sample_stored)
qed

lemma mem_fetch_one:
  assumes "mem_jobs s = [j]"
  shows "mem_script s = [] \<Longrightarrow> FetchPending mem_backend m 50 s =
      (Inr (if awaits_dispatch m j then [JobDispatchFromMetadata j] else []), s)"
    and "mem_script s = None # rest \<Longrightarrow> FetchPending mem_backend m 50 s =
      (Inr (if awaits_dispatch m j then [JobDispatchFromMetadata j] else []), s\<lparr>mem_script := rest\<rparr>)"
  using assms
  by (simp_all add: FetchPending_def mem_operations scripted_def mem_select_def page_def positive_def
      awaiting_filter_matches)

lemma mem_attempt_one:
  assumes "mem_jobs s = [j]" "is_pending j" "mem_script s = None # rest"
  shows "up_RecordDispatchAttempt (service_updater (mongo_service mem_backend)) (jm_JobID j) n msg s =
    (None, s\<lparr>mem_jobs := [record_attempt_effect n msg j], mem_script := rest\<rparr>)"
  using assms
  by (simp add: service_updater_def RecordDispatchAttempt_def mem_run record_attempt_effect_def)

lemma mem_give_up_refused:
  assumes "mem_script s = Some e # rest"
  shows "mem_jobs (snd (up_MarkJobDispatchFailed (service_updater (mongo_service mem_backend)) k err s)) = mem_jobs s
    \<and> mem_script (snd (up_MarkJobDispatchFailed (service_updater (mongo_service mem_backend)) k err s)) = rest"
  using assms by (simp add: service_updater_def MarkJobDispatchFailed_def mem_run Let_def)

text \<open>
  A pending job can be lost. When the write that gives a job up fails after its last attempt
  was recorded, the job stays pending with all its attempts used, and no later poll reads it:
  the handler's error is only printed.
\<close>

theorem failed_give_up_strands_pending_job:
  "let s = runPoll 4 (default_worker\<lparr>wc_MaxAttempts := 2\<rparr>) (HandleDispatch 2 (\<lambda>p s. (Some (ErrorString ''down''), s))
        (service_updater (mongo_service mem_backend))) (FetchPending mem_backend)
        (mem_with [sample_job] [None, None, None, None, Some ''primary stepped down''])
   in \<exists>j. mem_coll s sample_id = Some j \<and> jm_DispatchStatus j = DispatchStatusPending
        \<and> jm_DispatchAttempts j = 2 \<and> \<not> awaits_dispatch 2 j \<and> mem_script s = []"
proof -
  let ?h = "HandleDispatch 2 (\<lambda>p s. (Some (ErrorString ''down''), s))
        (service_updater (mongo_service mem_backend))"
  let ?poll = "pollOnce (default_worker\<lparr>wc_MaxAttempts := 2\<rparr>) ?h (FetchPending mem_backend)"
  let ?j1 = "record_attempt_effect 1 ''down'' sample_job"
  let ?j2 = "record_attempt_effect 2 ''down'' ?j1"
  have w0: "awaits_dispatch 2 sample_job"
    by (simp add: awaits_dispatch_def sample_job_def NewJobMetadata_def)
  then have w1: "awaits_dispatch 2 ?j1" and n2: "\<not> awaits_dispatch 2 ?j2"
    by (simp_all add: awaits_dispatch_def record_attempt_effect_def)
  have n: "jm_DispatchAttempts sample_job = 0" "jm_Topic sample_job \<noteq> []"
    by (simp_all add: sample_job_def NewJobMetadata_def)
  have one: "mem_jobs (?poll s) = [?j1] \<and> mem_script (?poll s) = rest"
    if "mem_jobs s = [sample_job]" "mem_script s = None # None # rest" for s rest
    using that w0 n
    by (simp add: pollOnce_def HandleDispatch_def mem_fetch_one mem_attempt_one [of _ sample_job, simplified])
  have two: "mem_jobs (?poll s) = [?j2] \<and> mem_script (?poll s) = rest"
    if "mem_jobs s = [?j1]" "mem_script s = None # None # Some e # rest" for s e rest
    using that w1 n mem_attempt_one [of "s\<lparr>mem_script := None # Some e # rest\<rparr>" ?j1]
    by (simp add: pollOnce_def HandleDispatch_def mem_fetch_one mem_give_up_refused record_attempt_effect_def)
  have stuck: "mem_jobs (?poll s) = [?j2] \<and> mem_script (?poll s) = []"
    if "mem_jobs s = [?j2]" "mem_script s = []" for s
    using that n2 by (simp add: pollOnce_def mem_fetch_one)
  let ?s0 = "mem_with [sample_job] [None, None, None, None, Some ''primary stepped down'']"
  have "mem_jobs (?poll ?s0) = [?j1]
      \<and> mem_script (?poll ?s0) = [None, None, Some ''primary stepped down'']"
    by (rule one) (simp_all add: mem_with_def)
  then have "mem_jobs (?poll (?poll ?s0)) = [?j2] \<and> mem_script (?poll (?poll ?s0)) = []"
    using two by blast
  then have "mem_jobs (runPoll 4 (default_worker\<lparr>wc_MaxAttempts := 2\<rparr>) ?h (FetchPending mem_backend) ?s0) = [?j2]
      \<and> mem_script (runPoll 4 (default_worker\<lparr>wc_MaxAttempts := 2\<rparr>) ?h (FetchPending mem_backend) ?s0) = []"
    using stuck by (simp add: numeral_eq_Suc)
  with n2 show ?thesis
    by (simp add: Let_def mem_coll_def keyed_def record_attempt_effect_def)
qed

end
