(* ===== verification/ResumeToken.thy ===== *)
theory ResumeToken
  imports Prelude
begin

text \<open>
  \<open>internal/jobs/mongodb/resume_token.go\<close>: where the change stream resumes after a restart. The
  file store replaces its file through a temporary one, so that a crash in the middle of a
  save leaves either the old token or the new one. A token is a BSON document, bytes that only
  the driver reads; turning it into JSON and back is a parameter.
\<close>

section \<open>The interface\<close>

type_synonym token = string

record 's ResumeTokenStore =
  ts_Load :: "('s, goerror + token option) op"
  ts_Save :: "token option \<Rightarrow> ('s, goerror option) op"

text \<open>
  What the stream relies on: a token that loads is the one that is stored, and a save leaves
  the old token or the new one. A durable store keeps every token whose save succeeded.
\<close>

locale resume_token_store =
  fixes T :: "'s ResumeTokenStore" and stored :: "'s \<Rightarrow> token option"
  assumes load_frame: "ts_Load T s = (r, s') \<Longrightarrow> stored s' = stored s"
    and load_stored: "ts_Load T s = (Inr t, s') \<Longrightarrow> t = stored s"
    and save_old_or_new: "ts_Save T t s = (ro, s') \<Longrightarrow>
      stored s' = stored s \<or> (t \<noteq> None \<and> stored s' = t)"
begin

text \<open>Whatever was saved, the stored token is the first one or one of the saved ones.\<close>

lemma stored_by_someone:
  "stored (fold (\<lambda>t s. snd (ts_Save T (Some t) s)) ts s) \<in> {stored s} \<union> Some ` set ts"
proof (induction ts arbitrary: s)
  case (Cons t ts)
  let ?s = "snd (ts_Save T (Some t) s)"
  have "stored ?s = stored s \<or> stored ?s = Some t"
    using save_old_or_new [OF prod.collapse [symmetric], of "Some t" s] by auto
  with Cons.IH [of ?s] show ?case by auto
qed simp

end

locale durable_token_store = resume_token_store +
  assumes save_stored: "ts_Save T (Some t) s = (None, s') \<Longrightarrow> stored s' = Some t"
begin

lemma resumes_after_restart:
  assumes "ts_Save T (Some t) s = (None, s1)" and "ts_Load T s1 = (Inr t', s2)"
  shows "t' = Some t"
  using load_stored [OF assms(2)] save_stored [OF assms(1)] by simp

end

section \<open>The file system\<close>

text \<open>
  What the code uses of package \<open>os\<close>: the contents of the files, and the faults to come, one
  for each call. A call is refused before it does anything, or, for a write, cut after some
  bytes. Renaming replaces the target in one step, as POSIX has it.
\<close>

datatype fault = NoFault | Refused string | Cut string nat

record filesystem =
  fs_files :: "(string \<times> string) list"
  fs_faults :: "fault list"

definition fs_call :: "(fault \<Rightarrow> (filesystem, 'a) op) \<Rightarrow> (filesystem, 'a) op" where
  "fs_call f s =
     (case fs_faults s of
        [] \<Rightarrow> f NoFault s
      | x # rest \<Rightarrow> f x (s\<lparr>fs_faults := rest\<rparr>))"

definition fs_contents :: "string \<Rightarrow> filesystem \<Rightarrow> string option" where
  "fs_contents path s = map_of (fs_files s) path"

datatype read_result = Contents string | NotExist | ReadError goerror

definition ReadFile :: "string \<Rightarrow> (filesystem, read_result) op" where
  "ReadFile path = fs_call (\<lambda>fault s.
     (case fault of
        NoFault \<Rightarrow> (case fs_contents path s of None \<Rightarrow> NotExist | Some d \<Rightarrow> Contents d)
      | Refused msg \<Rightarrow> ReadError (DriverError msg)
      | Cut msg n \<Rightarrow> ReadError (DriverError msg), s))"

definition MkdirAll :: "(filesystem, goerror option) op" where
  "MkdirAll = fs_call (\<lambda>fault s.
     (case fault of
        NoFault \<Rightarrow> None
      | Refused msg \<Rightarrow> Some (DriverError msg)
      | Cut msg n \<Rightarrow> Some (DriverError msg), s))"

definition WriteFile :: "string \<Rightarrow> string \<Rightarrow> (filesystem, goerror option) op" where
  "WriteFile path data = fs_call (\<lambda>fault s.
     case fault of
       NoFault \<Rightarrow> (None, s\<lparr>fs_files := AList.update path data (fs_files s)\<rparr>)
     | Refused msg \<Rightarrow> (Some (DriverError msg), s)
     | Cut msg n \<Rightarrow>
         (Some (DriverError msg), s\<lparr>fs_files := AList.update path (take n data) (fs_files s)\<rparr>))"

definition Rename :: "string \<Rightarrow> string \<Rightarrow> (filesystem, goerror option) op" where
  "Rename old new = fs_call (\<lambda>fault s.
     case fault of
       NoFault \<Rightarrow>
         (case fs_contents old s of
            None \<Rightarrow> (Some (DriverError ''no such file or directory''), s)
          | Some d \<Rightarrow>
              (None, s\<lparr>fs_files := AList.update new d (AList.delete old (fs_files s))\<rparr>))
     | Refused msg \<Rightarrow> (Some (DriverError msg), s)
     | Cut msg n \<Rightarrow> (Some (DriverError msg), s))"

section \<open>FileResumeTokenStore\<close>

record token_codec =
  tc_encode :: "token \<Rightarrow> goerror + string"
  tc_decode :: "string \<Rightarrow> goerror + token option"

definition FileStore_Load ::
  "token_codec \<Rightarrow> string \<Rightarrow> (filesystem, goerror + token option) op" where
  "FileStore_Load J path s =
     (case ReadFile path s of
        (ReadError err, s1) \<Rightarrow> (Inl (wrap ''read mongodb resume token'' err), s1)
      | (NotExist, s1) \<Rightarrow> (Inr None, s1)
      | (Contents data, s1) \<Rightarrow>
          if length data = 0 then (Inr None, s1)
          else (case tc_decode J data of
                  Inl err \<Rightarrow> (Inl (wrap ''decode mongodb resume token'' err), s1)
                | Inr token \<Rightarrow> (Inr token, s1)))"

definition tmp_path :: "string \<Rightarrow> string" where
  "tmp_path path = path @ ''.tmp''"

definition FileStore_Save ::
  "token_codec \<Rightarrow> string \<Rightarrow> token option \<Rightarrow> (filesystem, goerror option) op" where
  "FileStore_Save J path token s =
     (case token of
        None \<Rightarrow> (None, s)
      | Some t \<Rightarrow>
     (case MkdirAll s of
        (Some err, s1) \<Rightarrow> (Some (wrap ''create mongodb resume token dir'' err), s1)
      | (None, s1) \<Rightarrow>
     (case tc_encode J t of
        Inl err \<Rightarrow> (Some (wrap ''encode mongodb resume token'' err), s1)
      | Inr data \<Rightarrow>
     (case WriteFile (tmp_path path) data s1 of
        (Some err, s2) \<Rightarrow> (Some (wrap ''write mongodb resume token temp'' err), s2)
      | (None, s2) \<Rightarrow>
     (case Rename (tmp_path path) path s2 of
        (Some err, s3) \<Rightarrow> (Some (wrap ''rename mongodb resume token'' err), s3)
      | (None, s3) \<Rightarrow> (None, s3))))))"

definition FileResumeTokenStore :: "token_codec \<Rightarrow> string \<Rightarrow> filesystem ResumeTokenStore" where
  "FileResumeTokenStore J path = \<lparr>ts_Load = FileStore_Load J path, ts_Save = FileStore_Save J path\<rparr>"

definition NopResumeTokenStore :: "'s ResumeTokenStore" where
  "NopResumeTokenStore = \<lparr>ts_Load = (\<lambda>s. (Inr None, s)), ts_Save = (\<lambda>t s. (None, s))\<rparr>"

section \<open>The stores keep the contract\<close>

text \<open>The token a file holds; no file, an empty one or one that does not decode holds none.\<close>

definition file_token :: "token_codec \<Rightarrow> string \<Rightarrow> filesystem \<Rightarrow> token option" where
  "file_token J path s =
     (case fs_contents path s of
        None \<Rightarrow> None
      | Some d \<Rightarrow> if d = [] then None else (case tc_decode J d of Inl e \<Rightarrow> None | Inr t \<Rightarrow> t))"

lemma tmp_path_differs [simp]: "tmp_path path \<noteq> path" "path \<noteq> tmp_path path"
  by (simp_all add: tmp_path_def)

lemma fs_callE:
  assumes "fs_call f s = (r, s')"
  obtains fault s0 where "f fault s0 = (r, s')" "fs_files s0 = fs_files s"
  using assms by (auto simp: fs_call_def split: list.splits)

lemma fs_contents_cong: "fs_files s' = fs_files s \<Longrightarrow> fs_contents p s' = fs_contents p s"
  by (simp add: fs_contents_def)

lemma ReadFile_frame: "ReadFile path s = (r, s') \<Longrightarrow> fs_files s' = fs_files s"
  by (auto simp: ReadFile_def elim!: fs_callE)

lemma ReadFile_result:
  "ReadFile path s = (Contents d, s') \<Longrightarrow> fs_contents path s = Some d"
  "ReadFile path s = (NotExist, s') \<Longrightarrow> fs_contents path s = None"
  by (auto simp: ReadFile_def fs_contents_def elim!: fs_callE split: fault.splits option.splits)

lemma MkdirAll_frame: "MkdirAll s = (r, s') \<Longrightarrow> fs_files s' = fs_files s"
  by (auto simp: MkdirAll_def elim!: fs_callE)

lemma WriteFile_other:
  "WriteFile p d s = (r, s') \<Longrightarrow> q \<noteq> p \<Longrightarrow> fs_contents q s' = fs_contents q s"
  by (auto simp: WriteFile_def fs_contents_def update_conv' elim!: fs_callE split: fault.splits)

lemma WriteFile_ok: "WriteFile p d s = (None, s') \<Longrightarrow> fs_contents p s' = Some d"
  by (auto simp: WriteFile_def fs_contents_def update_conv' elim!: fs_callE split: fault.splits)

lemma Rename_result:
  "Rename p q s = (Some e, s') \<Longrightarrow> fs_contents x s' = fs_contents x s"
  "Rename p q s = (None, s') \<Longrightarrow> fs_contents q s' = fs_contents p s \<and> fs_contents p s \<noteq> None"
  by (auto simp: Rename_def fs_contents_def update_conv' elim!: fs_callE
      split: fault.splits option.splits)

lemma save_contents:
  assumes "FileStore_Save J path t s = (r, s')"
  shows "fs_contents path s' = fs_contents path s
     \<or> (\<exists>x d. t = Some x \<and> tc_encode J x = Inr d \<and> fs_contents path s' = Some d)"
    and "r = None \<Longrightarrow> t = Some x \<Longrightarrow> \<exists>d. tc_encode J x = Inr d \<and> fs_contents path s' = Some d"
    and "r \<noteq> None \<Longrightarrow> fs_contents path s' = fs_contents path s"
proof -
  have "(r = None \<and> (t = None \<and> s' = s
            \<or> (\<exists>x d. t = Some x \<and> tc_encode J x = Inr d \<and> fs_contents path s' = Some d)))
      \<or> (r \<noteq> None \<and> t \<noteq> None \<and> fs_contents path s' = fs_contents path s)"
  proof (cases t)
    case None
    with assms show ?thesis by (simp add: FileStore_Save_def)
  next
    case (Some x)
    obtain m s1 where m: "MkdirAll s = (m, s1)" by fastforce
    note s1 = fs_contents_cong [OF MkdirAll_frame [OF m], of path]
    show ?thesis
    proof (cases "m = None \<and> (\<exists>d. tc_encode J x = Inr d)")
      case False
      with assms Some m s1 show ?thesis
        by (auto simp: FileStore_Save_def split: option.splits sum.splits)
    next
      case True
      then obtain d where d: "tc_encode J x = Inr d" by blast
      obtain w s2 where w: "WriteFile (tmp_path path) d s1 = (w, s2)" by fastforce
      have s2: "fs_contents path s2 = fs_contents path s" using WriteFile_other [OF w] s1 by simp
      obtain n s3 where n: "Rename (tmp_path path) path s2 = (n, s3)" by fastforce
      note run = assms [unfolded FileStore_Save_def Some option.case m prod.case]
      show ?thesis
      proof (cases "w = None \<and> n = None")
        case False
        with run True d w n s2 Some Rename_result(1) show ?thesis
          by (auto split: option.splits)
      next
        case ok: True
        with run True d w n have "r = None" "s' = s3" by auto
        with Rename_result(2) WriteFile_ok w n ok d Some show ?thesis by auto
      qed
    qed
  qed
  then show "fs_contents path s' = fs_contents path s
     \<or> (\<exists>x d. t = Some x \<and> tc_encode J x = Inr d \<and> fs_contents path s' = Some d)"
    and "r = None \<Longrightarrow> t = Some x \<Longrightarrow> \<exists>d. tc_encode J x = Inr d \<and> fs_contents path s' = Some d"
    and "r \<noteq> None \<Longrightarrow> fs_contents path s' = fs_contents path s"
    by auto
qed

text \<open>The codec the file store relies on.\<close>

locale codec =
  fixes J :: token_codec
  assumes decode_encode: "tc_encode J t = Inr d \<Longrightarrow> d \<noteq> [] \<and> tc_decode J d = Inr (Some t)"
begin

lemma file_token_saved:
  "tc_encode J t = Inr d \<Longrightarrow> fs_contents path s = Some d \<Longrightarrow> file_token J path s = Some t"
  using decode_encode by (simp add: file_token_def)

end

sublocale codec \<subseteq> file_store: durable_token_store "FileResumeTokenStore J path" "file_token J path"
proof
  fix s r s' assume "ts_Load (FileResumeTokenStore J path) s = (r, s')"
  then show "file_token J path s' = file_token J path s"
    by (auto simp: FileResumeTokenStore_def FileStore_Load_def file_token_def fs_contents_def
        dest!: ReadFile_frame split: prod.splits read_result.splits if_splits sum.splits)
next
  fix s t s' assume "ts_Load (FileResumeTokenStore J path) s = (Inr t, s')"
  then show "t = file_token J path s"
    by (auto simp: FileResumeTokenStore_def FileStore_Load_def file_token_def
        dest!: ReadFile_result split: prod.splits read_result.splits if_splits sum.splits)
next
  fix t s ro s' assume a: "ts_Save (FileResumeTokenStore J path) t s = (ro, s')"
  then have "FileStore_Save J path t s = (ro, s')" by (simp add: FileResumeTokenStore_def)
  from save_contents(1) [OF this]
  show "file_token J path s' = file_token J path s \<or> (t \<noteq> None \<and> file_token J path s' = t)"
    using file_token_saved by (auto simp: file_token_def)
next
  fix t s s' assume "ts_Save (FileResumeTokenStore J path) (Some t) s = (None, s')"
  then have "FileStore_Save J path (Some t) s = (None, s')" by (simp add: FileResumeTokenStore_def)
  from save_contents(2) [OF this] show "file_token J path s' = Some t"
    using file_token_saved by auto
qed

context codec
begin

lemmas loads_stored = file_store.load_stored

end

interpretation nop_store: resume_token_store NopResumeTokenStore "\<lambda>s. None"
  by unfold_locales (auto simp: NopResumeTokenStore_def)

text \<open>A codec to run the store with: the token between quotes.\<close>

definition quoted :: token_codec where
  "quoted = \<lparr>tc_encode = (\<lambda>t. Inr (CHR 0x22 # t @ [CHR 0x22])),
             tc_decode = (\<lambda>d. Inr (Some (butlast (tl d))))\<rparr>"

interpretation quoted: codec quoted
  by unfold_locales (auto simp: quoted_def)

section \<open>Properties\<close>

text \<open>
  C21. A saved token survives, and an interrupted save loses nothing. After a save that reported
  success the next load returns the new token; after one that failed at any call, with the
  temporary file cut at any byte, it returns the token that was there before. A crash leaves
  the files as a fault of the call it interrupts does, so the same holds for a restart.
\<close>

theorem token_save_is_atomic:
  assumes "codec J"
    and "FileStore_Save J path t s = (r, s1)" and "FileStore_Load J path s1 = (Inr t', s2)"
  shows "t' = (if r = None \<and> t \<noteq> None then t else file_token J path s)"
proof -
  have "ts_Load (FileResumeTokenStore J path) s1 = (Inr t', s2)"
    using assms(3) by (simp add: FileResumeTokenStore_def)
  then have t': "t' = file_token J path s1"
    by (rule codec.loads_stored [OF assms(1)])
  show ?thesis
  proof (cases "r = None \<and> t \<noteq> None")
    case True
    with save_contents(2) [OF assms(2)] obtain x d where
      "t = Some x" "tc_encode J x = Inr d" "fs_contents path s1 = Some d" by blast
    with True t' codec.file_token_saved [OF assms(1)] show ?thesis by simp
  next
    case False
    then have "fs_contents path s1 = fs_contents path s"
      using save_contents(3) [OF assms(2)] assms(2) by (auto simp: FileStore_Save_def)
    then have "file_token J path s1 = file_token J path s" by (simp add: file_token_def)
    with False t' show ?thesis by (simp only: if_False)
  qed
qed

theorem token_save_is_atomic_witness:
  "let s = \<lparr>fs_files = [(''t'', [CHR 0x22, CHR ''o'', CHR ''l'', CHR ''d'', CHR 0x22])],
            fs_faults = [NoFault, Cut ''disk full'' 3]\<rparr>
   in fst (FileStore_Load quoted ''t'' (snd (FileStore_Save quoted ''t'' (Some ''new'') s)))
        = Inr (Some ''old'')"
proof -
  let ?s = "\<lparr>fs_files = [(''t'', [CHR 0x22, CHR ''o'', CHR ''l'', CHR ''d'', CHR 0x22])],
            fs_faults = [NoFault, Cut ''disk full'' 3]\<rparr>"
  let ?save = "FileStore_Save quoted ''t'' (Some ''new'') ?s"
  let ?load = "FileStore_Load quoted ''t'' (snd ?save)"
  note run = FileStore_Save_def FileStore_Load_def ReadFile_def MkdirAll_def WriteFile_def
    fs_call_def fs_contents_def quoted_def tmp_path_def
  have failed: "fst ?save \<noteq> None" by (simp add: run)
  obtain t' where t': "fst ?load = Inr t'" by (simp add: run)
  have "?save = (fst ?save, snd ?save)" "?load = (Inr t', snd ?load)" using t' by (metis prod.collapse)+
  from token_save_is_atomic [OF quoted.codec_axioms this] failed
  have "t' = file_token quoted ''t'' ?s" by simp
  also have "\<dots> = Some ''old''" by (simp add: file_token_def fs_contents_def quoted_def)
  finally show ?thesis using t' by (simp add: Let_def)
qed

end
