(* ===== verification/Embedding.thy ===== *)
theory Embedding
  imports Backend
begin

text \<open>
  The database as a part of a larger state: a process keeps its own state beside the world, and
  a world holds more than one collection. An operation on the part runs on the whole, and the
  contract of the driver carries over. It is how the assembled processes share one state with
  the adapters.
\<close>

definition along :: "('t \<Rightarrow> 's) \<Rightarrow> ('s \<Rightarrow> 't \<Rightarrow> 't) \<Rightarrow> ('s, 'a) op \<Rightarrow> ('t, 'a) op" where
  "along get put f x = (case f (get x) of (r, s') \<Rightarrow> (r, put s' x))"

definition lift_backend :: "('t \<Rightarrow> 's) \<Rightarrow> ('s \<Rightarrow> 't \<Rightarrow> 't) \<Rightarrow> 's backend \<Rightarrow> 't backend" where
  "lift_backend get put B = \<lparr>
     be_now = along get put (be_now B),
     be_uuid = along get put (be_uuid B),
     be_find_one = (\<lambda>q. along get put (be_find_one B q)),
     be_find = (\<lambda>q opts. along get put (be_find B q opts)),
     be_count = (\<lambda>q. along get put (be_count B q)),
     be_insert_one = (\<lambda>j. along get put (be_insert_one B j)),
     be_insert_many = (\<lambda>js. along get put (be_insert_many B js)),
     be_update_one = (\<lambda>q u. along get put (be_update_one B q u)),
     be_delete_one = (\<lambda>q. along get put (be_delete_one B q)),
     be_log_find = (\<lambda>q opts. along get put (be_log_find B q opts)),
     be_log_insert_one = (\<lambda>l. along get put (be_log_insert_one B l)),
     be_log_insert_many = (\<lambda>ls. along get put (be_log_insert_many B ls)),
     be_log_delete_many = (\<lambda>q. along get put (be_log_delete_many B q))\<rparr>"

lemma along_eq:
  "(\<And>s x. get (put s x) = s) \<Longrightarrow> along get put f x = (r, x') \<Longrightarrow> f (get x) = (r, get x')"
  by (auto simp: along_def split: prod.splits)

lemmas driver_contract =
  mongo_backend.job_key mongo_backend.jobs_finite mongo_backend.now_ok mongo_backend.uuid_ok
  mongo_backend.find_one_frame mongo_backend.find_one_found mongo_backend.find_one_none
  mongo_backend.find_one_foreign mongo_backend.find_frame mongo_backend.find_delivers
  mongo_backend.find_foreign mongo_backend.find_cursor_foreign mongo_backend.count_frame
  mongo_backend.count_ok mongo_backend.count_foreign mongo_backend.insert_frame
  mongo_backend.insert_ok mongo_backend.insert_error mongo_backend.insert_duplicate
  mongo_backend.insert_many_frame mongo_backend.insert_many_ok
  mongo_backend.insert_many_error mongo_backend.update_frame mongo_backend.update_ok
  mongo_backend.update_error mongo_backend.delete_frame mongo_backend.delete_ok
  mongo_backend.delete_error mongo_backend.log_find_frame mongo_backend.log_find_delivers
  mongo_backend.log_find_foreign mongo_backend.log_insert_frame mongo_backend.log_insert_ok
  mongo_backend.log_insert_error mongo_backend.log_insert_many_frame
  mongo_backend.log_insert_many_ok mongo_backend.log_delete_frame
  mongo_backend.log_delete_ok

locale embedding =
  fixes get :: "'t \<Rightarrow> 's" and put :: "'s \<Rightarrow> 't \<Rightarrow> 't"
  assumes get_put [simp]: "get (put s x) = s"
    and put_get [simp]: "put (get x) x = x"
    and put_put [simp]: "put s' (put s x) = put s' x"
begin

lemmas along_get = along_eq [of get put, OF get_put]

lemma lifted_contract:
  assumes "mongo_backend B jobs logs"
  shows "mongo_backend (lift_backend get put B) (\<lambda>x. jobs (get x)) (\<lambda>x. logs (get x))"
proof -
  note contract = driver_contract [OF assms, unfolded one_updated_def one_inserted_def many_inserted_def]
  show ?thesis
    apply unfold_locales
    unfolding lift_backend_def backend.select_convs one_updated_def one_inserted_def many_inserted_def
    apply (((drule along_get)?, rule contract, assumption+) | (rule contract))+
    done
qed

end

end
