(* ===== verification/Stream.thy ===== *)
theory Stream
  imports DispatchProperties ResumeToken Embedding
begin

text \<open>
  \<open>internal/jobs/mongodb/stream.go\<close>: the change stream, the first trigger of the dispatcher. The
  driver's stream is a parameter: opening it with a pipeline and an optional resume token gives
  the events it delivers until it ends, then its error and the result of closing it. A stream
  that ran until its context was cancelled delivered finitely many events, and the loop around
  it opened finitely many streams, whose number is the fuel of \<open>StreamWatcher_Run\<close>.
\<close>

section \<open>The stream\<close>

record stream_event =
  ev_document :: "goerror + job"
  ev_token :: "token option"

record stream =
  st_events :: "stream_event list"
  st_err :: "goerror option"
  st_close :: "goerror option"

type_synonym 's watch = "bdoc list \<Rightarrow> token option \<Rightarrow> ('s, goerror + stream) op"

text \<open>The pipeline: inserts of jobs whose dispatch is pending.\<close>

definition insertPendingDispatchPipeline :: "bdoc list" where
  "insertPendingDispatchPipeline =
     [[(''$match'', BDoc [(''operationType'', BStr ''insert''),
                          (''fullDocument.dispatchStatus'', BDispatch DispatchStatusPending)])]]"

record 's StreamWatcher =
  sw_watch :: "'s watch"
  sw_handler :: "JobDispatchProjection \<Rightarrow> ('s, goerror option) op"
  sw_tokens :: "'s ResumeTokenStore"

definition NewStreamWatcher ::
  "'s watch \<Rightarrow> (JobDispatchProjection \<Rightarrow> ('s, goerror option) op) \<Rightarrow> 's ResumeTokenStore option
     \<Rightarrow> 's StreamWatcher" where
  "NewStreamWatcher watch handler tokens =
     \<lparr>sw_watch = watch, sw_handler = handler,
      sw_tokens = (case tokens of None \<Rightarrow> NopResumeTokenStore | Some t \<Rightarrow> t)\<rparr>"

section \<open>One event\<close>

definition handlePendingDispatchInsert ::
  "(JobDispatchProjection \<Rightarrow> ('s, goerror option) op) \<Rightarrow> job \<Rightarrow> ('s, goerror option) op" where
  "handlePendingDispatchInsert handler doc s =
     (if jm_Topic doc = [] then
        (Some (ErrorString (''inserted job '' @ jm_JobID doc @ '' missing topic'')), s)
      else handler (JobDispatchFromMetadata doc) s)"

definition handleEvent :: "'s StreamWatcher \<Rightarrow> stream_event \<Rightarrow> ('s, goerror option) op" where
  "handleEvent w evt s =
     (case ev_document evt of
        Inl err \<Rightarrow> (Some (wrap ''decode change event'' err), s)
      | Inr doc \<Rightarrow> handlePendingDispatchInsert (sw_handler w) doc s)"

section \<open>One stream\<close>

text \<open>The token of an event is saved whether or not the event was handled.\<close>

definition on_event :: "'s StreamWatcher \<Rightarrow> stream_event \<Rightarrow> 's \<Rightarrow> 's" where
  "on_event w evt s =
     (let s1 = snd (handleEvent w evt s)
      in case ev_token evt of
           None \<Rightarrow> s1
         | Some token \<Rightarrow> snd (ts_Save (sw_tokens w) (Some token) s1))"

fun stream_loop :: "'s StreamWatcher \<Rightarrow> stream_event list \<Rightarrow> 's \<Rightarrow> 's" where
  "stream_loop w [] s = s"
| "stream_loop w (evt # rest) s = stream_loop w rest (on_event w evt s)"

definition runOnce :: "'s StreamWatcher \<Rightarrow> ('s, goerror option) op" where
  "runOnce w s =
     (case ts_Load (sw_tokens w) s of
        (Inl err, s1) \<Rightarrow> (Some err, s1)
      | (Inr token, s1) \<Rightarrow>
          (case sw_watch w insertPendingDispatchPipeline token s1 of
             (Inl err, s2) \<Rightarrow> (Some (wrap ''open change stream'' err), s2)
           | (Inr stream, s2) \<Rightarrow>
               (let s3 = stream_loop w (st_events stream) s2;
                    err = map_option (wrap ''change stream cursor'') (st_err stream)
                in (case st_close stream of
                      None \<Rightarrow> err
                    | Some cerr \<Rightarrow>
                        (let closing = wrap ''close change stream'' cerr
                         in Some (case err of None \<Rightarrow> closing | Some e \<Rightarrow> Joined e closing)), s3))))"

fun StreamWatcher_Run :: "nat \<Rightarrow> 's StreamWatcher \<Rightarrow> 's \<Rightarrow> 's" where
  "StreamWatcher_Run 0 w s = s"
| "StreamWatcher_Run (Suc n) w s = StreamWatcher_Run n w (snd (runOnce w s))"

section \<open>What the stream does to the tokens\<close>

text \<open>
  \<open>saved s\<close> is the stored token; the handler does not touch it.
\<close>

definition last_token :: "stream_event list \<Rightarrow> token option \<Rightarrow> token option" where
  "last_token evts t = fold (\<lambda>e t. if ev_token e = None then t else ev_token e) evts t"

locale token_stream = durable_token_store T stored
  for T :: "'s ResumeTokenStore" and stored :: "'s \<Rightarrow> token option" +
  fixes watch :: "'s watch" and handler :: "JobDispatchProjection \<Rightarrow> ('s, goerror option) op"
  assumes handler_token: "stored (snd (handler p s)) = stored s"
begin

abbreviation w :: "'s StreamWatcher" where
  "w \<equiv> \<lparr>sw_watch = watch, sw_handler = handler, sw_tokens = T\<rparr>"

lemma handleEvent_token: "stored (snd (handleEvent w evt s)) = stored s"
  by (simp add: handleEvent_def handlePendingDispatchInsert_def handler_token split: sum.splits)

lemma on_event_token:
  assumes "fst (ts_Save T (Some t) (snd (handleEvent w e s))) = None"
    and "ev_token e = Some t"
  shows "stored (on_event w e s) = Some t"
proof -
  let ?save = "ts_Save T (Some t) (snd (handleEvent w e s))"
  have "?save = (None, snd ?save)" using assms(1) by (metis prod.collapse)
  from save_stored [OF this] assms(2) show ?thesis by (simp add: on_event_def Let_def)
qed

text \<open>
  In states where every save succeeds, the stream is resumed after the last event that came with
  a token, whatever became of the events.
\<close>

lemma loop_token:
  assumes "\<And>t s. ok s \<Longrightarrow> fst (ts_Save T (Some t) s) = None \<and> ok (snd (ts_Save T (Some t) s))"
    and "\<And>p s. ok s \<Longrightarrow> ok (snd (handler p s))" and "ok s"
  shows "stored (stream_loop w evts s) = last_token evts (stored s) \<and> ok (stream_loop w evts s)"
  using assms(3)
proof (induction evts arbitrary: s)
  case (Cons e evts)
  have h: "ok (snd (handleEvent w e s))"
    using assms(2) Cons.prems
    by (auto simp: handleEvent_def handlePendingDispatchInsert_def split: sum.splits)
  have "ok (on_event w e s)"
    using assms(1) h by (auto simp: on_event_def Let_def split: option.splits)
  moreover have "stored (on_event w e s) = (if ev_token e = None then stored s else ev_token e)"
  proof (cases "ev_token e")
    case None
    then show ?thesis by (simp add: on_event_def handleEvent_token)
  next
    case (Some t)
    with on_event_token assms(1) h show ?thesis by simp
  qed
  ultimately show ?case using Cons.IH [of "on_event w e s"] by (simp add: last_token_def)
qed (simp add: last_token_def)

text \<open>A token is never invented: whatever the saves answer, it is the old one or one of an event.\<close>

lemma loop_token_old_or_seen:
  "stored (stream_loop w evts s) \<in> {stored s} \<union> (ev_token ` set evts)"
proof (induction evts arbitrary: s)
  case (Cons e evts)
  have "stored (on_event w e s) = stored s \<or> stored (on_event w e s) = ev_token e"
  proof (cases "ev_token e")
    case None
    then show ?thesis by (simp add: on_event_def handleEvent_token)
  next
    case (Some t)
    let ?s1 = "snd (handleEvent w e s)"
    from save_old_or_new [OF prod.collapse [symmetric], of "Some t" ?s1] Some
    show ?thesis by (auto simp: on_event_def handleEvent_token Let_def)
  qed
  with Cons.IH [of "on_event w e s"] show ?case by auto
qed simp

end

section \<open>What the stream does to the jobs\<close>

text \<open>The handler of the stream is the saga, and saving a token leaves the jobs alone.\<close>

locale stream_saga = dispatch_saga U P jobs
  for U :: "'s JobUpdater" and P :: "'s JobDispatchPublisher"
    and jobs :: "'s \<Rightarrow> string \<Rightarrow> job option" +
  fixes m :: int and T :: "'s ResumeTokenStore" and watch :: "'s watch"
  assumes token_frame: "ts_Save T t s = (rt, s') \<Longrightarrow> jobs s' = jobs s"
begin

abbreviation saga_watcher :: "'s StreamWatcher" where
  "saga_watcher \<equiv> \<lparr>sw_watch = watch, sw_handler = HandleDispatch m P U, sw_tokens = T\<rparr>"

lemma on_event_jobs: "jobs (on_event saga_watcher e s) = jobs (snd (handleEvent saga_watcher e s))"
  using token_frame [OF prod.collapse [symmetric]]
  by (auto simp: on_event_def Let_def split: option.splits)

text \<open>An event touches no job but its own, and that one only while it is pending.\<close>

lemma on_event_other:
  assumes "\<And>doc. ev_document e = Inr doc \<Longrightarrow> jm_JobID doc \<noteq> k"
  shows "jobs (on_event saga_watcher e s) k = jobs s k"
proof (cases "ev_document e")
  case (Inr doc)
  with assms have "k \<noteq> dp_JobID (JobDispatchFromMetadata doc)" by auto
  from handle_other [OF prod.collapse [symmetric] this] Inr show ?thesis
    by (simp add: on_event_jobs handleEvent_def handlePendingDispatchInsert_def)
qed (simp add: on_event_jobs handleEvent_def)

lemma on_event_settled:
  assumes "jobs s k = Some j" and "\<not> is_pending j"
  shows "jobs (on_event saga_watcher e s) k = Some j"
proof (cases "\<exists>doc. ev_document e = Inr doc \<and> jm_JobID doc = k")
  case True
  then obtain doc where doc: "ev_document e = Inr doc" "jm_JobID doc = k" by blast
  have "\<forall>j. jobs s (dp_JobID (JobDispatchFromMetadata doc)) = Some j \<longrightarrow> \<not> is_pending j"
    using assms doc by simp
  from handle_not_pending [OF prod.collapse [symmetric] this] doc assms show ?thesis
    by (simp add: on_event_jobs handleEvent_def handlePendingDispatchInsert_def)
next
  case False
  then have "jobs (on_event saga_watcher e s) k = jobs s k" by (intro on_event_other) blast
  with assms show ?thesis by simp
qed

lemma loop_settled:
  "jobs s k = Some j \<Longrightarrow> \<not> is_pending j \<Longrightarrow> jobs (stream_loop saga_watcher evts s) k = Some j"
  by (induction evts arbitrary: s) (auto simp: on_event_settled)

text \<open>While everything answers, the event of a pending job dispatches it.\<close>

lemma on_event_dispatches:
  assumes alive: "\<And>p. fst (P p s) = None"
    and confirm: "\<And>p k'. fst (up_MarkJobDispatched U k' (snd (P p s))) = None"
    and j: "jobs s k = Some j" "is_pending j"
    and doc: "ev_document e = Inr doc" "jm_JobID doc = k" "jm_Topic doc \<noteq> []"
  shows "\<exists>t. jobs (on_event saga_watcher e s) k = Some (mark_dispatched_effect t j)"
proof -
  let ?p = "JobDispatchFromMetadata doc"
  let ?h = "HandleDispatch m P U ?p s"
  obtain s1 where p: "P ?p s = (None, s1)" using alive [of ?p] by (cases "P ?p s") simp
  have "fst ?h = None"
    using confirm [of "dp_JobID ?p" ?p] p doc(3) by (simp add: HandleDispatch_def)
  then have h: "?h = (None, snd ?h)" by (metis prod.collapse)
  from handle_pending [OF h refl] j doc(2) p obtain t where
    "jobs (snd ?h) = (jobs s)(k \<mapsto> mark_dispatched_effect t j)"
    by (auto simp: saga_outcome_def)
  with doc show ?thesis
    by (auto simp: on_event_jobs handleEvent_def handlePendingDispatchInsert_def)
qed

text \<open>An event without a document, or with one that has no topic, reaches no handler.\<close>

lemma on_event_no_topic:
  "(\<And>doc. ev_document e = Inr doc \<Longrightarrow> jm_Topic doc = []) \<Longrightarrow> jobs (on_event saga_watcher e s) = jobs s"
  by (cases "ev_document e") (auto simp: on_event_jobs handleEvent_def handlePendingDispatchInsert_def)

lemma loop_dispatches:
  assumes alive: "\<And>p x. up x \<Longrightarrow> fst (P p x) = None \<and> up (snd (P p x))"
    and confirm: "\<And>k' x. up x \<Longrightarrow> fst (up_MarkJobDispatched U k' x) = None"
    and keep: "\<And>e x. up x \<Longrightarrow> up (on_event saga_watcher e x)"
    and e: "e \<in> set evts" "ev_document e = Inr doc" "jm_JobID doc = k" "jm_Topic doc \<noteq> []"
    and "up s" and "jobs s k = Some j" and "is_pending j"
  shows "\<exists>t. jobs (stream_loop saga_watcher evts s) k = Some (mark_dispatched_effect t j)"
  using e(1) assms(8-)
proof (induction evts arbitrary: s)
  case (Cons x evts)
  have confirm': "\<And>p k'. fst (up_MarkJobDispatched U k' (snd (P p s))) = None"
    using alive confirm Cons.prems(2) by blast
  show ?case
  proof (cases "\<exists>d. ev_document x = Inr d \<and> jm_JobID d = k \<and> jm_Topic d \<noteq> []")
    case True
    then obtain d where d: "ev_document x = Inr d" "jm_JobID d = k" "jm_Topic d \<noteq> []" by blast
    have "\<And>p. fst (P p s) = None" using alive Cons.prems(2) by blast
    from on_event_dispatches [OF this confirm' Cons.prems(3,4) d] obtain t where
      t: "jobs (on_event saga_watcher x s) k = Some (mark_dispatched_effect t j)" by blast
    have "\<not> is_pending (mark_dispatched_effect t j)" by (simp add: mark_dispatched_effect_def)
    from loop_settled [OF t this] show ?thesis by auto
  next
    case False
    have "jobs (on_event saga_watcher x s) k = jobs s k"
    proof (cases "\<forall>d. ev_document x = Inr d \<longrightarrow> jm_JobID d \<noteq> k")
      case True
      then show ?thesis by (intro on_event_other) blast
    next
      case no: False
      with False have "\<And>d. ev_document x = Inr d \<Longrightarrow> jm_Topic d = []" by auto
      from on_event_no_topic [OF this] show ?thesis by simp
    qed
    moreover have "e \<in> set evts" using False Cons.prems(1) e by auto
    ultimately show ?thesis
      using Cons.IH [OF _ keep [OF Cons.prems(2)]] Cons.prems(3,4) by simp
  qed
qed simp

end

section \<open>Properties\<close>

text \<open>
  The change stream gives every insert one chance. When the saves succeed, the token stored
  after a stream is that of its last event that carried one, whether its events were handled or
  not; the next stream is opened after it, so an event whose handling failed is not delivered
  again and its job is left to the poll fallback.
\<close>

theorem failed_events_are_not_replayed:
  assumes "durable_token_store T stored"
    and "\<And>p s. stored (snd (handler p s)) = stored s"
    and "\<And>t s. ok s \<Longrightarrow> fst (ts_Save T (Some t) s) = None \<and> ok (snd (ts_Save T (Some t) s))"
    and "\<And>p s. ok s \<Longrightarrow> ok (snd (handler p s))" and "ok s"
    and "ts_Load T (stream_loop \<lparr>sw_watch = watch, sw_handler = handler, sw_tokens = T\<rparr> evts s)
          = (Inr t, s')"
  shows "t = last_token evts (stored s)"
proof -
  have "token_stream T stored handler"
    using assms(1,2) by (intro token_stream.intro token_stream_axioms.intro)
  from token_stream.loop_token [OF this assms(3,4,5)]
  have "stored (stream_loop \<lparr>sw_watch = watch, sw_handler = handler, sw_tokens = T\<rparr> evts s)
      = last_token evts (stored s)" by simp
  with resume_token_store.load_stored [OF durable_token_store.axioms(1) [OF assms(1)] assms(6)]
  show ?thesis by simp
qed

definition down :: "JobDispatchProjection \<Rightarrow> (filesystem, goerror option) op" where
  "down p s = (Some (ErrorString ''broker down''), s)"

theorem failed_events_are_not_replayed_witness:
  "let w = \<lparr>sw_watch = \<lambda>pipe t s. (Inr \<lparr>st_events = [], st_err = None, st_close = None\<rparr>, s),
            sw_handler = down, sw_tokens = FileResumeTokenStore quoted ''t''\<rparr>;
       evts = [\<lparr>ev_document = Inr sample_job, ev_token = Some ''7''\<rparr>,
               \<lparr>ev_document = Inl (ErrorString ''bad''), ev_token = Some ''8''\<rparr>]
   in fst (ts_Load (sw_tokens w) (stream_loop w evts \<lparr>fs_files = [], fs_faults = []\<rparr>)) = Inr (Some ''8'')"
proof -
  let ?T = "FileResumeTokenStore quoted ''t''"
  let ?watch = "\<lambda>(pipe :: bdoc list) (t :: token option) (s :: filesystem).
      (Inr \<lparr>st_events = [], st_err = None, st_close = None\<rparr>, s)"
  let ?w = "\<lparr>sw_watch = ?watch, sw_handler = down, sw_tokens = ?T\<rparr>"
  let ?e = "[\<lparr>ev_document = Inr sample_job, ev_token = Some ''7''\<rparr>,
             \<lparr>ev_document = Inl (ErrorString ''bad''), ev_token = Some ''8''\<rparr>]"
  let ?s = "\<lparr>fs_files = [], fs_faults = []\<rparr>"
  let ?ok = "\<lambda>s :: filesystem. fs_faults s = []"
  note run = FileResumeTokenStore_def FileStore_Save_def FileStore_Load_def ReadFile_def MkdirAll_def
    WriteFile_def Rename_def fs_call_def fs_contents_def quoted_def tmp_path_def
  have save: "fst (ts_Save ?T (Some t) s) = None \<and> ?ok (snd (ts_Save ?T (Some t) s))" if "?ok s" for t s
    using that by (simp add: run update_conv')
  let ?s1 = "stream_loop ?w ?e ?s"
  have ok1: "?ok ?s1"
    using save by (simp add: on_event_def handleEvent_def handlePendingDispatchInsert_def down_def Let_def)
  have "\<exists>t s'. ts_Load ?T x = (Inr t, s')" if "?ok x" for x
    using that by (auto simp: run split: option.splits)
  from this [OF ok1] obtain t s' where l: "ts_Load ?T ?s1 = (Inr t, s')" by blast
  have "t = last_token ?e (file_token quoted ''t'' ?s)"
    by (rule failed_events_are_not_replayed [OF quoted.file_store.durable_token_store_axioms _ save _ _ l])
       (simp_all add: down_def)
  with l show ?thesis by (simp add: last_token_def Let_def)
qed

text \<open>
  C22. The stream delivers. While the database and the broker answer, a stream that delivers the
  insert of a pending job with a topic dispatches that job, whatever other events it carries,
  redeliveries of the same insert included.
\<close>

theorem stream_dispatches_inserts:
  assumes "healthy_worker (service_updater (mongo_service B)) P fetch jobs cfg up"
    and "\<And>p x. up x \<Longrightarrow> fst (P p x) = None"
    and "\<And>t x. jobs (snd (ts_Save T t x)) = jobs x"
    and "\<And>t x. up x \<Longrightarrow> up (snd (ts_Save T t x))"
    and "e \<in> set evts" and "ev_document e = Inr doc" and "jm_JobID doc = k" and "jm_Topic doc \<noteq> []"
    and "up s" and "jobs s k = Some j" and "jm_DispatchStatus j = DispatchStatusPending"
  shows "\<exists>t. jobs (stream_loop
        \<lparr>sw_watch = watch,
         sw_handler = HandleDispatch m P (service_updater (mongo_service B)),
         sw_tokens = T\<rparr> evts s) k = Some (mark_dispatched_effect t j)"
proof -
  let ?U = "service_updater (mongo_service B)"
  have w: "dispatch_worker ?U P fetch jobs" using assms(1) by (rule healthy_worker.axioms)
  then have "dispatch_saga ?U P jobs" by (rule dispatch_worker.axioms)
  then have ss: "stream_saga ?U P jobs T"
    by (rule stream_saga.intro) (unfold_locales, metis assms(3) snd_conv)
  note up = healthy_worker.up_publish [OF assms(1)] healthy_worker.up_dispatched [OF assms(1)]
  have alive: "fst (P p x) = None \<and> up (snd (P p x))" if "up x" for p x
    using assms(2) [OF that] up(1) [OF that prod.collapse [symmetric]] by blast
  have confirm: "fst (up_MarkJobDispatched ?U k' x) = None \<and> up (snd (up_MarkJobDispatched ?U k' x))"
    if "up x" for k' x
    using up(2) [OF that prod.collapse [symmetric]] .
  have h: "up (snd (HandleDispatch m P ?U p x))" if "up x" for p x
    using that alive [OF that, of p] confirm
    by (cases "P p x") (auto simp: HandleDispatch_def)
  have keep: "up (on_event \<lparr>sw_watch = watch, sw_handler = HandleDispatch m P ?U, sw_tokens = T\<rparr> e x)"
    if "up x" for e x
    using that h assms(4)
    by (auto simp: on_event_def handleEvent_def handlePendingDispatchInsert_def Let_def
        split: sum.splits option.splits)
  show ?thesis
    by (rule stream_saga.loop_dispatches [OF ss alive conjunct1 [OF confirm] keep assms(5-11)])
qed

theorem stream_dispatches_inserts_witness:
  "\<exists>t. mem_coll (stream_loop
        \<lparr>sw_watch = \<lambda>pipe t s. (Inr \<lparr>st_events = [], st_err = None, st_close = None\<rparr>, s),
         sw_handler = HandleDispatch 5 (\<lambda>p s. (None, s)) (service_updater (mongo_service mem_backend)),
         sw_tokens = NopResumeTokenStore\<rparr>
        [\<lparr>ev_document = Inl (ErrorString ''bad''), ev_token = None\<rparr>,
         \<lparr>ev_document = Inr sample_job, ev_token = Some ''7''\<rparr>]
        (mem_with [sample_job] [])) sample_id = Some (mark_dispatched_effect t sample_job)"
proof -
  have t: "jm_Topic sample_job \<noteq> []" by (simp add: sample_job_def NewJobMetadata_def)
  have d: "\<And>p x. mem_up 50 x \<Longrightarrow> fst (None, x) = None" by simp
  have T: "snd (ts_Save NopResumeTokenStore t x) = x" for t and x :: mem
    by (simp add: NopResumeTokenStore_def)
  have j: "mem_coll (mem_with [sample_job] []) sample_id = Some sample_job" by (simp add: sample_stored)
  show ?thesis
    by (rule stream_dispatches_inserts [OF mem_healthy d _ _ _ _ _ t mem_up_sample j,
          of NopResumeTokenStore "\<lparr>ev_document = Inr sample_job, ev_token = Some ''7''\<rparr>"])
       (simp_all add: T)
qed

end
