(* ===== verification/JobMessage.thy ===== *)
theory JobMessage
  imports SagaInterfaces
begin

text \<open>
  \<open>internal/jobs/pulsar/message.go\<close> and \<open>dispatch_publisher.go\<close>: the JSON envelope that
  carries a job from the dispatcher to an executor. JSON text is represented by its parse
  tree; a byte string on the wire is either a tree or not valid JSON at all. What
  \<open>encoding/json\<close> does with the struct is written out: keys are matched exactly or up to
  ASCII case, unknown keys are ignored, a later key overrides an earlier one, \<open>null\<close> leaves a
  string alone, and a value of the wrong type is an error after all keys were seen.
\<close>

section \<open>JSON\<close>

datatype json =
    JNull
  | JBool bool
  | JNum string
  | JStr string
  | JArr "json list"
  | JObj "(string \<times> json) list"

text \<open>A \<open>json.RawMessage\<close>: nil or empty, bytes that are not JSON, or the text of a value.\<close>

datatype raw_message = RawEmpty | RawInvalid string | RawValue json

text \<open>Bytes given to \<open>json.Unmarshal\<close>.\<close>

datatype wire = NotJson string | Json json

definition raw_wire :: "raw_message \<Rightarrow> wire" where
  "raw_wire r = (case r of RawEmpty \<Rightarrow> NotJson [] | RawInvalid s \<Rightarrow> NotJson s | RawValue v \<Rightarrow> Json v)"

definition syntax_error :: "string \<Rightarrow> goerror" where
  "syntax_error s =
     (if s = [] then DriverError ''unexpected end of JSON input'' else DriverError ''invalid character'')"

text \<open>The tree \<open>json.Marshal\<close> produces for a dynamic value; the keys of a map are sorted.\<close>

fun insert_key :: "string \<times> json \<Rightarrow> (string \<times> json) list \<Rightarrow> (string \<times> json) list" where
  "insert_key kv [] = [kv]"
| "insert_key kv (x # xs) =
     (if string_less (fst kv) (fst x) then kv # x # xs else x # insert_key kv xs)"

fun gval_json :: "gval \<Rightarrow> json" and
    gval_list_json :: "gval list \<Rightarrow> json list" and
    gval_fields_json :: "(string \<times> gval) list \<Rightarrow> (string \<times> json) list" where
  "gval_json GNil = JNull"
| "gval_json (GBool b) = JBool b"
| "gval_json (GInt i) = JNum (go_int i)"
| "gval_json (GFloat s) = JNum s"
| "gval_json (GStr s) = JStr s"
| "gval_json (GArr vs) = JArr (gval_list_json vs)"
| "gval_json (GMap kvs) = JObj (gval_fields_json kvs)"
| "gval_list_json [] = []"
| "gval_list_json (v # vs) = gval_json v # gval_list_json vs"
| "gval_fields_json [] = []"
| "gval_fields_json ((k, v) # kvs) = insert_key (k, gval_json v) (gval_fields_json kvs)"

definition gomap_json :: "gomap \<Rightarrow> json" where
  "gomap_json m = (case m of None \<Rightarrow> JNull | Some kvs \<Rightarrow> gval_json (GMap kvs))"

section \<open>The envelope\<close>

record JobMessage =
  msg_JobID :: string
  msg_Name :: string
  msg_Payload :: raw_message

definition msg_validate :: "JobMessage \<Rightarrow> goerror option" where
  "msg_validate m =
     (if trim_space (msg_JobID m) = [] then Some (ErrorString ''job message: jobId is required'')
      else if trim_space (msg_Name m) = [] then Some (ErrorString ''job message: name is required'')
      else None)"

text \<open>
  \<open>MarshalJSON\<close> of the value, called by \<open>json.Marshal\<close>, which reports an error of the method
  under the name of its type. A nil raw message is written as null.
\<close>

definition MarshalJSON :: "JobMessage \<Rightarrow> goerror + json" where
  "MarshalJSON m =
     (case msg_validate m of
        Some err \<Rightarrow> Inl err
      | None \<Rightarrow>
          (case msg_Payload m of
             RawInvalid s \<Rightarrow>
               Inl (wrap ''json: error calling MarshalJSON for type json.RawMessage'' (syntax_error s))
           | RawEmpty \<Rightarrow>
               Inr (JObj [(''jobId'', JStr (msg_JobID m)), (''name'', JStr (msg_Name m)),
                          (''payload'', JNull)])
           | RawValue v \<Rightarrow>
               Inr (JObj [(''jobId'', JStr (msg_JobID m)), (''name'', JStr (msg_Name m)),
                          (''payload'', v)])))"

definition Marshal :: "JobMessage \<Rightarrow> goerror + wire" where
  "Marshal m =
     (case MarshalJSON m of
        Inl err \<Rightarrow> Inl (wrap ''json: error calling MarshalJSON for type pulsar.JobMessage'' err)
      | Inr v \<Rightarrow> Inr (Json v))"

definition ascii_lower :: "char \<Rightarrow> char" where
  "ascii_lower c = (if 65 \<le> (of_char c :: nat) \<and> (of_char c :: nat) \<le> 90
                    then char_of (of_char c + 32 :: nat) else c)"

definition same_key :: "string \<Rightarrow> string \<Rightarrow> bool" where
  "same_key a b \<longleftrightarrow> map ascii_lower a = map ascii_lower b"

definition type_error :: "string \<Rightarrow> goerror" where
  "type_error field = DriverError (''json: cannot unmarshal value into Go struct field alias.'' @ field)"

text \<open>
  One key of the object decoded into the struct; \<open>saved\<close> is the first type error met, which
  is reported when the whole object was read.
\<close>

definition decode_key ::
  "string \<times> json \<Rightarrow> JobMessage \<times> goerror option \<Rightarrow> JobMessage \<times> goerror option" where
  "decode_key kv st =
     (case kv of (k, v) \<Rightarrow>
      case st of (m, saved) \<Rightarrow>
        if same_key k ''jobId'' then
          (case v of JStr s \<Rightarrow> (m\<lparr>msg_JobID := s\<rparr>, saved)
           | JNull \<Rightarrow> (m, saved)
           | _ \<Rightarrow> (m, if saved = None then Some (type_error ''jobId'') else saved))
        else if same_key k ''name'' then
          (case v of JStr s \<Rightarrow> (m\<lparr>msg_Name := s\<rparr>, saved)
           | JNull \<Rightarrow> (m, saved)
           | _ \<Rightarrow> (m, if saved = None then Some (type_error ''name'') else saved))
        else if same_key k ''payload'' then (m\<lparr>msg_Payload := RawValue v\<rparr>, saved)
        else (m, saved))"

definition zero_message :: JobMessage where
  "zero_message = \<lparr>msg_JobID = [], msg_Name = [], msg_Payload = RawEmpty\<rparr>"

definition decode_alias :: "json \<Rightarrow> goerror + JobMessage" where
  "decode_alias v =
     (case v of
        JObj kvs \<Rightarrow>
          (case fold decode_key kvs (zero_message, None) of
             (m, None) \<Rightarrow> Inr m
           | (m, Some err) \<Rightarrow> Inl err)
      | JNull \<Rightarrow> Inr zero_message
      | _ \<Rightarrow> Inl (DriverError ''json: cannot unmarshal value into Go value of type pulsar.alias''))"

definition UnmarshalJSON :: "json \<Rightarrow> goerror + JobMessage" where
  "UnmarshalJSON v =
     (case decode_alias v of
        Inl err \<Rightarrow> Inl err
      | Inr m \<Rightarrow> (case msg_validate m of Some err \<Rightarrow> Inl err | None \<Rightarrow> Inr m))"

definition Unmarshal :: "wire \<Rightarrow> goerror + JobMessage" where
  "Unmarshal bytes =
     (case bytes of
        NotJson s \<Rightarrow> Inl (syntax_error s)
      | Json v \<Rightarrow> UnmarshalJSON v)"

text \<open>Building and opening an envelope; \<open>enc\<close> and \<open>dec\<close> are the codecs of the payload type.\<close>

definition NewJobMessage ::
  "('a \<Rightarrow> goerror + json) \<Rightarrow> string \<Rightarrow> string \<Rightarrow> 'a \<Rightarrow> goerror + JobMessage" where
  "NewJobMessage enc jobID name payload =
     (case enc payload of
        Inl err \<Rightarrow> Inl (wrap ''marshal job payload'' err)
      | Inr raw \<Rightarrow>
          (let msg = \<lparr>msg_JobID = jobID, msg_Name = name, msg_Payload = RawValue raw\<rparr> in
           case msg_validate msg of Some err \<Rightarrow> Inl err | None \<Rightarrow> Inr msg))"

definition DecodePayload :: "(json \<Rightarrow> goerror + 'a) \<Rightarrow> JobMessage \<Rightarrow> goerror + 'a" where
  "DecodePayload dec msg =
     (case msg_validate msg of
        Some err \<Rightarrow> Inl err
      | None \<Rightarrow>
          (case msg_Payload msg of
             RawEmpty \<Rightarrow> Inl (ErrorString ''job message: payload is empty'')
           | RawInvalid s \<Rightarrow> Inl (wrap ''unmarshal job payload'' (syntax_error s))
           | RawValue v \<Rightarrow>
               (case dec v of
                  Inl err \<Rightarrow> Inl (wrap ''unmarshal job payload'' err)
                | Inr x \<Rightarrow> Inr x)))"

section \<open>The publisher\<close>

text \<open>The interface \<open>JobProducer\<close>: send an envelope to a topic.\<close>

type_synonym 's JobProducer = "string \<Rightarrow> JobMessage \<Rightarrow> ('s, goerror option) op"

definition projection_message :: "JobDispatchProjection \<Rightarrow> goerror + JobMessage" where
  "projection_message job =
     NewJobMessage (\<lambda>m. Inr (gomap_json m)) (dp_JobID job) (dp_Name job) (dp_Payload job)"

definition PulsarJobPublisher_Publish :: "'s JobProducer \<Rightarrow> 's JobDispatchPublisher" where
  "PulsarJobPublisher_Publish produce job s =
     (case projection_message job of
        Inl err \<Rightarrow> (Some (wrap ''build job message'' err), s)
      | Inr msg \<Rightarrow> produce (dp_Topic job) msg s)"

text \<open>A producer whose sends leave the stored jobs alone makes a publisher that does.\<close>

locale job_producer =
  fixes produce :: "'s JobProducer"
    and jobs :: "'s \<Rightarrow> string \<Rightarrow> job option"
  assumes produce_frame: "produce topic msg s = (r, s') \<Longrightarrow> jobs s' = jobs s"

sublocale job_producer \<subseteq> publisher: job_publisher "PulsarJobPublisher_Publish produce" jobs
proof
  fix projection s r s' assume "PulsarJobPublisher_Publish produce projection s = (r, s')"
  then show "jobs s' = jobs s"
    by (auto simp: PulsarJobPublisher_Publish_def dest: produce_frame split: sum.splits)
qed

section \<open>Facts\<close>

lemma same_key_simps [simp]:
  "same_key ''jobId'' ''jobId''" "\<not> same_key ''name'' ''jobId''" "same_key ''name'' ''name''"
  "\<not> same_key ''payload'' ''jobId''" "\<not> same_key ''payload'' ''name''" "same_key ''payload'' ''payload''"
  by (simp_all add: same_key_def ascii_lower_def)

lemma Marshal_ok_iff:
  "(\<exists>w. Marshal m = Inr w) \<longleftrightarrow> msg_validate m = None \<and> (\<forall>s. msg_Payload m \<noteq> RawInvalid s)"
  by (auto simp: Marshal_def MarshalJSON_def split: option.splits raw_message.splits)

text \<open>What is read back: the same message, where an absent payload has become \<open>null\<close>.\<close>

definition wire_payload :: "raw_message \<Rightarrow> raw_message" where
  "wire_payload r = (if r = RawEmpty then RawValue JNull else r)"

lemma Unmarshal_Marshal:
  assumes "Marshal m = Inr w"
  shows "Unmarshal w = Inr (m\<lparr>msg_Payload := wire_payload (msg_Payload m)\<rparr>)"
proof -
  from assms obtain v where w: "w = Json v" and j: "MarshalJSON m = Inr v"
    by (auto simp: Marshal_def split: sum.splits)
  then have val: "msg_validate m = None"
    by (auto simp: MarshalJSON_def split: option.splits)
  then have val': "msg_validate (m\<lparr>msg_Payload := p\<rparr>) = None" for p
    using val by (simp add: msg_validate_def split: if_splits)
  have "decode_alias v = Inr (m\<lparr>msg_Payload := wire_payload (msg_Payload m)\<rparr>)"
    using j val
    by (cases m) (auto simp: MarshalJSON_def decode_alias_def decode_key_def zero_message_def
        wire_payload_def split: raw_message.splits)
  with w val' show ?thesis by (simp add: Unmarshal_def UnmarshalJSON_def)
qed

lemma Unmarshal_validates: "Unmarshal w = Inr m \<Longrightarrow> msg_validate m = None"
  by (auto simp: Unmarshal_def UnmarshalJSON_def split: wire.splits sum.splits option.splits)

lemma projection_message_ok:
  "projection_message job = Inr m \<Longrightarrow>
   msg_JobID m = dp_JobID job \<and> msg_Name m = dp_Name job \<and> msg_validate m = None
   \<and> msg_Payload m = RawValue (gomap_json (dp_Payload job))"
  by (auto simp: projection_message_def NewJobMessage_def Let_def split: option.splits)

section \<open>Properties\<close>


end
