(* ===== verification/Connection.thy ===== *)
theory Connection
  imports Config
begin

text \<open>
  \<open>internal/jobs/mongodb/mongo_connection.go\<close> and \<open>mongo_index_specs_port.go\<close>: connecting to
  MongoDB, and the check that the expected indexes exist. The driver's client functions are
  third-party code: a record of operations over the state of the world, in which a client is a
  number. A collection is named by its client, its database and its own name.
\<close>

section \<open>The driver\<close>

text \<open>The options the code sets on a client; a timeout that is not set is \<open>None\<close>.\<close>

record client_options =
  cl_URI :: string
  cl_Timeout :: "int option"
  cl_MaxPoolSize :: nat
  cl_MinPoolSize :: nat

type_synonym collection = "nat \<times> string \<times> string"

record 's connector =
  mc_connect :: "client_options \<Rightarrow> ('s, goerror + nat) op"
  mc_ping :: "nat \<Rightarrow> ('s, goerror option) op"
  mc_disconnect :: "nat \<Rightarrow> ('s, goerror option) op"
  mc_index_names :: "collection \<Rightarrow> ('s, goerror + string list) op"

section \<open>Connecting\<close>

definition connectMongoDB ::
  "'s connector \<Rightarrow> MongoConfig \<Rightarrow> ('s, goerror + nat \<times> string) op" where
  "connectMongoDB D cfg s =
     (case mc_connect D \<lparr>cl_URI = mg_URI cfg, cl_Timeout = Some (mg_Timeout cfg),
                        cl_MaxPoolSize = mg_MaxPoolSize cfg, cl_MinPoolSize = mg_MinPoolSize cfg\<rparr> s of
        (Inl err, s1) \<Rightarrow> (Inl (wrap ''failed to connect to MongoDB'' err), s1)
      | (Inr client, s1) \<Rightarrow>
          (case mc_ping D client s1 of
             (Some err, s2) \<Rightarrow>
               (case mc_disconnect D client s2 of
                  (_, s3) \<Rightarrow> (Inl (wrap ''failed to ping MongoDB'' err), s3))
           | (None, s2) \<Rightarrow> (Inr (client, mg_Database cfg), s2)))"

section \<open>The expected indexes\<close>

definition verifyRequiredIndexesPresent ::
  "'s connector \<Rightarrow> collection \<Rightarrow> string list \<Rightarrow> ('s, goerror + bool) op" where
  "verifyRequiredIndexesPresent D coll required s =
     (case mc_index_names D coll s of
        (Inl err, s1) \<Rightarrow> (Inl (wrap (''list indexes for '' @ snd (snd coll)) err), s1)
      | (Inr have, s1) \<Rightarrow> (Inr (list_all (\<lambda>name. name \<in> set have) required), s1))"

definition metadataRequired :: "string list" where
  "metadataRequired =
     [''idx_jobId_unique'', ''idx_name'', ''idx_dispatchStatus'', ''idx_executionStatus'',
      ''idx_createdAt_desc'', ''idx_tags'', ''idx_name_status'',
      ''idx_dispatchStatus_priority_created'', ''idx_dispatch_pending'']"

definition logsRequired :: "string list" where
  "logsRequired =
     [''idx_jobId_timestamp_desc'', ''idx_timestamp_desc'', ''idx_level'',
      ''idx_jobId_level_timestamp'']"

definition ensureJobsIndexes ::
  "'s connector \<Rightarrow> collection \<Rightarrow> collection \<Rightarrow> ('s, goerror + bool) op" where
  "ensureJobsIndexes D metadataColl logsColl s =
     (case verifyRequiredIndexesPresent D metadataColl metadataRequired s of
        (Inl err, s1) \<Rightarrow> (Inl err, s1)
      | (Inr metaOK, s1) \<Rightarrow>
          (case verifyRequiredIndexesPresent D logsColl logsRequired s1 of
             (Inl err, s2) \<Rightarrow> (Inl err, s2)
           | (Inr logsOK, s2) \<Rightarrow> (Inr (metaOK \<and> logsOK), s2)))"

section \<open>Opening the adapters\<close>

text \<open>What a reader holds on to: its two collections and the outcome of the index check.\<close>

record reader_handle =
  rh_metadataCollection :: collection
  rh_logsCollection :: collection
  rh_IndexesPresent :: bool

record writer_handle =
  wh_metadataCollection :: collection
  wh_logsCollection :: collection

definition NewMongoJobsReader ::
  "'s connector \<Rightarrow> nat \<times> string \<Rightarrow> MongoConfig \<Rightarrow> ('s, goerror + reader_handle) op" where
  "NewMongoJobsReader D db cfg s =
     (case db of (client, database) \<Rightarrow>
      let metaColl = (client, database, mg_CollectionMetadata cfg);
          logsColl = (client, database, mg_CollectionLogs cfg) in
      case ensureJobsIndexes D metaColl logsColl s of
        (Inl err, s1) \<Rightarrow> (Inl (wrap ''failed to verify indexes'' err), s1)
      | (Inr allPresent, s1) \<Rightarrow>
          (Inr \<lparr>rh_metadataCollection = metaColl, rh_logsCollection = logsColl,
                rh_IndexesPresent = allPresent\<rparr>, s1))"

definition OpenMongoJobsReader ::
  "'s connector \<Rightarrow> MongoConfig \<Rightarrow> ('s, goerror + reader_handle \<times> nat) op" where
  "OpenMongoJobsReader D cfg s =
     (case connectMongoDB D cfg s of
        (Inl err, s1) \<Rightarrow> (Inl err, s1)
      | (Inr (client, database), s1) \<Rightarrow>
          (case NewMongoJobsReader D (client, database) cfg s1 of
             (Inl err, s2) \<Rightarrow> (case mc_disconnect D client s2 of (_, s3) \<Rightarrow> (Inl err, s3))
           | (Inr reader, s2) \<Rightarrow> (Inr (reader, client), s2)))"

definition OpenMongoJobs ::
  "'s connector \<Rightarrow> MongoConfig \<Rightarrow> ('s, goerror + reader_handle \<times> writer_handle \<times> nat) op" where
  "OpenMongoJobs D cfg s =
     (case connectMongoDB D cfg s of
        (Inl err, s1) \<Rightarrow> (Inl err, s1)
      | (Inr (client, database), s1) \<Rightarrow>
          (case NewMongoJobsReader D (client, database) cfg s1 of
             (Inl err, s2) \<Rightarrow> (case mc_disconnect D client s2 of (_, s3) \<Rightarrow> (Inl err, s3))
           | (Inr reader, s2) \<Rightarrow>
               (let writer = \<lparr>wh_metadataCollection = rh_metadataCollection reader,
                              wh_logsCollection = rh_logsCollection reader\<rparr>
                in (Inr (reader, writer, client), s2))))"

text \<open>
  The client of the change stream has a small pool and no timeout, which would end an idle
  stream.
\<close>

definition OpenMongoWatchClient ::
  "'s connector \<Rightarrow> MongoConfig \<Rightarrow> nat \<Rightarrow> ('s, goerror + nat \<times> collection) op" where
  "OpenMongoWatchClient D cfg maxPoolSize s =
     (let pool = (if maxPoolSize < 1 then 2 else maxPoolSize) in
      case mc_connect D \<lparr>cl_URI = mg_URI cfg, cl_Timeout = None, cl_MaxPoolSize = pool,
                         cl_MinPoolSize = 0\<rparr> s of
        (Inl err, s1) \<Rightarrow> (Inl (wrap ''failed to connect watch MongoDB client'' err), s1)
      | (Inr client, s1) \<Rightarrow>
          (case mc_ping D client s1 of
             (Some err, s2) \<Rightarrow>
               (case mc_disconnect D client s2 of
                  (_, s3) \<Rightarrow> (Inl (wrap ''failed to ping watch MongoDB client'' err), s3))
           | (None, s2) \<Rightarrow> (Inr (client, (client, mg_Database cfg, mg_CollectionMetadata cfg)), s2)))"

section \<open>What the code relies on\<close>

text \<open>
  \<open>opened s\<close> is the set of clients that were connected and not yet disconnected. A client that
  is disconnected is gone whether or not the call reports an error.
\<close>

locale connections =
  fixes D :: "'s connector" and opened :: "'s \<Rightarrow> nat set"
  assumes connect_failed: "mc_connect D opts s = (Inl e, s') \<Longrightarrow> opened s' = opened s"
    and connect_ok: "mc_connect D opts s = (Inr c, s') \<Longrightarrow>
      c \<notin> opened s \<and> opened s' = insert c (opened s)"
    and ping_frame: "mc_ping D c s = (r, s') \<Longrightarrow> opened s' = opened s"
    and disconnect_ok: "mc_disconnect D c s = (r, s') \<Longrightarrow> opened s' = opened s - {c}"
    and index_frame: "mc_index_names D coll s = (ri, s') \<Longrightarrow> opened s' = opened s"
begin

text \<open>An operation that opens a client on success and leaves nothing behind on failure.\<close>

definition opens :: "('a \<Rightarrow> nat) \<Rightarrow> ('s, goerror + 'a) op \<Rightarrow> bool" where
  "opens client f \<longleftrightarrow>
     (\<forall>s r s'. f s = (r, s') \<longrightarrow>
        (case r of
           Inl e \<Rightarrow> opened s' = opened s
         | Inr x \<Rightarrow> client x \<notin> opened s \<and> opened s' = insert (client x) (opened s)))"

lemma opensI:
  assumes "\<And>s e s'. f s = (Inl e, s') \<Longrightarrow> opened s' = opened s"
    and "\<And>s x s'. f s = (Inr x, s') \<Longrightarrow>
      client x \<notin> opened s \<and> opened s' = insert (client x) (opened s)"
  shows "opens client f"
  using assms unfolding opens_def by (auto split: sum.splits)

lemma connect_opens: "opens fst (connectMongoDB D cfg)"
proof (rule opensI)
  fix s e s' assume "connectMongoDB D cfg s = (Inl e, s')"
  then show "opened s' = opened s"
    by (auto simp: connectMongoDB_def dest!: connect_failed connect_ok ping_frame disconnect_ok
        split: prod.splits sum.splits option.splits)
next
  fix s x s' assume "connectMongoDB D cfg s = (Inr x, s')"
  then show "fst x \<notin> opened s \<and> opened s' = insert (fst x) (opened s)"
    by (auto simp: connectMongoDB_def dest!: connect_ok ping_frame
        split: prod.splits sum.splits option.splits)
qed

lemma watch_opens: "opens fst (OpenMongoWatchClient D cfg n)"
proof (rule opensI)
  fix s e s' assume "OpenMongoWatchClient D cfg n s = (Inl e, s')"
  then show "opened s' = opened s"
    by (auto simp: OpenMongoWatchClient_def Let_def dest!: connect_failed connect_ok ping_frame disconnect_ok
        split: prod.splits sum.splits option.splits)
next
  fix s x s' assume "OpenMongoWatchClient D cfg n s = (Inr x, s')"
  then show "fst x \<notin> opened s \<and> opened s' = insert (fst x) (opened s)"
    by (auto simp: OpenMongoWatchClient_def Let_def dest!: connect_ok ping_frame
        split: prod.splits sum.splits option.splits)
qed

lemma verify_frame: "verifyRequiredIndexesPresent D coll req s = (r, s') \<Longrightarrow> opened s' = opened s"
  by (auto simp: verifyRequiredIndexesPresent_def dest: index_frame split: prod.splits sum.splits)

lemma reader_frame: "NewMongoJobsReader D db cfg s = (r, s') \<Longrightarrow> opened s' = opened s"
  by (auto simp: NewMongoJobsReader_def ensureJobsIndexes_def Let_def dest!: verify_frame
      split: prod.splits sum.splits)

lemma after_connecting:
  assumes "connectMongoDB D cfg s = (Inr (c, d), s1)" and "NewMongoJobsReader D db cfg s1 = (r, s2)"
  shows "c \<notin> opened s \<and> opened s2 = insert c (opened s)"
    and "mc_disconnect D c s2 = (x, s3) \<Longrightarrow> opened s3 = opened s"
proof -
  from connect_opens assms(1) have "c \<notin> opened s \<and> opened s1 = insert c (opened s)"
    by (fastforce simp: opens_def)
  with reader_frame [OF assms(2)] show "c \<notin> opened s \<and> opened s2 = insert c (opened s)" by simp
  then show "mc_disconnect D c s2 = (x, s3) \<Longrightarrow> opened s3 = opened s"
    by (auto dest!: disconnect_ok)
qed

lemma connect_failed_frame: "connectMongoDB D cfg s = (Inl e, s') \<Longrightarrow> opened s' = opened s"
  using connect_opens by (fastforce simp: opens_def)

lemma open_reader_opens: "opens snd (OpenMongoJobsReader D cfg)"
proof (rule opensI)
  fix s e s' assume "OpenMongoJobsReader D cfg s = (Inl e, s')"
  then show "opened s' = opened s"
    by (auto simp: OpenMongoJobsReader_def dest: connect_failed_frame after_connecting
        split: prod.splits sum.splits)
next
  fix s x s' assume "OpenMongoJobsReader D cfg s = (Inr x, s')"
  then show "snd x \<notin> opened s \<and> opened s' = insert (snd x) (opened s)"
    by (auto simp: OpenMongoJobsReader_def dest: after_connecting split: prod.splits sum.splits)
qed

lemma open_jobs_opens: "opens (snd \<circ> snd) (OpenMongoJobs D cfg)"
proof (rule opensI)
  fix s e s' assume "OpenMongoJobs D cfg s = (Inl e, s')"
  then show "opened s' = opened s"
    by (auto simp: OpenMongoJobs_def Let_def dest: connect_failed_frame after_connecting
        split: prod.splits sum.splits)
next
  fix s x s' assume "OpenMongoJobs D cfg s = (Inr x, s')"
  then show "(snd \<circ> snd) x \<notin> opened s \<and> opened s' = insert ((snd \<circ> snd) x) (opened s)"
    by (auto simp: OpenMongoJobs_def Let_def dest: after_connecting split: prod.splits sum.splits)
qed

end

section \<open>A reference server in memory\<close>

text \<open>
  The open clients, the index names of each collection name, and a script that makes a call
  fail: \<open>Some msg\<close> is the error of that call.
\<close>

record cluster =
  ct_open :: "nat list"
  ct_next :: nat
  ct_indexes :: "(string \<times> string list) list"
  ct_script :: "string option list"

definition cluster_empty :: cluster where
  "cluster_empty = \<lparr>ct_open = [], ct_next = 0, ct_indexes = [], ct_script = []\<rparr>"

definition ct_call :: "(goerror option \<Rightarrow> (cluster, 'a) op) \<Rightarrow> (cluster, 'a) op" where
  "ct_call f s =
     (case ct_script s of
        [] \<Rightarrow> f None s
      | x # rest \<Rightarrow> f (map_option DriverError x) (s\<lparr>ct_script := rest\<rparr>))"

text \<open>The new client gets a number that no open client has.\<close>

definition mem_connector :: "cluster connector" where
  "mem_connector = \<lparr>
     mc_connect = (\<lambda>opts. ct_call (\<lambda>fault s.
       case fault of
         Some e \<Rightarrow> (Inl e, s)
       | None \<Rightarrow>
           (let c = Suc (fold max (ct_open s) (ct_next s))
            in (Inr c, s\<lparr>ct_open := c # ct_open s, ct_next := c\<rparr>)))),
     mc_ping = (\<lambda>c. ct_call (\<lambda>fault s. (fault, s))),
     mc_disconnect = (\<lambda>c. ct_call (\<lambda>fault s. (fault, s\<lparr>ct_open := removeAll c (ct_open s)\<rparr>))),
     mc_index_names = (\<lambda>coll. ct_call (\<lambda>fault s.
       case fault of
         Some e \<Rightarrow> (Inl e, s)
       | None \<Rightarrow> (Inr (case map_of (ct_indexes s) (snd (snd coll)) of None \<Rightarrow> [] | Some ns \<Rightarrow> ns), s)))\<rparr>"

abbreviation ct_opened :: "cluster \<Rightarrow> nat set" where
  "ct_opened s \<equiv> set (ct_open s)"

lemma fold_max_start: "(n :: nat) \<le> fold max xs n"
proof (induction xs arbitrary: n)
  case (Cons x xs)
  have "n \<le> max x n" by simp
  also have "\<dots> \<le> fold max xs (max x n)" by (rule Cons)
  finally show ?case by simp
qed simp

lemma fold_max_ge: "x \<in> set xs \<Longrightarrow> x \<le> fold max xs (n :: nat)"
proof (induction xs arbitrary: n)
  case (Cons y ys)
  have "max y n \<le> fold max ys (max y n)" by (rule fold_max_start)
  with Cons show ?case by auto
qed simp

lemma ct_callE:
  assumes "ct_call f s = (r, s')"
  obtains fault s0 where "f fault s0 = (r, s')" "ct_open s0 = ct_open s"
  using assms by (auto simp: ct_call_def split: list.splits)

interpretation mem_cluster: connections mem_connector ct_opened
proof
  fix opts s e s' assume "mc_connect mem_connector opts s = (Inl e, s')"
  then show "ct_opened s' = ct_opened s"
    by (auto simp: mem_connector_def Let_def elim!: ct_callE split: option.splits)
next
  fix opts s c s' assume "mc_connect mem_connector opts s = (Inr c, s')"
  then obtain s0 where c: "c = Suc (fold max (ct_open s0) (ct_next s0))" "ct_open s0 = ct_open s"
    "s' = s0\<lparr>ct_open := c # ct_open s0, ct_next := c\<rparr>"
    by (auto simp: mem_connector_def Let_def elim!: ct_callE split: option.splits)
  have "c \<notin> ct_opened s" using fold_max_ge [of c "ct_open s0" "ct_next s0"] c by auto
  with c show "c \<notin> ct_opened s \<and> ct_opened s' = insert c (ct_opened s)" by simp
next
  fix c s r s' assume "mc_ping mem_connector c s = (r, s')"
  then show "ct_opened s' = ct_opened s" by (auto simp: mem_connector_def elim!: ct_callE)
next
  fix c s r s' assume "mc_disconnect mem_connector c s = (r, s')"
  then show "ct_opened s' = ct_opened s - {c}" by (auto simp: mem_connector_def elim!: ct_callE)
next
  fix coll s ri s' assume "mc_index_names mem_connector coll s = (ri, s')"
  then show "ct_opened s' = ct_opened s"
    by (auto simp: mem_connector_def elim!: ct_callE split: option.splits)
qed

section \<open>Properties\<close>


definition sample_mongo_config :: MongoConfig where
  "sample_mongo_config =
     \<lparr>mg_URI = ''mongodb://localhost'', mg_Database = ''jobby'', mg_CollectionMetadata = ''job_metadata'',
      mg_CollectionLogs = ''job_logs'', mg_Timeout = 10 * one_second, mg_MaxPoolSize = 100,
      mg_MinPoolSize = 10\<rparr>"


end
