(* ===== verification/Pulsar.thy ===== *)
theory Pulsar
  imports JobMessage Connection ResumeToken Embedding
begin

text \<open>
  \<open>internal/jobs/pulsar/producer.go\<close>, \<open>consumer.go\<close> and the parts of \<open>client.go\<close> they use. The
  broker client is third-party code: a record of operations over the state of the world.
  A producer or a consumer it hands out is a number. What the process itself keeps, the
  producers and consumers tracked for shutdown and the producer cache by topic, is explicit
  state. The locks in the code make each of these updates atomic.
\<close>

section \<open>The broker\<close>

record delivery =
  dl_ID :: nat
  dl_Payload :: wire

record 's broker =
  bk_connect :: "string \<Rightarrow> ('s, goerror option) op"
  bk_create_producer :: "string \<Rightarrow> ('s, goerror + nat) op"
  bk_send :: "nat \<Rightarrow> string \<Rightarrow> wire \<Rightarrow> ('s, goerror option) op"
  bk_subscribe :: "string \<Rightarrow> string \<Rightarrow> ('s, goerror + nat) op"
  bk_receive :: "nat \<Rightarrow> ('s, goerror + delivery) op"
  bk_ack :: "nat \<Rightarrow> delivery \<Rightarrow> ('s, goerror option) op"
  bk_nack :: "nat \<Rightarrow> delivery \<Rightarrow> 's \<Rightarrow> 's"
  bk_close_producer :: "nat \<Rightarrow> 's \<Rightarrow> 's"
  bk_close_consumer :: "nat \<Rightarrow> 's \<Rightarrow> 's"
  bk_close_client :: "'s \<Rightarrow> 's"

record PulsarClient =
  pc_SubscriptionName :: string
  pc_producers :: "nat list"
  pc_consumers :: "nat list"
  pc_connected :: bool

section \<open>The client\<close>

text \<open>\<open>NewPulsarClient\<close> connects to the broker.\<close>

definition NewPulsarClient ::
  "'s broker \<Rightarrow> PulsarConfig \<Rightarrow> 's \<Rightarrow> (goerror + PulsarClient) \<times> 's" where
  "NewPulsarClient bk cfg s =
     (case bk_connect bk (pu_ServiceURL cfg) s of
        (Some err, s1) \<Rightarrow> (Inl (wrap ''create pulsar client'' err), s1)
      | (None, s1) \<Rightarrow>
          (Inr \<lparr>pc_SubscriptionName = pu_SubscriptionName cfg, pc_producers = [], pc_consumers = [],
                pc_connected = True\<rparr>, s1))"

text \<open>\<open>CreateProducer\<close> on a client that was not closed.\<close>

definition CreateProducer ::
  "'s broker \<Rightarrow> string \<Rightarrow> PulsarClient \<times> 's \<Rightarrow> (goerror + nat) \<times> (PulsarClient \<times> 's)" where
  "CreateProducer bk topic st =
     (case st of (c, s) \<Rightarrow>
      case bk_create_producer bk topic s of
        (Inl err, s1) \<Rightarrow>
          (Inl (Wrapped (''create producer for topic '' @ go_quote topic @ '': '') err []), (c, s1))
      | (Inr p, s1) \<Rightarrow> (Inr p, (c\<lparr>pc_producers := pc_producers c @ [p]\<rparr>, s1)))"

definition PulsarClient_Close :: "'s broker \<Rightarrow> PulsarClient \<times> 's \<Rightarrow> PulsarClient \<times> 's" where
  "PulsarClient_Close bk st =
     (case st of (c, s) \<Rightarrow>
        let c' = c\<lparr>pc_producers := [], pc_consumers := [], pc_connected := False\<rparr>;
            s1 = fold (bk_close_consumer bk) (pc_consumers c) s;
            s2 = fold (bk_close_producer bk) (pc_producers c) s1
        in (c', if pc_connected c then bk_close_client bk s2 else s2))"

text \<open>
  \<open>CreateConsumer\<close> subscribes with a channel that a goroutine empties into the handler: what it
  received is a list. Of the options only the topic and the subscription reach the broker here.
\<close>

definition CreateConsumer ::
  "'s broker \<Rightarrow> string \<Rightarrow> PulsarClient \<times> 's \<Rightarrow> (goerror + nat) \<times> (PulsarClient \<times> 's)" where
  "CreateConsumer bk topic st =
     (case st of (c, s) \<Rightarrow>
      case bk_subscribe bk topic (pc_SubscriptionName c) s of
        (Inl err, s1) \<Rightarrow>
          (Inl (Wrapped (''create consumer for topic '' @ go_quote topic @ '': '') err []), (c, s1))
      | (Inr k, s1) \<Rightarrow> (Inr k, (c\<lparr>pc_consumers := pc_consumers c @ [k]\<rparr>, s1)))"

definition forward_messages :: "(nat \<Rightarrow> delivery \<Rightarrow> 's \<Rightarrow> 's) \<Rightarrow> (nat \<times> delivery) list \<Rightarrow> 's \<Rightarrow> 's" where
  "forward_messages messageHandler ch s = fold (\<lambda>(k, m). messageHandler k m) ch s"

text \<open>A consumer so created is tracked for the shutdown of its client.\<close>

lemma CreateConsumer_tracked:
  "CreateConsumer bk topic (c, s) = (r, (c', s')) \<Longrightarrow>
   pc_consumers c' = pc_consumers c @ (case r of Inl _ \<Rightarrow> [] | Inr k \<Rightarrow> [k])
   \<and> pc_producers c' = pc_producers c \<and> pc_connected c' = pc_connected c"
  by (auto simp: CreateConsumer_def split: sum.splits prod.splits)

section \<open>The producer\<close>

type_synonym producers = "(string \<times> nat) list"

definition NewPulsarJobProducer :: producers where
  "NewPulsarJobProducer = []"

definition producerForTopic ::
  "'s broker \<Rightarrow> string \<Rightarrow> producers \<times> PulsarClient \<times> 's
     \<Rightarrow> (goerror + nat) \<times> (producers \<times> PulsarClient \<times> 's)" where
  "producerForTopic bk topic st =
     (case st of (cache, cs) \<Rightarrow>
      case map_of cache topic of
        Some p \<Rightarrow> (Inr p, (cache, cs))
      | None \<Rightarrow>
          (case CreateProducer bk topic cs of
             (Inl err, cs1) \<Rightarrow> (Inl err, (cache, cs1))
           | (Inr p, cs1) \<Rightarrow> (Inr p, ((topic, p) # cache, cs1))))"

definition PulsarJobProducer_Publish ::
  "'s broker \<Rightarrow> (producers \<times> PulsarClient \<times> 's) JobProducer" where
  "PulsarJobProducer_Publish bk topic msg st =
     (case producerForTopic bk topic st of
        (Inl err, st1) \<Rightarrow> (Some err, st1)
      | (Inr p, (cache, c, s1)) \<Rightarrow>
          (case Marshal msg of
             Inl err \<Rightarrow> (Some err, (cache, c, s1))
           | Inr payload \<Rightarrow>
               (case bk_send bk p (msg_JobID msg) payload s1 of
                  (Some err, s2) \<Rightarrow>
                    (Some (Wrapped (''publish to '' @ go_quote topic @ '': '') err []), (cache, c, s2))
                | (None, s2) \<Rightarrow> (None, (cache, c, s2)))))"

definition PulsarJobProducer_Close :: "producers \<times> PulsarClient \<times> 's \<Rightarrow> producers \<times> PulsarClient \<times> 's" where
  "PulsarJobProducer_Close st = (case st of (cache, cs) \<Rightarrow> ([], cs))"

section \<open>The consumer\<close>

record PulsarJobConsumer =
  cn_consumers :: "nat list"
  cn_topics :: "string list"

text \<open>
  Subscribe to each topic; when one subscription fails, the consumers created so far are
  closed. They stay in the list of the client, which will close them once more.
\<close>

fun subscribe_all ::
  "'s broker \<Rightarrow> string list \<Rightarrow> nat list \<Rightarrow> PulsarClient \<times> 's
     \<Rightarrow> (goerror + nat list) \<times> (PulsarClient \<times> 's)" where
  "subscribe_all bk [] consumers st = (Inr consumers, st)"
| "subscribe_all bk (topic # rest) consumers (c, s) =
     (case bk_subscribe bk topic (pc_SubscriptionName c) s of
        (Inl err, s1) \<Rightarrow>
          (Inl (Wrapped (''subscribe to topic '' @ go_quote topic @ '': '') err []),
           (c, fold (bk_close_consumer bk) consumers s1))
      | (Inr k, s1) \<Rightarrow>
          subscribe_all bk rest (consumers @ [k]) (c\<lparr>pc_consumers := pc_consumers c @ [k]\<rparr>, s1))"

definition NewPulsarJobConsumer ::
  "'s broker \<Rightarrow> string list \<Rightarrow> PulsarClient \<times> 's
     \<Rightarrow> (goerror + PulsarJobConsumer) \<times> (PulsarClient \<times> 's)" where
  "NewPulsarJobConsumer bk topics st =
     (if length topics = 0 then (Inl (ErrorString ''at least one topic required''), st)
      else case subscribe_all bk topics [] st of
        (Inl err, st1) \<Rightarrow> (Inl err, st1)
      | (Inr consumers, st1) \<Rightarrow> (Inr \<lparr>cn_consumers = consumers, cn_topics = topics\<rparr>, st1))"

type_synonym 's message_handler = "string \<Rightarrow> string \<Rightarrow> raw_message \<Rightarrow> ('s, goerror option) op"

text \<open>
  One delivery. The error of an acknowledgement is only printed; a message that is not a
  valid envelope is acknowledged, so that it is not delivered again.
\<close>

definition handleMessage :: "'s broker \<Rightarrow> nat \<Rightarrow> delivery \<Rightarrow> 's message_handler \<Rightarrow> 's \<Rightarrow> 's" where
  "handleMessage bk consumer msg handler s =
     (case Unmarshal (dl_Payload msg) of
        Inl err \<Rightarrow> snd (bk_ack bk consumer msg s)
      | Inr jobMsg \<Rightarrow>
          (case msg_validate jobMsg of
             Some err \<Rightarrow> snd (bk_ack bk consumer msg s)
           | None \<Rightarrow>
               (case handler (msg_JobID jobMsg) (msg_Name jobMsg) (msg_Payload jobMsg) s of
                  (Some handlerErr, s1) \<Rightarrow> bk_nack bk consumer msg s1
                | (None, s1) \<Rightarrow> snd (bk_ack bk consumer msg s1))))"

text \<open>One turn of the loop of a consumer.\<close>

definition consume_once :: "'s broker \<Rightarrow> 's message_handler \<Rightarrow> nat \<Rightarrow> 's \<Rightarrow> 's" where
  "consume_once bk handler consumer s =
     (case bk_receive bk consumer s of
        (Inl err, s1) \<Rightarrow> s1
      | (Inr msg, s1) \<Rightarrow> handleMessage bk consumer msg handler s1)"

text \<open>The loop of one consumer that ran \<open>n\<close> times before its context was cancelled.\<close>

fun consumeLoop :: "nat \<Rightarrow> 's broker \<Rightarrow> nat \<Rightarrow> 's message_handler \<Rightarrow> 's \<Rightarrow> 's" where
  "consumeLoop 0 bk consumer handler s = s"
| "consumeLoop (Suc n) bk consumer handler s =
     consumeLoop n bk consumer handler (consume_once bk handler consumer s)"

text \<open>
  The loops of all consumers, side by side: the schedule names the consumer of each turn. A
  turn is one delivery from \<open>Receive\<close> to its acknowledgement.
\<close>

fun run_consumers :: "nat list \<Rightarrow> 's broker \<Rightarrow> 's message_handler \<Rightarrow> 's \<Rightarrow> 's" where
  "run_consumers [] bk handler s = s"
| "run_consumers (consumer # schedule) bk handler s =
     run_consumers schedule bk handler (consume_once bk handler consumer s)"

text \<open>\<open>Run\<close> returns the error of its cancelled context, once every loop has returned.\<close>

definition PulsarJobConsumer_Run ::
  "nat list \<Rightarrow> 's broker \<Rightarrow> PulsarJobConsumer \<Rightarrow> 's message_handler option \<Rightarrow> ('s, goerror option) op" where
  "PulsarJobConsumer_Run schedule bk c handler s =
     (case handler of
        None \<Rightarrow> (Some (ErrorString ''handler is required''), s)
      | Some h \<Rightarrow>
          (Some (DriverError ''context canceled''),
           run_consumers (filter (\<lambda>k. k \<in> set (cn_consumers c)) schedule) bk h s))"

definition PulsarJobConsumer_Close :: "'s broker \<Rightarrow> PulsarJobConsumer \<Rightarrow> 's \<Rightarrow> 's" where
  "PulsarJobConsumer_Close bk c s = fold (bk_close_consumer bk) (cn_consumers c) s"

lemma consumeLoop_schedule:
  "consumeLoop n bk consumer handler s = run_consumers (replicate n consumer) bk handler s"
  by (induction n arbitrary: s) simp_all
section \<open>What the code relies on\<close>

text \<open>
  The stored jobs are not the broker's; and the deliveries a broker was told the fate of,
  \<open>acks\<close> and \<open>nacks\<close>, grow by one entry with each call.
\<close>

locale broker =
  fixes bk :: "'s broker"
    and jobs :: "'s \<Rightarrow> string \<Rightarrow> job option"
    and acks nacks :: "'s \<Rightarrow> nat list"
  assumes create_frame: "bk_create_producer bk topic s = (rp, s') \<Longrightarrow>
      jobs s' = jobs s \<and> acks s' = acks s \<and> nacks s' = nacks s"
    and send_frame: "bk_send bk p key w s = (ro, s') \<Longrightarrow>
      jobs s' = jobs s \<and> acks s' = acks s \<and> nacks s' = nacks s"
    and receive_frame: "bk_receive bk c s = (rd, s') \<Longrightarrow>
      jobs s' = jobs s \<and> acks s' = acks s \<and> nacks s' = nacks s"
    and ack_effect: "bk_ack bk c m s = (ro, s') \<Longrightarrow>
      jobs s' = jobs s \<and> acks s' = dl_ID m # acks s \<and> nacks s' = nacks s"
    and nack_effect: "jobs (bk_nack bk c m s) = jobs s \<and> acks (bk_nack bk c m s) = acks s
      \<and> nacks (bk_nack bk c m s) = dl_ID m # nacks s"
begin

definition pulsar_jobs :: "producers \<times> PulsarClient \<times> 's \<Rightarrow> string \<Rightarrow> job option" where
  "pulsar_jobs st = jobs (snd (snd st))"

lemma producerForTopic_frame:
  "producerForTopic bk topic st = (r, st') \<Longrightarrow> pulsar_jobs st' = pulsar_jobs st"
  by (auto simp: producerForTopic_def CreateProducer_def pulsar_jobs_def dest: create_frame
      split: prod.splits option.splits sum.splits)

lemma publish_keeps_jobs:
  assumes "PulsarJobProducer_Publish bk topic msg st = (r, st')"
  shows "pulsar_jobs st' = pulsar_jobs st"
proof -
  obtain x cache c s1 where f: "producerForTopic bk topic st = (x, (cache, c, s1))"
    by (metis prod.exhaust)
  note fr = producerForTopic_frame [OF f]
  show ?thesis
  proof (cases x)
    case (Inl e)
    with assms f fr show ?thesis by (simp add: PulsarJobProducer_Publish_def)
  next
    case (Inr p)
    have "pulsar_jobs st' = jobs s1"
      using assms f Inr by (auto simp: PulsarJobProducer_Publish_def pulsar_jobs_def dest: send_frame
          split: sum.splits option.splits prod.splits)
    with fr show ?thesis by (simp add: pulsar_jobs_def)
  qed
qed

lemma handleMessage_settles:
  assumes "\<And>i n p s r s'. handler i n p s = (r, s') \<Longrightarrow> acks s' = acks s \<and> nacks s' = nacks s"
  shows "(acks (handleMessage bk c m handler s) = dl_ID m # acks s
            \<and> nacks (handleMessage bk c m handler s) = nacks s)
       \<or> (acks (handleMessage bk c m handler s) = acks s
            \<and> nacks (handleMessage bk c m handler s) = dl_ID m # nacks s)"
proof (cases "Unmarshal (dl_Payload m)")
  case (Inl e)
  obtain r s' where a: "bk_ack bk c m s = (r, s')" by fastforce
  with Inl ack_effect [OF a] show ?thesis by (simp add: handleMessage_def)
next
  case (Inr jm)
  then have v: "msg_validate jm = None" by (rule Unmarshal_validates)
  obtain h s1 where h: "handler (msg_JobID jm) (msg_Name jm) (msg_Payload jm) s = (h, s1)" by fastforce
  obtain r s' where a: "bk_ack bk c m s1 = (r, s')" by fastforce
  from assms [OF h] ack_effect [OF a] nack_effect [of c m s1] Inr v h a show ?thesis
    by (cases h) (simp_all add: handleMessage_def)
qed

end

sublocale broker \<subseteq> producer: job_producer "PulsarJobProducer_Publish bk" pulsar_jobs
  by unfold_locales (rule publish_keeps_jobs)

section \<open>A reference world in memory\<close>

text \<open>
  Everything outside the processes: the database, the broker, the connections to the database
  and the files. Producers and consumers are numbered in order of creation; what was sent,
  acknowledged and given back is kept; the script makes a call fail, as in \<open>mem_backend\<close>.
\<close>

record bus =
  bus_clients :: nat
  bus_next :: nat
  bus_sent :: "(nat \<times> string \<times> wire) list"
  bus_inbox :: "delivery list"
  bus_acks :: "nat list"
  bus_nacks :: "nat list"
  bus_script :: "string option list"

record world =
  wd_db :: mem
  wd_bus :: bus
  wd_cluster :: cluster
  wd_files :: filesystem

definition bus_empty :: bus where
  "bus_empty = \<lparr>bus_clients = 0, bus_next = 0, bus_sent = [], bus_inbox = [], bus_acks = [],
                bus_nacks = [], bus_script = []\<rparr>"

definition world_with :: "mem \<Rightarrow> world" where
  "world_with m = \<lparr>wd_db = m, wd_bus = bus_empty, wd_cluster = cluster_empty,
                   wd_files = \<lparr>fs_files = [], fs_faults = []\<rparr>\<rparr>"

definition bus_scripted :: "bus \<Rightarrow> (goerror \<Rightarrow> 'a) \<Rightarrow> (bus \<Rightarrow> 'a \<times> bus) \<Rightarrow> 'a \<times> bus" where
  "bus_scripted b failed f =
     (case bus_script b of
        [] \<Rightarrow> f b
      | None # rest \<Rightarrow> f (b\<lparr>bus_script := rest\<rparr>)
      | Some msg # rest \<Rightarrow> (failed (DriverError msg), b\<lparr>bus_script := rest\<rparr>))"

definition on_bus :: "(bus, 'a) op \<Rightarrow> (world, 'a) op" where
  "on_bus = along wd_bus (\<lambda>b w. w\<lparr>wd_bus := b\<rparr>)"

definition fresh_handle :: "(bus, goerror + nat) op" where
  "fresh_handle b = bus_scripted b Inl (\<lambda>b. (Inr (bus_next b), b\<lparr>bus_next := Suc (bus_next b)\<rparr>))"

definition mem_broker :: "world broker" where
  "mem_broker = \<lparr>
     bk_connect = (\<lambda>url. on_bus (\<lambda>b. bus_scripted b Some (\<lambda>b.
       (None, b\<lparr>bus_clients := Suc (bus_clients b)\<rparr>)))),
     bk_create_producer = (\<lambda>topic. on_bus fresh_handle),
     bk_send = (\<lambda>p key w. on_bus (\<lambda>b. bus_scripted b Some (\<lambda>b.
       (None, b\<lparr>bus_sent := bus_sent b @ [(p, key, w)]\<rparr>)))),
     bk_subscribe = (\<lambda>topic sub. on_bus fresh_handle),
     bk_receive = (\<lambda>c. on_bus (\<lambda>b. case bus_inbox b of
         [] \<Rightarrow> (Inl (DriverError ''no message''), b)
       | d # rest \<Rightarrow> (Inr d, b\<lparr>bus_inbox := rest\<rparr>))),
     bk_ack = (\<lambda>c d. on_bus (\<lambda>b. (None, b\<lparr>bus_acks := dl_ID d # bus_acks b\<rparr>))),
     bk_nack = (\<lambda>c d w. w\<lparr>wd_bus := (wd_bus w)\<lparr>bus_nacks := dl_ID d # bus_nacks (wd_bus w)\<rparr>\<rparr>),
     bk_close_producer = (\<lambda>p w. w), bk_close_consumer = (\<lambda>c w. w),
     bk_close_client = (\<lambda>w. w\<lparr>wd_bus := (wd_bus w)\<lparr>bus_clients := bus_clients (wd_bus w) - 1\<rparr>\<rparr>)\<rparr>"

abbreviation world_jobs :: "world \<Rightarrow> string \<Rightarrow> job option" where
  "world_jobs w \<equiv> mem_coll (wd_db w)"

lemma on_busE:
  assumes "on_bus f w = (r, w')"
  obtains b where "f (wd_bus w) = (r, b)" "w' = w\<lparr>wd_bus := b\<rparr>"
  using assms by (auto simp: on_bus_def along_def split: prod.splits)

lemma fresh_handle_frame:
  "on_bus fresh_handle w = (r, w') \<Longrightarrow>
   world_jobs w' = world_jobs w \<and> bus_acks (wd_bus w') = bus_acks (wd_bus w)
     \<and> bus_nacks (wd_bus w') = bus_nacks (wd_bus w)"
  by (auto simp: fresh_handle_def bus_scripted_def elim!: on_busE
      split: prod.splits list.splits option.splits)

interpretation mem_bus: broker mem_broker world_jobs
  "\<lambda>w. bus_acks (wd_bus w)" "\<lambda>w. bus_nacks (wd_bus w)"
  by unfold_locales
    (auto simp: mem_broker_def bus_scripted_def fresh_handle_frame elim!: on_busE
      split: prod.splits list.splits option.splits)

section \<open>Properties\<close>

text \<open>
  C19. Every delivery the consumer handles is settled exactly once, by one acknowledgement or
  one negative acknowledgement, never both and never neither: it is given back exactly when
  it is a valid envelope and the handler returned an error for its fields.
\<close>

theorem delivery_settled_exactly_once:
  assumes "broker bk jobs acks nacks"
    and "\<And>i n p s r s'. handler i n p s = (r, s') \<Longrightarrow> acks s' = acks s \<and> nacks s' = nacks s"
  shows "let s' = handleMessage bk c m handler s;
             back = (case Unmarshal (dl_Payload m) of
                       Inl e \<Rightarrow> False
                     | Inr jm \<Rightarrow> fst (handler (msg_JobID jm) (msg_Name jm) (msg_Payload jm) s) \<noteq> None)
         in acks s' = (if back then acks s else dl_ID m # acks s)
          \<and> nacks s' = (if back then dl_ID m # nacks s else nacks s)"
proof (cases "Unmarshal (dl_Payload m)")
  case (Inl e)
  obtain r s' where a: "bk_ack bk c m s = (r, s')" by fastforce
  with Inl broker.ack_effect [OF assms(1) a] show ?thesis by (simp add: handleMessage_def)
next
  case (Inr jm)
  then have v: "msg_validate jm = None" by (rule Unmarshal_validates)
  obtain h s1 where h: "handler (msg_JobID jm) (msg_Name jm) (msg_Payload jm) s = (h, s1)" by fastforce
  obtain r s' where a: "bk_ack bk c m s1 = (r, s')" by fastforce
  from assms(2) [OF h] broker.ack_effect [OF assms(1) a] broker.nack_effect [OF assms(1), of c m s1]
  show ?thesis using Inr v h a by (cases h) (simp_all add: handleMessage_def)
qed

theorem delivery_settled_exactly_once_witness:
  "bus_nacks (wd_bus (handleMessage mem_broker 0
     \<lparr>dl_ID = 7, dl_Payload = Json (JObj [(''jobId'', JStr ''a''), (''NAME'', JStr ''b'')])\<rparr>
     (\<lambda>i n p s. (Some (ErrorString ''later''), s)) (world_with mem_empty))) = [7]"
proof -
  let ?m = "\<lparr>dl_ID = 7, dl_Payload = Json (JObj [(''jobId'', JStr ''a''), (''NAME'', JStr ''b'')])\<rparr>"
  let ?h = "\<lambda>(i :: string) (n :: string) (p :: raw_message) (s :: world). (Some (ErrorString ''later''), s)"
  have "(case Unmarshal (dl_Payload ?m) of Inl e \<Rightarrow> False | Inr jm \<Rightarrow> True)" by code_simp
  then show ?thesis
    using delivery_settled_exactly_once [OF mem_bus.broker_axioms, of ?h 0 ?m "(world_with mem_empty)"]
    by (auto simp: world_with_def bus_empty_def Let_def split: sum.splits)
qed

end
