(* ===== verification/DispatchRuntime.thy ===== *)
theory DispatchRuntime
  imports Stream Pulsar
begin

text \<open>
  \<open>internal/jobs/dispatchruntime\<close>: the assembled dispatcher process, with its configuration
  (\<open>config.go\<close>), its construction and its shutdown (\<open>runtime.go\<close>), and \<open>DispatchWorker.Run\<close>,
  which runs the two triggers side by side.

  The state of the process is the cache of its producer, its Pulsar client and the world. The
  adapters of the database run on the world inside it.
\<close>

section \<open>The process\<close>

type_synonym 's process = "producers \<times> PulsarClient \<times> 's"

definition process_world :: "'s process \<Rightarrow> 's" where
  "process_world p = snd (snd p)"

definition process_put :: "'s \<Rightarrow> 's process \<Rightarrow> 's process" where
  "process_put s p = (fst p, fst (snd p), s)"

interpretation process: embedding process_world process_put
  by unfold_locales (simp_all add: process_world_def process_put_def)

text \<open>The adapters of a world, in the process.\<close>

definition in_process :: "'s backend \<Rightarrow> 's process backend" where
  "in_process B = lift_backend process_world process_put B"

definition token_store_in_process :: "'s ResumeTokenStore \<Rightarrow> 's process ResumeTokenStore" where
  "token_store_in_process T =
     \<lparr>ts_Load = along process_world process_put (ts_Load T),
      ts_Save = (\<lambda>t. along process_world process_put (ts_Save T t))\<rparr>"

section \<open>Configuration\<close>

record StreamConfig =
  sc_MaxPoolSize :: nat
  sc_ResumeTokenPath :: string

record RuntimeConfig =
  rc_Mongo :: MongoConfig
  rc_Worker :: WorkerConfig
  rc_Pulsar :: PulsarConfig
  rc_Stream :: StreamConfig

definition ConfigFromEnv ::
  "MongoConfig \<Rightarrow> PulsarConfig \<Rightarrow> MongoDispatchWorkerConfig \<Rightarrow> RuntimeConfig" where
  "ConfigFromEnv mongo pulsar dispatchCfg =
     \<lparr>rc_Mongo = mongo,
      rc_Worker = \<lparr>wc_PollInterval = dw_PollInterval dispatchCfg,
                   wc_BatchSize = dw_BatchSize dispatchCfg,
                   wc_MaxAttempts = dw_MaxAttempts dispatchCfg\<rparr>,
      rc_Pulsar = pulsar,
      rc_Stream = \<lparr>sc_MaxPoolSize = dw_StreamMaxPoolSize dispatchCfg,
                   sc_ResumeTokenPath = dw_StreamMongoDBResumeTokenPath dispatchCfg\<rparr>\<rparr>"

section \<open>The worker\<close>

text \<open>A stream runner is the \<open>Run\<close> of its goroutine, cut into the pieces the schedule names.\<close>

type_synonym 't StreamRunner = "'t \<Rightarrow> 't"

record 't DispatchWorker =
  dk_cfg :: WorkerConfig
  dk_handler :: "JobDispatchProjection \<Rightarrow> ('t, goerror option) op"
  dk_pending :: "'t PendingJobFetcher"
  dk_stream :: "'t StreamRunner"

definition NewDispatchWorker ::
  "WorkerConfig \<Rightarrow> (JobDispatchProjection \<Rightarrow> ('t, goerror option) op) \<Rightarrow> 't PendingJobFetcher
     \<Rightarrow> 't StreamRunner \<Rightarrow> 't DispatchWorker" where
  "NewDispatchWorker cfg handler pending stream =
     \<lparr>dk_cfg = cfg, dk_handler = handler, dk_pending = pending, dk_stream = stream\<rparr>"

text \<open>
  \<open>Run\<close>: the goroutine of the stream and the poll loop, in the order the schedule gives their
  turns. A turn of the stream is one stream from opening to its end, a turn of the poll loop
  one poll; each turn runs alone here.
\<close>

datatype trigger = PollTurn | StreamTurn

fun DispatchWorker_Run :: "trigger list \<Rightarrow> 't DispatchWorker \<Rightarrow> 't \<Rightarrow> 't" where
  "DispatchWorker_Run [] w s = s"
| "DispatchWorker_Run (PollTurn # schedule) w s =
     DispatchWorker_Run schedule w (pollOnce (dk_cfg w) (dk_handler w) (dk_pending w) s)"
| "DispatchWorker_Run (StreamTurn # schedule) w s = DispatchWorker_Run schedule w (dk_stream w s)"

section \<open>Construction\<close>

text \<open>
  What the process is built from: the broker, the connector of the database, the change stream
  of a collection and the file system, all on the world.
\<close>

record 's environment =
  en_broker :: "'s broker"
  en_connector :: "'s connector"
  en_watch :: "collection \<Rightarrow> 's watch"
  en_token_file :: "string \<Rightarrow> 's ResumeTokenStore"

record 't Options =
  op_Publisher :: "'t JobDispatchPublisher option"
  op_ResumeTokens :: "'t ResumeTokenStore option"
  op_StreamRunner :: "'t StreamRunner option"
  op_PendingFetcher :: "'t PendingJobFetcher option"

text \<open>
  Which of the resources the runtime has to release; the Pulsar client and the producer
  themselves are parts of the process state.
\<close>

record 't Runtime =
  rt_Worker :: "'t DispatchWorker option"
  rt_pulsarClient :: bool
  rt_producer :: bool
  rt_watchClient :: "nat option"

definition closePartial ::
  "'s environment \<Rightarrow> 's process Runtime \<Rightarrow> 's process \<Rightarrow> goerror option \<times> 's process Runtime \<times> 's process" where
  "closePartial E r st =
     (let st1 = (if rt_producer r then PulsarJobProducer_Close st else st);
          (cache, cs) = st1;
          (c, s) = (if rt_pulsarClient r then PulsarClient_Close (en_broker E) cs else cs);
          r1 = r\<lparr>rt_producer := False, rt_pulsarClient := False\<rparr>
      in case rt_watchClient r of
           None \<Rightarrow> (None, r1, (cache, c, s))
         | Some w \<Rightarrow>
             (case mc_disconnect (en_connector E) w s of
                (err, s1) \<Rightarrow> (err, r1\<lparr>rt_watchClient := None\<rparr>, (cache, c, s1))))"

definition lift_watch :: "'s watch \<Rightarrow> 's process watch" where
  "lift_watch watch pipe token = along process_world process_put (watch pipe token)"

text \<open>The publisher: the injected one, or a producer on a new client.\<close>

definition choose_publisher ::
  "'s environment \<Rightarrow> RuntimeConfig \<Rightarrow> 's process Options \<Rightarrow> 's process Runtime
     \<Rightarrow> ('s process, goerror + 's process JobDispatchPublisher \<times> 's process Runtime) op" where
  "choose_publisher E cfg opts r st =
     (case op_Publisher opts of
        Some p \<Rightarrow> (Inr (p, r), st)
      | None \<Rightarrow>
          (case st of (cache, c, s) \<Rightarrow>
           case NewPulsarClient (en_broker E) (rc_Pulsar cfg) s of
             (Inl err, s1) \<Rightarrow> (Inl (wrap ''connect pulsar'' err), (cache, c, s1))
           | (Inr client, s1) \<Rightarrow>
               (Inr (PulsarJobPublisher_Publish (PulsarJobProducer_Publish (en_broker E)),
                     r\<lparr>rt_pulsarClient := True, rt_producer := True\<rparr>),
                (NewPulsarJobProducer, client, s1))))"

definition New ::
  "'s environment \<Rightarrow> RuntimeConfig \<Rightarrow> 's process backend option \<Rightarrow> 's process MetadataService option
     \<Rightarrow> 's process Options \<Rightarrow> ('s process, goerror + 's process Runtime) op" where
  "New E cfg metadataColl metadataSvc opts st =
     (case (metadataColl, metadataSvc) of
        (None, _) \<Rightarrow> (Inl (ErrorString ''metadata collection is required''), st)
      | (Some coll, None) \<Rightarrow> (Inl (ErrorString ''metadata service is required''), st)
      | (Some coll, Some svc) \<Rightarrow>
     (case choose_publisher E cfg opts
             \<lparr>rt_Worker = None, rt_pulsarClient = False, rt_producer = False, rt_watchClient = None\<rparr> st of
        (Inl err, st1) \<Rightarrow> (Inl err, st1)
      | (Inr (publisher, r), st1) \<Rightarrow>
          (let handler = HandleDispatch (wc_MaxAttempts (rc_Worker cfg)) publisher (service_updater svc);
               pending = (case op_PendingFetcher opts of Some f \<Rightarrow> f | None \<Rightarrow> FetchPending coll)
           in case op_StreamRunner opts of
                Some runner \<Rightarrow>
                  (Inr (r\<lparr>rt_Worker := Some (NewDispatchWorker (rc_Worker cfg) handler pending runner)\<rparr>), st1)
              | None \<Rightarrow>
                  (case along process_world process_put
                          (OpenMongoWatchClient (en_connector E) (rc_Mongo cfg)
                             (sc_MaxPoolSize (rc_Stream cfg))) st1 of
                     (Inl err, st2) \<Rightarrow>
                       (case closePartial E r st2 of
                          (cerr, _, st3) \<Rightarrow>
                            (let e = wrap ''open change stream watch client'' err
                             in (Inl (case cerr of None \<Rightarrow> e | Some c \<Rightarrow> Joined e c), st3)))
                   | (Inr (watchClient, watchColl), st2) \<Rightarrow>
                       (let tokens = (case op_ResumeTokens opts of
                              Some t \<Rightarrow> t
                            | None \<Rightarrow>
                                if sc_ResumeTokenPath (rc_Stream cfg) \<noteq> []
                                then token_store_in_process (en_token_file E (sc_ResumeTokenPath (rc_Stream cfg)))
                                else NopResumeTokenStore);
                            watcher = NewStreamWatcher (lift_watch (en_watch E watchColl)) handler (Some tokens);
                            runner = (\<lambda>s. snd (runOnce watcher s))
                        in (Inr (r\<lparr>rt_watchClient := Some watchClient,
                                  rt_Worker := Some (NewDispatchWorker (rc_Worker cfg) handler pending runner)\<rparr>),
                            st2))))))"

definition Runtime_Run :: "trigger list \<Rightarrow> 't Runtime \<Rightarrow> 't \<Rightarrow> 't" where
  "Runtime_Run schedule r s =
     (case rt_Worker r of None \<Rightarrow> s | Some w \<Rightarrow> DispatchWorker_Run schedule w s)"

definition Runtime_Close ::
  "'s environment \<Rightarrow> 's process Runtime \<Rightarrow> 's process \<Rightarrow> goerror option \<times> 's process Runtime \<times> 's process" where
  "Runtime_Close E r st = closePartial E r st"

section \<open>Resources\<close>

text \<open>
  \<open>clients s\<close> counts the open clients of the broker, \<open>opened s\<close> is the set of open clients of the
  database. No operation of one touches the other.
\<close>

locale runtime_resources = connections "en_connector E" opened
  for E :: "'s environment" and opened :: "'s \<Rightarrow> nat set" +
  fixes clients :: "'s \<Rightarrow> nat"
  assumes pulsar_connected: "bk_connect (en_broker E) url s = (None, s') \<Longrightarrow>
      clients s' = Suc (clients s) \<and> opened s' = opened s"
    and pulsar_refused: "bk_connect (en_broker E) url s = (Some e, s') \<Longrightarrow>
      clients s' = clients s \<and> opened s' = opened s"
    and pulsar_closed: "clients (bk_close_client (en_broker E) s) = clients s - 1"
      "opened (bk_close_client (en_broker E) s) = opened s"
    and consumer_closed: "clients (bk_close_consumer (en_broker E) k s) = clients s"
      "opened (bk_close_consumer (en_broker E) k s) = opened s"
    and producer_closed: "clients (bk_close_producer (en_broker E) k s) = clients s"
      "opened (bk_close_producer (en_broker E) k s) = opened s"
    and mongo_connect: "mc_connect (en_connector E) o' s = (rc, s') \<Longrightarrow> clients s' = clients s"
    and mongo_ping: "mc_ping (en_connector E) c s = (rp, s') \<Longrightarrow> clients s' = clients s"
    and mongo_disconnect: "mc_disconnect (en_connector E) c s = (rp, s') \<Longrightarrow> clients s' = clients s"
begin

abbreviation held :: "'s process \<Rightarrow> nat \<times> nat set" where
  "held p \<equiv> (clients (process_world p), opened (process_world p))"

lemma folds_frame:
  "clients (fold (bk_close_consumer (en_broker E)) ks s) = clients s"
  "opened (fold (bk_close_consumer (en_broker E)) ks s) = opened s"
  "clients (fold (bk_close_producer (en_broker E)) ks s) = clients s"
  "opened (fold (bk_close_producer (en_broker E)) ks s) = opened s"
  by (induction ks arbitrary: s) (simp_all add: consumer_closed producer_closed)

lemma client_close:
  assumes "PulsarClient_Close (en_broker E) (c, s) = (c', s')"
  shows "clients s' = (if pc_connected c then clients s - 1 else clients s) \<and> opened s' = opened s
    \<and> \<not> pc_connected c'"
  using assms by (auto simp: PulsarClient_Close_def Let_def folds_frame pulsar_closed)

text \<open>What shutting down gives back: the broker client and the watch client.\<close>

lemma closePartial_held:
  assumes "closePartial E r (cache, c, s) = (err, r', st')" and "rt_pulsarClient r \<longrightarrow> pc_connected c"
  shows "held st' = ((if rt_pulsarClient r then clients s - 1 else clients s),
      (case rt_watchClient r of None \<Rightarrow> opened s | Some w \<Rightarrow> opened s - {w}))"
proof -
  obtain c1 s1 where c1: "(if rt_pulsarClient r then PulsarClient_Close (en_broker E) (c, s) else (c, s)) = (c1, s1)"
    by fastforce
  have s1: "clients s1 = (if rt_pulsarClient r then clients s - 1 else clients s) \<and> opened s1 = opened s"
  proof (cases "rt_pulsarClient r")
    case True
    with c1 have "PulsarClient_Close (en_broker E) (c, s) = (c1, s1)" by (simp only: if_True)
    from client_close [OF this] True assms(2) show ?thesis by (simp only: if_True simp_thms)
  next
    case False
    with c1 show ?thesis by simp
  qed
  have "(if rt_producer r then PulsarJobProducer_Close (cache, c, s) else (cache, c, s))
      = ((if rt_producer r then [] else cache), c, s)"
    by (simp add: PulsarJobProducer_Close_def)
  note run = assms(1) [unfolded closePartial_def this Let_def prod.case c1]
  show ?thesis
  proof (cases "rt_watchClient r")
    case None
    with run have "st' = ((if rt_producer r then [] else cache), c1, s1)" by simp
    with None s1 show ?thesis by (simp add: process_world_def)
  next
    case (Some w)
    obtain e s2 where d: "mc_disconnect (en_connector E) w s1 = (e, s2)" by fastforce
    from run d Some have "st' = ((if rt_producer r then [] else cache), c1, s2)" by simp
    with disconnect_ok [OF d] mongo_disconnect [OF d] s1 Some
    show ?thesis by (simp add: process_world_def)
  qed
qed

lemma watch_clients:
  "OpenMongoWatchClient (en_connector E) cfg n s = (r, s') \<Longrightarrow> clients s' = clients s"
  by (auto simp: OpenMongoWatchClient_def Let_def
      dest!: mongo_connect mongo_ping mongo_disconnect split: prod.splits sum.splits option.splits)

lemma choose_cases:
  assumes "choose_publisher E cfg opts r st = (x, st')"
  obtains (injected) p where "x = Inr (p, r)" "st' = st"
    | (refused) e e' where "x = Inl e"
        "bk_connect (en_broker E) (pu_ServiceURL (rc_Pulsar cfg)) (process_world st) = (Some e', process_world st')"
    | (connected) p where "x = Inr (p, r\<lparr>rt_pulsarClient := True, rt_producer := True\<rparr>)"
        "bk_connect (en_broker E) (pu_ServiceURL (rc_Pulsar cfg)) (process_world st) = (None, process_world st')"
        "pc_connected (fst (snd st'))"
proof (cases "op_Publisher opts")
  case (Some p)
  with assms show thesis by (intro injected) (auto simp: choose_publisher_def)
next
  case None
  obtain cache c s where st: "st = (cache, c, s)" by (metis prod.exhaust)
  obtain y s1 where y: "bk_connect (en_broker E) (pu_ServiceURL (rc_Pulsar cfg)) s = (y, s1)" by fastforce
  note run = assms [unfolded choose_publisher_def None st NewPulsarClient_def]
  show thesis
  proof (cases y)
    case (Some e')
    with run y st show thesis by (intro refused [of _ e']) (auto simp: process_world_def)
  next
    case None
    with run y st show thesis by (intro connected) (auto simp: process_world_def)
  qed
qed

lemma choose_failed:
  "choose_publisher E cfg opts r st = (Inl e, st') \<Longrightarrow> held st' = held st"
  by (erule choose_cases) (simp_all add: pulsar_refused)

lemma choose_ok:
  assumes "choose_publisher E cfg opts r st = (Inr (p, r'), st')" and "\<not> rt_pulsarClient r"
  shows "rt_watchClient r' = rt_watchClient r
    \<and> held st' = (if rt_pulsarClient r' then Suc (fst (held st)) else fst (held st), snd (held st))
    \<and> (rt_pulsarClient r' \<longrightarrow> pc_connected (fst (snd st')))"
  using assms(1)
proof (cases rule: choose_cases)
  case (connected p')
  with pulsar_connected [OF connected(2)] show ?thesis by simp
qed (use assms(2) in auto)

lemma along_run:
  assumes "along process_world process_put f st = (x, st')"
  obtains s' where "f (process_world st) = (x, s')" "st' = process_put s' st"
  using assms by (auto simp: along_def split: prod.splits)

lemma put_simps [simp]:
  "process_world (process_put s st) = s" "fst (snd (process_put s st)) = fst (snd st)"
  by (simp_all add: process_world_def process_put_def)

text \<open>What a new runtime holds beyond what was held before, and what it will release.\<close>

lemma New_held:
  assumes "New E cfg coll svc opts st = (x, st')"
  shows "case x of
      Inl e \<Rightarrow> held st' = held st
    | Inr r \<Rightarrow>
        clients (process_world st') = (if rt_pulsarClient r then Suc (clients (process_world st))
                                       else clients (process_world st))
      \<and> (rt_pulsarClient r \<longrightarrow> pc_connected (fst (snd st')))
      \<and> (case rt_watchClient r of
           None \<Rightarrow> opened (process_world st') = opened (process_world st)
         | Some w \<Rightarrow> w \<notin> opened (process_world st)
             \<and> opened (process_world st') = insert w (opened (process_world st)))"
proof (cases "coll = None \<or> svc = None")
  case True
  with assms show ?thesis by (auto simp: New_def split: option.splits)
next
  case False
  then obtain cl sv where some: "coll = Some cl" "svc = Some sv" by auto
  define r0 :: "'s process Runtime" where
    "r0 = \<lparr>rt_Worker = None, rt_pulsarClient = False, rt_producer = False, rt_watchClient = None\<rparr>"
  obtain y st1 where y: "choose_publisher E cfg opts r0 st = (y, st1)" by (metis prod.exhaust)
  note run = assms [unfolded New_def some option.case prod.case, folded r0_def, unfolded y prod.case]
  show ?thesis
  proof (cases y)
    case (Inl e)
    with run have "x = Inl e" "st' = st1" by simp_all
    with choose_failed [OF y [unfolded Inl]] show ?thesis by simp
  next
    case (Inr pr)
    obtain pub r where pr: "pr = (pub, r)" by fastforce
    have c: "rt_watchClient r = None"
      "held st1 = (if rt_pulsarClient r then Suc (fst (held st)) else fst (held st), snd (held st))"
      "rt_pulsarClient r \<longrightarrow> pc_connected (fst (snd st1))"
      using choose_ok [OF y [unfolded Inr pr]] by (simp_all add: r0_def)
    show ?thesis
    proof (cases "op_StreamRunner opts")
      case (Some runner)
      with run Inr pr c show ?thesis by (auto simp: Let_def)
    next
      case None
      obtain w s2 where w: "OpenMongoWatchClient (en_connector E) (rc_Mongo cfg)
          (sc_MaxPoolSize (rc_Stream cfg)) (process_world st1) = (w, s2)" by fastforce
      let ?st2 = "process_put s2 st1"
      have cl: "clients s2 = clients (process_world st1)" by (rule watch_clients [OF w])
      from watch_opens w have o: "case w of
          Inl e \<Rightarrow> opened s2 = opened (process_world st1)
        | Inr x \<Rightarrow> fst x \<notin> opened (process_world st1) \<and> opened s2 = insert (fst x) (opened (process_world st1))"
        by (simp add: opens_def)
      have al: "along process_world process_put (OpenMongoWatchClient (en_connector E) (rc_Mongo cfg)
          (sc_MaxPoolSize (rc_Stream cfg))) st1 = (w, ?st2)"
        using w by (simp add: along_def)
      note run' = run [unfolded Inr pr sum.case prod.case None option.case al Let_def]
      show ?thesis
      proof (cases w)
        case (Inl e)
        obtain err r' st3 where k: "closePartial E r ?st2 = (err, r', st3)" by (metis prod.exhaust)
        have st2: "?st2 = (fst st1, fst (snd st1), s2)" by (simp add: process_put_def)
        from closePartial_held [OF k [unfolded st2] c(3)] c cl o Inl
        have "held st3 = held st" by (cases "rt_pulsarClient r") simp_all
        moreover have "x = Inl (case err of None \<Rightarrow> wrap ''open change stream watch client'' e
            | Some c \<Rightarrow> Joined (wrap ''open change stream watch client'' e) c) \<and> st' = st3"
          using run' Inl k by simp
        ultimately show ?thesis by simp
      next
        case (Inr wc)
        obtain wcl wcoll where "wc = (wcl, wcoll)" by (cases wc)
        with run' Inr c cl o show ?thesis by auto
      qed
    qed
  qed
qed

lemma New_Close_held:
  assumes new: "New E cfg coll svc opts st = (Inr r, st1)"
    and same: "held st2 = held st1" "pc_connected (fst (snd st2)) = pc_connected (fst (snd st1))"
    and close: "Runtime_Close E r st2 = (err, r', st3)"
  shows "held st3 = held st"
proof -
  obtain cache c s where st2: "st2 = (cache, c, s)" by (metis prod.exhaust)
  note n = New_held [OF new, unfolded sum.case]
  have "rt_pulsarClient r \<longrightarrow> pc_connected c" using n same(2) st2 by simp
  from closePartial_held [OF close [unfolded Runtime_Close_def st2] this]
  have h: "held st3 = (if rt_pulsarClient r then clients s - 1 else clients s,
      case rt_watchClient r of None \<Rightarrow> opened s | Some w \<Rightarrow> opened s - {w})" .
  have s: "clients s = clients (process_world st1)" "opened s = opened (process_world st1)"
    using same(1) st2 by (simp_all add: process_world_def)
  from n h s show ?thesis by (auto split: option.splits)
qed

end

section \<open>The dispatcher over any world\<close>

text \<open>
  A world with the database and the broker in it: the assembled process has a saga, and its
  poll loop, its stream and its tokens keep the contracts of the components.
\<close>

abbreviation pulsar_publisher :: "'s broker \<Rightarrow> 's process JobDispatchPublisher" where
  "pulsar_publisher bk \<equiv> PulsarJobPublisher_Publish (PulsarJobProducer_Publish bk)"

abbreviation process_jobs :: "('s \<Rightarrow> string \<Rightarrow> job option) \<Rightarrow> 's process \<Rightarrow> string \<Rightarrow> job option" where
  "process_jobs jobs \<equiv> \<lambda>p. jobs (process_world p)"

locale dispatcher = mongo_backend B jobs logs + broker bk jobs acks nacks
  for B :: "'s backend" and jobs :: "'s \<Rightarrow> string \<Rightarrow> job option" and logs :: "'s \<Rightarrow> JobLog list"
    and bk :: "'s broker" and acks nacks :: "'s \<Rightarrow> nat list" +
  fixes cfg :: WorkerConfig
begin

lemma pulsar_jobs_eq: "pulsar_jobs = process_jobs jobs"
  by (rule ext) (simp add: pulsar_jobs_def process_world_def)

lemma process_publisher: "job_publisher (pulsar_publisher bk) (process_jobs jobs)"
  using producer.publisher.job_publisher_axioms by (simp only: pulsar_jobs_eq)

lemma process_backend: "mongo_backend (in_process B) (process_jobs jobs) (\<lambda>p. logs (process_world p))"
  unfolding in_process_def by (rule process.lifted_contract [OF mongo_backend_axioms])

end

sublocale dispatcher \<subseteq> assembled: dispatch_worker
  "service_updater (mongo_service (in_process B))" "pulsar_publisher bk" "FetchPending (in_process B)"
  "process_jobs jobs" cfg
proof (rule dispatch_worker.intro)
  show "dispatch_saga (service_updater (mongo_service (in_process B))) (pulsar_publisher bk) (process_jobs jobs)"
    by (rule saga_worker [OF process_backend process_publisher])
  show "pending_fetcher (FetchPending (in_process B)) (process_jobs jobs)"
    by (rule mongo_backend.fetcher [OF process_backend])
qed

section \<open>The reference world\<close>

definition world_backend :: "world backend" where
  "world_backend = lift_backend wd_db (\<lambda>m w. w\<lparr>wd_db := m\<rparr>) mem_backend"

definition world_connector :: "world connector" where
  "world_connector = \<lparr>
     mc_connect = (\<lambda>opts. along wd_cluster (\<lambda>c w. w\<lparr>wd_cluster := c\<rparr>) (mc_connect mem_connector opts)),
     mc_ping = (\<lambda>c. along wd_cluster (\<lambda>c w. w\<lparr>wd_cluster := c\<rparr>) (mc_ping mem_connector c)),
     mc_disconnect = (\<lambda>c. along wd_cluster (\<lambda>c w. w\<lparr>wd_cluster := c\<rparr>) (mc_disconnect mem_connector c)),
     mc_index_names = (\<lambda>c. along wd_cluster (\<lambda>c w. w\<lparr>wd_cluster := c\<rparr>) (mc_index_names mem_connector c))\<rparr>"

definition world_env :: "world environment" where
  "world_env = \<lparr>en_broker = mem_broker, en_connector = world_connector,
     en_watch = (\<lambda>coll pipe t w. (Inr \<lparr>st_events = [], st_err = None, st_close = None\<rparr>, w)),
     en_token_file = (\<lambda>path. \<lparr>ts_Load = along wd_files (\<lambda>f w. w\<lparr>wd_files := f\<rparr>) (FileStore_Load quoted path),
        ts_Save = (\<lambda>t. along wd_files (\<lambda>f w. w\<lparr>wd_files := f\<rparr>) (FileStore_Save quoted path t))\<rparr>)\<rparr>"

interpretation world_db: embedding wd_db "\<lambda>m w. w\<lparr>wd_db := m\<rparr>"
  by unfold_locales simp_all

interpretation world_cluster: embedding wd_cluster "\<lambda>c w. w\<lparr>wd_cluster := c\<rparr>"
  by unfold_locales simp_all

lemma world_backend_contract: "mongo_backend world_backend world_jobs (\<lambda>w. mem_logs (wd_db w))"
  unfolding world_backend_def by (rule world_db.lifted_contract [OF mem.mongo_backend_axioms])

interpretation mem_dispatcher: dispatcher world_backend world_jobs "\<lambda>w. mem_logs (wd_db w)"
  mem_broker "\<lambda>w. bus_acks (wd_bus w)" "\<lambda>w. bus_nacks (wd_bus w)" cfg for cfg
  by (intro dispatcher.intro world_backend_contract mem_bus.broker_axioms)

lemma on_cluster:
  assumes "along wd_cluster (\<lambda>c w. w\<lparr>wd_cluster := c\<rparr>) f w = (r, w')"
  shows "f (wd_cluster w) = (r, wd_cluster w')" "wd_bus w' = wd_bus w"
  using assms by (auto simp: along_def split: prod.splits)

lemma world_env_simps [simp]:
  "en_broker world_env = mem_broker" "en_connector world_env = world_connector"
  by (simp_all add: world_env_def)

lemma mem_broker_clients:
  "bk_connect mem_broker url s = (r, s') \<Longrightarrow>
     wd_cluster s' = wd_cluster s
     \<and> bus_clients (wd_bus s') = (if r = None then Suc (bus_clients (wd_bus s)) else bus_clients (wd_bus s))"
  "bk_close_client mem_broker s = s\<lparr>wd_bus := (wd_bus s)\<lparr>bus_clients := bus_clients (wd_bus s) - 1\<rparr>\<rparr>"
  "bk_close_consumer mem_broker k s = s" "bk_close_producer mem_broker k s = s"
  by (auto simp: mem_broker_def bus_scripted_def elim!: on_busE split: list.splits option.splits)

lemma world_connector_calls:
  "mc_connect world_connector opts s = (rc, s') \<Longrightarrow>
     mc_connect mem_connector opts (wd_cluster s) = (rc, wd_cluster s') \<and> wd_bus s' = wd_bus s"
  "mc_ping world_connector c s = (r, s') \<Longrightarrow>
     mc_ping mem_connector c (wd_cluster s) = (r, wd_cluster s') \<and> wd_bus s' = wd_bus s"
  "mc_disconnect world_connector c s = (r, s') \<Longrightarrow>
     mc_disconnect mem_connector c (wd_cluster s) = (r, wd_cluster s') \<and> wd_bus s' = wd_bus s"
  "mc_index_names world_connector coll s = (ri, s') \<Longrightarrow>
     mc_index_names mem_connector coll (wd_cluster s) = (ri, wd_cluster s') \<and> wd_bus s' = wd_bus s"
  unfolding world_connector_def connector.select_convs by (blast dest: on_cluster)+

interpretation mem_resources: runtime_resources world_env "\<lambda>w. ct_opened (wd_cluster w)"
  "\<lambda>w. bus_clients (wd_bus w)"
proof (unfold_locales, unfold world_env_simps)
  show "mc_connect world_connector opts s = (Inl e, s') \<Longrightarrow>
      ct_opened (wd_cluster s') = ct_opened (wd_cluster s)" for opts s e s'
    using world_connector_calls(1) mem_cluster.connect_failed by blast
  show "mc_connect world_connector opts s = (Inr c, s') \<Longrightarrow>
      c \<notin> ct_opened (wd_cluster s) \<and> ct_opened (wd_cluster s') = insert c (ct_opened (wd_cluster s))"
    for opts s c s'
    using world_connector_calls(1) mem_cluster.connect_ok by blast
  show "mc_ping world_connector c s = (r, s') \<Longrightarrow> ct_opened (wd_cluster s') = ct_opened (wd_cluster s)"
    for c s r s'
    using world_connector_calls(2) mem_cluster.ping_frame by blast
  show "mc_disconnect world_connector c s = (r, s') \<Longrightarrow>
      ct_opened (wd_cluster s') = ct_opened (wd_cluster s) - {c}" for c s r s'
    using world_connector_calls(3) mem_cluster.disconnect_ok by blast
  show "mc_index_names world_connector coll s = (ri, s') \<Longrightarrow>
      ct_opened (wd_cluster s') = ct_opened (wd_cluster s)" for coll s ri s'
    using world_connector_calls(4) mem_cluster.index_frame by blast
qed (auto simp: mem_broker_clients(2-4) dest: mem_broker_clients(1) world_connector_calls)

text \<open>The token files of the world, as the dispatcher uses them.\<close>

lemma token_file_contract:
  "durable_token_store (token_store_in_process (en_token_file world_env path))
     (\<lambda>p. file_token quoted path (wd_files (process_world p)))"
proof -
  let ?T = "token_store_in_process (en_token_file world_env path)"
  have load: "\<exists>f. FileStore_Load quoted path (wd_files (process_world s)) = (r, f)
      \<and> wd_files (process_world s') = f" if "ts_Load ?T s = (r, s')" for s r s'
    using that by (auto simp: token_store_in_process_def world_env_def along_def split: prod.splits)
  have save: "\<exists>f. FileStore_Save quoted path t (wd_files (process_world s)) = (r, f)
      \<and> wd_files (process_world s') = f" if "ts_Save ?T t s = (r, s')" for t s r s'
    using that by (auto simp: token_store_in_process_def world_env_def along_def split: prod.splits)
  note laws = quoted.file_store.load_frame [of path] quoted.file_store.load_stored [of path]
    quoted.file_store.save_old_or_new [of path] quoted.file_store.save_stored [of path]
  show ?thesis
    by unfold_locales
      (use load save laws in \<open>fastforce simp: FileResumeTokenStore_def\<close>)+
qed

text \<open>Neither the database nor the broker touches the files.\<close>

abbreviation files :: "world process \<Rightarrow> filesystem" where
  "files p \<equiv> wd_files (process_world p)"

lemma on_db_files:
  "along process_world process_put (along wd_db (\<lambda>m w. w\<lparr>wd_db := m\<rparr>) f) p = (r, p') \<Longrightarrow> files p' = files p"
  by (auto simp: along_def process_put_def process_world_def split: prod.splits)

lemma update_files:
  "be_now (in_process world_backend) p = (t, p') \<Longrightarrow> files p' = files p"
  "be_update_one (in_process world_backend) q u p = (r, p') \<Longrightarrow> files p' = files p"
  "be_log_insert_one (in_process world_backend) l p = (x, p') \<Longrightarrow> files p' = files p"
  by (auto simp: in_process_def world_backend_def lift_backend_def dest: on_db_files)

lemma updater_files:
  assumes "U = service_updater (mongo_service (in_process world_backend))"
  shows "up_MarkJobDispatched U k p = (r, p') \<Longrightarrow> files p' = files p"
    and "up_RecordDispatchAttempt U k n msg p = (r, p') \<Longrightarrow> files p' = files p"
    and "up_MarkJobDispatchFailed U k err p = (r, p') \<Longrightarrow> files p' = files p"
  unfolding assms service_updater_def JobUpdater.select_convs MarkJobDispatched_def
    RecordDispatchAttempt_def MarkJobDispatchFailed_def
  by (auto simp: mem_adapters NewMetadataService_def NewJobLogWithSource_def NewJobLog_def
      dest!: update_files split: prod.splits sum.splits option.splits if_splits)

text \<open>The operations of the dispatcher on the whole are its operations on the part.\<close>

context embedding
begin

lemma lifted_dispatcher:
  fixes B :: "'s backend"
  defines "V \<equiv> service_updater (mongo_service (lift_backend get put B))"
    and "U \<equiv> service_updater (mongo_service B)"
  shows "up_MarkJobDispatched V k = along get put (up_MarkJobDispatched U k)"
    and "up_RecordDispatchAttempt V k n msg = along get put (up_RecordDispatchAttempt U k n msg)"
    and "up_MarkJobDispatchFailed V k err = along get put (up_MarkJobDispatchFailed U k err)"
    and "FetchPending (lift_backend get put B) m l = along get put (FetchPending B m l)"
  unfolding V_def U_def service_updater_def JobUpdater.select_convs MarkJobDispatched_def
    RecordDispatchAttempt_def MarkJobDispatchFailed_def FetchPending_def
  by (auto simp: fun_eq_iff mem_adapters NewMetadataService_def along_def lift_backend_def
      split: prod.splits sum.splits bool.splits option.splits)

end

abbreviation db :: "world process \<Rightarrow> mem" where
  "db p \<equiv> wd_db (process_world p)"

abbreviation world_updater :: "world process JobUpdater" where
  "world_updater \<equiv> service_updater (mongo_service (in_process world_backend))"

lemma in_db:
  "along process_world process_put (along wd_db (\<lambda>m w. w\<lparr>wd_db := m\<rparr>) f) p = (r, p') \<Longrightarrow>
   f (db p) = (r, db p')"
  by (auto simp: along_def process_put_def process_world_def split: prod.splits)

lemma world_updater_db:
  "up_MarkJobDispatched world_updater k p = (r, p') \<Longrightarrow>
     up_MarkJobDispatched (service_updater (mongo_service mem_backend)) k (db p) = (r, db p')"
  "up_RecordDispatchAttempt world_updater k n msg p = (r, p') \<Longrightarrow>
     up_RecordDispatchAttempt (service_updater (mongo_service mem_backend)) k n msg (db p) = (r, db p')"
  "up_MarkJobDispatchFailed world_updater k err p = (r, p') \<Longrightarrow>
     up_MarkJobDispatchFailed (service_updater (mongo_service mem_backend)) k err (db p) = (r, db p')"
  "FetchPending (in_process world_backend) m l p = (rf, p') \<Longrightarrow>
     FetchPending mem_backend m l (db p) = (rf, db p')"
  unfolding in_process_def world_backend_def process.lifted_dispatcher world_db.lifted_dispatcher
  by (rule in_db, assumption)+

text \<open>Publishing touches neither the database nor the files.\<close>

lemma bus_only:
  "bk_create_producer mem_broker topic w = (rp, w') \<Longrightarrow> wd_db w' = wd_db w \<and> wd_files w' = wd_files w"
  "bk_send mem_broker p key x w = (ro, w') \<Longrightarrow> wd_db w' = wd_db w \<and> wd_files w' = wd_files w"
  by (auto simp: mem_broker_def elim!: on_busE)

lemma publish_world:
  assumes "pulsar_publisher mem_broker p st = (r, st')"
  shows "db st' = db st \<and> files st' = files st"
proof (cases "projection_message p")
  case (Inl e)
  with assms show ?thesis by (simp add: PulsarJobPublisher_Publish_def)
next
  case (Inr msg)
  with assms have a: "PulsarJobProducer_Publish mem_broker (dp_Topic p) msg st = (r, st')"
    by (simp add: PulsarJobPublisher_Publish_def)
  obtain x cache c s1 where f: "producerForTopic mem_broker (dp_Topic p) st = (x, (cache, c, s1))"
    by (metis prod.exhaust)
  have s1: "wd_db s1 = db st \<and> wd_files s1 = files st"
    using f by (auto simp: producerForTopic_def CreateProducer_def process_world_def dest: bus_only
        split: prod.splits option.splits sum.splits)
  with a f show ?thesis
    by (auto simp: PulsarJobProducer_Publish_def process_world_def dest: bus_only
        split: sum.splits option.splits prod.splits)
qed

lemma world_handler_files:
  "files (snd (HandleDispatch m (pulsar_publisher mem_broker) world_updater p st)) = files st"
proof -
  obtain x s1 where p: "pulsar_publisher mem_broker p st = (x, s1)" by (metis prod.exhaust)
  note s1 = conjunct2 [OF publish_world [OF p]]
  note frames = updater_files [OF refl prod.collapse [symmetric]]
  show ?thesis
  proof (cases x)
    case None
    with p s1 frames(1) [of "dp_JobID p" s1] show ?thesis by (simp add: HandleDispatch_def)
  next
    case (Some e)
    obtain a s2 where a: "up_RecordDispatchAttempt world_updater (dp_JobID p) (dp_DispatchAttempts p + 1)
        (error_text e) s1 = (a, s2)" by (metis prod.exhaust)
    with p s1 Some updater_files(2) [OF refl a] frames(3) [of "dp_JobID p" "Some e" s2]
    show ?thesis by (cases a) (simp_all add: HandleDispatch_def)
  qed
qed

interpretation mem_tokens: token_stream "token_store_in_process (en_token_file world_env path)"
  "\<lambda>p. file_token quoted path (files p)" watch "HandleDispatch m (pulsar_publisher mem_broker) world_updater"
  for path watch m
  by (intro token_stream.intro token_file_contract token_stream_axioms.intro)
    (simp only: world_handler_files)

interpretation mem_stream: stream_saga world_updater "pulsar_publisher mem_broker" "process_jobs world_jobs"
  m "token_store_in_process (en_token_file world_env path)" watch for m path watch
  by (intro stream_saga.intro mem_dispatcher.assembled.dispatch_saga_axioms stream_saga_axioms.intro)
    (auto simp: token_store_in_process_def world_env_def along_def process_put_def process_world_def
      split: prod.splits)

interpretation mem_healthy_dispatcher: healthy_worker world_updater "pulsar_publisher mem_broker"
  "FetchPending (in_process world_backend)" "process_jobs world_jobs" default_worker "\<lambda>p. mem_up 50 (db p)"
proof (intro healthy_worker.intro mem_dispatcher.assembled.dispatch_worker_axioms healthy_worker_axioms.intro)
  fix p p' :: "world process" and m l rf x assume up: "mem_up 50 (db p)"
  note laws = mem_healthy [of "\<lambda>p. None"]
  show "fits (process_jobs world_jobs) (wc_MaxAttempts default_worker) (wc_BatchSize default_worker) p"
    using healthy_worker.up_fits [OF laws up] by (simp add: fits_def)
  show "(\<exists>ps. rf = Inr ps) \<and> mem_up 50 (db p')"
    if "FetchPending (in_process world_backend) m l p = (rf, p')"
    using healthy_worker.up_fetch [OF laws up world_updater_db(4) [OF that]] .
  show "mem_up 50 (db p')" if "pulsar_publisher mem_broker j p = (x, p')" for j
    using up publish_world [OF that] by simp
  show "x = None \<and> mem_up 50 (db p')" if "up_MarkJobDispatched world_updater k p = (x, p')" for k
    using healthy_worker.up_dispatched [OF laws up world_updater_db(1) [OF that]] .
  show "x = None \<and> mem_up 50 (db p')" if "up_RecordDispatchAttempt world_updater k n msg p = (x, p')" for k n msg
    using healthy_worker.up_attempt [OF laws up world_updater_db(2) [OF that]] .
  show "x = None \<and> mem_up 50 (db p')" if "up_MarkJobDispatchFailed world_updater k err p = (x, p')" for k err
    using healthy_worker.up_failed [OF laws up world_updater_db(3) [OF that]] .
qed

section \<open>Properties\<close>

text \<open>
  Starting and stopping the dispatcher leaks nothing. When \<open>New\<close> fails, at the broker, at the
  database or because an argument is missing, every client it opened is closed again; when it
  succeeds, \<open>Close\<close> brings the open clients back to what they were, whatever producers were
  created in between, and even when disconnecting reports an error.
\<close>

theorem dispatcher_releases_its_clients:
  assumes "runtime_resources E opened clients"
    and "New E cfg coll svc opts st = (x, st1)"
    and "clients (process_world st2) = clients (process_world st1)"
    and "opened (process_world st2) = opened (process_world st1)"
    and "pc_connected (fst (snd st2)) = pc_connected (fst (snd st1))"
  shows "case x of
      Inl e \<Rightarrow> clients (process_world st1) = clients (process_world st)
              \<and> opened (process_world st1) = opened (process_world st)
    | Inr r \<Rightarrow> (case Runtime_Close E r st2 of (err, r', st3) \<Rightarrow>
              clients (process_world st3) = clients (process_world st)
              \<and> opened (process_world st3) = opened (process_world st))"
proof (cases x)
  case (Inl e)
  with runtime_resources.New_held [OF assms(1,2)] show ?thesis by simp
next
  case (Inr r)
  obtain err r' st3 where k: "Runtime_Close E r st2 = (err, r', st3)" by (metis prod.exhaust)
  from runtime_resources.New_Close_held [OF assms(1) assms(2) [unfolded Inr] _ assms(5) k] assms(3,4)
  show ?thesis using Inr k by simp
qed

definition fresh_process :: "'s \<Rightarrow> 's process" where
  "fresh_process w = ([], \<lparr>pc_SubscriptionName = [], pc_producers = [], pc_consumers = [],
                         pc_connected = False\<rparr>, w)"

definition sample_runtime_config :: RuntimeConfig where
  "sample_runtime_config = ConfigFromEnv sample_mongo_config
     \<lparr>pu_ServiceURL = ''pulsar://localhost:6650'', pu_SubscriptionName = ''jobber''\<rparr>
     \<lparr>dw_PollInterval = 5 * one_second, dw_BatchSize = 50, dw_MaxAttempts = 5, dw_StreamMaxPoolSize = 2,
      dw_StreamMongoDBResumeTokenPath = []\<rparr>"

abbreviation no_overrides :: "'t Options" where
  "no_overrides \<equiv> \<lparr>op_Publisher = None, op_ResumeTokens = None, op_StreamRunner = None,
                   op_PendingFetcher = None\<rparr>"

theorem dispatcher_releases_its_clients_witness:
  "let w = (world_with mem_empty)\<lparr>wd_cluster := cluster_empty\<lparr>ct_script := [None, Some ''no primary'']\<rparr>\<rparr>;
       r = New world_env sample_runtime_config (Some (in_process world_backend))
             (Some (mongo_service (in_process world_backend))) no_overrides (fresh_process w)
   in (\<exists>e. fst r = Inl e) \<and> bus_clients (wd_bus (process_world (snd r))) = 0
      \<and> ct_opened (wd_cluster (process_world (snd r))) = {}"
proof -
  let ?w = "(world_with mem_empty)\<lparr>wd_cluster := cluster_empty\<lparr>ct_script := [None, Some ''no primary'']\<rparr>\<rparr>"
  let ?r = "New world_env sample_runtime_config (Some (in_process world_backend))
             (Some (mongo_service (in_process world_backend))) no_overrides (fresh_process ?w)"
  have bus: "bk_connect mem_broker url x = (None, x\<lparr>wd_bus := (wd_bus x)\<lparr>bus_clients := Suc (bus_clients (wd_bus x))\<rparr>\<rparr>)"
    if "bus_script (wd_bus x) = []" for url and x :: world
    using that by (simp add: mem_broker_def on_bus_def along_def bus_scripted_def)
  have "\<exists>e. fst ?r = Inl e"
    by (simp add: New_def choose_publisher_def NewPulsarClient_def fresh_process_def bus world_with_def
        bus_empty_def OpenMongoWatchClient_def along_def process_world_def process_put_def Let_def
        world_connector_def mem_connector_def ct_call_def cluster_empty_def split: prod.splits)
  then obtain e where e: "fst ?r = Inl e" by blast
  have "?r = (Inl e, snd ?r)" using e by (metis prod.collapse)
  from dispatcher_releases_its_clients [OF mem_resources.runtime_resources_axioms this refl refl refl] e
  show ?thesis
    by (simp add: Let_def fresh_process_def process_world_def world_with_def bus_empty_def cluster_empty_def)
qed

text \<open>
  C23. What is dispatched is what runs. When the dispatcher's publisher reports success, it has sent
  one message to a producer of the job's topic, under the id of the job as its key; and whichever
  executor receives those bytes calls its handler with exactly the id and the name of the job and
  its payload as JSON, and settles the message by the handler's answer.
\<close>

theorem dispatched_message_runs_job:
  assumes "pulsar_publisher bk (JobDispatchFromMetadata j) st = (None, st')"
  shows "\<exists>p cache c s1 s2 w. producerForTopic bk (jm_Topic j) st = (Inr p, (cache, c, s1))
    \<and> bk_send bk p (jm_JobID j) w s1 = (None, s2) \<and> st' = (cache, c, s2)
    \<and> (\<forall>any k n handler s. handleMessage any k \<lparr>dl_ID = n, dl_Payload = w\<rparr> handler s =
         (case handler (jm_JobID j) (jm_Name j)
                 (RawValue (gomap_json (case jm_Payload j of None \<Rightarrow> Some [] | Some m \<Rightarrow> Some m))) s of
            (Some e, s') \<Rightarrow> bk_nack any k \<lparr>dl_ID = n, dl_Payload = w\<rparr> s'
          | (None, s') \<Rightarrow> snd (bk_ack any k \<lparr>dl_ID = n, dl_Payload = w\<rparr> s')))"
proof -
  let ?p = "JobDispatchFromMetadata j"
  from assms obtain m where m: "projection_message ?p = Inr m"
    by (cases "projection_message ?p") (auto simp: PulsarJobPublisher_Publish_def)
  note fields = projection_message_ok [OF m]
  have pay: "dp_Payload ?p = (case jm_Payload j of None \<Rightarrow> Some [] | Some m \<Rightarrow> Some m)"
    by (simp add: JobDispatchFromMetadata_def split: option.splits)
  from assms m have pub: "PulsarJobProducer_Publish bk (jm_Topic j) m st = (None, st')"
    by (simp add: PulsarJobPublisher_Publish_def)
  obtain x cache c s1 where f: "producerForTopic bk (jm_Topic j) st = (x, (cache, c, s1))"
    by (metis prod.exhaust)
  from pub f obtain p where p: "x = Inr p" by (cases x) (auto simp: PulsarJobProducer_Publish_def)
  from pub f p obtain w where w: "Marshal m = Inr w"
    by (cases "Marshal m") (auto simp: PulsarJobProducer_Publish_def)
  obtain y s2 where y: "bk_send bk p (jm_JobID j) w s1 = (y, s2)" by fastforce
  have ok: "y = None \<and> st' = (cache, c, s2)"
    using pub f p w y fields by (cases y) (auto simp: PulsarJobProducer_Publish_def)
  from Unmarshal_Marshal [OF w] have u: "Unmarshal w = Inr m"
    using fields by (simp add: wire_payload_def)
  have "handleMessage any k \<lparr>dl_ID = n, dl_Payload = w\<rparr> handler s =
         (case handler (jm_JobID j) (jm_Name j)
                 (RawValue (gomap_json (case jm_Payload j of None \<Rightarrow> Some [] | Some m \<Rightarrow> Some m))) s of
            (Some e, s') \<Rightarrow> bk_nack any k \<lparr>dl_ID = n, dl_Payload = w\<rparr> s'
          | (None, s') \<Rightarrow> snd (bk_ack any k \<lparr>dl_ID = n, dl_Payload = w\<rparr> s'))"
    for any :: "'x broker" and k n handler s
    using u fields pay by (simp add: handleMessage_def split: prod.splits option.splits)
  with f p y ok show ?thesis by blast
qed

theorem dispatched_message_runs_job_witness:
  "\<exists>p w. bus_sent (wd_bus (process_world (snd (pulsar_publisher mem_broker
      (JobDispatchFromMetadata sample_job) (fresh_process (world_with mem_empty))))))
     = [(p, sample_id, w)]"
proof -
  let ?p = "JobDispatchFromMetadata sample_job"
  let ?st = "fresh_process (world_with mem_empty)"
  let ?r = "pulsar_publisher mem_broker ?p ?st"
  have "trim_space sample_id \<noteq> []" "trim_space (jm_Name sample_job) \<noteq> []"
    unfolding trim_space_empty_iff
    by (simp_all add: is_space_def sample_job_def NewJobMetadata_def)
  then obtain m where m: "projection_message ?p = Inr m"
    by (auto simp: projection_message_def NewJobMessage_def Let_def msg_validate_def JobDispatchFromMetadata_def)
  then have "\<exists>w. Marshal m = Inr w"
    using projection_message_ok [OF m] by (simp add: Marshal_ok_iff)
  then obtain w where w: "Marshal m = Inr w" by blast
  have new: "bk_create_producer mem_broker topic x =
      (Inr (bus_next (wd_bus x)), x\<lparr>wd_bus := (wd_bus x)\<lparr>bus_next := Suc (bus_next (wd_bus x))\<rparr>\<rparr>)"
    and send: "bk_send mem_broker q key v x =
      (None, x\<lparr>wd_bus := (wd_bus x)\<lparr>bus_sent := bus_sent (wd_bus x) @ [(q, key, v)]\<rparr>\<rparr>)"
    if "bus_script (wd_bus x) = []" for topic q key v and x :: world
    using that by (simp_all add: mem_broker_def on_bus_def along_def fresh_handle_def bus_scripted_def)
  have r: "fst ?r = None \<and> (\<exists>q key. bus_sent (wd_bus (process_world (snd ?r))) = [(q, msg_JobID m, w)])"
    using m w
    by (simp add: PulsarJobPublisher_Publish_def PulsarJobProducer_Publish_def producerForTopic_def
        CreateProducer_def fresh_process_def new send world_with_def bus_empty_def process_world_def)
  then have "?r = (None, snd ?r)" by (metis prod.collapse)
  from dispatched_message_runs_job [OF this] projection_message_ok [OF m] r show ?thesis by auto
qed

end
