(* ===== verification/Executor.thy ===== *)
theory Executor
  imports MetadataService JobMessage
begin

text \<open>
  \<open>internal/jobs/executor\<close>: the registry of job handlers with its recovery from panics
  (\<open>registry.go\<close>) and the execution of one message (\<open>service.go\<close>), over the interface
  \<open>JobLifecycle\<close>. Business handlers are any code: functions of the decoded payload and the
  state of the world that return an error or nil, or panic. The result of \<open>ExecuteJob\<close>
  decides the fate of the message: nil acknowledges it, an error gives it back.
\<close>

section \<open>The registry\<close>

datatype 'a outcome = Returned 'a | Panicked string

type_synonym 's handlerFunc = "string \<Rightarrow> raw_message \<Rightarrow> ('s, goerror option outcome) op"

record 's Registry =
  rg_handlers :: "(string \<times> 's handlerFunc) list"

definition NewRegistry :: "'s Registry" where
  "NewRegistry = \<lparr>rg_handlers = []\<rparr>"

text \<open>The function \<open>Register\<close> stores: decode the payload, then run the typed handler.\<close>

definition typed_handler ::
  "(json \<Rightarrow> goerror + 'a) \<Rightarrow> string \<Rightarrow> (string \<Rightarrow> 'a \<Rightarrow> ('s, goerror option outcome) op) \<Rightarrow> 's handlerFunc" where
  "typed_handler dec name exec jobID payload s =
     (case DecodePayload dec \<lparr>msg_JobID = jobID, msg_Name = name, msg_Payload = payload\<rparr> of
        Inl err \<Rightarrow> (Returned (Some (wrap (''decode payload for job '' @ name) err)), s)
      | Inr data \<Rightarrow> exec jobID data s)"

definition Register ::
  "'s Registry \<Rightarrow> (json \<Rightarrow> goerror + 'a) \<Rightarrow> string
     \<Rightarrow> (string \<Rightarrow> 'a \<Rightarrow> ('s, goerror option outcome) op) \<Rightarrow> 's Registry" where
  "Register r dec name exec =
     r\<lparr>rg_handlers := AList.update name (typed_handler dec name exec) (rg_handlers r)\<rparr>"

definition HasHandler :: "'s Registry \<Rightarrow> string \<Rightarrow> bool" where
  "HasHandler r name \<longleftrightarrow> map_of (rg_handlers r) name \<noteq> None"

text \<open>The message of a recovered panic ends with a stack trace, whose text is not modelled.\<close>

definition panic_error :: "string \<Rightarrow> string \<Rightarrow> goerror" where
  "panic_error name rec =
     ErrorString (''panic in handler '' @ name @ '': '' @ rec @ [CHR 0x0A] @ ''Stack trace:'' @ [CHR 0x0A])"

definition Run :: "'s Registry \<Rightarrow> string \<Rightarrow> string \<Rightarrow> raw_message \<Rightarrow> ('s, goerror option) op" where
  "Run r name jobID payload s =
     (case map_of (rg_handlers r) name of
        None \<Rightarrow> (Some (ErrorString (''unknown job handler: '' @ name)), s)
      | Some h \<Rightarrow>
          (case h jobID payload s of
             (Returned res, s1) \<Rightarrow> (res, s1)
           | (Panicked rec, s1) \<Rightarrow> (Some (panic_error name rec), s1)))"

section \<open>ExecuteJob\<close>

record 's ExecutorService =
  ex_lifecycle :: "'s JobLifecycle"
  ex_registry :: "'s Registry"

definition validateArgs :: "string \<Rightarrow> string \<Rightarrow> raw_message \<Rightarrow> goerror option" where
  "validateArgs jobID name payload =
     (if trim_space jobID = [] then Some (ErrorString ''jobID is required'')
      else if trim_space name = [] then Some (ErrorString ''job name is required'')
      else if payload = RawEmpty then Some (ErrorString ''payload is required'')
      else None)"

text \<open>\<open>json.Unmarshal\<close> into a \<open>map[string]any\<close>: an object or null.\<close>

definition testDecode :: "raw_message \<Rightarrow> goerror option" where
  "testDecode payload =
     (case payload of
        RawEmpty \<Rightarrow> Some (wrap ''invalid JSON payload'' (syntax_error []))
      | RawInvalid s \<Rightarrow> Some (wrap ''invalid JSON payload'' (syntax_error s))
      | RawValue v \<Rightarrow>
          (case v of
             JObj kvs \<Rightarrow> None
           | JNull \<Rightarrow> None
           | _ \<Rightarrow> Some (wrap ''invalid JSON payload''
                     (DriverError ''json: cannot unmarshal value into Go value of type map[string]interface {}''))))"

definition isTerminalConflict :: "goerror \<Rightarrow> bool" where
  "isTerminalConflict err \<longleftrightarrow> errors_is err ErrJobAlreadyTerminal"

text \<open>A failure to record the failure is printed and dropped.\<close>

definition fail_and_ack :: "'s ExecutorService \<Rightarrow> string \<Rightarrow> goerror \<Rightarrow> ('s, goerror option) op" where
  "fail_and_ack X jobID err s = (None, snd (lc_FailJob (ex_lifecycle X) jobID (Some err) s))"

definition ExecuteJob ::
  "'s ExecutorService \<Rightarrow> string \<Rightarrow> string \<Rightarrow> raw_message \<Rightarrow> ('s, goerror option) op" where
  "ExecuteJob X jobID name payload s =
     (case validateArgs jobID name payload of
        Some err \<Rightarrow> fail_and_ack X jobID err s
      | None \<Rightarrow>
     if \<not> HasHandler (ex_registry X) name then
       fail_and_ack X jobID (ErrorString (''unknown job handler: '' @ name)) s
     else
     (case testDecode payload of
        Some err \<Rightarrow> fail_and_ack X jobID err s
      | None \<Rightarrow>
     (case lc_StartJob (ex_lifecycle X) jobID s of
        (Inl err, s1) \<Rightarrow> (Some (wrap ''start job'' err), s1)
      | (Inr False, s1) \<Rightarrow> (None, s1)
      | (Inr True, s1) \<Rightarrow>
          (case Run (ex_registry X) name jobID payload s1 of
             (Some handlerErr, s2) \<Rightarrow> fail_and_ack X jobID handlerErr s2
           | (None, s2) \<Rightarrow>
               (case lc_CompleteJob (ex_lifecycle X) jobID None s2 of
                  (Some err, s3) \<Rightarrow>
                    if isTerminalConflict err then (None, s3)
                    else (Some (wrap ''complete job'' err), s3)
                | (None, s3) \<Rightarrow> (None, s3))))))"

section \<open>The echo handler\<close>

text \<open>\<open>handlers/echo.go\<close>, with the decoder of its payload struct.\<close>

definition decode_echo_key :: "string \<times> json \<Rightarrow> string \<times> goerror option \<Rightarrow> string \<times> goerror option" where
  "decode_echo_key kv st =
     (case kv of (k, v) \<Rightarrow> case st of (m, saved) \<Rightarrow>
        if same_key k ''message'' then
          (case v of JStr s \<Rightarrow> (s, saved)
           | JNull \<Rightarrow> (m, saved)
           | _ \<Rightarrow> (m, if saved = None then Some (type_error ''message'') else saved))
        else (m, saved))"

definition decode_echo :: "json \<Rightarrow> goerror + string" where
  "decode_echo v =
     (case v of
        JObj kvs \<Rightarrow> (case fold decode_echo_key kvs ([], None) of
                       (m, None) \<Rightarrow> Inr m
                     | (m, Some err) \<Rightarrow> Inl err)
      | JNull \<Rightarrow> Inr []
      | _ \<Rightarrow> Inl (DriverError ''json: cannot unmarshal value into Go value of type handlers.EchoPayload''))"

definition EchoHandler_Execute :: "string \<Rightarrow> string \<Rightarrow> ('s, goerror option outcome) op" where
  "EchoHandler_Execute jobID message s =
     (if message = [] then (Returned (Some (ErrorString ''message is required'')), s)
      else (Returned None, s))"

text \<open>\<open>example_handler.go\<close>, the sample in the package itself: the same payload, decoded into a
  struct of another name, and another message for an empty text.\<close>

definition decode_example :: "json \<Rightarrow> goerror + string" where
  "decode_example v =
     (case v of
        JObj kvs \<Rightarrow> (case fold decode_echo_key kvs ([], None) of
                       (m, None) \<Rightarrow> Inr m
                     | (m, Some err) \<Rightarrow> Inl err)
      | JNull \<Rightarrow> Inr []
      | _ \<Rightarrow> Inl (DriverError ''json: cannot unmarshal value into Go value of type executor.ExamplePayload''))"

definition ExampleHandler_Execute :: "string \<Rightarrow> string \<Rightarrow> ('s, goerror option outcome) op" where
  "ExampleHandler_Execute jobID message s =
     (if message = [] then (Returned (Some (ErrorString ''message cannot be empty'')), s)
      else (Returned None, s))"

lemma example_like_echo:
  "isl (decode_example v) = isl (decode_echo v)" "projr (decode_example v) = projr (decode_echo v) \<or> isl (decode_echo v)"
  "(fst (ExampleHandler_Execute jobID m s) = Returned None) = (fst (EchoHandler_Execute jobID m s) = Returned None)"
  by (auto simp: decode_example_def decode_echo_def ExampleHandler_Execute_def EchoHandler_Execute_def
      split: json.splits prod.splits option.splits)

section \<open>What happens to the job\<close>

text \<open>A registry whose handlers leave the job documents to the executor.\<close>

definition leaves_jobs :: "('s \<Rightarrow> string \<Rightarrow> job option) \<Rightarrow> 's Registry \<Rightarrow> bool" where
  "leaves_jobs jobs r \<longleftrightarrow>
     (\<forall>name jobID payload s. jobs (snd (Run r name jobID payload s)) = jobs s)"

lemma Run_missing: "\<not> HasHandler r name \<Longrightarrow> Run r name jobID payload s = (Some (ErrorString (''unknown job handler: '' @ name)), s)"
  by (simp add: HasHandler_def Run_def)

lemma HasHandler_Register [simp]: "HasHandler (Register r dec name exec) n \<longleftrightarrow> n = name \<or> HasHandler r n"
  by (auto simp: HasHandler_def Register_def update_conv')

lemma HasHandler_New [simp]: "\<not> HasHandler NewRegistry n"
  by (simp add: HasHandler_def NewRegistry_def)

text \<open>
  An error whose message can be recorded as it is: one that does not start with a dollar
  sign, which the database would read as a path to a field.
\<close>

definition recordable :: "goerror \<Rightarrow> bool" where
  "recordable e \<longleftrightarrow> \<not> is_field_path (error_text e)"

locale job_execution = job_lifecycle L jobs
  for L :: "'s JobLifecycle" and jobs :: "'s \<Rightarrow> string \<Rightarrow> job option"
begin

abbreviation X :: "'s Registry \<Rightarrow> 's ExecutorService" where
  "X r \<equiv> \<lparr>ex_lifecycle = L, ex_registry = r\<rparr>"

lemma fail_and_ack_outcome:
  assumes "fail_and_ack (X r) jobID e s = (res, s')" and "recordable e"
  shows "res = None \<and> (jobs s' = jobs s \<or> (\<exists>t entry. t \<noteq> 0 \<and> je_Error entry = error_text e
           \<and> applied jobs jobID failable (fail_effect entry t) s s'))"
proof -
  obtain x where f: "lc_FailJob L jobID (Some e) s = (x, s')" and "res = None"
    using assms(1) by (cases "lc_FailJob L jobID (Some e) s") (simp add: fail_and_ack_def)
  have "\<not> is_field_path (message_of (Some e))" using assms(2) by (simp add: recordable_def)
  from fail [OF f this] obtain t entry where "t \<noteq> 0" "je_Error entry = error_text e"
    "settled jobs jobID failable (fail_effect entry t) x s s'" by auto
  then show ?thesis using \<open>res = None\<close>
    by (auto simp: settled_def split: option.splits)
qed

lemma premature_failures_recordable:
  "validateArgs jobID name payload = Some e \<Longrightarrow> recordable e"
  "recordable (ErrorString (''unknown job handler: '' @ name))"
  "testDecode payload = Some e \<Longrightarrow> recordable e"
  by (auto simp: validateArgs_def testDecode_def recordable_def is_field_path_def wrap_def
      split: if_splits raw_message.splits json.splits)

text \<open>
  A message is given back only after an infrastructure error of the claim or of the final
  write; a message whose job was not claimed leaves every job as it was.
\<close>

lemma execute_gives_back:
  assumes "ExecuteJob (X r) jobID name payload s = (Some e, s')"
  shows "HasHandler r name \<and> \<not> errors_is e ErrJobAlreadyTerminal
    \<and> (\<exists>e' s1. (e = wrap ''start job'' e' \<and> lc_StartJob L jobID s = (Inl e', s')
          \<and> foreign_error e')
       \<or> (e = wrap ''complete job'' e' \<and> lc_StartJob L jobID s = (Inr True, s1)
          \<and> fst (Run r name jobID payload s1) = None))"
proof -
  from assms have v: "validateArgs jobID name payload = None"
    by (cases "validateArgs jobID name payload") (auto simp: ExecuteJob_def fail_and_ack_def)
  from assms v have h: "HasHandler r name"
    by (auto simp: ExecuteJob_def fail_and_ack_def split: if_splits)
  from assms v h have d: "testDecode payload = None"
    by (cases "testDecode payload") (auto simp: ExecuteJob_def fail_and_ack_def)
  obtain x s1 where st: "lc_StartJob L jobID s = (x, s1)" by fastforce
  from start [OF st] obtain t where G: "guarded jobs jobID not_started (mark_running_effect t) x s s1"
    by blast
  note run = assms [unfolded ExecuteJob_def v d st option.case ExecutorService.simps prod.case]
  show ?thesis
  proof (cases x)
    case (Inl e')
    with G have "foreign_error e'" by (simp add: guarded_def)
    with Inl run h st foreign_errorD(1) show ?thesis by auto
  next
    case (Inr b)
    with run h have b: "b" by (cases b) auto
    obtain y s2 where y: "Run r name jobID payload s1 = (y, s2)" by fastforce
    from run h Inr b y have "y = None" by (cases y) (auto simp: fail_and_ack_def)
    with run h Inr b y obtain e' where "e = wrap ''complete job'' e'" "\<not> isTerminalConflict e'"
      by (auto split: prod.splits option.splits if_splits)
    with h st Inr b y \<open>y = None\<close> show ?thesis by (auto simp: isTerminalConflict_def)
  qed
qed

end

sublocale job_lifecycle \<subseteq> execution: job_execution L jobs
  by unfold_locales

end
