(* ===== verification/ExecutorProperties.thy ===== *)
theory ExecutorProperties
  imports Executor Samples
begin

text \<open>
  What the executor guarantees for a message, over the metadata service and the database of
  the previous theories, and together with the consumer loop that acknowledges messages.
\<close>

section \<open>Executions without interference\<close>

definition executable :: "'s Registry \<Rightarrow> string \<Rightarrow> string \<Rightarrow> raw_message \<Rightarrow> bool" where
  "executable r jobID name payload \<longleftrightarrow>
     validateArgs jobID name payload = None \<and> HasHandler r name \<and> testDecode payload = None"

text \<open>What may have become of a claimed job when the message is acknowledged or given back.\<close>

definition claimed_outcome :: "goerror option \<Rightarrow> goerror option \<Rightarrow> job \<Rightarrow> job \<Rightarrow> bool" where
  "claimed_outcome handler_result res j j' \<longleftrightarrow>
     (case handler_result of
        None \<Rightarrow> (\<exists>t. j' = complete_effect t None j) \<or> (res \<noteq> None \<and> j' = j)
      | Some e \<Rightarrow> res = None \<and>
          ((\<exists>t entry. je_Error entry = error_text e \<and> j' = fail_effect entry t j) \<or> j' = j))"

context job_execution
begin

lemma ExecuteJob_executable:
  "executable r jobID name payload \<Longrightarrow> ExecuteJob (X r) jobID name payload s =
     (case lc_StartJob L jobID s of
        (Inl err, s1) \<Rightarrow> (Some (wrap ''start job'' err), s1)
      | (Inr False, s1) \<Rightarrow> (None, s1)
      | (Inr True, s1) \<Rightarrow>
          (case Run r name jobID payload s1 of
             (Some handlerErr, s2) \<Rightarrow> fail_and_ack (X r) jobID handlerErr s2
           | (None, s2) \<Rightarrow>
               (case lc_CompleteJob L jobID None s2 of
                  (Some err, s3) \<Rightarrow>
                    if isTerminalConflict err then (None, s3)
                    else (Some (wrap ''complete job'' err), s3)
                | (None, s3) \<Rightarrow> (None, s3))))"
  unfolding ExecuteJob_def ExecutorService.select_convs executable_def by simp

text \<open>A job that is not waiting to be started is not touched and its handler does not run.\<close>

lemma execute_duplicate:
  assumes "executable r jobID name payload" and "\<forall>j. jobs s jobID = Some j \<longrightarrow> \<not> not_started j"
    and "ExecuteJob (X r) jobID name payload s = (res, s')"
  shows "jobs s' = jobs s \<and> fst (lc_StartJob L jobID s) \<noteq> Inr True"
proof -
  obtain b s1 where st: "lc_StartJob L jobID s = (b, s1)" by fastforce
  from start [OF st] obtain t where G: "guarded jobs jobID not_started (mark_running_effect t) b s s1"
    by blast
  then have b: "b \<noteq> Inr True" and same: "jobs s1 = jobs s"
    using assms(2) by (auto simp: guarded_def applied_def split: sum.splits bool.splits)
  have "s' = s1"
    using assms(3) b unfolding ExecuteJob_executable [OF assms(1)] st
    by (auto split: sum.splits bool.splits)
  with same b st show ?thesis by simp
qed

lemma execute_claimed:
  assumes ex: "executable r jobID name payload" and lj: "leaves_jobs jobs r"
    and j: "jobs s jobID = Some j" "not_started j"
    and run: "ExecuteJob (X r) jobID name payload s = (res, s')"
    and st: "lc_StartJob L jobID s = (Inr True, s1)"
    and msg: "\<And>e. fst (Run r name jobID payload s1) = Some e \<Longrightarrow> recordable e"
  shows "\<exists>t j'. t \<noteq> 0 \<and> jobs s' = (jobs s)(jobID \<mapsto> j')
     \<and> claimed_outcome (fst (Run r name jobID payload s1)) res (mark_running_effect t j) j'"
proof -
  from start [OF st] j obtain t where t: "t \<noteq> 0"
    and s1: "jobs s1 = (jobs s)(jobID \<mapsto> mark_running_effect t j)"
    by (auto dest: guarded_TrueD)
  let ?j = "mark_running_effect t j"
  obtain h s2 where h: "Run r name jobID payload s1 = (h, s2)" by fastforce
  from lj have "jobs (snd (Run r name jobID payload s1)) = jobs s1"
    unfolding leaves_jobs_def by blast
  with h s1 have s2: "jobs s2 = (jobs s)(jobID \<mapsto> ?j)" by simp
  note run' = run [unfolded ExecuteJob_executable [OF ex] st, simplified, unfolded h prod.case]
  have "\<exists>j'. jobs s' = (jobs s)(jobID \<mapsto> j') \<and> claimed_outcome h res ?j j'"
  proof (cases h)
    case None
    obtain c s3 where c: "lc_CompleteJob L jobID None s2 = (c, s3)" by fastforce
    from complete [OF c] obtain t2 where S: "settled jobs jobID is_running (complete_effect t2 None) c s2 s3"
      by blast
    have s': "s' = s3" using run' None c by (auto split: option.splits if_splits)
    from S show ?thesis
    proof (cases rule: settledE)
      case (applied x)
      with s2 have "jobs s3 = (jobs s)(jobID \<mapsto> complete_effect t2 None ?j)" by auto
      with s' None show ?thesis by (auto simp: claimed_outcome_def)
    next
      case (unchanged e)
      have "\<not> isTerminalConflict e"
        using complete_terminal [OF c] unchanged s2
        by (auto simp: reports_terminal_def isTerminalConflict_def mark_running_effect_def
            ExecutionStatus_IsTerminal_def)
      with run' None c unchanged have "res \<noteq> None" by auto
      with unchanged s' s2 None show ?thesis by (auto simp: claimed_outcome_def)
    qed
  next
    case (Some e)
    with run' have f: "fail_and_ack (X r) jobID e s2 = (res, s')" by simp
    have "recordable e" using msg h Some by simp
    from fail_and_ack_outcome [OF f this] have res: "res = None" and
      "jobs s' = jobs s2 \<or> (\<exists>t entry. t \<noteq> 0 \<and> je_Error entry = error_text e
         \<and> applied jobs jobID failable (fail_effect entry t) s2 s')" by auto
    then consider (lost) "jobs s' = jobs s2"
      | (recorded) t2 entry where "je_Error entry = error_text e"
          "jobs s' = (jobs s2)(jobID \<mapsto> fail_effect entry t2 ?j)"
      using s2 by (auto simp: applied_def)
    then show ?thesis
    proof cases
      case lost
      with s2 res Some show ?thesis by (auto simp: claimed_outcome_def)
    next
      case recorded
      with s2 have "jobs s' = (jobs s)(jobID \<mapsto> fail_effect entry t2 ?j)" by simp
      with recorded(1) res Some show ?thesis
        by (intro exI [of _ "fail_effect entry t2 ?j"]) (auto simp: claimed_outcome_def)
    qed
  qed
  with t h show ?thesis by auto
qed

end

context mongo_backend
begin

lemmas executor_gives_back = service.lifecycle.execution.execute_gives_back [folded mongo_service_def]
lemmas executor_duplicate = service.lifecycle.execution.execute_duplicate [folded mongo_service_def]
lemmas executor_claimed = service.lifecycle.execution.execute_claimed [folded mongo_service_def]

end

definition mongo_executor :: "'s backend \<Rightarrow> 's Registry \<Rightarrow> 's ExecutorService" where
  "mongo_executor B r = \<lparr>ex_lifecycle = service_lifecycle (mongo_service B), ex_registry = r\<rparr>"

lemma mongo_executor_run:
  "executable r jobID name payload \<Longrightarrow> ExecuteJob (mongo_executor B r) jobID name payload s =
     (case StartJob (mongo_service B) jobID s of
        (Inl err, s1) \<Rightarrow> (Some (wrap ''start job'' err), s1)
      | (Inr False, s1) \<Rightarrow> (None, s1)
      | (Inr True, s1) \<Rightarrow>
          (case Run r name jobID payload s1 of
             (Some handlerErr, s2) \<Rightarrow> (None, snd (FailJob (mongo_service B) jobID (Some handlerErr) s2))
           | (None, s2) \<Rightarrow>
               (case CompleteJob (mongo_service B) jobID None s2 of
                  (Some err, s3) \<Rightarrow>
                    if isTerminalConflict err then (None, s3)
                    else (Some (wrap ''complete job'' err), s3)
                | (None, s3) \<Rightarrow> (None, s3))))"
  unfolding ExecuteJob_def fail_and_ack_def mongo_executor_def service_lifecycle_def
    ExecutorService.select_convs JobLifecycle.select_convs executable_def by simp

lemma mongo_executor_fields:
  "ex_lifecycle (mongo_executor B r) = service_lifecycle (mongo_service B)"
  "lc_StartJob (service_lifecycle S) = StartJob S"
  by (simp_all add: mongo_executor_def service_lifecycle_def)

section \<open>Properties\<close>

text \<open>
  When the executor gives a message back for redelivery, it had a handler and the error is
  an infrastructure error: the claim of the job failed, or the handler returned without error
  and recording the completion failed. Errors and panics of the handler, bad arguments, an
  unknown handler, a payload that is not a JSON object and a job in a terminal state never
  send the message round again.
\<close>

theorem nack_only_on_infrastructure_errors:
  assumes "mongo_backend B jobs logs"
    and "ExecuteJob (mongo_executor B r) jobID name payload s = (Some e, s')"
  shows "HasHandler r name \<and> \<not> errors_is e ErrJobAlreadyTerminal
    \<and> (\<exists>e' s1. (e = wrap ''start job'' e' \<and> StartJob (mongo_service B) jobID s = (Inl e', s')
          \<and> foreign_error e')
       \<or> (e = wrap ''complete job'' e' \<and> StartJob (mongo_service B) jobID s = (Inr True, s1)
          \<and> fst (Run r name jobID payload s1) = None))"
  using mongo_backend.executor_gives_back [OF assms(1), of r jobID name payload s e s'] assms(2)
  by (simp add: mongo_executor_def service_lifecycle_def)

definition echo_registry :: "'s Registry" where
  "echo_registry = Register NewRegistry decode_echo ''echo'' EchoHandler_Execute"

definition echo_payload :: raw_message where
  "echo_payload = RawValue (JObj [(''message'', JStr ''hi'')])"

lemma sample_id_not_blank: "trim_space sample_id \<noteq> []"
  unfolding trim_space_empty_iff by (simp add: is_space_def)

lemma echo_executable: "executable echo_registry sample_id ''echo'' echo_payload"
  using sample_id_not_blank
  by (simp add: executable_def validateArgs_def echo_registry_def testDecode_def echo_payload_def
      trim_space_def is_space_def)

lemma echo_run:
  "Run echo_registry ''echo'' sample_id echo_payload s = (None, s)"
  using sample_id_not_blank
  by (simp add: Run_def echo_registry_def Register_def NewRegistry_def typed_handler_def
      DecodePayload_def msg_validate_def echo_payload_def decode_echo_def decode_echo_key_def
      same_key_def ascii_lower_def EchoHandler_Execute_def trim_space_def is_space_def)

lemma echo_leaves_jobs: "leaves_jobs jobs echo_registry"
  by (auto simp: leaves_jobs_def Run_def echo_registry_def Register_def NewRegistry_def
      typed_handler_def EchoHandler_Execute_def split: option.splits sum.splits prod.splits outcome.splits)

theorem nack_only_on_infrastructure_errors_witness:
  "\<exists>e'. fst (ExecuteJob (mongo_executor mem_backend echo_registry) sample_id ''echo'' echo_payload
        (mem_with [sample_dispatched_job] [Some ''timeout''])) = Some (wrap ''start job'' e')"
proof -
  let ?s = "mem_with [sample_dispatched_job] [Some ''timeout'']"
  let ?r = "ExecuteJob (mongo_executor mem_backend echo_registry) sample_id ''echo'' echo_payload ?s"
  have st: "\<exists>s1 e. StartJob (mongo_service mem_backend) sample_id ?s = (Inl e, s1)"
    by (simp add: StartJob_def mem_run)
  then obtain s1 e where st: "StartJob (mongo_service mem_backend) sample_id ?s = (Inl e, s1)" by blast
  then have "?r = (Some (wrap ''start job'' e), s1)"
    by (simp add: mongo_executor_run [OF echo_executable])
  with nack_only_on_infrastructure_errors [OF mem.mongo_backend_axioms this] st show ?thesis by auto
qed

text \<open>
  A message delivered again changes nothing: when the job of a well-formed message is not
  waiting to be started (it is running, terminal, or unknown), no stored job changes and the
  claim does not succeed, so the handler does not run.
\<close>

theorem redelivery_is_harmless:
  assumes "mongo_backend B jobs logs" and "executable r jobID name payload"
    and "\<forall>j. jobs s jobID = Some j \<longrightarrow> jm_ExecutionStatus j \<noteq> ExecutionStatusNotStarted"
    and "ExecuteJob (mongo_executor B r) jobID name payload s = (res, s')"
  shows "jobs s' = jobs s \<and> fst (StartJob (mongo_service B) jobID s) \<noteq> Inr True"
  using mongo_backend.executor_duplicate [OF assms(1,2,3)] assms(4)
  by (simp add: mongo_executor_def service_lifecycle_def)

theorem redelivery_is_harmless_witness:
  "mem_coll (snd (ExecuteJob (mongo_executor mem_backend echo_registry) sample_id ''echo'' echo_payload
        (mem_with [sample_cancelled_job] []))) = mem_coll (mem_with [sample_cancelled_job] [])"
proof -
  let ?s = "mem_with [sample_cancelled_job] []"
  have "\<forall>j. mem_coll ?s sample_id = Some j \<longrightarrow> jm_ExecutionStatus j \<noteq> ExecutionStatusNotStarted"
    by (simp add: sample_stored)
  from redelivery_is_harmless [OF mem.mongo_backend_axioms echo_executable this prod.collapse [symmetric]]
  show ?thesis by simp
qed

text \<open>
  C14. A claimed job ends as its handler decides. With nobody else writing the job: a handler
  that returns nil leaves the job completed, or running with the message given back; a handler
  that fails or panics leaves it failed with that error on record, or, when recording fails as
  well, running with the message acknowledged, and then nothing will ever finish the job.
\<close>

theorem execution_outcomes:
  assumes "mongo_backend B jobs logs" and "executable r jobID name payload"
    and "leaves_jobs jobs r" and "jobs s jobID = Some j"
    and "jm_ExecutionStatus j = ExecutionStatusNotStarted"
    and "ExecuteJob (mongo_executor B r) jobID name payload s = (res, s')"
    and "StartJob (mongo_service B) jobID s = (Inr True, s1)"
    and "\<And>e. fst (Run r name jobID payload s1) = Some e \<Longrightarrow> \<not> is_field_path (error_text e)"
  shows "\<exists>j' t. jobs s' = (jobs s)(jobID \<mapsto> j') \<and>
    (case fst (Run r name jobID payload s1) of
       None \<Rightarrow> (\<exists>t'. j' = complete_effect t' None (mark_running_effect t j))
             \<or> (res \<noteq> None \<and> j' = mark_running_effect t j)
     | Some e \<Rightarrow> res = None
         \<and> ((\<exists>t' entry. je_Error entry = error_text e
               \<and> j' = fail_effect entry t' (mark_running_effect t j))
           \<or> j' = mark_running_effect t j))"
proof -
  have rec: "\<And>e. fst (Run r name jobID payload s1) = Some e \<Longrightarrow> recordable e"
    using assms(8) by (simp add: recordable_def)
  have "lc_StartJob (service_lifecycle (mongo_service B)) jobID s = (Inr True, s1)"
    using assms(7) by (simp add: mongo_executor_fields)
  from mongo_backend.executor_claimed [OF assms(1-5) assms(6) [unfolded mongo_executor_def] this rec]
  obtain t j' where "jobs s' = (jobs s)(jobID \<mapsto> j')"
    "claimed_outcome (fst (Run r name jobID payload s1)) res (mark_running_effect t j) j'"
    by blast
  then show ?thesis
    unfolding claimed_outcome_def by (intro exI [of _ j'] exI [of _ t] conjI)
qed

theorem execution_outcomes_witness:
  "\<exists>t t'. mem_coll (snd (ExecuteJob (mongo_executor mem_backend echo_registry) sample_id ''echo'' echo_payload
        (mem_with [sample_dispatched_job] []))) sample_id
     = Some (complete_effect t' None (mark_running_effect t sample_dispatched_job))"
proof -
  let ?s = "mem_with [sample_dispatched_job] []"
  let ?r = "ExecuteJob (mongo_executor mem_backend echo_registry) sample_id ''echo'' echo_payload ?s"
  have j: "mem_coll ?s sample_id = Some sample_dispatched_job" by (simp add: sample_stored)
  obtain b s1 where st0: "StartJob (mongo_service mem_backend) sample_id ?s = (b, s1)" by fastforce
  then have s1: "b = Inr True \<and> mem_jobs s1 = [mark_running_effect 1 sample_dispatched_job]
      \<and> mem_script s1 = []"
    by (auto simp: StartJob_def mem_run mark_running_effect_def)
  with st0 have st: "StartJob (mongo_service mem_backend) sample_id ?s = (Inr True, s1)" by simp
  have "fst (CompleteJob (mongo_service mem_backend) sample_id None s1) = None"
    using s1 by (simp add: CompleteJob_def complete_metadata_def mem_run Let_def mark_running_effect_def)
  then have ok: "fst ?r = None"
    by (auto simp: mongo_executor_run [OF echo_executable] st echo_run split: prod.splits option.splits)
  have "fst (Run echo_registry ''echo'' sample_id echo_payload s1) = None" by (simp add: echo_run)
  with execution_outcomes [OF mem.mongo_backend_axioms echo_executable echo_leaves_jobs j _
      prod.collapse [symmetric] st] ok
  obtain t t' where "mem_coll (snd ?r) = (mem_coll ?s)(sample_id \<mapsto>
      complete_effect t' None (mark_running_effect t sample_dispatched_job))" by auto
  then have "mem_coll (snd ?r) sample_id
      = Some (complete_effect t' None (mark_running_effect t sample_dispatched_job))" by simp
  then show ?thesis by (intro exI)
qed

text \<open>
  A job can be left running for ever. When the write that records the completion fails, the
  message is given back; delivered again, it finds the job no longer waiting to be started
  and is acknowledged. Nothing is left that would finish the job, although its handler
  returned success.
\<close>

theorem completion_error_strands_running_job:
  "case ExecuteJob (mongo_executor mem_backend echo_registry) sample_id ''echo'' echo_payload
       (mem_with [sample_dispatched_job] [None, None, Some ''primary stepped down'']) of
     (first, s1) \<Rightarrow>
       (case ExecuteJob (mongo_executor mem_backend echo_registry) sample_id ''echo'' echo_payload s1 of
          (second, s2) \<Rightarrow> first \<noteq> None \<and> second = None
            \<and> map_option DisplayStatus (mem_coll s2 sample_id) = Some JobStatusRunning)"
proof -
  let ?s = "mem_with [sample_dispatched_job] [None, None, Some ''primary stepped down'']"
  let ?X = "ExecuteJob (mongo_executor mem_backend echo_registry) sample_id ''echo'' echo_payload"
  let ?j = "mark_running_effect 1 sample_dispatched_job"
  obtain r1 s1 where r1: "?X ?s = (r1, s1)" by fastforce
  then have one: "r1 \<noteq> None \<and> mem_jobs s1 = [?j] \<and> mem_script s1 = []"
    unfolding mongo_executor_run [OF echo_executable]
    by (auto simp: StartJob_def CompleteJob_def complete_metadata_def echo_run mem_run
        isTerminalConflict_def mark_running_effect_def wrap_def)
  obtain r2 s2 where r2: "?X s1 = (r2, s2)" by fastforce
  then have "r2 = None \<and> mem_jobs s2 = [?j]"
    using one unfolding mongo_executor_run [OF echo_executable]
    by (auto simp: StartJob_def mem_run mark_running_effect_def Let_def)
  with one r1 r2 show ?thesis
    by (simp add: mem_coll_def keyed_def mark_running_effect_def DisplayStatus_simps)
qed

end
