(* ===== verification/Frames.thy ===== *)
theory Frames
  imports DispatchRuntime ExecutorProperties
begin

text \<open>
  What the operations of the two workers leave alone. A process holds more than the jobs: open
  clients, for one. When the driver, the broker and the change stream do not touch some part
  of the state, no handler of the service and no loop of a worker does; the shutdown of the
  processes rests on it.
\<close>

named_theorems frames \<open>a part of the state that an operation leaves as it was\<close>

lemma matched_result_frame [simp]: "snd (matched_result msg r) = snd r"
  by (auto simp: matched_result_def split: prod.splits sum.splits)

text \<open>\<open>h\<close> is the part of the state in question.\<close>

locale untouched =
  fixes h :: "'s \<Rightarrow> 'h" and B :: "'s backend"
  assumes now_frame [frames]: "h (snd (be_now B s)) = h s"
    and find_one_frame [frames]: "h (snd (be_find_one B q s)) = h s"
    and find_frame [frames]: "h (snd (be_find B q opts s)) = h s"
    and update_frame [frames]: "h (snd (be_update_one B q u s)) = h s"
    and log_frame [frames]: "h (snd (be_log_insert_one B l s)) = h s"
begin

lemma get_untouched [frames]: "h (snd (Reader_Get B jobID s)) = h s"
  using find_one_frame [of "job_id_filter jobID" s]
  by (auto simp: Reader_Get_def split: prod.splits sum.splits)

lemma add_log_untouched [frames]: "h (snd (Writer_AddLog B l s)) = h s"
  using log_frame [of l s] by (auto simp: Writer_AddLog_def split: prod.splits option.splits)

lemma marks_untouched [frames]:
  "h (snd (Writer_MarkDispatchedIfPending B jobID t s)) = h s"
  "h (snd (Writer_RecordDispatchAttemptIfPending B jobID n msg s)) = h s"
  "h (snd (Writer_MarkDispatchFailedIfPending B jobID msg s)) = h s"
  "h (snd (Writer_MarkRunningIfDispatched B jobID t s)) = h s"
  "h (snd (Writer_CompleteIfRunning B jobID t meta s)) = h s"
  "h (snd (Writer_FailIfNotTerminal B jobID e t s)) = h s"
  by (simp_all add: Writer_MarkDispatchedIfPending_def Writer_RecordDispatchAttemptIfPending_def
      Writer_MarkDispatchFailedIfPending_def Writer_MarkRunningIfDispatched_def
      Writer_CompleteIfRunning_def Writer_FailIfNotTerminal_def Let_def split_beta frames)

lemma best_effort_untouched [frames]: "h (log_best_effort (mongo_service B) entry s) = h s"
  by (simp add: log_best_effort_def mongo_service_def MongoJobsWriter_def split_beta frames)

lemma service_parts:
  "ms_now (mongo_service B) = be_now B"
  "rd_Get (ms_reader (mongo_service B)) = Reader_Get B"
  "wr_MarkDispatchedIfPending (ms_writer (mongo_service B)) = Writer_MarkDispatchedIfPending B"
  "wr_RecordDispatchAttemptIfPending (ms_writer (mongo_service B)) = Writer_RecordDispatchAttemptIfPending B"
  "wr_MarkDispatchFailedIfPending (ms_writer (mongo_service B)) = Writer_MarkDispatchFailedIfPending B"
  "wr_MarkRunningIfDispatched (ms_writer (mongo_service B)) = Writer_MarkRunningIfDispatched B"
  "wr_CompleteIfRunning (ms_writer (mongo_service B)) = Writer_CompleteIfRunning B"
  "wr_FailIfNotTerminal (ms_writer (mongo_service B)) = Writer_FailIfNotTerminal B"
  by (simp_all add: mongo_service_def MongoJobsReader_def MongoJobsWriter_def)

lemma updater_untouched [frames]:
  "h (snd (up_MarkJobDispatched (service_updater (mongo_service B)) jobID s)) = h s"
  "h (snd (up_RecordDispatchAttempt (service_updater (mongo_service B)) jobID n msg s)) = h s"
  "h (snd (up_MarkJobDispatchFailed (service_updater (mongo_service B)) jobID err s)) = h s"
  unfolding service_updater_def JobUpdater.select_convs MarkJobDispatched_def RecordDispatchAttempt_def
    MarkJobDispatchFailed_def service_parts split_beta
  by (simp_all add: frames split: sum.split)

lemma complete_metadata_untouched [frames]:
  "h (snd (complete_metadata (mongo_service B) jobID res s)) = h s"
  unfolding complete_metadata_def service_parts split_beta by (simp add: frames split: option.split sum.split)

lemma lifecycle_untouched [frames]:
  "h (snd (lc_StartJob (service_lifecycle (mongo_service B)) jobID s)) = h s"
  "h (snd (lc_CompleteJob (service_lifecycle (mongo_service B)) jobID res s)) = h s"
  "h (snd (lc_FailJob (service_lifecycle (mongo_service B)) jobID err s)) = h s"
  unfolding service_lifecycle_def JobLifecycle.select_convs StartJob_def CompleteJob_def FailJob_def
    service_parts split_beta Let_def
  by (simp_all add: frames split: sum.split)

lemma fetch_untouched [frames]: "h (snd (FetchPending B n limit s)) = h s"
  using find_frame [of "awaiting_filter n" "oldest_first limit" s]
  by (auto simp: FetchPending_def split: prod.splits sum.splits)

text \<open>The executor, with handlers that leave the part alone.\<close>

lemma execute_untouched [frames]:
  assumes "\<And>name jobID payload s. h (snd (Run r name jobID payload s)) = h s"
  shows "h (snd (ExecuteJob (mongo_executor B r) jobID name payload s)) = h s"
  unfolding ExecuteJob_def fail_and_ack_def mongo_executor_def ExecutorService.select_convs split_beta
  by (simp add: frames assms split: option.split sum.split bool.split)

end

text \<open>The dispatch handler and the poll, over any publisher and updater.\<close>

lemma handle_untouched:
  assumes "\<And>job s. h (snd (publish job s)) = h s"
    and "\<And>jobID s. h (snd (up_MarkJobDispatched U jobID s)) = h s"
    and "\<And>jobID n msg s. h (snd (up_RecordDispatchAttempt U jobID n msg s)) = h s"
    and "\<And>jobID err s. h (snd (up_MarkJobDispatchFailed U jobID err s)) = h s"
  shows "h (snd (HandleDispatch maxAttempts publish U job s)) = h s"
  unfolding HandleDispatch_def split_beta Let_def by (simp add: assms split: option.split)

lemma handle_all_untouched:
  "(\<And>job s. h (snd (handler job s)) = h s) \<Longrightarrow> h (handle_all handler js s) = h s"
  by (induction js arbitrary: s) simp_all

lemma poll_untouched:
  assumes "\<And>job s. h (snd (handler job s)) = h s" and "\<And>n limit s. h (snd (fetch n limit s)) = h s"
  shows "h (pollOnce cfg handler fetch s) = h s"
  unfolding pollOnce_def split_beta using assms
  by (simp add: handle_all_untouched split: sum.split)

lemma stream_untouched:
  assumes "\<And>job s. h (snd (sw_handler w job s)) = h s"
    and "\<And>s. h (snd (ts_Load (sw_tokens w) s)) = h s" and "\<And>t s. h (snd (ts_Save (sw_tokens w) t s)) = h s"
    and "\<And>pipe t s. h (snd (sw_watch w pipe t s)) = h s"
  shows "h (snd (runOnce w s)) = h s"
proof -
  have e: "h (on_event w evt s) = h s" for evt s
    by (simp add: on_event_def handleEvent_def handlePendingDispatchInsert_def Let_def assms
        split: sum.split option.split)
  have l: "h (stream_loop w es s) = h s" for es s
    by (induction es arbitrary: s) (simp_all add: e)
  show ?thesis
    unfolding runOnce_def split_beta Let_def by (simp add: assms l split: sum.split option.split)
qed

lemma worker_untouched:
  assumes "\<And>job s. h (snd (dk_handler w job s)) = h s" and "\<And>n limit s. h (snd (dk_pending w n limit s)) = h s"
    and "\<And>s. h (dk_stream w s) = h s"
  shows "h (DispatchWorker_Run schedule w s) = h s"
proof (induction schedule arbitrary: s)
  case (Cons t schedule)
  then show ?case by (cases t) (simp_all add: poll_untouched assms)
qed simp

text \<open>The consumers of the executor.\<close>

lemma consumers_untouched:
  assumes "\<And>i n p s. h (snd (handler i n p s)) = h s"
    and "\<And>k s. h (snd (bk_receive bk k s)) = h s" and "\<And>k m s. h (snd (bk_ack bk k m s)) = h s"
    and "\<And>k m s. h (bk_nack bk k m s) = h s"
  shows "h (run_consumers schedule bk handler s) = h s"
proof -
  have m: "h (handleMessage bk k m handler s) = h s" for k m s
    unfolding handleMessage_def split_beta by (simp add: assms split: sum.split option.split)
  have "h (consume_once bk handler k s) = h s" for k s
    unfolding consume_once_def split_beta by (simp add: assms m split: sum.split)
  then show ?thesis by (induction schedule arbitrary: s) simp_all
qed

end
