(* ===== verification/AppRuntime.thy ===== *)
theory AppRuntime
  imports Enqueue DispatchRuntime
begin

text \<open>
  \<open>internal/jobs/appruntime/runtime.go\<close>: what the HTTP server and the command line tool share.
  \<open>Bootstrap\<close> opens the database, loads the topic registry and builds the two services over the
  opened collections; the function it returns beside the runtime disconnects again.
\<close>

section \<open>The runtime\<close>

text \<open>
  What the process is built from: the connector of the database, the driver's operations on the
  two collections a handle names, and reading and parsing of the topic manifest.
\<close>

record 's app_environment =
  ae_connector :: "'s connector"
  ae_collections :: "collection \<Rightarrow> collection \<Rightarrow> 's backend"
  ae_read_file :: "string \<Rightarrow> goerror + string"
  ae_parse_yaml :: "string \<Rightarrow> goerror + (string \<times> jobTopicEntry) list"

record AppConfig =
  ac_Mongo :: MongoConfig
  ac_TopicsConfigPath :: string

record 's AppRuntime =
  ar_Reader :: "'s backend"
  ar_Writer :: "'s backend"
  ar_MongoClient :: nat
  ar_Metadata :: "'s MetadataService"
  ar_Enqueue :: "'s EnqueueService"

definition Bootstrap :: "'s app_environment \<Rightarrow> AppConfig \<Rightarrow> ('s, goerror + 's AppRuntime) op" where
  "Bootstrap E cfg s =
     (case OpenMongoJobs (ae_connector E) (ac_Mongo cfg) s of
        (Inl err, s1) \<Rightarrow> (Inl (wrap ''connect mongodb jobs persistence'' err), s1)
      | (Inr (reader, writer, mongoClient), s1) \<Rightarrow>
          (case NewFileTopicResolver (ae_read_file E) (ae_parse_yaml E) (ac_TopicsConfigPath cfg) of
             Inl err \<Rightarrow>
               (Inl (wrap ''load job topics config'' err),
                snd (mc_disconnect (ae_connector E) mongoClient s1))
           | Inr topicResolver \<Rightarrow>
               (let rb = ae_collections E (rh_metadataCollection reader) (rh_logsCollection reader);
                    wb = ae_collections E (wh_metadataCollection writer) (wh_logsCollection writer);
                    metadataSvc = NewMetadataService (MongoJobsReader rb) (MongoJobsWriter wb)
                                    (be_now rb) (be_uuid rb);
                    enqueueSvc = NewEnqueueService metadataSvc (Resolve topicResolver)
                in (Inr \<lparr>ar_Reader = rb, ar_Writer = wb, ar_MongoClient = mongoClient,
                         ar_Metadata = metadataSvc, ar_Enqueue = enqueueSvc\<rparr>, s1))))"

text \<open>The second result of \<open>Bootstrap\<close>; an error of the disconnect is printed and dropped.\<close>

definition cleanup :: "'s app_environment \<Rightarrow> 's AppRuntime \<Rightarrow> 's \<Rightarrow> 's" where
  "cleanup E rt s = snd (mc_disconnect (ae_connector E) (ar_MongoClient rt) s)"

section \<open>What it is built of\<close>

lemma OpenMongoJobs_handles:
  assumes "OpenMongoJobs D cfg s = (Inr (reader, writer, c), s')"
  shows "rh_metadataCollection reader = (c, mg_Database cfg, mg_CollectionMetadata cfg)"
    and "rh_logsCollection reader = (c, mg_Database cfg, mg_CollectionLogs cfg)"
    and "wh_metadataCollection writer = rh_metadataCollection reader"
    and "wh_logsCollection writer = rh_logsCollection reader"
  using assms
  by (auto simp: OpenMongoJobs_def connectMongoDB_def NewMongoJobsReader_def Let_def
      split: prod.splits sum.splits option.splits)

text \<open>Both services run over the configured collections of the client that was opened.\<close>

lemma Bootstrap_parts:
  assumes "Bootstrap E cfg s = (Inr rt, s')"
  obtains r B where "NewFileTopicResolver (ae_read_file E) (ae_parse_yaml E) (ac_TopicsConfigPath cfg) = Inr r"
    and "B = ae_collections E
           (ar_MongoClient rt, mg_Database (ac_Mongo cfg), mg_CollectionMetadata (ac_Mongo cfg))
           (ar_MongoClient rt, mg_Database (ac_Mongo cfg), mg_CollectionLogs (ac_Mongo cfg))"
    and "ar_Reader rt = B" "ar_Writer rt = B"
    and "ar_Metadata rt = mongo_service B" "ar_Enqueue rt = mongo_enqueue B r"
proof -
  from assms obtain reader writer c r where
    o: "OpenMongoJobs (ae_connector E) (ac_Mongo cfg) s = (Inr (reader, writer, c), s')"
    and r: "NewFileTopicResolver (ae_read_file E) (ae_parse_yaml E) (ac_TopicsConfigPath cfg) = Inr r"
    by (auto simp: Bootstrap_def Let_def split: prod.splits sum.splits)
  note handles = OpenMongoJobs_handles [OF o]
  define B where "B = ae_collections E (c, mg_Database (ac_Mongo cfg), mg_CollectionMetadata (ac_Mongo cfg))
      (c, mg_Database (ac_Mongo cfg), mg_CollectionLogs (ac_Mongo cfg))"
  have "rt = \<lparr>ar_Reader = B, ar_Writer = B, ar_MongoClient = c,
      ar_Metadata = mongo_service B, ar_Enqueue = mongo_enqueue B r\<rparr>"
    using assms by (simp add: Bootstrap_def o r handles Let_def mongo_service_def mongo_enqueue_def B_def)
  with r that [of r B] show thesis by (simp add: B_def)
qed

context connections
begin

lemma Bootstrap_opens:
  assumes "ae_connector E = D"
  shows "opens ar_MongoClient (Bootstrap E cfg)"
proof (rule opensI)
  fix s e s' assume b: "Bootstrap E cfg s = (Inl e, s')"
  show "opened s' = opened s"
  proof (cases "OpenMongoJobs D (ac_Mongo cfg) s")
    case (Pair r s1)
    show ?thesis
    proof (cases r)
      case (Inl err)
      with Pair b have "s' = s1" by (simp add: Bootstrap_def assms)
      with Pair Inl open_jobs_opens [of "ac_Mongo cfg"] show ?thesis by (fastforce simp: opens_def)
    next
      case (Inr x)
      obtain reader writer c where x: "x = (reader, writer, c)" by (metis prod_cases3)
      obtain y s2 where d: "mc_disconnect D c s1 = (y, s2)" by fastforce
      from b Pair Inr x d have "s' = s2"
        by (auto simp: Bootstrap_def assms Let_def split: sum.splits)
      moreover have "c \<notin> opened s \<and> opened s1 = insert c (opened s)"
        using open_jobs_opens [of "ac_Mongo cfg"] Pair Inr x by (fastforce simp: opens_def)
      ultimately show ?thesis using disconnect_ok [OF d] by auto
    qed
  qed
next
  fix s rt s' assume b: "Bootstrap E cfg s = (Inr rt, s')"
  then obtain reader writer where
    "OpenMongoJobs D (ac_Mongo cfg) s = (Inr (reader, writer, ar_MongoClient rt), s')"
    by (auto simp: Bootstrap_def assms Let_def split: prod.splits sum.splits)
  with open_jobs_opens [of "ac_Mongo cfg"]
  show "ar_MongoClient rt \<notin> opened s \<and> opened s' = insert (ar_MongoClient rt) (opened s)"
    by (fastforce simp: opens_def)
qed

end

section \<open>Properties\<close>

text \<open>
  \<open>Bootstrap\<close> either fails with every client it opened released again, whichever of the
  connection, the index check and the topic registry refused, or returns the service and the
  enqueue service over the configured collections of one new client, with the registry of the
  manifest; the cleanup it returns gives back exactly that client.
\<close>

theorem bootstrap_releases_its_client:
  assumes "connections (ae_connector E) opened" and "Bootstrap E cfg s = (res, s')"
  shows "case res of
      Inl e \<Rightarrow> opened s' = opened s
    | Inr rt \<Rightarrow>
        (let c = ar_MongoClient rt; mg = ac_Mongo cfg;
             B = ae_collections E (c, mg_Database mg, mg_CollectionMetadata mg)
                                  (c, mg_Database mg, mg_CollectionLogs mg)
         in c \<notin> opened s \<and> opened s' = insert c (opened s)
          \<and> ar_Metadata rt = mongo_service B \<and> ar_Writer rt = B
          \<and> (\<exists>r. NewFileTopicResolver (ae_read_file E) (ae_parse_yaml E) (ac_TopicsConfigPath cfg) = Inr r
               \<and> ar_Enqueue rt = mongo_enqueue B r)
          \<and> (\<forall>x. opened (cleanup E rt x) = opened x - {c}))"
proof (cases res)
  case (Inl e)
  with connections.Bootstrap_opens [OF assms(1) refl, of cfg] assms(2) show ?thesis
    by (fastforce simp: connections.opens_def [OF assms(1)])
next
  case (Inr rt)
  have "opened (cleanup E rt x) = opened x - {ar_MongoClient rt}" for x
    unfolding cleanup_def using connections.disconnect_ok [OF assms(1)] by (metis prod.collapse)
  moreover have "ar_MongoClient rt \<notin> opened s \<and> opened s' = insert (ar_MongoClient rt) (opened s)"
    using connections.Bootstrap_opens [OF assms(1) refl, of cfg] assms(2) Inr
    by (fastforce simp: connections.opens_def [OF assms(1)])
  moreover from assms(2) [unfolded Inr] show ?thesis
    by (rule Bootstrap_parts) (use Inr calculation in \<open>auto simp: Let_def\<close>)
qed

text \<open>The process over the world in memory, with the manifest of the samples.\<close>

definition world_app :: "world app_environment" where
  "world_app = \<lparr>ae_connector = world_connector, ae_collections = (\<lambda>_ _. world_backend),
     ae_read_file = (\<lambda>path. Inr []), ae_parse_yaml = (\<lambda>contents. Inr sample_manifest)\<rparr>"

definition sample_app_config :: AppConfig where
  "sample_app_config = \<lparr>ac_Mongo = sample_mongo_config, ac_TopicsConfigPath = []\<rparr>"

lemma world_app_connections: "connections (ae_connector world_app) (\<lambda>w. ct_opened (wd_cluster w))"
  using mem_resources.connections_axioms by (simp add: world_app_def)

definition sample_app :: "world AppRuntime" where
  "sample_app = \<lparr>ar_Reader = world_backend, ar_Writer = world_backend, ar_MongoClient = 1,
     ar_Metadata = mongo_service world_backend, ar_Enqueue = mongo_enqueue world_backend sample_registry\<rparr>"

abbreviation sample_world :: world where
  "sample_world \<equiv> world_with mem_empty"

abbreviation sample_connected :: world where
  "sample_connected \<equiv> sample_world\<lparr>wd_cluster := cluster_empty\<lparr>ct_open := [1], ct_next := 1\<rparr>\<rparr>"

lemma sample_open:
  "OpenMongoJobs world_connector sample_mongo_config sample_world
      = (Inr (\<lparr>rh_metadataCollection = (1, ''jobby'', ''job_metadata''),
               rh_logsCollection = (1, ''jobby'', ''job_logs''), rh_IndexesPresent = False\<rparr>,
              \<lparr>wh_metadataCollection = (1, ''jobby'', ''job_metadata''),
               wh_logsCollection = (1, ''jobby'', ''job_logs'')\<rparr>, 1), sample_connected)"
  by (simp add: OpenMongoJobs_def connectMongoDB_def NewMongoJobsReader_def ensureJobsIndexes_def
      verifyRequiredIndexesPresent_def world_connector_def mem_connector_def ct_call_def along_def
      world_with_def cluster_empty_def sample_mongo_config_def metadataRequired_def logsRequired_def Let_def)

lemma sample_bootstrap:
  "Bootstrap world_app sample_app_config sample_world = (Inr sample_app, sample_connected)"
  by (simp add: Bootstrap_def world_app_def sample_app_config_def sample_registry_loads Let_def sample_open
      sample_app_def mongo_service_def mongo_enqueue_def)

theorem bootstrap_releases_its_client_witness:
  "\<exists>w. Bootstrap world_app sample_app_config (world_with mem_empty) = (Inr sample_app, w)
     \<and> ct_opened (wd_cluster w) = {1} \<and> ct_opened (wd_cluster (cleanup world_app sample_app w)) = {}"
proof (intro exI conjI)
  show "Bootstrap world_app sample_app_config sample_world = (Inr sample_app, sample_connected)"
    by (rule sample_bootstrap)
  have "\<forall>x. ct_opened (wd_cluster (cleanup world_app sample_app x))
      = ct_opened (wd_cluster x) - {ar_MongoClient sample_app}"
    using bootstrap_releases_its_client [OF world_app_connections sample_bootstrap]
    unfolding sum.case Let_def by blast
  then show "ct_opened (wd_cluster (cleanup world_app sample_app sample_connected)) = {}"
    by (simp add: sample_app_def)
qed simp

end
