(* ===== verification/TabWriter.thy ===== *)
theory TabWriter
  imports Prelude
begin

text \<open>
  \<open>text/tabwriter\<close> of the standard library, as \<open>cmd/jobs-cli/output/table.go\<close> sets it up: no
  minimal width, two blanks of padding, no flags. The layout it computes is compared with a
  reference layout in \<open>Tables\<close>.
\<close>

section \<open>Runes\<close>

text \<open>
  The number of bytes of the first rune of a text, after the table of well-formed UTF-8; a byte
  that begins no rune counts as one.
\<close>

definition byte_in :: "nat \<Rightarrow> nat \<Rightarrow> char \<Rightarrow> bool" where
  "byte_in lo hi c \<longleftrightarrow> lo \<le> (of_char c :: nat) \<and> (of_char c :: nat) \<le> hi"

abbreviation continuation :: "char \<Rightarrow> bool" where "continuation \<equiv> byte_in 0x80 0xBF"

definition second_byte :: "char \<Rightarrow> char \<Rightarrow> bool" where
  "second_byte b c =
     (if b = CHR 0xE0 then byte_in 0xA0 0xBF c
      else if b = CHR 0xED then byte_in 0x80 0x9F c
      else if b = CHR 0xF0 then byte_in 0x90 0xBF c
      else if b = CHR 0xF4 then byte_in 0x80 0x8F c
      else continuation c)"

definition rune_size :: "char \<Rightarrow> nat" where
  "rune_size b =
     (if byte_in 0xC2 0xDF b then 2 else if byte_in 0xE0 0xEF b then 3
      else if byte_in 0xF0 0xF4 b then 4 else 1)"

definition rune_len :: "string \<Rightarrow> nat" where
  "rune_len s =
     (case s of [] \<Rightarrow> 0
      | b # r \<Rightarrow>
          (let n = rune_size b; tl_bytes = take (n - 1) r in
           if length tl_bytes = n - 1 \<and> (tl_bytes \<noteq> [] \<longrightarrow> second_byte b (hd tl_bytes))
              \<and> list_all continuation (tl tl_bytes)
           then n else 1))"

lemma rune_len_pos: "s \<noteq> [] \<Longrightarrow> 0 < rune_len s"
  by (cases s) (auto simp: rune_len_def rune_size_def Let_def)

function runes :: "string \<Rightarrow> string list" where
  "runes s = (if s = [] then [] else take (rune_len s) s # runes (drop (rune_len s) s))"
  by auto
termination
  by (relation "measure length") (use rune_len_pos in auto)

declare runes.simps [simp del]

definition rune_count :: "string \<Rightarrow> nat" where
  "rune_count s = length (runes s)"

definition valid_utf8 :: "string \<Rightarrow> bool" where
  "valid_utf8 s \<longleftrightarrow> list_all (\<lambda>r. length r = 1 \<longrightarrow> byte_in 0 0x7F (hd r)) (runes s)"

section \<open>The writer\<close>

text \<open>A cell is its text with its width; a line is its cells and whether a newline ended it.\<close>

type_synonym cell = "string \<times> int"
type_synonym tline = "cell list \<times> bool"

definition tab :: char where "tab = CHR 0x09"
definition newline :: char where "newline = CHR 0x0A"
definition escape :: char where "escape = CHR 0xFF"

fun cells_text :: "int list \<Rightarrow> cell list \<Rightarrow> string" where
  "cells_text ws [] = []"
| "cells_text [] ((t, w) # cs) = t @ cells_text [] cs"
| "cells_text (k # ks) ((t, w) # cs) = t @ replicate (nat (k - w)) CHR '' '' @ cells_text ks cs"

definition writeLines :: "int list \<Rightarrow> tline list \<Rightarrow> string" where
  "writeLines ws ls = concat (map (\<lambda>(cs, nl). cells_text ws cs @ (if nl then [newline] else [])) ls)"

definition in_column :: "nat \<Rightarrow> tline \<Rightarrow> bool" where
  "in_column k l \<longleftrightarrow> Suc k < length (fst l)"

definition block_width :: "nat \<Rightarrow> tline list \<Rightarrow> int" where
  "block_width k ls = fold (\<lambda>l m. max m (snd (fst l ! k) + 2)) ls 0"

definition tw_measure :: "int list \<Rightarrow> tline list \<Rightarrow> nat" where
  "tw_measure ws ls = (\<Sum>l\<leftarrow>ls. Suc (length (fst l) - length ws))"

lemma tw_measure_append [simp]: "tw_measure ws (a @ b) = tw_measure ws a + tw_measure ws b"
  by (simp add: tw_measure_def)

lemma tw_measure_block:
  "\<forall>l\<in>set ls. in_column (length ws) l \<Longrightarrow> tw_measure (ws @ [w]) ls + length ls = tw_measure ws ls"
  by (induction ls) (auto simp: tw_measure_def in_column_def)

lemma tw_measure_pos: "ls \<noteq> [] \<Longrightarrow> 0 < tw_measure ws ls"
  by (cases ls) (simp_all add: tw_measure_def)

lemma first_block:
  assumes "dropWhile (\<lambda>l. \<not> p l) ls \<noteq> []"
  shows "takeWhile p (dropWhile (\<lambda>l. \<not> p l) ls) \<noteq> []"
  using assms hd_dropWhile [OF assms] by (cases "dropWhile (\<lambda>l. \<not> p l) ls") auto

text \<open>Consecutive lines with a cell in the column form a block, laid out with the width of its
  widest cell; the lines around it are laid out without.\<close>

function tw_format :: "int list \<Rightarrow> tline list \<Rightarrow> string" where
  "tw_format ws ls =
     (let k = length ws; rest = dropWhile (\<lambda>l. \<not> in_column k l) ls in
      if rest = [] then writeLines ws ls
      else writeLines ws (takeWhile (\<lambda>l. \<not> in_column k l) ls)
           @ tw_format (ws @ [block_width k (takeWhile (in_column k) rest)]) (takeWhile (in_column k) rest)
           @ tw_format ws (dropWhile (in_column k) rest))"
  by auto
termination
proof (relation "measure (\<lambda>(ws, ls). tw_measure ws ls)", goal_cases)
  case (2 ws ls k rest)
  let ?blk = "takeWhile (in_column k) rest"
  have "tw_measure (ws @ [block_width k ?blk]) ?blk + length ?blk = tw_measure ws ?blk"
    using 2(1) by (intro tw_measure_block) (auto dest: set_takeWhileD)
  moreover have "0 < length ?blk"
    using 2 first_block by blast
  moreover have "tw_measure ws ls = tw_measure ws (takeWhile (\<lambda>l. \<not> in_column k l) ls)
      + (tw_measure ws ?blk + tw_measure ws (dropWhile (in_column k) rest))"
    using 2(2) by (metis takeWhile_dropWhile_id tw_measure_append)
  ultimately show ?case unfolding in_measure prod.case by linarith
next
  case (3 ws ls k rest)
  have "0 < tw_measure ws (takeWhile (in_column k) rest)"
    using 3 first_block [of "in_column k" ls] tw_measure_pos by blast
  moreover have "tw_measure ws ls = tw_measure ws (takeWhile (\<lambda>l. \<not> in_column k l) ls)
      + (tw_measure ws (takeWhile (in_column k) rest) + tw_measure ws (dropWhile (in_column k) rest))"
    using 3(2) by (metis takeWhile_dropWhile_id tw_measure_append)
  ultimately show ?case by simp
qed simp

declare tw_format.simps [simp del]

text \<open>
  What the writer holds: the finished lines, the cells of the current one, the text of the current
  cell with the width counted so far and the part of the text not yet counted, whether an escape
  is open, and what was written.
\<close>

record tabwriter =
  tw_lines :: "cell list list"
  tw_line :: "cell list"
  tw_text :: string
  tw_width :: int
  tw_chunk :: string
  tw_escaped :: bool
  tw_out :: string

definition tw_empty :: "string \<Rightarrow> tabwriter" where
  "tw_empty out = \<lparr>tw_lines = [], tw_line = [], tw_text = [], tw_width = 0, tw_chunk = [],
     tw_escaped = False, tw_out = out\<rparr>"

text \<open>Text with a newline is written in full; what follows the last newline ends the text.\<close>

definition layout_lines :: "cell list list \<Rightarrow> cell list \<Rightarrow> string" where
  "layout_lines ls line = tw_format [] (map (\<lambda>l. (l, True)) ls @ [(line, False)])"

definition tw_byte :: "char \<Rightarrow> tabwriter \<Rightarrow> tabwriter" where
  "tw_byte c tw =
     (let counted = tw_width tw + int (rune_count (tw_chunk tw)) in
      if tw_escaped tw then
        (if c = escape
         then tw\<lparr>tw_text := tw_text tw @ [c],
                 tw_width := tw_width tw + int (rune_count (tw_chunk tw @ [c])) - 2,
                 tw_chunk := [], tw_escaped := False\<rparr>
         else tw\<lparr>tw_text := tw_text tw @ [c], tw_chunk := tw_chunk tw @ [c]\<rparr>)
      else if c = escape then
        tw\<lparr>tw_text := tw_text tw @ [c], tw_width := counted, tw_chunk := [c], tw_escaped := True\<rparr>
      else if c = tab \<or> c = CHR 0x0B then
        tw\<lparr>tw_line := tw_line tw @ [(tw_text tw, counted)], tw_text := [], tw_width := 0, tw_chunk := []\<rparr>
      else if c = newline \<or> c = CHR 0x0C then
        (let line = tw_line tw @ [(tw_text tw, counted)]; ls = tw_lines tw @ [line] in
         if c = CHR 0x0C \<or> length line = 1 then tw_empty (tw_out tw @ layout_lines ls [])
         else tw\<lparr>tw_lines := ls, tw_line := [], tw_text := [], tw_width := 0, tw_chunk := []\<rparr>)
      else tw\<lparr>tw_text := tw_text tw @ [c], tw_chunk := tw_chunk tw @ [c]\<rparr>)"

definition tw_Flush :: "tabwriter \<Rightarrow> string" where
  "tw_Flush tw =
     (let counted = tw_width tw + int (rune_count (tw_chunk tw)) - (if tw_escaped tw then 2 else 0);
          line = (if tw_text tw = [] then tw_line tw else tw_line tw @ [(tw_text tw, counted)])
      in tw_out tw @ layout_lines (tw_lines tw) line)"

text \<open>What the writer hands on of a text it is given.\<close>

definition tabwriter_text :: "string \<Rightarrow> string" where
  "tabwriter_text t = tw_Flush (fold tw_byte t (tw_empty []))"

section \<open>Rows of the same length\<close>

text \<open>Text the writer takes as it is.\<close>

definition plain :: "string \<Rightarrow> bool" where
  "plain s \<longleftrightarrow> (\<forall>c\<in>set s. c \<notin> {tab, newline, escape, CHR 0x0B, CHR 0x0C})"

text \<open>One row of a table: the cells with tabs between them and a newline.\<close>

fun row_text :: "string list \<Rightarrow> string" where
  "row_text [] = [newline]"
| "row_text [c] = c @ [newline]"
| "row_text (c # cs) = c @ tab # row_text cs"

definition cell_of :: "string \<Rightarrow> cell" where
  "cell_of c = (c, int (rune_count c))"

lemma runes_Nil [simp]: "runes [] = []"
  by (simp add: runes.simps)

lemma rune_count_Nil [simp]: "rune_count [] = 0"
  by (simp add: rune_count_def)

lemma tw_plain_byte:
  "\<lbrakk>\<not> tw_escaped tw; c \<notin> {tab, newline, escape, CHR 0x0B, CHR 0x0C}\<rbrakk> \<Longrightarrow>
   tw_byte c tw = tw\<lparr>tw_text := tw_text tw @ [c], tw_chunk := tw_chunk tw @ [c]\<rparr>"
  by (simp add: tw_byte_def Let_def)

lemma tw_plain_text:
  "\<lbrakk>plain s; \<not> tw_escaped tw\<rbrakk> \<Longrightarrow>
   fold tw_byte s tw = tw\<lparr>tw_text := tw_text tw @ s, tw_chunk := tw_chunk tw @ s\<rparr>"
  by (induction s arbitrary: tw) (simp_all add: plain_def tw_plain_byte)

lemma tw_row:
  assumes "cs \<noteq> []" "\<forall>c\<in>set cs. plain c" "1 < length line + length cs"
  shows "fold tw_byte (row_text cs)
           \<lparr>tw_lines = ls, tw_line = line, tw_text = [], tw_width = 0, tw_chunk = [], tw_escaped = False,
            tw_out = out\<rparr>
       = \<lparr>tw_lines = ls @ [line @ map cell_of cs], tw_line = [], tw_text = [], tw_width = 0,
          tw_chunk = [], tw_escaped = False, tw_out = out\<rparr>"
  using assms
  by (induction cs arbitrary: line rule: row_text.induct)
    (auto simp: tw_plain_text tw_byte_def Let_def cell_of_def tab_def newline_def escape_def)

lemma tw_rows:
  assumes "\<forall>r\<in>set rows. 1 < length r \<and> (\<forall>c\<in>set r. plain c)"
  shows "fold tw_byte (concat (map row_text rows))
           \<lparr>tw_lines = ls, tw_line = [], tw_text = [], tw_width = 0, tw_chunk = [], tw_escaped = False,
            tw_out = out\<rparr>
       = \<lparr>tw_lines = ls @ map (map cell_of) rows, tw_line = [], tw_text = [], tw_width = 0,
          tw_chunk = [], tw_escaped = False, tw_out = out\<rparr>"
  using assms
proof (induction rows arbitrary: ls)
  case (Cons r rows)
  then have "r \<noteq> []" by auto
  with Cons show ?case by (simp add: tw_row)
qed simp

lemma tw_table:
  assumes "\<forall>r\<in>set rows. 1 < length r \<and> (\<forall>c\<in>set r. plain c)"
  shows "tabwriter_text (concat (map row_text rows)) = layout_lines (map (map cell_of) rows) []"
  by (simp add: tabwriter_text_def tw_empty_def tw_rows [OF assms] tw_Flush_def)

text \<open>The blocks of such rows are the columns.\<close>

lemma tw_format_uniform:
  assumes "ls \<noteq> []" "\<forall>l\<in>set ls. length (fst l) = n" "length ws < n"
  shows "tw_format ws ls = writeLines (ws @ map (\<lambda>k. block_width k ls) [length ws ..< n - 1]) ls"
  using assms
proof (induction "n - length ws" arbitrary: ws)
  case (Suc d)
  show ?case
  proof (cases "Suc (length ws) < n")
    case True
    then have col: "\<forall>l\<in>set ls. in_column (length ws) l"
      using Suc.prems by (simp add: in_column_def)
    have "tw_format ws ls = tw_format (ws @ [block_width (length ws) ls]) ls @ tw_format ws []"
      using col Suc.prems(1)
      by (subst tw_format.simps) (cases ls; simp add: Let_def takeWhile_eq_all_conv [THEN iffD2]
          dropWhile_eq_Nil_conv [THEN iffD2] writeLines_def)
    also have "tw_format ws [] = []" by (simp add: tw_format.simps writeLines_def)
    also have "tw_format (ws @ [block_width (length ws) ls]) ls
        = writeLines ((ws @ [block_width (length ws) ls])
            @ map (\<lambda>k. block_width k ls) [Suc (length ws) ..< n - 1]) ls"
      using Suc.hyps(1) [of "ws @ [block_width (length ws) ls]"] Suc.hyps(2) Suc.prems True by simp
    also have "\<dots> = writeLines (ws @ map (\<lambda>k. block_width k ls) [length ws ..< n - 1]) ls"
      using True by (simp add: upt_conv_Cons)
    finally show ?thesis by simp
  next
    case False
    then have "dropWhile (\<lambda>l. \<not> in_column (length ws) l) ls = []"
      using Suc.prems by (simp add: in_column_def)
    with False show ?thesis by (subst tw_format.simps) (simp add: Let_def)
  qed
qed simp

section \<open>The reference layout\<close>

text \<open>A column is as wide as its widest cell and two blanks; the last cell of a row is not padded.\<close>

definition column_width :: "string list list \<Rightarrow> nat \<Rightarrow> nat" where
  "column_width rows k = Max ((\<lambda>r. rune_count (r ! k)) ` set rows) + 2"

definition column_widths :: "string list list \<Rightarrow> nat \<Rightarrow> nat list" where
  "column_widths rows n = map (column_width rows) [0 ..< n - 1]"

fun padded_cells :: "nat list \<Rightarrow> string list \<Rightarrow> string" where
  "padded_cells (w # ws) (c # cs) = c @ replicate (w - rune_count c) CHR '' '' @ padded_cells ws cs"
| "padded_cells _ cs = concat cs"

definition layout_row :: "string list list \<Rightarrow> string list \<Rightarrow> string" where
  "layout_row rows r = padded_cells (column_widths rows (length r)) r @ [newline]"

definition layout :: "string list list \<Rightarrow> string" where
  "layout rows = concat (map (layout_row rows) rows)"

lemma fold_max_Max: "fold (\<lambda>x m. max m (f x)) xs m = Max (insert m (f ` set xs))"
  for f :: "'a \<Rightarrow> 'b :: linorder"
proof (induction xs arbitrary: m)
  case (Cons x xs)
  then show ?case by (cases "xs = []") (simp_all add: max.assoc)
qed simp

lemma block_width_columns:
  assumes "rows \<noteq> []" "\<forall>r\<in>set rows. k < length r"
  shows "block_width k (map (\<lambda>l. (l, nl)) (map (map cell_of) rows)) = int (column_width rows k)"
proof -
  have "fold (\<lambda>l m. max m (snd (fst l ! k) + 2)) (map (\<lambda>l. (l, nl)) (map (map cell_of) rows)) m
      = Max (insert m ((\<lambda>r. int (rune_count (r ! k)) + 2) ` set rows))" for m
    using assms(2) by (simp add: fold_max_Max image_image cell_of_def cong: image_cong)
  then have "block_width k (map (\<lambda>l. (l, nl)) (map (map cell_of) rows))
      = Max (insert 0 ((\<lambda>r. int (rune_count (r ! k)) + 2) ` set rows))"
    by (simp add: block_width_def)
  also have "\<dots> = Max ((\<lambda>r. int (rune_count (r ! k)) + 2) ` set rows)"
    using assms(1) by (cases rows) (auto simp: Max_ge_iff intro!: max_absorb2)
  also have "\<dots> = int (Max ((\<lambda>r. rune_count (r ! k)) ` set rows) + 2)"
    using mono_Max_commute [of "\<lambda>n. int n + 2" "(\<lambda>r. rune_count (r ! k)) ` set rows"] assms(1)
    by (simp add: image_image mono_def)
  finally show ?thesis by (simp add: column_width_def)
qed

lemma cells_text_plain: "cells_text (map int []) (map cell_of cs) = padded_cells [] cs"
  by (induction cs) (simp_all add: cell_of_def)

lemma cells_text_padded: "cells_text (map int ws) (map cell_of cs) = padded_cells ws cs"
proof (induction ws cs rule: padded_cells.induct, goal_cases)
  case 1
  then show ?case by (simp add: cell_of_def nat_minus_as_int)
next
  case 2
  show ?case by (rule cells_text_plain)
qed simp

lemma tw_format_columns:
  assumes "rows \<noteq> []" "\<forall>r\<in>set rows. length r = n" "0 < n"
  shows "tw_format [] (map (\<lambda>l. (l, True)) (map (map cell_of) rows)) = layout rows"
proof -
  let ?ls = "map (\<lambda>l. (l, True)) (map (map cell_of) rows)"
  have width: "block_width k ?ls = int (column_width rows k)" if "k < n - 1" for k
    using assms(2) that by (intro block_width_columns [OF assms(1)]) auto
  have "tw_format [] ?ls = writeLines (map (\<lambda>k. block_width k ?ls) [0 ..< n - 1]) ?ls"
    using tw_format_uniform [of ?ls n "[]"] assms by auto
  also have "map (\<lambda>k. block_width k ?ls) [0 ..< n - 1] = map int (column_widths rows n)"
    unfolding column_widths_def map_map comp_def using width by (intro map_cong) (auto simp: comp_def)
  also have "writeLines (map int (column_widths rows n)) ?ls = layout rows"
    using assms(2) by (simp add: writeLines_def layout_def layout_row_def comp_def cells_text_padded
        cong: map_cong)
  finally show ?thesis .
qed

text \<open>The last, empty line of a flush lays out nothing.\<close>

lemma tw_format_end: "tw_format [] (ls @ [([], False)]) = tw_format [] ls"
proof (induction "[] :: int list" ls rule: tw_format.induct)
  case (1 ls)
  let ?out = "\<lambda>l. \<not> in_column 0 l" and ?in = "in_column 0"
  have last: "?out ([], False)" by (simp add: in_column_def)
  show ?case
  proof (cases "dropWhile ?out ls = []")
    case True
    then have "dropWhile ?out (ls @ [([], False)]) = []"
      using last by (simp add: dropWhile_eq_Nil_conv)
    with True show ?thesis
      by (subst (1 2) tw_format.simps) (simp add: writeLines_def Let_def del: dropWhile_eq_Nil_conv)
  next
    case False
    let ?rest = "dropWhile ?out ls"
    have split: "dropWhile ?out (ls @ [([], False)]) = ?rest @ [([], False)]"
      "takeWhile ?out (ls @ [([], False)]) = takeWhile ?out ls"
      using False by (auto simp: dropWhile_append3 dropWhile_eq_Nil_conv takeWhile_append1)
    have last': "\<not> in_column 0 ([], False)" using last by simp
    have blk: "takeWhile p (xs @ [x]) = takeWhile p xs" "dropWhile p (xs @ [x]) = dropWhile p xs @ [x]"
      if "\<not> p x" for p and x :: tline and xs
      using that by (induction xs) auto
    have after: "tw_format [] (dropWhile ?in ?rest @ [([], False)]) = tw_format [] (dropWhile ?in ?rest)"
      using 1(2) [of 0 ?rest] False by simp
    have "tw_format [] (ls @ [([], False)]) = writeLines [] (takeWhile ?out ls)
        @ tw_format [block_width 0 (takeWhile ?in ?rest)] (takeWhile ?in ?rest)
        @ tw_format [] (dropWhile ?in ?rest @ [([], False)])"
      using False by (subst tw_format.simps) (simp only: Let_def split blk [where p = ?in, OF last'] list.size append_Nil
          append_is_Nil_conv if_False simp_thms)
    also have "\<dots> = tw_format [] ls"
      unfolding after using False
      by (subst tw_format.simps [of "[]" ls]) (simp only: Let_def list.size append_Nil if_False simp_thms)
    finally show ?thesis .
  qed
qed

theorem tabwriter_layout:
  assumes "1 < n" "\<forall>r\<in>set rows. length r = n \<and> (\<forall>c\<in>set r. plain c)"
  shows "tabwriter_text (concat (map row_text rows)) = layout rows"
proof (cases "rows = []")
  case True
  then show ?thesis
    by (simp add: tabwriter_text_def tw_Flush_def tw_empty_def layout_lines_def layout_def
        tw_format.simps [of "[]"] writeLines_def in_column_def)
next
  case False
  then show ?thesis
    using tw_format_columns [OF False, of n] assms
    by (simp add: tw_table layout_lines_def tw_format_end)
qed

section \<open>Columns\<close>

text \<open>Text that begins with an ASCII byte begins a rune, whatever stands before it.\<close>

abbreviation ascii :: "char \<Rightarrow> bool" where "ascii \<equiv> byte_in 0 0x7F"

lemma ascii_not_inside:
  assumes "ascii c"
  shows "\<not> continuation c" "\<not> second_byte b c" "rune_size c = 1"
  using assms by (auto simp: byte_in_def second_byte_def rune_size_def)

lemma runes_ascii: "ascii c \<Longrightarrow> runes (c # s) = [c] # runes s"
  by (subst runes.simps) (simp add: rune_len_def ascii_not_inside Let_def)

lemma rune_len_ascii_after:
  assumes "a \<noteq> []" "s = [] \<or> ascii (hd s)"
  shows "rune_len (a @ s) = rune_len a"
proof (cases s)
  case s: (Cons c s')
  obtain b r where a: "a = b # r" using assms(1) by (cases a) auto
  show ?thesis
  proof (cases "rune_size b - 1 \<le> length r")
    case True
    then have "take (rune_size b - 1) (r @ s) = take (rune_size b - 1) r" by simp
    then show ?thesis by (simp only: rune_len_def a append_Cons list.case Let_def)
  next
    case False
    have c: "\<not> continuation c" "\<not> second_byte b c" using assms(2) s ascii_not_inside by auto
    have "\<not> list_all continuation (tl (take (rune_size b - 1) (r @ s)))" if "r \<noteq> []"
    proof -
      have "take (rune_size b - 1) (r @ s) = r @ c # take (rune_size b - 2 - length r) s'"
        using False by (simp add: s take_Cons' nat_diff_split)
      with that c show ?thesis by simp
    qed
    moreover have "\<not> second_byte b (hd (take (rune_size b - 1) (r @ s)))" if "r = []"
      using False that c by (simp add: s take_Cons')
    ultimately show ?thesis
      using False by (cases "r = []") (auto simp: rune_len_def a Let_def)
  qed
qed simp

lemma rune_len_bound: "rune_len s \<le> length s"
  by (cases s) (auto simp: rune_len_def rune_size_def Let_def)

lemma runes_append: "s = [] \<or> ascii (hd s) \<Longrightarrow> runes (a @ s) = runes a @ runes s"
proof (induction a rule: runes.induct)
  case (1 a)
  show ?case
  proof (cases "a = []")
    case False
    then have "runes (a @ s) = take (rune_len a) a # runes (drop (rune_len a) a @ s)"
      using 1(2) by (subst runes.simps) (simp add: rune_len_ascii_after rune_len_bound)
    with False 1 show ?thesis by (simp add: runes.simps [of a])
  qed simp
qed

lemma ascii_blank [simp]: "ascii CHR '' ''" "ascii newline"
  by (simp_all add: byte_in_def newline_def)

lemma runes_blanks: "runes (replicate k CHR '' '' @ s) = replicate k [CHR '' ''] @ runes s"
  by (induction k) (simp_all add: runes_ascii)

text \<open>Each cell stands at the place of its column, counted in runes.\<close>

lemma cell_at_column:
  assumes "length cs = Suc (length ws)" "\<forall>i < length ws. rune_count (cs ! i) + 2 \<le> ws ! i"
    "j < length cs"
  shows "take (rune_count (cs ! j)) (drop (sum_list (take j ws)) (runes (padded_cells ws cs @ [newline])))
       = runes (cs ! j)"
  using assms
proof (induction ws cs arbitrary: j rule: padded_cells.induct)
  case (1 w ws c cs)
  have "2 \<le> w - rune_count c" "rune_count c \<le> w" using 1(3) by (auto dest!: spec [of _ 0])
  then have "runes (padded_cells (w # ws) (c # cs) @ [newline])
      = runes c @ replicate (w - rune_count c) [CHR '' ''] @ runes (padded_cells ws cs @ [newline])"
    by (cases "w - rune_count c") (simp_all add: runes_append runes_blanks runes_ascii)
  moreover have "\<forall>i < length ws. rune_count (cs ! i) + 2 \<le> ws ! i" using 1(3) by auto
  ultimately show ?case
    using 1 \<open>rune_count c \<le> w\<close> by (cases j) (simp_all add: rune_count_def)
qed (auto simp: runes_append rune_count_def less_Suc_eq_0_disj length_Suc_conv)

text \<open>A text shows rows in columns when one list of places serves all its lines.\<close>

definition in_columns :: "string list list \<Rightarrow> string \<Rightarrow> bool" where
  "in_columns rows t \<longleftrightarrow>
     (\<exists>places ls. t = concat ls
        \<and> list_all2 (\<lambda>r l. \<forall>j < length r. take (rune_count (r ! j)) (drop (places ! j) (runes l)) = runes (r ! j))
            rows ls)"

lemma layout_in_columns:
  assumes "1 < n" "\<forall>r\<in>set rows. length r = n"
  shows "in_columns rows (layout rows)"
  unfolding in_columns_def
proof (intro exI conjI)
  let ?ws = "column_widths rows n"
  show "layout rows = concat (map (layout_row rows) rows)" by (simp add: layout_def)
  have wide: "rune_count (r ! i) + 2 \<le> ?ws ! i" if "r \<in> set rows" "i < n - 1" for r i
    using that by (simp add: column_widths_def column_width_def)
  have "take (rune_count (r ! j)) (drop (map (\<lambda>j. sum_list (take j ?ws)) [0 ..< n] ! j)
          (runes (layout_row rows r))) = runes (r ! j)" if "r \<in> set rows" "j < length r" for r j
    using cell_at_column [of r ?ws j] wide [OF that(1)] that assms
    by (simp add: layout_row_def column_widths_def)
  then show "list_all2 (\<lambda>r l. \<forall>j < length r. take (rune_count (r ! j))
          (drop (map (\<lambda>j. sum_list (take j ?ws)) [0 ..< n] ! j) (runes l)) = runes (r ! j))
        rows (map (layout_row rows) rows)"
    by (simp add: list_all2_conv_all_nth)
qed

end
