(* ===== verification/Tables.thy ===== *)
theory Tables
  imports Samples TabWriter
begin

text \<open>
  \<open>cmd/jobs-cli/output/table.go\<close>: the tables of the command line tool, as \<open>text/tabwriter\<close> lays
  them out. The pieces the tabwriter writes one after another are handed on as one text.
\<close>

section \<open>Cells\<close>

text \<open>\<open>strings.ReplaceAll\<close> of one byte by another.\<close>

definition replace_char :: "char \<Rightarrow> char \<Rightarrow> string \<Rightarrow> string" where
  "replace_char old new s = map (\<lambda>c. if c = old then new else c) s"

text \<open>The code calls it with 80; below 3 the slice would panic.\<close>

definition truncate :: "string \<Rightarrow> nat \<Rightarrow> string" where
  "truncate s bound =
     (let s1 = replace_char newline CHR '' '' (replace_char tab CHR '' '' s)
      in if length s1 \<le> bound then s1 else take (bound - 3) s1 @ ''...'')"

definition formatTime :: "instant \<Rightarrow> string" where
  "formatTime t = (if t = 0 then [] else rfc3339 t)"

section \<open>Rows\<close>

text \<open>\<open>row_text\<close> is one \<open>writeLine\<close> or \<open>writeFormat\<close>.\<close>

definition job_row :: "job \<Rightarrow> string list" where
  "job_row j = [jm_JobID j, jm_Name j, JobStatus_String (GetStatus j), go_int (jm_Priority j),
                go_int (jm_RetryCount j), formatTime (jm_CreatedAt j)]"

definition WriteJobsTable :: "(string \<Rightarrow> ('s, goerror option) op) \<Rightarrow> job list \<Rightarrow> ('s, goerror option) op" where
  "WriteJobsTable w jobs =
     w (tabwriter_text (row_text [''JOB ID'', ''NAME'', ''STATUS'', ''PRIORITY'', ''RETRIES'', ''CREATED'']
        @ concat (map (row_text \<circ> job_row) jobs)))"

definition WriteStatsTable :: "(string \<Rightarrow> ('s, goerror option) op) \<Rightarrow> JobStats \<Rightarrow> ('s, goerror option) op" where
  "WriteStatsTable w stats =
     w (tabwriter_text (row_text [''STATUS'', ''COUNT'']
        @ row_text [''pending_dispatch'', go_int (st_PendingDispatch stats)]
        @ row_text [''dispatched'', go_int (st_Dispatched stats)]
        @ row_text [''dispatch_failed'', go_int (st_DispatchFailed stats)]
        @ row_text [''running'', go_int (st_Running stats)]
        @ row_text [''completed'', go_int (st_Completed stats)]
        @ row_text [''failed'', go_int (st_Failed stats)]
        @ row_text [''cancelled'', go_int (st_Cancelled stats)]
        @ row_text [''total'', go_int (st_Total stats)]))"

definition log_row :: "JobLog \<Rightarrow> string list" where
  "log_row l = [formatTime (jl_Timestamp l), LogLevel_String (jl_Level l), truncate (jl_Message l) 80,
                jl_Source l]"

definition WriteLogsTable :: "(string \<Rightarrow> ('s, goerror option) op) \<Rightarrow> JobLog list \<Rightarrow> ('s, goerror option) op" where
  "WriteLogsTable w logs =
     w (tabwriter_text (row_text [''TIMESTAMP'', ''LEVEL'', ''MESSAGE'', ''SOURCE'']
        @ concat (map (row_text \<circ> log_row) logs)))"

section \<open>Which texts are cells\<close>

lemma plain_Nil [simp]: "plain []"
  by (simp add: plain_def)

lemma plain_Cons:
  "plain (c # s) \<longleftrightarrow> c \<notin> {CHR 0x09, CHR 0x0A, CHR 0x0B, CHR 0x0C, CHR 0xFF} \<and> plain s"
  by (auto simp: plain_def tab_def newline_def escape_def)

lemma digit_code: "d < 10 \<Longrightarrow> (of_char (char_of (48 + d :: nat) :: char) :: nat) = 48 + d"
  by simp

lemma plain_from_codes: "(\<And>c. c \<in> set s \<Longrightarrow> of_char c \<in> {13 ..< 255 :: nat}) \<Longrightarrow> plain s"
  by (fastforce simp: plain_def tab_def newline_def escape_def)

lemma nat_digits_codes: "c \<in> set (nat_digits n) \<Longrightarrow> of_char c \<in> {48 ..< 58 :: nat}"
proof (induction n rule: nat_digits.induct)
  case (1 n)
  then show ?case
    by (subst (asm) (2) nat_digits.simps) (auto simp del: of_char_of simp: digit_code split: if_splits)
qed

lemma plain_go_int [simp]: "plain (go_int i)"
proof -
  have "plain (nat_digits n)" for n
    by (rule plain_from_codes) (drule nat_digits_codes, simp)
  then show ?thesis by (simp add: go_int_def plain_Cons)
qed

lemma plain_append [simp]: "plain (a @ b) \<longleftrightarrow> plain a \<and> plain b"
  by (auto simp: plain_def)

lemma plain_take: "plain s \<Longrightarrow> plain (take n s)"
  by (auto simp: plain_def dest: in_set_takeD)

lemma plain_padded [simp]: "plain (padded w i)"
proof -
  have "plain (replicate n CHR ''0'')" for n by (induction n) (simp_all add: plain_Cons)
  then show ?thesis by (simp add: padded_def Let_def plain_Cons)
qed

lemma plain_formatTime [simp]: "plain (formatTime t)"
  by (simp add: formatTime_def rfc3339_def Let_def plain_Cons split: prod.splits)

lemma plain_status [simp]: "plain (JobStatus_String (GetStatus j))"
  by (simp add: GetStatus_def DisplayStatus_def CompositeStatus_DisplayStatus_def plain_Cons
      split: ExecutionStatus.splits DispatchStatus.splits)

lemma plain_level: "LogLevel_IsValid l \<Longrightarrow> plain (LogLevel_String l)"
  by (cases l) (simp_all add: plain_Cons)

lemma plain_truncate:
  assumes "\<forall>c\<in>set s. c \<notin> {CHR 0x0B, CHR 0x0C, CHR 0xFF}"
  shows "plain (truncate s n)"
proof -
  have "plain (replace_char newline CHR '' '' (replace_char tab CHR '' '' s))"
    using assms by (auto simp: replace_char_def plain_def tab_def newline_def escape_def)
  then show ?thesis by (simp add: truncate_def Let_def plain_take plain_Cons)
qed

lemma length_truncate: "3 \<le> n \<Longrightarrow> length (truncate s n) \<le> n"
  by (simp add: truncate_def Let_def replace_char_def) presburger

text \<open>Two columns as rows.\<close>

definition zip_rows :: "string list \<Rightarrow> string list \<Rightarrow> string list list" where
  "zip_rows a b = map (\<lambda>(x, y). [x, y]) (zip a b)"

text \<open>A table is a header and rows.\<close>

definition jobs_rows :: "job list \<Rightarrow> string list list" where
  "jobs_rows jobs = [''JOB ID'', ''NAME'', ''STATUS'', ''PRIORITY'', ''RETRIES'', ''CREATED''] # map job_row jobs"

definition stats_rows :: "JobStats \<Rightarrow> string list list" where
  "stats_rows st = [''STATUS'', ''COUNT'']
     # zip_rows (map JobStatus_String all_statuses @ [''total''])
         (map go_int [st_PendingDispatch st, st_Dispatched st, st_DispatchFailed st, st_Running st,
                      st_Completed st, st_Failed st, st_Cancelled st, st_Total st])"

definition logs_rows :: "JobLog list \<Rightarrow> string list list" where
  "logs_rows logs = [''TIMESTAMP'', ''LEVEL'', ''MESSAGE'', ''SOURCE''] # map log_row logs"

text \<open>What the code does not replace in a cell, as it does tabs and newlines in a message.\<close>

definition printable_job :: "job \<Rightarrow> bool" where
  "printable_job j \<longleftrightarrow> plain (jm_JobID j) \<and> plain (jm_Name j)"

definition printable_log :: "JobLog \<Rightarrow> bool" where
  "printable_log l \<longleftrightarrow> LogLevel_IsValid (jl_Level l) \<and> plain (jl_Source l)
     \<and> (\<forall>c\<in>set (jl_Message l). c \<notin> {CHR 0x0B, CHR 0x0C, CHR 0xFF})"

section \<open>Properties\<close>


definition sample_entry :: JobLog where
  "sample_entry = \<lparr>jl_JobID = sample_id, jl_Timestamp = 63915566400000, jl_Level = LogLevelInfo,
     jl_Message = ''a'' @ [tab] @ ''b'', jl_Context = None, jl_Source = ''api'', jl_StackTrace = []\<rparr>"

lemma sample_log_row:
  "log_row sample_entry = [''2026-05-28T12:00:00Z'', ''info'', ''a b'', ''api'']"
  by code_simp


text \<open>Cutting a message by bytes may leave part of a character: 76 letters and then two
  characters of two bytes.\<close>

theorem truncate_splits_a_character:
  "valid_utf8 (replicate 76 CHR ''a'' @ [CHR 0xC3, CHR 0xA9, CHR 0xC3, CHR 0xA9, CHR 0x21])
   \<and> \<not> valid_utf8 (truncate (replicate 76 CHR ''a'' @ [CHR 0xC3, CHR 0xA9, CHR 0xC3, CHR 0xA9, CHR 0x21]) 80)"
  by code_simp

end
