(* ===== verification/JobsCli.thy ===== *)
theory JobsCli
  imports HttpApi Seed AppRuntime Tables JobMessage
begin

text \<open>
  \<open>cmd/jobs-cli\<close>: the command line tool, a second client of the services beside the HTTP API. A
  command is a function of its flags; parsing flags is a third-party library's. What a command
  writes is a value given to the output: a JSON value, or the text of a table.
\<close>

section \<open>Output\<close>

text \<open>Any string is accepted as a format; what is not \<open>table\<close> gives JSON.\<close>

datatype OutputFormat = OutputJSON | OutputTable | OutputFormatOther string

definition OutputFormat_of_string :: "string \<Rightarrow> OutputFormat" where
  "OutputFormat_of_string s =
     (if s = ''json'' then OutputJSON else if s = ''table'' then OutputTable else OutputFormatOther s)"

text \<open>The JSON values of the commands are those of the endpoints, and two more.\<close>

datatype printed = PrintsJSON body | PrintsSeed SeedResult | PrintsHealth string string | PrintsText string

record 's CLI =
  ci_Service :: "'s MetadataService"
  ci_Enqueue :: "'s EnqueueService"
  ci_Writer :: "'s backend option"
  ci_Out :: "printed \<Rightarrow> ('s, goerror option) op"
  ci_Format :: OutputFormat

definition cli_New ::
  "'s MetadataService \<Rightarrow> 's EnqueueService \<Rightarrow> 's backend option \<Rightarrow> (printed \<Rightarrow> ('s, goerror option) op) \<Rightarrow> 's CLI" where
  "cli_New svc enqueue writer stdout =
     \<lparr>ci_Service = svc, ci_Enqueue = enqueue, ci_Writer = writer, ci_Out = stdout, ci_Format = OutputJSON\<rparr>"

definition WriteJSON :: "'s CLI \<Rightarrow> body \<Rightarrow> ('s, goerror option) op" where
  "WriteJSON c v = ci_Out c (PrintsJSON v)"

section \<open>Arguments\<close>

definition BuildListFilter ::
  "int \<Rightarrow> int \<Rightarrow> string \<Rightarrow> bool \<Rightarrow> string \<Rightarrow> string list \<Rightarrow> string list \<Rightarrow> goerror + ListFilter" where
  "BuildListFilter limit skip sortBy sortDesc status tags names =
     (let flt = empty_filter\<lparr>lf_Limit := limit, lf_Skip := skip, lf_SortBy := sortBy,
                                lf_SortDesc := sortDesc\<rparr>;
          st = JobStatus_of_string status;
          rest = (\<lambda>f. f\<lparr>lf_Tags := (if length tags > 0 then tags else lf_Tags f),
                        lf_Names := (if length names > 0 then names else lf_Names f)\<rparr>) in
      if status \<noteq> [] then
        (if \<not> JobStatus_IsValid st then Inl (ErrorString (''invalid status: '' @ go_quote status))
         else Inr (rest (flt\<lparr>lf_Statuses := [st]\<rparr>)))
      else Inr (rest flt))"

text \<open>The loop over the levels is the one of the endpoint.\<close>

definition BuildLogFilter :: "int \<Rightarrow> int \<Rightarrow> string list \<Rightarrow> goerror + LogFilter" where
  "BuildLogFilter limit skip levels =
     (let flt = empty_log_filter\<lparr>gf_Limit := limit, gf_Skip := skip\<rparr> in
      if length levels = 0 then Inr flt
      else (case parse_levels levels of
              Inl l \<Rightarrow> Inl (ErrorString (''invalid log level: '' @ go_quote l))
            | Inr lvls \<Rightarrow> Inr (flt\<lparr>gf_Levels := lvls\<rparr>)))"

text \<open>
  \<open>json.Unmarshal\<close> into a \<open>map[string]any\<close>: an object, in which a later key overrides an earlier
  one, or null, the nil map. A number keeps its text.
\<close>

fun json_gval :: "json \<Rightarrow> gval" and
    json_list_gval :: "json list \<Rightarrow> gval list" and
    json_fields_gval :: "(string \<times> json) list \<Rightarrow> (string \<times> gval) list \<Rightarrow> (string \<times> gval) list" where
  "json_gval JNull = GNil"
| "json_gval (JBool b) = GBool b"
| "json_gval (JNum s) = GFloat s"
| "json_gval (JStr s) = GStr s"
| "json_gval (JArr vs) = GArr (json_list_gval vs)"
| "json_gval (JObj kvs) = GMap (json_fields_gval kvs [])"
| "json_list_gval [] = []"
| "json_list_gval (v # vs) = json_gval v # json_list_gval vs"
| "json_fields_gval [] acc = acc"
| "json_fields_gval ((k, v) # kvs) acc = json_fields_gval kvs (AList.update k (json_gval v) acc)"

definition decode_object :: "wire \<Rightarrow> goerror + gomap" where
  "decode_object w =
     (case w of
        NotJson s \<Rightarrow> Inl (syntax_error s)
      | Json v \<Rightarrow>
          (case v of
             JNull \<Rightarrow> Inr None
           | JObj kvs \<Rightarrow> Inr (Some (json_fields_gval kvs []))
           | _ \<Rightarrow> Inl (type_error ''map[string]interface {}'')))"

text \<open>Reading a file, and what the JSON parser makes of a text.\<close>

record 's file_input =
  fi_ReadFile :: "string \<Rightarrow> ('s, goerror + string) op"
  fi_parse :: "string \<Rightarrow> wire"

definition parsed_object :: "'s file_input \<Rightarrow> string \<Rightarrow> string \<Rightarrow> goerror + gomap" where
  "parsed_object fi fieldName raw =
     (case decode_object (fi_parse fi raw) of
        Inl err \<Rightarrow> Inl (wrap (''invalid '' @ fieldName @ '' JSON'') err)
      | Inr None \<Rightarrow> Inl (ErrorString (''invalid '' @ fieldName @ '' JSON: must be a JSON object''))
      | Inr (Some kvs) \<Rightarrow> Inr (Some kvs))"

definition parseJSONObject ::
  "'s file_input \<Rightarrow> string \<Rightarrow> string \<Rightarrow> string \<Rightarrow> ('s, goerror + gomap) op" where
  "parseJSONObject fi flagValue filePath fieldName s =
     (if flagValue \<noteq> [] \<and> filePath \<noteq> [] then
        (Inl (ErrorString (fieldName @ '': use only one of --'' @ fieldName @ '' or --'' @ fieldName @ ''-file'')), s)
      else if filePath \<noteq> [] then
        (case fi_ReadFile fi filePath s of
           (Inl err, s1) \<Rightarrow> (Inl (wrap (''read '' @ fieldName @ '' file'') err), s1)
         | (Inr raw, s1) \<Rightarrow> (parsed_object fi fieldName raw, s1))
      else if flagValue \<noteq> [] then (parsed_object fi fieldName flagValue, s)
      else (Inr None, s))"

definition mapJobNotFound :: "goerror \<Rightarrow> goerror" where
  "mapJobNotFound err = (if errors_is err ErrJobNotFound then ErrorString ''job not found'' else err)"

section \<open>The commands\<close>

record createInput =
  cr_Name :: string
  cr_Priority :: int
  cr_PrioritySet :: bool
  cr_Tags :: "string list"
  cr_Payload :: string
  cr_PayloadFile :: string
  cr_Metadata :: string
  cr_MetadataFile :: string

definition RunCreate :: "'s file_input \<Rightarrow> 's CLI \<Rightarrow> createInput \<Rightarrow> ('s, goerror option) op" where
  "RunCreate fi c input s =
     (if cr_Name input = [] then (Some (ErrorString ''name is required''), s)
      else if cr_PrioritySet input \<and> (cr_Priority input < 0 \<or> cr_Priority input > 10) then
        (Some (ErrorString ''priority must be between 0 and 10''), s)
      else
        (case parseJSONObject fi (cr_Payload input) (cr_PayloadFile input) ''payload'' s of
           (Inl err, s1) \<Rightarrow> (Some err, s1)
         | (Inr payload, s1) \<Rightarrow>
        (case parseJSONObject fi (cr_Metadata input) (cr_MetadataFile input) ''metadata'' s1 of
           (Inl err, s2) \<Rightarrow> (Some err, s2)
         | (Inr meta, s2) \<Rightarrow>
             (let opts = \<lparr>co_Priority = (if cr_PrioritySet input then Some (cr_Priority input) else None),
                          co_Tags = cr_Tags input, co_Metadata = meta, co_Topic = []\<rparr> in
              case Enqueue (ci_Enqueue c) (cr_Name input) payload opts s2 of
                (Inl err, s3) \<Rightarrow>
                  if errors_is err ErrUnknownJobType then (Some err, s3)
                  else (Some (wrap ''create job'' err), s3)
              | (Inr j, s3) \<Rightarrow> WriteJSON c (BodyJob j) s3))))"

definition RunGet :: "'s CLI \<Rightarrow> string \<Rightarrow> ('s, goerror option) op" where
  "RunGet c jobID s =
     (case GetJob (ci_Service c) jobID s of
        (Inl err, s1) \<Rightarrow>
          if errors_is err ErrJobNotFound then (Some (ErrorString ''job not found''), s1)
          else (Some (wrap ''get job'' err), s1)
      | (Inr j, s1) \<Rightarrow> WriteJSON c (BodyJob j) s1)"

definition RunList ::
  "'s CLI \<Rightarrow> int \<Rightarrow> int \<Rightarrow> string \<Rightarrow> bool \<Rightarrow> string \<Rightarrow> string list \<Rightarrow> string list \<Rightarrow> ('s, goerror option) op" where
  "RunList c limit skip sortBy sortDesc status tags names s =
     (case BuildListFilter limit skip sortBy sortDesc status tags names of
        Inl err \<Rightarrow> (Some err, s)
      | Inr flt \<Rightarrow>
          (case ListJobs (ci_Service c) flt s of
             (Inl err, s1) \<Rightarrow> (Some (wrap ''list jobs'' err), s1)
           | (Inr jobs, s1) \<Rightarrow>
               if ci_Format c = OutputTable then WriteJobsTable (ci_Out c \<circ> PrintsText) jobs s1
               else WriteJSON c (BodyJobs jobs (length jobs)) s1))"

text \<open>The flags of \<open>list\<close> with their defaults; \<open>--sort-asc\<close> overrides \<open>--sort-desc\<close>.\<close>

record ListFlags =
  fl_limit :: int
  fl_skip :: int
  fl_sortBy :: string
  fl_sortDesc :: bool
  fl_sortAsc :: bool
  fl_status :: string
  fl_tags :: "string list"
  fl_names :: "string list"

definition list_defaults :: ListFlags where
  "list_defaults = \<lparr>fl_limit = 50, fl_skip = 0, fl_sortBy = ''createdAt'', fl_sortDesc = True,
     fl_sortAsc = False, fl_status = [], fl_tags = [], fl_names = []\<rparr>"

definition list_command :: "'s CLI \<Rightarrow> ListFlags \<Rightarrow> ('s, goerror option) op" where
  "list_command c f =
     (let desc = (if fl_sortAsc f then False else fl_sortDesc f)
      in RunList c (fl_limit f) (fl_skip f) (fl_sortBy f) desc (fl_status f) (fl_tags f) (fl_names f))"

definition RunStats :: "'s CLI \<Rightarrow> ('s, goerror option) op" where
  "RunStats c s =
     (case GetJobStats (ci_Service c) s of
        ((stats, Some err), s1) \<Rightarrow> (Some (wrap ''job stats'' err), s1)
      | ((stats, None), s1) \<Rightarrow>
          if ci_Format c = OutputTable then WriteStatsTable (ci_Out c \<circ> PrintsText) stats s1
          else WriteJSON c (BodyStats stats) s1)"

definition RunFail :: "'s CLI \<Rightarrow> string \<Rightarrow> string \<Rightarrow> ('s, goerror option) op" where
  "RunFail c jobID errMsg s =
     (if errMsg = [] then (Some (ErrorString ''error is required''), s)
      else (case FailJob (ci_Service c) jobID (Some (ErrorString errMsg)) s of
              (Some err, s1) \<Rightarrow> (Some (mapJobNotFound err), s1)
            | (None, s1) \<Rightarrow> WriteJSON c (BodyMessage ''job marked as failed'') s1))"

definition RunCancel :: "'s CLI \<Rightarrow> string \<Rightarrow> string \<Rightarrow> ('s, goerror option) op" where
  "RunCancel c jobID reason s =
     (case CancelJob (ci_Service c) jobID reason s of
        (Some err, s1) \<Rightarrow> (Some (mapJobNotFound err), s1)
      | (None, s1) \<Rightarrow> WriteJSON c (BodyMessage ''job cancelled'') s1)"

definition RunRetry :: "'s CLI \<Rightarrow> string \<Rightarrow> ('s, goerror option) op" where
  "RunRetry c jobID s =
     (case RetryJob (ci_Service c) jobID s of
        (Some err, s1) \<Rightarrow> (Some (mapJobNotFound err), s1)
      | (None, s1) \<Rightarrow> WriteJSON c (BodyMessage ''job retry initiated'') s1)"

definition RunLogs :: "'s CLI \<Rightarrow> string \<Rightarrow> int \<Rightarrow> int \<Rightarrow> string list \<Rightarrow> ('s, goerror option) op" where
  "RunLogs c jobID limit skip levels s =
     (case BuildLogFilter limit skip levels of
        Inl err \<Rightarrow> (Some err, s)
      | Inr flt \<Rightarrow>
          (case GetJobLogs (ci_Service c) jobID flt s of
             (Inl err, s1) \<Rightarrow> (Some (wrap ''get job logs'' err), s1)
           | (Inr logs, s1) \<Rightarrow>
               if ci_Format c = OutputTable then WriteLogsTable (ci_Out c \<circ> PrintsText) logs s1
               else WriteJSON c (BodyLogs logs (length logs)) s1))"

text \<open>\<open>None\<close> when the generator ran out of fuel.\<close>

definition RunSeed :: "nat \<Rightarrow> 's faker \<Rightarrow> 's CLI \<Rightarrow> SeedOptions \<Rightarrow> ('s, goerror option option) op" where
  "RunSeed fuel F c opts s =
     (case ci_Writer c of
        None \<Rightarrow> (Some (Some (ErrorString ''mongo writer is not configured'')), s)
      | Some w \<Rightarrow>
          (case run_state (seed_Run fuel (Some w) F opts) s of
             (None, s1) \<Rightarrow> (None, s1)
           | (Some (res, Some err), s1) \<Rightarrow> (Some (Some (wrap ''seed database'' err)), s1)
           | (Some (res, None), s1) \<Rightarrow>
               (case ci_Out c (PrintsSeed res) s1 of (werr, s2) \<Rightarrow> (Some werr, s2))))"

definition WritePingHealth :: "'s CLI \<Rightarrow> ('s, goerror option) op" where
  "WritePingHealth c = ci_Out c (PrintsHealth ''healthy'' ''connected'')"

section \<open>The command line\<close>

text \<open>
  The commands of \<open>root.go\<close> with their flags after parsing, and the defaults of the flags that have
  one. The flag library has checked the number of arguments and that a required flag was given.
  The priority of \<open>create\<close> is set when its flag was changed, with whatever value.
\<close>

record LogsFlags =
  lg_limit :: int
  lg_skip :: int
  lg_levels :: "string list"

definition logs_defaults :: LogsFlags where
  "logs_defaults = \<lparr>lg_limit = 100, lg_skip = 0, lg_levels = []\<rparr>"

definition seed_defaults :: SeedOptions where
  "seed_defaults = \<lparr>so_Count = 100, so_LogsPerJobMin = 1, so_LogsPerJobMax = 5, so_WithLogs = True,
     so_Seed = 0, so_BatchSize = 500, so_MaxAge = 30 * 24 * 3600 * 1000\<rparr>"

definition create_command ::
  "'s file_input \<Rightarrow> 's CLI \<Rightarrow> int option \<Rightarrow> createInput \<Rightarrow> ('s, goerror option) op" where
  "create_command fi c priority input =
     RunCreate fi c (input\<lparr>cr_Priority := (case priority of None \<Rightarrow> 0 | Some p \<Rightarrow> p),
                            cr_PrioritySet := priority \<noteq> None\<rparr>)"

datatype cli_command =
    PingCmd
  | CreateCmd "int option" createInput
  | GetCmd string
  | ListCmd ListFlags
  | StatsCmd
  | FailCmd string string
  | CancelCmd string string
  | RetryCmd string
  | LogsCmd string LogsFlags
  | SeedCmd SeedOptions

fun root_command ::
  "nat \<Rightarrow> 's faker \<Rightarrow> 's file_input \<Rightarrow> cli_command \<Rightarrow> 's CLI \<Rightarrow> ('s, goerror option option) op" where
  "root_command fuel F fi PingCmd c s = apfst Some (WritePingHealth c s)"
| "root_command fuel F fi (CreateCmd priority input) c s = apfst Some (create_command fi c priority input s)"
| "root_command fuel F fi (GetCmd jobID) c s = apfst Some (RunGet c jobID s)"
| "root_command fuel F fi (ListCmd flags) c s = apfst Some (list_command c flags s)"
| "root_command fuel F fi StatsCmd c s = apfst Some (RunStats c s)"
| "root_command fuel F fi (FailCmd jobID errMsg) c s = apfst Some (RunFail c jobID errMsg s)"
| "root_command fuel F fi (CancelCmd jobID reason) c s = apfst Some (RunCancel c jobID reason s)"
| "root_command fuel F fi (RetryCmd jobID) c s = apfst Some (RunRetry c jobID s)"
| "root_command fuel F fi (LogsCmd jobID flags) c s =
     apfst Some (RunLogs c jobID (lg_limit flags) (lg_skip flags) (lg_levels flags) s)"
| "root_command fuel F fi (SeedCmd opts) c s = RunSeed fuel F c opts s"

text \<open>The default seed run keeps the bounds \<open>seed.Run\<close> checks.\<close>

lemma seed_defaults_kept: "with_defaults seed_defaults = seed_defaults" "1 \<le> so_Count seed_defaults"
    "0 \<le> so_LogsPerJobMin seed_defaults" "so_LogsPerJobMin seed_defaults \<le> so_LogsPerJobMax seed_defaults"
  by (simp_all add: with_defaults_def seed_defaults_def)

section \<open>The process\<close>

text \<open>
  \<open>run\<close> of \<open>main.go\<close>, given the outcome of loading the configuration and the command the
  arguments select, with its flags; the global flag sets the format first.
\<close>

definition cli_run ::
  "'s app_environment \<Rightarrow> (printed \<Rightarrow> ('s, goerror option) op) \<Rightarrow> goerror + AppConfig \<Rightarrow> string
     \<Rightarrow> ('s CLI \<Rightarrow> ('s, goerror option option) op) \<Rightarrow> ('s, goerror option option) op" where
  "cli_run E stdout loaded format command s =
     (case loaded of
        Inl err \<Rightarrow> (Some (Some (wrap ''load configuration'' err)), s)
      | Inr cfg \<Rightarrow>
          (case Bootstrap E cfg s of
             (Inl err, s1) \<Rightarrow> (Some (Some err), s1)
           | (Inr rt, s1) \<Rightarrow>
               (let c = cli_New (ar_Metadata rt) (ar_Enqueue rt) (Some (ar_Writer rt)) stdout in
                case command (c\<lparr>ci_Format := OutputFormat_of_string format\<rparr>) s1 of
                  (res, s2) \<Rightarrow> (res, cleanup E rt s2))))"

section \<open>A command against its endpoint\<close>

text \<open>
  What a command does, read off the endpoint that answers the same request: the state is the
  same; an answer of success is the value the command prints, and the text of an error is
  the text of the command's error, perhaps after a prefix.
\<close>

definition agrees :: "string \<Rightarrow> 's CLI \<Rightarrow> outcome \<times> 's \<Rightarrow> goerror option \<times> 's \<Rightarrow> bool" where
  "agrees pre c x y \<longleftrightarrow>
     (case x of
        (Responds code b, s1) \<Rightarrow>
          if code < 300 then y = ci_Out c (PrintsJSON b) s1
          else (\<exists>e t. y = (Some e, s1) \<and> b = BodyError t \<and> error_text e \<in> {t, pre @ t})
      | (Panics m, s1) \<Rightarrow> False)"

lemma agrees_simps [simp]:
  "code < 300 \<Longrightarrow> agrees pre c (Responds code b, s1) y \<longleftrightarrow> y = ci_Out c (PrintsJSON b) s1"
  "\<not> code < 300 \<Longrightarrow> agrees pre c (Responds code (BodyError t), s1) (Some e, s2)
     \<longleftrightarrow> s2 = s1 \<and> error_text e \<in> {t, pre @ t}"
  by (auto simp: agrees_def)

lemma error_text_wrap [simp]: "error_text (wrap pre e) = pre @ '': '' @ error_text e"
  by (simp add: wrap_def)

lemma get_agrees:
  "agrees ''get job: '' c (api_GetJob (NewJobsHandler (ci_Service c) E) rq s) (RunGet c (rq_id rq) s)"
  by (auto simp: api_GetJob_def RunGet_def NewJobsHandler_def WriteJSON_def split: prod.splits sum.splits)

lemma stats_agrees:
  "ci_Format c \<noteq> OutputTable \<Longrightarrow>
   agrees ''job stats: '' c (api_GetJobStats (NewJobsHandler (ci_Service c) E) s) (RunStats c s)"
  by (auto simp: api_GetJobStats_def RunStats_def NewJobsHandler_def WriteJSON_def
      split: prod.splits option.splits)

lemma cancel_agrees:
  "bindOptionalJSON rq [] decoded = Inr reason \<Longrightarrow>
   agrees pre c (api_CancelJob (NewJobsHandler (ci_Service c) E) rq decoded s) (RunCancel c (rq_id rq) reason s)"
  by (auto simp: api_CancelJob_def RunCancel_def NewJobsHandler_def WriteJSON_def mapJobNotFound_def
      split: prod.splits option.splits)

lemma retry_agrees:
  "agrees pre c (api_RetryJob (NewJobsHandler (ci_Service c) E) rq s) (RunRetry c (rq_id rq) s)"
  by (auto simp: api_RetryJob_def RunRetry_def NewJobsHandler_def WriteJSON_def mapJobNotFound_def
      split: prod.splits option.splits)

text \<open>The filters of a request are the filters of the flags with the same values.\<close>

lemma list_filter_agrees:
  "BuildListFilter (parseIntQuery rq ''limit'' 50) (parseIntQuery rq ''skip'' 0)
     (DefaultQuery rq ''sortBy'' ''createdAt'') (DefaultQuery rq ''sortDesc'' ''true'' = ''true'')
     status (rq_query rq ''tags'') (rq_query rq ''names'')
   = (if status \<noteq> [] \<and> \<not> JobStatus_IsValid (JobStatus_of_string status)
      then Inl (ErrorString (''invalid status: '' @ go_quote status))
      else Inr (if status \<noteq> [] then list_request_filter rq\<lparr>lf_Statuses := [JobStatus_of_string status]\<rparr>
                else list_request_filter rq))"
  by (auto simp: BuildListFilter_def list_request_filter_def empty_filter_def Let_def)

lemma list_agrees:
  assumes "ci_Format c \<noteq> OutputTable"
  shows "agrees ''list jobs: '' c (api_ListJobs (NewJobsHandler (ci_Service c) E) rq s)
     (RunList c (parseIntQuery rq ''limit'' 50) (parseIntQuery rq ''skip'' 0)
        (DefaultQuery rq ''sortBy'' ''createdAt'') (DefaultQuery rq ''sortDesc'' ''true'' = ''true'')
        (Query rq ''status'') (rq_query rq ''tags'') (rq_query rq ''names'') s)"
  using assms
  by (auto simp: api_ListJobs_def RunList_def list_filter_agrees NewJobsHandler_def WriteJSON_def Let_def
      split: prod.splits sum.splits)

lemma list_defaults_agree:
  assumes "ci_Format c \<noteq> OutputTable" and "\<And>key. rq_query rq key = []"
  shows "agrees ''list jobs: '' c (api_ListJobs (NewJobsHandler (ci_Service c) E) rq s)
     (list_command c list_defaults s)"
  using list_agrees [OF assms(1), of E rq s] assms(2)
  by (simp add: list_command_def list_defaults_def parseIntQuery_def DefaultQuery_def Query_def Let_def)

lemma logs_agrees:
  assumes "ci_Format c \<noteq> OutputTable"
  shows "agrees ''get job logs: '' c (api_GetJobLogs (NewJobsHandler (ci_Service c) E) rq s)
     (RunLogs c (rq_id rq) (parseIntQuery rq ''limit'' 100) (parseIntQuery rq ''skip'' 0)
        (rq_query rq ''levels'') s)"
  using assms
  by (auto simp: api_GetJobLogs_def RunLogs_def BuildLogFilter_def NewJobsHandler_def WriteJSON_def
      empty_log_filter_def Let_def split: prod.splits sum.splits)

lemma create_agrees:
  assumes "cr_Name input \<noteq> []"
    and "parseJSONObject fi (cr_Payload input) (cr_PayloadFile input) ''payload'' s = (Inr payload, s)"
    and "parseJSONObject fi (cr_Metadata input) (cr_MetadataFile input) ''metadata'' s = (Inr meta, s)"
  shows "agrees ''create job: '' c
     (api_EnqueueJob (NewJobsHandler S (ci_Enqueue c))
        (Inr \<lparr>eq_Name = cr_Name input, eq_Payload = payload,
              eq_Priority = (if cr_PrioritySet input then Some (cr_Priority input) else None),
              eq_Tags = cr_Tags input, eq_Metadata = meta\<rparr>) s)
     (RunCreate fi c input s)"
  using assms
  by (auto simp: api_EnqueueJob_def RunCreate_def NewJobsHandler_def WriteJSON_def Let_def
      split: prod.splits sum.splits)

text \<open>The endpoint reads the failed job back, the command does not.\<close>

lemma fail_agrees:
  assumes "trim_space msg \<noteq> []" and "je_Error entry = msg"
  shows "(\<exists>s1. FailJob (ci_Service c) (rq_id rq) (Some (ErrorString (trim_space msg))) s = (None, s1)
        \<and> RunFail c (rq_id rq) (trim_space msg) s = ci_Out c (PrintsJSON (BodyMessage ''job marked as failed'')) s1
        \<and> snd (api_FailJob (NewJobsHandler (ci_Service c) E) rq (Inr (entry # rest)) s)
            = snd (GetJob (ci_Service c) (rq_id rq) s1))
    \<or> agrees pre c (api_FailJob (NewJobsHandler (ci_Service c) E) rq (Inr (entry # rest)) s)
        (RunFail c (rq_id rq) (trim_space msg) s)"
  using assms
  by (auto simp: api_FailJob_def failJobMessage_def RunFail_def NewJobsHandler_def WriteJSON_def
      mapJobNotFound_def Let_def split: prod.splits option.splits sum.splits)

lemma cli_run_releases:
  assumes "connections (ae_connector E) opened"
    and "\<And>c x. opened (snd (command c x)) = opened x"
  shows "opened (snd (cli_run E stdout loaded format command s)) = opened s"
proof (cases loaded)
  case (Inr cfg)
  obtain res s1 where b: "Bootstrap E cfg s = (res, s1)" by fastforce
  show ?thesis
  proof (cases res)
    case Inl
    with connections.Bootstrap_opens [OF assms(1) refl, of cfg] b Inr show ?thesis
      by (fastforce simp: cli_run_def connections.opens_def [OF assms(1)])
  next
    case rt: (Inr rt)
    have fresh: "ar_MongoClient rt \<notin> opened s \<and> opened s1 = insert (ar_MongoClient rt) (opened s)"
      using connections.Bootstrap_opens [OF assms(1) refl, of cfg] b rt
      by (fastforce simp: connections.opens_def [OF assms(1)])
    define c where "c = cli_New (ar_Metadata rt) (ar_Enqueue rt) (Some (ar_Writer rt)) stdout
        \<lparr>ci_Format := OutputFormat_of_string format\<rparr>"
    obtain r s2 where cmd: "command c s1 = (r, s2)" by fastforce
    have "cli_run E stdout loaded format command s = (r, cleanup E rt s2)"
      by (simp add: cli_run_def Inr b rt Let_def cmd [unfolded c_def])
    moreover have "opened s2 = opened s1" using assms(2) [of c s1] cmd by simp
    moreover have "opened (cleanup E rt s2) = opened s2 - {ar_MongoClient rt}"
      unfolding cleanup_def using connections.disconnect_ok [OF assms(1)] by (metis prod.collapse)
    ultimately show ?thesis using fresh by simp
  qed
qed (simp add: cli_run_def)

section \<open>Properties\<close>


definition sample_cli :: "mem CLI" where
  "sample_cli = cli_New (mongo_service mem_backend) (mongo_enqueue mem_backend sample_registry)
     (Some mem_backend) (\<lambda>p s. (None, s))"

definition sample_input :: createInput where
  "sample_input = \<lparr>cr_Name = ''nope'', cr_Priority = 0, cr_PrioritySet = False, cr_Tags = [],
     cr_Payload = ''{}'', cr_PayloadFile = [], cr_Metadata = [], cr_MetadataFile = []\<rparr>"


end
