(* ===== verification/Settings.thy ===== *)
theory Settings
  imports Config
begin

text \<open>
  The \<open>env.go\<close> of each command, with \<open>internal/config/loader.go\<close>: how a process gets its settings.
  Filling a settings value from the environment by its struct tags is a third-party package's,
  a function of the value before. The sections are loaded in turn and the first that cannot be
  parsed or does not pass its check ends the process.
\<close>

section \<open>Loading one section\<close>

definition ErrNilDestination :: goerror where
  "ErrNilDestination = ErrorString ''config: nil destination''"

definition LoadInto :: "('a \<Rightarrow> goerror + 'a) \<Rightarrow> 'a option \<Rightarrow> goerror + 'a" where
  "LoadInto env_Parse destination =
     (case destination of None \<Rightarrow> Inl ErrNilDestination | Some d \<Rightarrow> env_Parse d)"

text \<open>The variant with options, which are the parser's.\<close>

definition LoadIntoWithOptions :: "('o \<Rightarrow> 'a \<Rightarrow> goerror + 'a) \<Rightarrow> 'a option \<Rightarrow> 'o \<Rightarrow> goerror + 'a" where
  "LoadIntoWithOptions env_ParseWithOptions destination opts =
     (case destination of None \<Rightarrow> Inl ErrNilDestination | Some d \<Rightarrow> env_ParseWithOptions opts d)"

lemma LoadInto_options: "LoadIntoWithOptions p d opts = LoadInto (p opts) d"
  by (simp add: LoadInto_def LoadIntoWithOptions_def)

record MigrateConfig =
  mi_URI :: string
  mi_MigrationsPath :: string

text \<open>What \<open>env.Parse\<close> makes of a value of each settings type.\<close>

record environ =
  ev_Mongo :: "MongoConfig \<Rightarrow> goerror + MongoConfig"
  ev_Server :: "ServerConfig \<Rightarrow> goerror + ServerConfig"
  ev_Topics :: "JobTopicsConfig \<Rightarrow> goerror + JobTopicsConfig"
  ev_Pulsar :: "PulsarConfig \<Rightarrow> goerror + PulsarConfig"
  ev_Dispatch :: "MongoDispatchWorkerConfig \<Rightarrow> goerror + MongoDispatchWorkerConfig"
  ev_Migrate :: "MigrateConfig \<Rightarrow> goerror + MigrateConfig"

definition parse_and_check ::
  "string \<Rightarrow> ('a \<Rightarrow> goerror + 'a) \<Rightarrow> 'a \<Rightarrow> ('a \<Rightarrow> goerror option) \<Rightarrow> goerror + 'a" where
  "parse_and_check what parse zero validate =
     (case LoadInto parse (Some zero) of
        Inl err \<Rightarrow> Inl (wrap (''parsing '' @ what) err)
      | Inr c \<Rightarrow>
          (case validate c of
             Some err \<Rightarrow> Inl (wrap (''validating '' @ what) err)
           | None \<Rightarrow> Inr c))"

definition zero_mongo :: MongoConfig where
  "zero_mongo = \<lparr>mg_URI = [], mg_Database = [], mg_CollectionMetadata = [], mg_CollectionLogs = [],
     mg_Timeout = 0, mg_MaxPoolSize = 0, mg_MinPoolSize = 0\<rparr>"

text \<open>The two packages have a type of their own for these settings, with the same fields.\<close>

definition loadMongoMetadataConfig :: "environ \<Rightarrow> goerror + MongoConfig" where
  "loadMongoMetadataConfig ev =
     (case parse_and_check ''mongo config'' (ev_Mongo ev) zero_mongo MongoConfig_Validate of
        Inl err \<Rightarrow> Inl err
      | Inr mc \<Rightarrow>
          Inr \<lparr>mg_URI = mg_URI mc, mg_Database = mg_Database mc,
               mg_CollectionMetadata = mg_CollectionMetadata mc, mg_CollectionLogs = mg_CollectionLogs mc,
               mg_Timeout = mg_Timeout mc, mg_MaxPoolSize = mg_MaxPoolSize mc,
               mg_MinPoolSize = mg_MinPoolSize mc\<rparr>)"

definition loadServerListenConfig :: "environ \<Rightarrow> goerror + ServerConfig" where
  "loadServerListenConfig ev =
     parse_and_check ''server config'' (ev_Server ev) \<lparr>sv_Port = []\<rparr> ServerConfig_Validate"

definition loadJobTopicsConfig :: "environ \<Rightarrow> goerror + JobTopicsConfig" where
  "loadJobTopicsConfig ev =
     parse_and_check ''job topics config'' (ev_Topics ev) \<lparr>jt_ConfigPath = []\<rparr> JobTopicsConfig_Validate"

definition loadPulsarConfig :: "environ \<Rightarrow> goerror + PulsarConfig" where
  "loadPulsarConfig ev =
     parse_and_check ''pulsar config'' (ev_Pulsar ev) \<lparr>pu_ServiceURL = [], pu_SubscriptionName = []\<rparr>
       PulsarConfig_Validate"

definition loadDispatchWorkerConfig :: "environ \<Rightarrow> goerror + MongoDispatchWorkerConfig" where
  "loadDispatchWorkerConfig ev =
     parse_and_check ''dispatch worker config'' (ev_Dispatch ev)
       \<lparr>dw_PollInterval = 0, dw_BatchSize = 0, dw_MaxAttempts = 0, dw_StreamMaxPoolSize = 0,
        dw_StreamMongoDBResumeTokenPath = []\<rparr> MongoDispatchWorkerConfig_Validate"

text \<open>The settings of the migration command are not checked.\<close>

definition loadMigrateConfig :: "environ \<Rightarrow> goerror + MigrateConfig" where
  "loadMigrateConfig ev =
     (case LoadInto (ev_Migrate ev) (Some \<lparr>mi_URI = [], mi_MigrationsPath = []\<rparr>) of
        Inl err \<Rightarrow> Inl (wrap ''parsing migrate config'' err)
      | Inr mc \<Rightarrow> Inr mc)"

section \<open>The settings of each process\<close>

text \<open>One section after the other; the error names the section that refused.\<close>

definition configLoadError :: "string \<Rightarrow> goerror \<Rightarrow> goerror" where
  "configLoadError section_name err = wrap section_name err"

definition and_then :: "string \<Rightarrow> goerror + 'a \<Rightarrow> ('a \<Rightarrow> goerror + 'b) \<Rightarrow> goerror + 'b" where
  "and_then section_name x f =
     (case x of Inl err \<Rightarrow> Inl (configLoadError section_name err) | Inr c \<Rightarrow> f c)"

record jobsServerConfig =
  js_Mongo :: MongoConfig
  js_Server :: ServerConfig
  js_Topics :: JobTopicsConfig

definition server_loadConfig :: "environ \<Rightarrow> goerror + jobsServerConfig" where
  "server_loadConfig ev =
     and_then ''mongodb'' (loadMongoMetadataConfig ev) (\<lambda>m.
     and_then ''server'' (loadServerListenConfig ev) (\<lambda>v.
     and_then ''job topics'' (loadJobTopicsConfig ev) (\<lambda>t.
     Inr \<lparr>js_Mongo = m, js_Server = v, js_Topics = t\<rparr>)))"

record jobsCLIConfig =
  jc_Mongo :: MongoConfig
  jc_Topics :: JobTopicsConfig

definition cli_loadConfig :: "environ \<Rightarrow> goerror + jobsCLIConfig" where
  "cli_loadConfig ev =
     and_then ''mongodb'' (loadMongoMetadataConfig ev) (\<lambda>m.
     and_then ''job topics'' (loadJobTopicsConfig ev) (\<lambda>t.
     Inr \<lparr>jc_Mongo = m, jc_Topics = t\<rparr>))"

record dispatcherConfig =
  dc_Mongo :: MongoConfig
  dc_Pulsar :: PulsarConfig
  dc_Dispatch :: MongoDispatchWorkerConfig

definition dispatcher_loadConfig :: "environ \<Rightarrow> goerror + dispatcherConfig" where
  "dispatcher_loadConfig ev =
     and_then ''mongodb'' (loadMongoMetadataConfig ev) (\<lambda>m.
     and_then ''pulsar'' (loadPulsarConfig ev) (\<lambda>p.
     and_then ''dispatch worker'' (loadDispatchWorkerConfig ev) (\<lambda>d.
     Inr \<lparr>dc_Mongo = m, dc_Pulsar = p, dc_Dispatch = d\<rparr>)))"

record jobsExecutorConfig =
  ec_Mongo :: MongoConfig
  ec_Pulsar :: PulsarConfig
  ec_Topics :: JobTopicsConfig

definition executor_loadConfig :: "environ \<Rightarrow> goerror + jobsExecutorConfig" where
  "executor_loadConfig ev =
     and_then ''mongodb'' (loadMongoMetadataConfig ev) (\<lambda>m.
     and_then ''pulsar'' (loadPulsarConfig ev) (\<lambda>p.
     and_then ''job topics'' (loadJobTopicsConfig ev) (\<lambda>t.
     Inr \<lparr>ec_Mongo = m, ec_Pulsar = p, ec_Topics = t\<rparr>)))"

section \<open>When a process has its settings\<close>

text \<open>The settings the environment gives, whether or not they pass their check.\<close>

definition given :: "('a \<Rightarrow> goerror + 'a) \<Rightarrow> 'a \<Rightarrow> 'a \<Rightarrow> bool" where
  "given parse zero c \<longleftrightarrow> parse zero = Inr c"

lemma parse_and_check_iff:
  "parse_and_check what parse zero validate = Inr c \<longleftrightarrow> given parse zero c \<and> validate c = None"
  by (auto simp: parse_and_check_def LoadInto_def given_def split: sum.splits option.splits)

lemma and_then_iff [simp]: "and_then name x f = Inr y \<longleftrightarrow> (\<exists>c. x = Inr c \<and> f c = Inr y)"
  by (cases x) (auto simp: and_then_def)

lemma load_mongo_iff:
  "loadMongoMetadataConfig ev = Inr c \<longleftrightarrow> given (ev_Mongo ev) zero_mongo c \<and> mongo_settings c"
proof -
  have "loadMongoMetadataConfig ev = parse_and_check ''mongo config'' (ev_Mongo ev) zero_mongo MongoConfig_Validate"
    by (simp add: loadMongoMetadataConfig_def split: sum.splits)
  then show ?thesis by (simp add: parse_and_check_iff MongoConfig_Validate_iff)
qed

lemmas load_iffs = load_mongo_iff
  loadServerListenConfig_def loadJobTopicsConfig_def loadPulsarConfig_def loadDispatchWorkerConfig_def
  parse_and_check_iff ServerConfig_Validate_iff JobTopicsConfig_Validate_iff PulsarConfig_Validate_iff
  MongoDispatchWorkerConfig_Validate_iff

section \<open>Properties\<close>


end
