(* ===== verification/Processes.thy ===== *)
theory Processes
  imports Frames JobsCli Settings
begin

text \<open>
  The \<open>main\<close> of the three services: \<open>cmd/jobs-server\<close>, \<open>cmd/jobs-dispatcher\<close> and
  \<open>cmd/jobs-executor\<close>, from the loaded settings to the end of the process. \<open>log.Fatalf\<close> ends a
  process at once, without its deferred calls.
\<close>

section \<open>The machine\<close>

record 's machine =
  ma_env :: "'s environment"
  ma_collections :: "collection \<Rightarrow> collection \<Rightarrow> 's backend"
  ma_read_file :: "string \<Rightarrow> goerror + string"
  ma_parse_yaml :: "string \<Rightarrow> goerror + (string \<times> jobTopicEntry) list"

datatype exit = Exited | Fatal goerror

section \<open>The HTTP server\<close>

text \<open>
  An endpoint is given the request with what decoding its body as each of the three request
  types yields; it uses the one that is its own.
\<close>

record decoded_bodies =
  db_Enqueue :: "goerror + EnqueueJobRequest"
  db_Fail :: "goerror + JobError list"
  db_Cancel :: "goerror + string"

datatype 's answer = Health string string | Endpoint "http_request \<Rightarrow> decoded_bodies \<Rightarrow> ('s, outcome) op"

definition server_routes :: "'s JobsHandler \<Rightarrow> (string \<times> string \<times> 's answer) list" where
  "server_routes h =
     [(''GET'', ''/health'', Health ''healthy'' ''connected''),
      (''GET'', ''/api/jobs'', Endpoint (\<lambda>rq d. api_ListJobs h rq)),
      (''POST'', ''/api/jobs'', Endpoint (\<lambda>rq d. api_EnqueueJob h (db_Enqueue d))),
      (''GET'', ''/api/jobs/stats'', Endpoint (\<lambda>rq d. api_GetJobStats h)),
      (''GET'', ''/api/jobs/:id'', Endpoint (\<lambda>rq d. api_GetJob h rq)),
      (''POST'', ''/api/jobs/:id/fail'', Endpoint (\<lambda>rq d. api_FailJob h rq (db_Fail d))),
      (''POST'', ''/api/jobs/:id/cancel'', Endpoint (\<lambda>rq d. api_CancelJob h rq (db_Cancel d))),
      (''POST'', ''/api/jobs/:id/retry'', Endpoint (\<lambda>rq d. api_RetryJob h rq)),
      (''GET'', ''/api/jobs/:id/logs'', Endpoint (\<lambda>rq d. api_GetJobLogs h rq))]"

text \<open>
  \<open>serve\<close> is the web framework's \<open>Run\<close> on an address: it answers requests until it fails, and
  is not told of the signals the process asked for.
\<close>

definition server_main ::
  "'s machine \<Rightarrow> ((string \<times> string \<times> 's answer) list \<Rightarrow> string \<Rightarrow> ('s, goerror option) op)
     \<Rightarrow> goerror + jobsServerConfig \<Rightarrow> ('s, exit) op" where
  "server_main M serve loaded s =
     (case loaded of
        Inl err \<Rightarrow> (Fatal (wrap ''cannot start jobs-server'' err), s)
      | Inr cfg \<Rightarrow>
     (let E = \<lparr>ae_connector = en_connector (ma_env M), ae_collections = ma_collections M,
               ae_read_file = ma_read_file M, ae_parse_yaml = ma_parse_yaml M\<rparr> in
      case Bootstrap E \<lparr>ac_Mongo = js_Mongo cfg, ac_TopicsConfigPath = jt_ConfigPath (js_Topics cfg)\<rparr> s of
        (Inl err, s1) \<Rightarrow> (Fatal (wrap ''Failed to bootstrap jobs runtime'' err), s1)
      | (Inr rt, s1) \<Rightarrow>
          (case serve (server_routes (NewJobsHandler (ar_Metadata rt) (ar_Enqueue rt)))
                  ('':'' @ sv_Port (js_Server cfg)) s1 of
             (Some err, s2) \<Rightarrow> (Fatal (wrap ''Failed to start server'' err), s2)
           | (None, s2) \<Rightarrow> (Exited, cleanup E rt s2))))"

section \<open>The dispatcher\<close>

definition newDispatchRuntime ::
  "'s machine \<Rightarrow> dispatcherConfig \<Rightarrow> 's process MetadataService \<Rightarrow> 's process backend
     \<Rightarrow> ('s process, goerror + 's process Runtime) op" where
  "newDispatchRuntime M cfg metadataSvc metadataColl =
     New (ma_env M) (ConfigFromEnv (dc_Mongo cfg) (dc_Pulsar cfg) (dc_Dispatch cfg))
       (Some metadataColl) (Some metadataSvc) no_overrides"

text \<open>The process runs until a signal, after the turns of the schedule.\<close>

definition dispatcher_main ::
  "'s machine \<Rightarrow> trigger list \<Rightarrow> goerror + dispatcherConfig \<Rightarrow> ('s process, exit) op" where
  "dispatcher_main M schedule loaded st =
     (case loaded of
        Inl err \<Rightarrow> (Fatal (wrap ''cannot start jobs-dispatcher'' err), st)
      | Inr cfg \<Rightarrow>
     (let D = en_connector (ma_env M) in
      case along process_world process_put (OpenMongoJobs D (dc_Mongo cfg)) st of
        (Inl err, st1) \<Rightarrow> (Fatal (wrap ''failed to connect MongoDB jobs persistence'' err), st1)
      | (Inr (reader, writer, mongoClient), st1) \<Rightarrow>
     (let B = in_process (ma_collections M (rh_metadataCollection reader) (rh_logsCollection reader)) in
      case newDispatchRuntime M cfg (mongo_service B) B st1 of
        (Inl err, st2) \<Rightarrow> (Fatal (wrap ''failed to start dispatch worker'' err), st2)
      | (Inr runtime, st2) \<Rightarrow>
          (let st3 = Runtime_Run schedule runtime st2;
               st4 = snd (snd (Runtime_Close (ma_env M) runtime st3))
           in (Exited, snd (along process_world process_put (mc_disconnect D mongoClient) st4))))))"

section \<open>The executor\<close>

text \<open>
  \<open>schedule\<close> names the consumer of each delivery until a signal cancels the context; the error
  of the cancelled context is not fatal.
\<close>

definition executor_main ::
  "'s machine \<Rightarrow> nat list \<Rightarrow> goerror + jobsExecutorConfig \<Rightarrow> ('s, exit) op" where
  "executor_main M schedule loaded s =
     (case loaded of
        Inl err \<Rightarrow> (Fatal (wrap ''cannot start jobs-executor'' err), s)
      | Inr cfg \<Rightarrow>
     (let D = en_connector (ma_env M); bk = en_broker (ma_env M) in
      case OpenMongoJobs D (ec_Mongo cfg) s of
        (Inl err, s1) \<Rightarrow> (Fatal (wrap ''Failed to connect to MongoDB'' err), s1)
      | (Inr (reader, writer, mongoClient), s1) \<Rightarrow>
     (case NewFileTopicResolver (ma_read_file M) (ma_parse_yaml M) (jt_ConfigPath (ec_Topics cfg)) of
        Inl err \<Rightarrow> (Fatal (wrap ''Failed to load job topics config'' err), s1)
      | Inr topicResolver \<Rightarrow>
     (case NewPulsarClient bk (ec_Pulsar cfg) s1 of
        (Inl err, s2) \<Rightarrow> (Fatal (wrap ''Failed to create Pulsar client'' err), s2)
      | (Inr pulsarClient, s2) \<Rightarrow>
     (case NewPulsarJobConsumer bk (UniqueTopics topicResolver) (pulsarClient, s2) of
        (Inl err, (c, s3)) \<Rightarrow> (Fatal (wrap ''Failed to create Pulsar consumer'' err), s3)
      | (Inr consumer, (c, s3)) \<Rightarrow>
          (let B = ma_collections M (rh_metadataCollection reader) (rh_logsCollection reader);
               execSvc = mongo_executor B echo_registry in
           case PulsarJobConsumer_Run schedule bk consumer (Some (ExecuteJob execSvc)) s3 of
             (err, s4) \<Rightarrow>
               if err \<noteq> None \<and> err \<noteq> Some (DriverError ''context canceled'')
               then (Fatal (wrap ''Consumer error'' (the err)), s4)
               else
                 (let s5 = PulsarJobConsumer_Close bk consumer s4;
                      (c1, s6) = PulsarClient_Close bk (c, s5)
                  in (Exited, snd (mc_disconnect D mongoClient s6)))))))))"

section \<open>The worker of a new dispatcher\<close>

lemma New_worker:
  assumes "New E cfg (Some coll) (Some svc) no_overrides st = (Inr r, st')"
  obtains tokens wcoll where
    "rt_Worker r = Some (NewDispatchWorker (rc_Worker cfg)
       (HandleDispatch (wc_MaxAttempts (rc_Worker cfg)) (pulsar_publisher (en_broker E)) (service_updater svc))
       (FetchPending coll)
       (\<lambda>s. snd (runOnce (NewStreamWatcher (lift_watch (en_watch E wcoll))
          (HandleDispatch (wc_MaxAttempts (rc_Worker cfg)) (pulsar_publisher (en_broker E)) (service_updater svc))
          (Some tokens)) s)))"
    and "tokens = NopResumeTokenStore \<or> (\<exists>path. tokens = token_store_in_process (en_token_file E path))"
proof -
  define r0 :: "'a process Runtime" where
    "r0 = \<lparr>rt_Worker = None, rt_pulsarClient = False, rt_producer = False, rt_watchClient = None\<rparr>"
  obtain y st1 where y: "choose_publisher E cfg no_overrides r0 st = (y, st1)" by (metis prod.exhaust)
  note run = assms [unfolded New_def option.case prod.case Options.select_convs, folded r0_def,
      unfolded y prod.case]
  from run obtain pub r1 where yr: "y = Inr (pub, r1)" by (cases y) auto
  have pub: "pub = pulsar_publisher (en_broker E)"
    using y yr by (auto simp: choose_publisher_def split: prod.splits sum.splits)
  obtain w st2 where w: "along process_world process_put (OpenMongoWatchClient (en_connector E) (rc_Mongo cfg)
      (sc_MaxPoolSize (rc_Stream cfg))) st1 = (w, st2)" by (metis prod.exhaust)
  note run = run [unfolded yr sum.case prod.case Let_def w]
  from run obtain wc wcoll where "w = Inr (wc, wcoll)"
    by (cases w) (auto split: prod.splits)
  note run = run [unfolded this sum.case prod.case]
  show thesis
  proof (cases "sc_ResumeTokenPath (rc_Stream cfg) \<noteq> []")
    case True
    with run pub show thesis
      by (intro that [of wcoll "token_store_in_process (en_token_file E (sc_ResumeTokenPath (rc_Stream cfg)))"])
        auto
  next
    case False
    with run pub show thesis by (intro that [of wcoll NopResumeTokenStore]) auto
  qed
qed

section \<open>What a process holds\<close>

text \<open>
  Nothing a running process does opens or closes a client: the driver's operations on the jobs,
  the messages, the change stream and the token file leave the open clients alone.
\<close>

locale process_frames = runtime_resources "ma_env M" opened clients
  for M :: "'s machine" and opened :: "'s \<Rightarrow> nat set" and clients :: "'s \<Rightarrow> nat" +
  assumes jobs_untouched: "untouched (\<lambda>s. (clients s, opened s)) (ma_collections M a b)"
    and index_clients: "clients (snd (mc_index_names (en_connector (ma_env M)) coll s)) = clients s"
    and broker_calls:
      "(clients (snd (bk_create_producer (en_broker (ma_env M)) t s)),
        opened (snd (bk_create_producer (en_broker (ma_env M)) t s))) = (clients s, opened s)"
      "(clients (snd (bk_send (en_broker (ma_env M)) k key w s)),
        opened (snd (bk_send (en_broker (ma_env M)) k key w s))) = (clients s, opened s)"
      "(clients (snd (bk_subscribe (en_broker (ma_env M)) t n s)),
        opened (snd (bk_subscribe (en_broker (ma_env M)) t n s))) = (clients s, opened s)"
      "(clients (snd (bk_receive (en_broker (ma_env M)) k s)),
        opened (snd (bk_receive (en_broker (ma_env M)) k s))) = (clients s, opened s)"
      "(clients (snd (bk_ack (en_broker (ma_env M)) k m s)),
        opened (snd (bk_ack (en_broker (ma_env M)) k m s))) = (clients s, opened s)"
      "(clients (bk_nack (en_broker (ma_env M)) k m s),
        opened (bk_nack (en_broker (ma_env M)) k m s)) = (clients s, opened s)"
    and stream_calls:
      "(clients (snd (en_watch (ma_env M) coll pipe tk s)),
        opened (snd (en_watch (ma_env M) coll pipe tk s))) = (clients s, opened s)"
      "(clients (snd (ts_Load (en_token_file (ma_env M) path) s)),
        opened (snd (ts_Load (en_token_file (ma_env M) path) s))) = (clients s, opened s)"
      "(clients (snd (ts_Save (en_token_file (ma_env M) path) tk s)),
        opened (snd (ts_Save (en_token_file (ma_env M) path) tk s))) = (clients s, opened s)"
begin

abbreviation holds :: "'s \<Rightarrow> nat \<times> nat set" where
  "holds s \<equiv> (clients s, opened s)"

lemma open_jobs_holds:
  assumes "OpenMongoJobs (en_connector (ma_env M)) cfg s = (r, s')"
  shows "clients s' = clients s
    \<and> (case r of Inl e \<Rightarrow> opened s' = opened s
        | Inr (reader, writer, c) \<Rightarrow> c \<notin> opened s \<and> opened s' = insert c (opened s))"
proof -
  have index: "clients s' = clients s" if "mc_index_names (en_connector (ma_env M)) coll s = (ri, s')" for coll s ri s'
    using index_clients [of coll s] that by simp
  have verify: "clients s' = clients s"
    if "verifyRequiredIndexesPresent (en_connector (ma_env M)) coll req s = (r, s')" for coll req s r s'
    using that by (auto simp: verifyRequiredIndexesPresent_def dest: index split: prod.splits sum.splits)
  have reader: "clients s' = clients s"
    if "NewMongoJobsReader (en_connector (ma_env M)) db cfg s = (r, s')" for db s r s'
    using that by (auto simp: NewMongoJobsReader_def ensureJobsIndexes_def Let_def dest!: verify
        split: prod.splits sum.splits)
  have connect: "clients s' = clients s" if "connectMongoDB (en_connector (ma_env M)) cfg s = (r, s')" for s r s'
    using that by (auto simp: connectMongoDB_def dest!: mongo_connect mongo_ping mongo_disconnect
        split: prod.splits sum.splits option.splits)
  have "clients s' = clients s"
    using assms by (auto simp: OpenMongoJobs_def Let_def dest!: connect reader mongo_disconnect
        split: prod.splits sum.splits)
  with open_jobs_opens [of cfg] assms show ?thesis
    by (fastforce simp: opens_def split: sum.splits)
qed

subsection \<open>The executor\<close>

lemma subscribe_holds:
  "subscribe_all (en_broker (ma_env M)) topics ks (c, s) = (r, (c', s')) \<Longrightarrow>
   holds s' = holds s \<and> pc_connected c' = pc_connected c"
proof (induction topics arbitrary: ks c s)
  case (Cons t topics)
  obtain x s1 where x: "bk_subscribe (en_broker (ma_env M)) t (pc_SubscriptionName c) s = (x, s1)"
    by fastforce
  with broker_calls(3) [of t "pc_SubscriptionName c" s] have s1: "holds s1 = holds s" by simp
  show ?case
  proof (cases x)
    case (Inl e)
    with Cons.prems x have "s' = fold (bk_close_consumer (en_broker (ma_env M))) ks s1" "c' = c" by simp_all
    with s1 show ?thesis by (simp add: folds_frame)
  next
    case (Inr k)
    with Cons.prems x have
      "subscribe_all (en_broker (ma_env M)) topics (ks @ [k]) (c\<lparr>pc_consumers := pc_consumers c @ [k]\<rparr>, s1)
        = (r, (c', s'))" by simp
    from Cons.IH [OF this] s1 show ?thesis by simp
  qed
qed simp

lemma consumer_holds:
  assumes "NewPulsarJobConsumer (en_broker (ma_env M)) topics (c, s) = (r, (c', s'))"
  shows "holds s' = holds s \<and> pc_connected c' = pc_connected c"
proof -
  obtain x y z where x: "subscribe_all (en_broker (ma_env M)) topics [] (c, s) = (x, (y, z))"
    by (metis prod.exhaust)
  from subscribe_holds [OF x] assms x show ?thesis
    by (auto simp: NewPulsarJobConsumer_def split: if_splits sum.splits)
qed

lemma echo_run_same: "snd (Run echo_registry name jobID payload s) = s"
  by (auto simp: Run_def echo_registry_def Register_def NewRegistry_def typed_handler_def
      EchoHandler_Execute_def split: option.splits sum.splits prod.splits outcome.splits)

lemma executor_run_holds:
  "holds (snd (PulsarJobConsumer_Run schedule (en_broker (ma_env M)) consumer
      (Some (ExecuteJob (mongo_executor (ma_collections M a b) echo_registry))) s)) = holds s"
proof -
  note ex = untouched.execute_untouched [OF jobs_untouched [of a b], of echo_registry, unfolded echo_run_same]
  show ?thesis
    unfolding PulsarJobConsumer_Run_def option.case snd_conv
    by (rule consumers_untouched [of "\<lambda>s. (clients s, opened s)"])
      (use ex broker_calls in \<open>simp_all only: refl\<close>)
qed

lemma executor_main_holds:
  assumes "executor_main M schedule loaded s = (Exited, s')"
  shows "holds s' = holds s"
proof -
  let ?D = "en_connector (ma_env M)" and ?bk = "en_broker (ma_env M)"
  from assms obtain cfg where cfg: "loaded = Inr cfg" by (cases loaded) (auto simp: executor_main_def)
  note run = assms [unfolded executor_main_def cfg sum.case Let_def]
  from run obtain reader writer mc s1 where o: "OpenMongoJobs ?D (ec_Mongo cfg) s = (Inr (reader, writer, mc), s1)"
    by (auto split: prod.splits sum.splits)
  note run = run [unfolded o prod.case sum.case]
  from run obtain tr where
    tr: "NewFileTopicResolver (ma_read_file M) (ma_parse_yaml M) (jt_ConfigPath (ec_Topics cfg)) = Inr tr"
    by (auto split: sum.splits)
  note run = run [unfolded tr sum.case]
  from run obtain pc s2 where pc: "NewPulsarClient ?bk (ec_Pulsar cfg) s1 = (Inr pc, s2)"
    by (auto split: prod.splits sum.splits)
  note run = run [unfolded pc prod.case sum.case]
  from run obtain consumer c s3 where
    cn: "NewPulsarJobConsumer ?bk (UniqueTopics tr) (pc, s2) = (Inr consumer, (c, s3))"
    by (auto split: prod.splits sum.splits)
  note run = run [unfolded cn prod.case sum.case]
  define s4 where "s4 = snd (PulsarJobConsumer_Run schedule ?bk consumer
      (Some (ExecuteJob (mongo_executor (ma_collections M (rh_metadataCollection reader)
        (rh_logsCollection reader)) echo_registry))) s3)"
  obtain c1 s6 where k: "PulsarClient_Close ?bk (c, PulsarJobConsumer_Close ?bk consumer s4) = (c1, s6)"
    by fastforce
  have s': "s' = snd (mc_disconnect ?D mc s6)"
    using run k by (auto simp: s4_def PulsarJobConsumer_Run_def)
  have s1: "clients s1 = clients s" "mc \<notin> opened s" "opened s1 = insert mc (opened s)"
    using open_jobs_holds [OF o] by simp_all
  have s2: "clients s2 = Suc (clients s1)" "opened s2 = opened s1" "pc_connected pc"
    using pc pulsar_connected by (auto simp: NewPulsarClient_def split: prod.splits option.splits)
  have s3: "holds s3 = holds s2" "pc_connected c" using consumer_holds [OF cn] s2(3) by simp_all
  have s4: "holds s4 = holds s3" unfolding s4_def by (rule executor_run_holds)
  have s6: "clients s6 = clients s4 - 1 \<and> opened s6 = opened s4"
    using client_close [OF k] s3(2) by (simp add: PulsarJobConsumer_Close_def folds_frame)
  have "mc_disconnect ?D mc s6 = (fst (mc_disconnect ?D mc s6), s')" by (simp add: s')
  from mongo_disconnect [OF this] disconnect_ok [OF this] s1 s2 s3 s4 s6 show ?thesis by auto
qed

subsection \<open>The dispatcher\<close>

text \<open>The part of the process that its worker leaves alone.\<close>

definition kept :: "'s process \<Rightarrow> (nat \<times> nat set) \<times> bool" where
  "kept p = (holds (process_world p), pc_connected (fst (snd p)))"

lemma kept_along:
  "(\<And>s. holds (snd (f s)) = holds s) \<Longrightarrow> kept (snd (along process_world process_put f p)) = kept p"
  by (simp add: kept_def along_def split_beta)

lemma jobs_untouched_in_process: "untouched kept (in_process (ma_collections M a b))"
  unfolding in_process_def lift_backend_def
  by (intro untouched.intro) (simp_all add: kept_along untouched.now_frame [OF jobs_untouched]
      untouched.find_one_frame [OF jobs_untouched] untouched.find_frame [OF jobs_untouched]
      untouched.update_frame [OF jobs_untouched] untouched.log_frame [OF jobs_untouched])

lemma publish_keeps: "kept (snd (pulsar_publisher (en_broker (ma_env M)) job p)) = kept p"
proof -
  let ?bk = "en_broker (ma_env M)"
  have produce: "kept (snd (PulsarJobProducer_Publish ?bk topic msg p)) = kept p" for topic msg p
  proof -
    obtain cache c s where p: "p = (cache, c, s)" by (metis prod.exhaust)
    have pf: "kept p' = kept p" if "producerForTopic ?bk topic p = (x, p')" for x p'
    proof (cases "map_of cache topic")
      case None
      obtain y s1 where y: "bk_create_producer ?bk topic s = (y, s1)" by fastforce
      with broker_calls(1) [of topic s] have s1: "holds s1 = holds s" by simp
      have "process_world p' = s1 \<and> pc_connected (fst (snd p')) = pc_connected c"
      proof (cases y)
        case (Inl e)
        have "(x, p') = (Inl (Wrapped (''create producer for topic '' @ go_quote topic @ '': '') e []), cache, c, s1)"
          using that by (simp add: producerForTopic_def CreateProducer_def p None y Inl)
        then show ?thesis by (simp add: process_world_def)
      next
        case (Inr k)
        have "(x, p') = (Inr k, (topic, k) # cache, c\<lparr>pc_producers := pc_producers c @ [k]\<rparr>, s1)"
          using that by (simp add: producerForTopic_def CreateProducer_def p None y Inr)
        then show ?thesis by (simp add: process_world_def)
      qed
      with s1 show ?thesis by (simp add: kept_def p process_world_def)
    qed (use that p in \<open>simp add: producerForTopic_def\<close>)
    obtain x cache1 c1 s1 where f: "producerForTopic ?bk topic p = (x, (cache1, c1, s1))"
      by (metis prod.exhaust)
    have k1: "kept (cache1, c1, s1) = kept p" using pf [OF f] .
    show ?thesis
    proof (cases x)
      case (Inl e)
      with f k1 show ?thesis by (simp add: PulsarJobProducer_Publish_def)
    next
      case (Inr k)
      have "holds (snd (bk_send ?bk k key w s1)) = holds s1" for key w by (rule broker_calls(2))
      then have "kept (cache1, c1, snd (bk_send ?bk k key w s1)) = kept p" for key w
        using k1 by (simp add: kept_def process_world_def)
      with f k1 Inr show ?thesis
        by (simp add: PulsarJobProducer_Publish_def split_beta split: sum.split option.split)
    qed
  qed
  show ?thesis
    unfolding PulsarJobPublisher_Publish_def split_beta using produce
    by (simp split: sum.split option.split)
qed

lemma worker_keeps:
  assumes new: "newDispatchRuntime M cfg (mongo_service (in_process (ma_collections M a b)))
      (in_process (ma_collections M a b)) p = (Inr r, p')"
  shows "kept (Runtime_Run schedule r q) = kept q"
proof -
  let ?bk = "en_broker (ma_env M)" and ?rc = "ConfigFromEnv (dc_Mongo cfg) (dc_Pulsar cfg) (dc_Dispatch cfg)"
  let ?B = "in_process (ma_collections M a b)"
  let ?h = "HandleDispatch (wc_MaxAttempts (rc_Worker ?rc)) (pulsar_publisher ?bk) (service_updater (mongo_service ?B))"
  note db = jobs_untouched_in_process [of a b]
  have h: "kept (snd (?h job q)) = kept q" for job q
    by (rule handle_untouched) (rule publish_keeps untouched.updater_untouched [OF db])+
  from New_worker [OF new [unfolded newDispatchRuntime_def]]
  obtain tokens coll where w: "rt_Worker r = Some (NewDispatchWorker (rc_Worker ?rc) ?h (FetchPending ?B)
      (\<lambda>s. snd (runOnce (NewStreamWatcher (lift_watch (en_watch (ma_env M) coll)) ?h (Some tokens)) s)))"
    and t: "tokens = NopResumeTokenStore \<or> (\<exists>path. tokens = token_store_in_process (en_token_file (ma_env M) path))"
    by blast
  have tokens: "kept (snd (ts_Load tokens q)) = kept q" "kept (snd (ts_Save tokens tk q)) = kept q" for tk q
    using t stream_calls(2,3)
    by (auto simp: token_store_in_process_def NopResumeTokenStore_def intro!: kept_along)
  have watch: "kept (snd (lift_watch (en_watch (ma_env M) coll) pipe tk q)) = kept q" for pipe tk q
    unfolding lift_watch_def by (rule kept_along) (rule stream_calls(1))
  have stream: "kept (snd (runOnce (NewStreamWatcher (lift_watch (en_watch (ma_env M) coll)) ?h (Some tokens)) q))
      = kept q" for q
    by (rule stream_untouched) (simp_all add: NewStreamWatcher_def h tokens watch)
  show ?thesis
    unfolding Runtime_Run_def w option.case
    by (rule worker_untouched)
      (simp_all add: NewDispatchWorker_def h stream untouched.fetch_untouched [OF db])
qed

lemma dispatcher_main_holds:
  assumes "dispatcher_main M schedule loaded p = (Exited, p')"
  shows "holds (process_world p') = holds (process_world p)"
proof -
  let ?D = "en_connector (ma_env M)"
  from assms obtain cfg where cfg: "loaded = Inr cfg" by (cases loaded) (auto simp: dispatcher_main_def)
  note run = assms [unfolded dispatcher_main_def cfg sum.case Let_def]
  obtain x s1 where o: "OpenMongoJobs ?D (dc_Mongo cfg) (process_world p) = (x, s1)" by fastforce
  let ?p1 = "process_put s1 p"
  have al: "along process_world process_put (OpenMongoJobs ?D (dc_Mongo cfg)) p = (x, ?p1)"
    by (simp add: along_def o)
  from run al obtain reader writer mc where x: "x = Inr (reader, writer, mc)"
    by (cases x) auto
  note run = run [unfolded al x prod.case sum.case]
  define B where "B = in_process (ma_collections M (rh_metadataCollection reader) (rh_logsCollection reader))"
  from run obtain r p2 where new: "newDispatchRuntime M cfg (mongo_service B) B ?p1 = (Inr r, p2)"
    unfolding B_def by (auto split: prod.splits sum.splits)
  define p3 where "p3 = Runtime_Run schedule r p2"
  obtain err r' p4 where cl: "Runtime_Close (ma_env M) r p3 = (err, r', p4)" by (metis prod.exhaust)
  have p': "p' = snd (along process_world process_put (mc_disconnect ?D mc) p4)"
    using run new cl by (simp add: B_def p3_def)
  have s1: "clients s1 = clients (process_world p)" "mc \<notin> opened (process_world p)"
    "opened s1 = insert mc (opened (process_world p))"
    using open_jobs_holds [OF o] x by simp_all
  have "kept p3 = kept p2" unfolding p3_def using worker_keeps new [unfolded B_def] by blast
  then have "held p3 = held p2" "pc_connected (fst (snd p3)) = pc_connected (fst (snd p2))"
    by (simp_all add: kept_def)
  from New_Close_held [OF new [unfolded newDispatchRuntime_def] this cl] have p4: "held p4 = held ?p1" .
  obtain y s5 where d: "mc_disconnect ?D mc (process_world p4) = (y, s5)" by fastforce
  with p' have "process_world p' = s5" by (simp add: along_def)
  with mongo_disconnect [OF d] disconnect_ok [OF d] p4 s1 show ?thesis by auto
qed

end

section \<open>The processes over the world in memory\<close>

definition world_machine :: "world machine" where
  "world_machine = \<lparr>ma_env = world_env, ma_collections = (\<lambda>_ _. world_backend),
     ma_read_file = (\<lambda>path. Inr []), ma_parse_yaml = (\<lambda>contents. Inr sample_manifest)\<rparr>"

lemma world_machine_simps [simp]:
  "ma_env world_machine = world_env" "ma_collections world_machine a b = world_backend"
  by (simp_all add: world_machine_def)

lemma mem_broker_calls:
  "bus_clients (wd_bus (snd (bk_create_producer mem_broker t s))) = bus_clients (wd_bus s)
     \<and> wd_cluster (snd (bk_create_producer mem_broker t s)) = wd_cluster s"
  "bus_clients (wd_bus (snd (bk_send mem_broker k key w s))) = bus_clients (wd_bus s)
     \<and> wd_cluster (snd (bk_send mem_broker k key w s)) = wd_cluster s"
  "bus_clients (wd_bus (snd (bk_subscribe mem_broker t n s))) = bus_clients (wd_bus s)
     \<and> wd_cluster (snd (bk_subscribe mem_broker t n s)) = wd_cluster s"
  "bus_clients (wd_bus (snd (bk_receive mem_broker k s))) = bus_clients (wd_bus s)
     \<and> wd_cluster (snd (bk_receive mem_broker k s)) = wd_cluster s"
  "bus_clients (wd_bus (snd (bk_ack mem_broker k m s))) = bus_clients (wd_bus s)
     \<and> wd_cluster (snd (bk_ack mem_broker k m s)) = wd_cluster s"
  "bus_clients (wd_bus (bk_nack mem_broker k m s)) = bus_clients (wd_bus s)
     \<and> wd_cluster (bk_nack mem_broker k m s) = wd_cluster s"
  by (auto simp: mem_broker_def bus_scripted_def on_bus_def along_def fresh_handle_def
      split: prod.splits list.splits option.splits if_splits)

lemma world_backend_untouched:
  "untouched (\<lambda>w. (bus_clients (wd_bus w), ct_opened (wd_cluster w))) world_backend"
  unfolding world_backend_def lift_backend_def
  by (intro untouched.intro) (simp_all add: along_def split_beta)

interpretation mem_process: process_frames world_machine "\<lambda>w. ct_opened (wd_cluster w)"
  "\<lambda>w. bus_clients (wd_bus w)"
proof (intro process_frames.intro process_frames_axioms.intro, unfold world_machine_simps)
  show "runtime_resources world_env (\<lambda>w. ct_opened (wd_cluster w)) (\<lambda>w. bus_clients (wd_bus w))"
    by (rule mem_resources.runtime_resources_axioms)
  show "untouched (\<lambda>w. (bus_clients (wd_bus w), ct_opened (wd_cluster w))) world_backend"
    by (rule world_backend_untouched)
qed (simp_all add: mem_broker_calls world_connector_def world_env_def along_def split_beta)

section \<open>Properties\<close>

text \<open>
  C36. A worker process that ends in order holds nothing. After any turns of its triggers, or any
  deliveries to its consumers, a dispatcher or an executor told to stop has closed the broker
  client and every client of the database it opened, although its deferred calls close some
  consumers twice and drop their errors.
\<close>

theorem workers_release_their_clients:
  assumes "process_frames M opened clients"
    and "dispatcher_main M turns cfg1 p = (Exited, p')"
    and "executor_main M schedule cfg2 s = (Exited, s')"
  shows "clients (process_world p') = clients (process_world p)
    \<and> opened (process_world p') = opened (process_world p)
    \<and> clients s' = clients s \<and> opened s' = opened s"
  using process_frames.dispatcher_main_holds [OF assms(1,2)] process_frames.executor_main_holds [OF assms(1,3)]
  by simp

definition sample_executor_config :: jobsExecutorConfig where
  "sample_executor_config = \<lparr>ec_Mongo = sample_mongo_config,
     ec_Pulsar = \<lparr>pu_ServiceURL = ''pulsar://localhost:6650'', pu_SubscriptionName = ''jobber''\<rparr>,
     ec_Topics = \<lparr>jt_ConfigPath = []\<rparr>\<rparr>"

definition sample_dispatcher_config :: dispatcherConfig where
  "sample_dispatcher_config = \<lparr>dc_Mongo = sample_mongo_config,
     dc_Pulsar = \<lparr>pu_ServiceURL = ''pulsar://localhost:6650'', pu_SubscriptionName = ''jobber''\<rparr>,
     dc_Dispatch = \<lparr>dw_PollInterval = 5 * one_second, dw_BatchSize = 50, dw_MaxAttempts = 5,
       dw_StreamMaxPoolSize = 2, dw_StreamMongoDBResumeTokenPath = []\<rparr>\<rparr>"

lemma sample_topics: "UniqueTopics sample_registry = [''t-a'', ''t-b'']"
  by code_simp

lemma sample_executor_exits:
  "fst (executor_main world_machine schedule (Inr sample_executor_config) sample_world) = Exited"
  unfolding executor_main_def Let_def sample_executor_config_def jobsExecutorConfig.select_convs sum.case
    world_machine_simps world_env_simps sample_open prod.case
  by (simp add: world_machine_def sample_registry_loads NewPulsarClient_def NewPulsarJobConsumer_def
      sample_topics mem_broker_def on_bus_def along_def bus_scripted_def fresh_handle_def world_with_def
      bus_empty_def PulsarJobConsumer_Run_def split_beta)

lemma sample_dispatcher_exits:
  "fst (dispatcher_main world_machine turns (Inr sample_dispatcher_config) (fresh_process sample_world)) = Exited"
proof -
  have "along process_world process_put (OpenMongoJobs world_connector sample_mongo_config)
      (fresh_process sample_world) = (fst (OpenMongoJobs world_connector sample_mongo_config sample_world),
        process_put sample_connected (fresh_process sample_world))"
    by (simp add: along_def fresh_process_def process_world_def sample_open)
  note o = this [unfolded sample_open fst_conv]
  show ?thesis
    unfolding dispatcher_main_def Let_def sample_dispatcher_config_def dispatcherConfig.select_convs sum.case
      world_machine_simps world_env_simps o prod.case
    by (simp add: newDispatchRuntime_def New_def choose_publisher_def NewPulsarClient_def fresh_process_def
        process_world_def process_put_def mem_broker_def on_bus_def along_def bus_scripted_def world_with_def
        bus_empty_def OpenMongoWatchClient_def ConfigFromEnv_def world_connector_def mem_connector_def
        ct_call_def cluster_empty_def Let_def split_beta)
qed

theorem workers_release_their_clients_witness:
  "ct_opened (wd_cluster (snd (executor_main world_machine [0, 1, 0] (Inr sample_executor_config) sample_world))) = {}
   \<and> bus_clients (wd_bus (process_world (snd (dispatcher_main world_machine [PollTurn, StreamTurn]
       (Inr sample_dispatcher_config) (fresh_process sample_world))))) = 0"
proof -
  obtain s' where s: "executor_main world_machine [0, 1, 0] (Inr sample_executor_config) sample_world = (Exited, s')"
    using sample_executor_exits by (metis prod.collapse)
  obtain p' where p: "dispatcher_main world_machine [PollTurn, StreamTurn] (Inr sample_dispatcher_config)
      (fresh_process sample_world) = (Exited, p')"
    using sample_dispatcher_exits by (metis prod.collapse)
  from workers_release_their_clients [OF mem_process.process_frames_axioms p s] s p show ?thesis
    by (simp add: fresh_process_def process_world_def world_with_def bus_empty_def cluster_empty_def)
qed

end
