(* ===== verification/Migrate.thy ===== *)
theory Migrate
  imports Settings
begin

text \<open>
  \<open>cmd/migrate\<close>: the command that applies schema migrations. The migration engine is
  third-party and a parameter; paths and URLs are those of the standard library on Unix.
\<close>

section \<open>Paths\<close>

fun path_elements :: "string \<Rightarrow> string list" where
  "path_elements [] = [[]]"
| "path_elements (x # xs) =
     (if x = CHR ''/'' then [] # path_elements xs
      else (case path_elements xs of [] \<Rightarrow> [[x]] | y # ys \<Rightarrow> (x # y) # ys))"

fun join_elements :: "string list \<Rightarrow> string" where
  "join_elements [] = []"
| "join_elements [e] = e"
| "join_elements (e # es) = e @ CHR ''/'' # join_elements es"

text \<open>\<open>filepath.Clean\<close>: the elements in turn; \<open>..\<close> takes back an element that can be taken back.\<close>

definition clean_step :: "bool \<Rightarrow> string list \<Rightarrow> string \<Rightarrow> string list" where
  "clean_step rooted out e =
     (if e = [] \<or> e = ''.'' then out
      else if e = ''..'' then
        (if out \<noteq> [] \<and> last out \<noteq> ''..'' then butlast out
         else if rooted then out else out @ [e])
      else out @ [e])"

definition is_abs :: "string \<Rightarrow> bool" where
  "is_abs p \<longleftrightarrow> p \<noteq> [] \<and> hd p = CHR ''/''"

definition filepath_Clean :: "string \<Rightarrow> string" where
  "filepath_Clean p =
     (let out = foldl (clean_step (is_abs p)) [] (path_elements p)
      in if is_abs p then CHR ''/'' # join_elements out
         else if out = [] then ''.'' else join_elements out)"

text \<open>\<open>filepath.Abs\<close>, given what \<open>os.Getwd\<close> answers.\<close>

definition filepath_Abs :: "goerror + string \<Rightarrow> string \<Rightarrow> goerror + string" where
  "filepath_Abs getwd p =
     (if is_abs p then Inr (filepath_Clean p)
      else (case getwd of
              Inl err \<Rightarrow> Inl err
            | Inr wd \<Rightarrow> Inr (if wd = [] then filepath_Clean p else filepath_Clean (wd @ CHR ''/'' # p))))"

section \<open>URLs\<close>

text \<open>\<open>url.URL.String\<close> for a scheme and a path: the bytes a path may hold stay, the others are
  escaped.\<close>

definition hex_digit :: "nat \<Rightarrow> char" where
  "hex_digit n = (''0123456789ABCDEF'' ! n)"

definition stays_in_path :: "char \<Rightarrow> bool" where
  "stays_in_path c \<longleftrightarrow>
     (let n = (of_char c :: nat) in
      (65 \<le> n \<and> n \<le> 90) \<or> (97 \<le> n \<and> n \<le> 122) \<or> (48 \<le> n \<and> n \<le> 57)
      \<or> c \<in> set ''-_.~$&+,/:;=@'')"

definition escape_byte :: "char \<Rightarrow> string" where
  "escape_byte c =
     (if stays_in_path c then [c]
      else [CHR ''%'', hex_digit (of_char c div 16), hex_digit (of_char c mod 16)])"

definition escaped_path :: "string \<Rightarrow> string" where
  "escaped_path p = (if p = ''*'' then p else concat (map escape_byte p))"

definition url_String :: "string \<Rightarrow> string \<Rightarrow> string" where
  "url_String scheme p = scheme @ '':'' @ (if p \<noteq> [] then ''//'' else []) @ escaped_path p"

definition migrationsSourceURL :: "string \<Rightarrow> string" where
  "migrationsSourceURL absDir = url_String ''file'' absDir"

section \<open>The migration engine\<close>

record 's migrator =
  mm_New :: "string \<Rightarrow> string \<Rightarrow> ('s, goerror + nat) op"
  mm_Up :: "nat \<Rightarrow> ('s, goerror option) op"
  mm_Steps :: "nat \<Rightarrow> int \<Rightarrow> ('s, goerror option) op"
  mm_Version :: "nat \<Rightarrow> ('s, nat \<times> bool \<times> goerror option) op"
  mm_Force :: "nat \<Rightarrow> int \<Rightarrow> ('s, goerror option) op"
  mm_Close :: "nat \<Rightarrow> ('s, goerror option \<times> goerror option) op"
  mm_ErrNoChange :: goerror
  mm_ErrNilVersion :: goerror
  mm_Getwd :: "goerror + string"
  mm_print :: "string \<Rightarrow> 's \<Rightarrow> 's"

definition withMigrate ::
  "'s migrator \<Rightarrow> environ \<Rightarrow> (nat \<Rightarrow> ('s, goerror option) op) \<Rightarrow> ('s, goerror option) op" where
  "withMigrate M ev fn s =
     (case loadMigrateConfig ev of
        Inl err \<Rightarrow> (Some err, s)
      | Inr cfg \<Rightarrow>
     (case filepath_Abs (mm_Getwd M) (filepath_Clean (mi_MigrationsPath cfg)) of
        Inl err \<Rightarrow> (Some err, s)
      | Inr absRoot \<Rightarrow>
     (case mm_New M (migrationsSourceURL absRoot) (mi_URI cfg) s of
        (Inl err, s1) \<Rightarrow> (Some (wrap ''init migrations'' err), s1)
      | (Inr mig, s1) \<Rightarrow>
          (case fn mig s1 of
             (res, s2) \<Rightarrow>
               (case mm_Close M mig s2 of
                  ((srcErr, dbErr), s3) \<Rightarrow>
                    (let s4 = (case srcErr of None \<Rightarrow> s3
                               | Some e \<Rightarrow> mm_print M (''close source driver: '' @ error_text e) s3);
                         s5 = (case dbErr of None \<Rightarrow> s4
                               | Some e \<Rightarrow> mm_print M (''close database driver: '' @ error_text e) s4)
                     in (res, s5)))))))"

section \<open>The commands\<close>

definition run_up :: "'s migrator \<Rightarrow> nat \<Rightarrow> ('s, goerror option) op" where
  "run_up M mig s =
     (case mm_Up M mig s of
        (Some err, s1) \<Rightarrow>
          if errors_is err (mm_ErrNoChange M)
          then (None, mm_print M ''no change (already up to date)'' s1)
          else (Some (wrap ''up'' err), s1)
      | (None, s1) \<Rightarrow> (None, s1))"

definition run_down :: "'s migrator \<Rightarrow> nat \<Rightarrow> ('s, goerror option) op" where
  "run_down M mig s =
     (case mm_Steps M mig (-1) s of
        (Some err, s1) \<Rightarrow>
          if errors_is err (mm_ErrNoChange M)
          then (None, mm_print M ''no change (nothing to roll back)'' s1)
          else (Some (wrap ''down'' err), s1)
      | (None, s1) \<Rightarrow> (None, s1))"

definition run_version :: "'s migrator \<Rightarrow> nat \<Rightarrow> ('s, goerror option) op" where
  "run_version M mig s =
     (case mm_Version M mig s of
        ((v, dirty, Some err), s1) \<Rightarrow>
          if errors_is err (mm_ErrNilVersion M)
          then (None, mm_print M ''version: none (fresh database)'' s1)
          else (Some (wrap ''version'' err), s1)
      | ((v, dirty, None), s1) \<Rightarrow>
          (None, mm_print M (''version: '' @ go_int (int v) @ (if dirty then '' (dirty)'' else [])) s1))"

text \<open>The error of \<open>strconv.Atoi\<close>: not a number, or one that does not fit.\<close>

definition atoi_error :: "string \<Rightarrow> goerror" where
  "atoi_error s =
     ErrorString (''strconv.Atoi: parsing '' @ go_quote s @ '': ''
       @ (if (case s of [] \<Rightarrow> None | c # r \<Rightarrow> if c = CHR ''+'' \<or> c = CHR ''-'' then digits_value r
                                         else digits_value s) = None
          then ''invalid syntax'' else ''value out of range''))"

definition run_force :: "'s migrator \<Rightarrow> int \<Rightarrow> nat \<Rightarrow> ('s, goerror option) op" where
  "run_force M v mig s =
     (case mm_Force M mig v s of
        (Some err, s1) \<Rightarrow> (Some (wrap ''force'' err), s1)
      | (None, s1) \<Rightarrow> (None, s1))"

text \<open>The commands of the root command; \<open>force\<close> is given its one argument.\<close>

datatype migrate_command = Up | Down | Version | Force string

fun migrate_run :: "'s migrator \<Rightarrow> environ \<Rightarrow> migrate_command \<Rightarrow> ('s, goerror option) op" where
  "migrate_run M ev Up s = withMigrate M ev (run_up M) s"
| "migrate_run M ev Down s = withMigrate M ev (run_down M) s"
| "migrate_run M ev Version s = withMigrate M ev (run_version M) s"
| "migrate_run M ev (Force arg) s =
     (case go_atoi arg of
        None \<Rightarrow> (Some (wrap ''force: invalid version'' (atoi_error arg)), s)
      | Some v \<Rightarrow> withMigrate M ev (run_force M v) s)"

section \<open>What a path and its URL keep\<close>

lemma path_elements_nonempty [simp]: "path_elements p \<noteq> []"
  by (induction p) (auto split: list.splits)

lemma path_elements_no_slash: "e \<in> set (path_elements p) \<Longrightarrow> CHR ''/'' \<notin> set e"
  by (induction p arbitrary: e) (auto split: if_splits list.splits)

lemma path_elements_single: "CHR ''/'' \<notin> set e \<Longrightarrow> path_elements e = [e]"
  by (induction e) auto

lemma path_elements_sep:
  "CHR ''/'' \<notin> set e \<Longrightarrow> path_elements (e @ CHR ''/'' # p) = e # path_elements p"
  by (induction e) auto

lemma path_elements_join:
  "\<lbrakk>es \<noteq> []; \<forall>e\<in>set es. CHR ''/'' \<notin> set e\<rbrakk> \<Longrightarrow> path_elements (join_elements es) = es"
  by (induction es rule: join_elements.induct) (simp_all add: path_elements_single path_elements_sep del: path_elements.simps)

text \<open>An element that \<open>Clean\<close> keeps in a rooted path.\<close>

definition proper_element :: "string \<Rightarrow> bool" where
  "proper_element e \<longleftrightarrow> e \<notin> {[], ''.'', ''..''} \<and> CHR ''/'' \<notin> set e"

lemma set_clean_step: "set (clean_step True out e) \<subseteq> set out \<union> (if e \<in> {[], ''.'', ''..''} then {} else {e})"
  by (auto simp: clean_step_def dest: in_set_butlastD)

lemma clean_rooted_proper:
  assumes "\<forall>e\<in>set out. proper_element e" "\<forall>e\<in>set es. CHR ''/'' \<notin> set e"
  shows "\<forall>e\<in>set (foldl (clean_step True) out es). proper_element e"
  using assms
proof (induction es arbitrary: out)
  case (Cons e es)
  have step: "\<forall>x\<in>set (clean_step True out e). proper_element x"
  proof
    fix x assume x: "x \<in> set (clean_step True out e)"
    show "proper_element x"
    proof (cases "x \<in> set out")
      case False
      then have "x = e" "e \<notin> {[], ''.'', ''..''}"
        using x set_clean_step [of out e] by (auto split: if_splits)
      moreover have "CHR ''/'' \<notin> set e" using Cons.prems(2) by simp
      ultimately show ?thesis unfolding proper_element_def by blast
    qed (use Cons.prems(1) in blast)
  qed
  show ?case using Cons.IH [OF step] Cons.prems(2) by simp
qed simp

lemma clean_proper_id: "\<forall>e\<in>set es. proper_element e \<Longrightarrow> foldl (clean_step b) out es = out @ es"
  by (induction es arbitrary: out) (auto simp: clean_step_def proper_element_def)

text \<open>A clean absolute path: a slash, then proper elements with single slashes between them.\<close>

definition clean_abs :: "string \<Rightarrow> bool" where
  "clean_abs d \<longleftrightarrow> (\<exists>es. d = CHR ''/'' # join_elements es \<and> (\<forall>e\<in>set es. proper_element e))"

lemma filepath_Clean_abs: "is_abs p \<Longrightarrow> clean_abs (filepath_Clean p)"
  using clean_rooted_proper [of "[]" "path_elements p"] path_elements_no_slash
  by (auto simp: clean_abs_def filepath_Clean_def Let_def)

lemma filepath_Clean_id: "clean_abs d \<Longrightarrow> filepath_Clean d = d"
proof -
  assume "clean_abs d"
  then obtain es where d: "d = CHR ''/'' # join_elements es" "\<forall>e\<in>set es. proper_element e"
    unfolding clean_abs_def by blast
  have "foldl (clean_step True) [] (path_elements (join_elements es)) = es"
  proof (cases "es = []")
    case True
    then show ?thesis by (simp add: clean_step_def)
  next
    case False
    then show ?thesis
      using d(2) clean_proper_id [OF d(2), of True "[]"]
      by (subst path_elements_join) (auto simp: proper_element_def)
  qed
  then show ?thesis by (simp add: d(1) filepath_Clean_def is_abs_def clean_step_def)
qed

lemma filepath_Abs_clean:
  "\<lbrakk>filepath_Abs getwd p = Inr d; \<And>wd. getwd = Inr wd \<Longrightarrow> is_abs wd\<rbrakk> \<Longrightarrow> clean_abs d"
  by (auto simp: filepath_Abs_def is_abs_def split: if_splits sum.splits
      intro!: filepath_Clean_abs)

subsection \<open>Reading the URL\<close>

text \<open>The reference reader: what follows the scheme and an empty host, up to a query or a fragment,
  with the escapes undone.\<close>

definition hex_value :: "char \<Rightarrow> nat option" where
  "hex_value c =
     (let n = (of_char c :: nat) in
      if 48 \<le> n \<and> n \<le> 57 then Some (n - 48)
      else if 65 \<le> n \<and> n \<le> 70 then Some (n - 55)
      else if 97 \<le> n \<and> n \<le> 102 then Some (n - 87) else None)"

fun url_unescape :: "string \<Rightarrow> string option" where
  "url_unescape [] = Some []"
| "url_unescape (c # s) =
     (if c = CHR ''%'' then
        (case s of
           a # b # r \<Rightarrow>
             (case (hex_value a, hex_value b) of
                (Some x, Some y) \<Rightarrow> map_option ((#) (char_of (16 * x + y))) (url_unescape r)
              | _ \<Rightarrow> None)
         | _ \<Rightarrow> None)
      else map_option ((#) c) (url_unescape s))"

definition file_url_path :: "string \<Rightarrow> string option" where
  "file_url_path u =
     (if starts_with ''file:///'' u
      then url_unescape (takeWhile (\<lambda>c. c \<noteq> CHR ''?'' \<and> c \<noteq> CHR ''#'') (drop 7 u)) else None)"

lemma hex_value_digit: "n < 16 \<Longrightarrow> hex_value (hex_digit n) = Some n"
proof -
  assume "n < 16"
  moreover have "\<forall>n\<in>set [0 ..< 16]. hex_value (hex_digit n) = Some n" by code_simp
  ultimately show ?thesis by simp
qed

lemma unescape_byte: "url_unescape (escape_byte c @ s) = map_option ((#) c) (url_unescape s)"
proof (cases "stays_in_path c")
  case True
  then have "c \<noteq> CHR ''%''" by (auto simp: stays_in_path_def Let_def)
  with True show ?thesis by (simp add: escape_byte_def)
next
  case False
  have "(of_char c :: nat) div 16 < 16" "(of_char c :: nat) mod 16 < 16"
    using nat_of_char_less_256 [of c] by (simp_all add: less_mult_imp_div_less)
  moreover have "char_of (16 * ((of_char c :: nat) div 16) + of_char c mod 16) = c" by simp
  ultimately show ?thesis using False by (simp add: escape_byte_def hex_value_digit)
qed

lemma unescape_path: "url_unescape (concat (map escape_byte p)) = Some p"
  by (induction p) (simp_all add: unescape_byte)

text \<open>The bytes of an escaped path are printable and end neither path nor host.\<close>

definition url_byte :: "char \<Rightarrow> bool" where
  "url_byte c \<longleftrightarrow> (33 \<le> (of_char c :: nat) \<and> (of_char c :: nat) \<le> 126) \<and> c \<notin> set ''?#''"

lemma url_byte_digit: "n < 16 \<Longrightarrow> url_byte (hex_digit n)"
proof -
  assume "n < 16"
  moreover have "\<forall>n\<in>set [0 ..< 16]. url_byte (hex_digit n)" by code_simp
  ultimately show ?thesis by simp
qed

lemma url_byte_stays: "stays_in_path c \<Longrightarrow> url_byte c"
  by (auto simp: stays_in_path_def url_byte_def Let_def)

lemma url_byte_escape: "x \<in> set (escape_byte c) \<Longrightarrow> url_byte x"
proof -
  have "(of_char c :: nat) div 16 < 16" using nat_of_char_less_256 [of c] by (simp add: less_mult_imp_div_less)
  moreover have "url_byte CHR ''%''" by code_simp
  ultimately show "x \<in> set (escape_byte c) \<Longrightarrow> url_byte x"
    by (auto simp: escape_byte_def url_byte_digit url_byte_stays split: if_splits)
qed

lemma migrationsSourceURL_abs:
  assumes "is_abs d"
  shows "migrationsSourceURL d = ''file://'' @ concat (map escape_byte d)"
  using assms by (auto simp: migrationsSourceURL_def url_String_def escaped_path_def is_abs_def)

lemma file_url_path_URL:
  assumes "is_abs d"
  shows "file_url_path (migrationsSourceURL d) = Some d"
proof -
  obtain p where d: "d = CHR ''/'' # p" using assms by (cases d) (auto simp: is_abs_def)
  have "takeWhile (\<lambda>c. c \<noteq> CHR ''?'' \<and> c \<noteq> CHR ''#'') (concat (map escape_byte d)) = concat (map escape_byte d)"
    by (auto simp: takeWhile_eq_all_conv url_byte_def dest!: url_byte_escape)
  moreover have "migrationsSourceURL d = ''file:///'' @ concat (map escape_byte p)"
    unfolding migrationsSourceURL_abs [OF assms] by (simp add: d escape_byte_def stays_in_path_def)
  then have "starts_with ''file:///'' (migrationsSourceURL d)" by (simp add: starts_with_def)
  moreover have "drop 7 (migrationsSourceURL d) = concat (map escape_byte d)"
    unfolding migrationsSourceURL_abs [OF assms] by simp
  ultimately show ?thesis
    by (simp only: file_url_path_def if_True unescape_path)
qed

lemma clean_abs_is_abs: "clean_abs d \<Longrightarrow> is_abs d"
  by (auto simp: clean_abs_def is_abs_def)

text \<open>
  C39. Whatever directory is configured, the URL handed to the migration engine reads back as its
  clean absolute path: cleaning it again changes nothing, the escapes undo to it exactly, and no
  byte of the URL is a blank, a control byte or one that would begin a query or a fragment. The
  hypothesis is that \<open>os.Getwd\<close> answers a rooted path.
\<close>

theorem migrations_url_roundtrip:
  assumes "filepath_Abs getwd (filepath_Clean path) = Inr d"
    and "\<And>wd. getwd = Inr wd \<Longrightarrow> is_abs wd"
  shows "clean_abs d \<and> filepath_Clean d = d \<and> file_url_path (migrationsSourceURL d) = Some d
       \<and> list_all url_byte (migrationsSourceURL d)"
proof -
  have d: "clean_abs d" using filepath_Abs_clean assms by blast
  moreover have "list_all url_byte ''file://''" by code_simp
  then have "list_all url_byte (migrationsSourceURL d)"
    using clean_abs_is_abs [OF d] by (auto simp: migrationsSourceURL_abs list_all_iff dest: url_byte_escape)
  ultimately show ?thesis
    by (simp add: filepath_Clean_id file_url_path_URL clean_abs_is_abs)
qed

theorem migrations_url_roundtrip_witness:
  "filepath_Abs (Inr ''/srv/a b'') (filepath_Clean ''.//x/../migrations/'') = Inr ''/srv/a b/migrations''
   \<and> migrationsSourceURL ''/srv/a b/migrations'' = ''file:///srv/a%20b/migrations''
   \<and> file_url_path ''file:///srv/a%20b/migrations'' = Some ''/srv/a b/migrations''"
proof -
  have path: "filepath_Abs (Inr ''/srv/a b'') (filepath_Clean ''.//x/../migrations/'') = Inr ''/srv/a b/migrations''"
    and url: "migrationsSourceURL ''/srv/a b/migrations'' = ''file:///srv/a%20b/migrations''"
    by code_simp+
  show ?thesis
    using migrations_url_roundtrip [OF path] by (simp add: path url is_abs_def)
qed

section \<open>What the commands leave open\<close>

text \<open>What the engine documents of its handles: creating one opens it, closing one closes it, and
  nothing else opens or closes any.\<close>

locale migrators =
  fixes M :: "'s migrator" and opened :: "'s \<Rightarrow> nat set"
  assumes New_opens: "mm_New M source db s = (Inr m, s') \<Longrightarrow> m \<notin> opened s \<and> opened s' = insert m (opened s)"
    and New_fails: "mm_New M source db s = (Inl err, s') \<Longrightarrow> opened s' = opened s"
    and Close_closes: "opened (snd (mm_Close M m s)) = opened s - {m}"
    and runs: "opened (snd (mm_Up M m s)) = opened s" "opened (snd (mm_Steps M m n s)) = opened s"
      "opened (snd (mm_Version M m s)) = opened s" "opened (snd (mm_Force M m v s)) = opened s"
      "opened (mm_print M t s) = opened s"

context migrators
begin

lemma run_keeps:
  "opened (snd (run_up M m s)) = opened s" "opened (snd (run_down M m s)) = opened s"
  "opened (snd (run_version M m s)) = opened s" "opened (snd (run_force M v m s)) = opened s"
  using runs(1) [of m s] runs(2) [of m "-1" s] runs(3) [of m s] runs(4) [of m v s]
  by (auto simp: run_up_def run_down_def run_version_def run_force_def runs(5)
      split: prod.splits option.splits)

lemma withMigrate_keeps:
  assumes "\<And>m s. opened (snd (fn m s)) = opened s"
  shows "opened (snd (withMigrate M ev fn s)) = opened s"
proof (cases "\<exists>cfg d m s1. loadMigrateConfig ev = Inr cfg
    \<and> filepath_Abs (mm_Getwd M) (filepath_Clean (mi_MigrationsPath cfg)) = Inr d
    \<and> mm_New M (migrationsSourceURL d) (mi_URI cfg) s = (Inr m, s1)")
  case True
  then obtain cfg d m s1 where made: "loadMigrateConfig ev = Inr cfg"
    "filepath_Abs (mm_Getwd M) (filepath_Clean (mi_MigrationsPath cfg)) = Inr d"
    "mm_New M (migrationsSourceURL d) (mi_URI cfg) s = (Inr m, s1)" by blast
  obtain res s2 where fn: "fn m s1 = (res, s2)" by fastforce
  obtain a b s3 where close: "mm_Close M m s2 = ((a, b), s3)" by (metis prod.exhaust)
  have "opened s3 = opened s"
    using New_opens [OF made(3)] Close_closes [of m s2] assms [of m s1] by (simp add: fn close)
  then show ?thesis
    by (simp add: withMigrate_def made fn close runs(5) Let_def split: option.splits)
next
  case False
  then show ?thesis
    by (auto simp: withMigrate_def split: sum.splits prod.splits dest: New_fails)
qed

lemma migrate_run_keeps: "opened (snd (migrate_run M ev c s)) = opened s"
  by (cases c) (simp_all add: withMigrate_keeps run_keeps split: option.splits)

end

text \<open>An engine is made for the configured database and directory.\<close>

definition engine_made :: "'s migrator \<Rightarrow> environ \<Rightarrow> 's \<Rightarrow> nat \<Rightarrow> 's \<Rightarrow> bool" where
  "engine_made M ev s m s1 \<longleftrightarrow>
     (\<exists>cfg d. loadMigrateConfig ev = Inr cfg
        \<and> filepath_Abs (mm_Getwd M) (filepath_Clean (mi_MigrationsPath cfg)) = Inr d
        \<and> mm_New M (migrationsSourceURL d) (mi_URI cfg) s = (Inr m, s1))"

lemma withMigrate_succeeds:
  "fst (withMigrate M ev fn s) = None \<longleftrightarrow> (\<exists>m s1. engine_made M ev s m s1 \<and> fst (fn m s1) = None)"
  by (auto simp: withMigrate_def engine_made_def Let_def split: sum.splits prod.splits)

text \<open>An error of the engine that only says there was nothing to do.\<close>

definition harmless :: "goerror \<Rightarrow> goerror option \<Rightarrow> bool" where
  "harmless sentinel e = (case e of None \<Rightarrow> True | Some err \<Rightarrow> errors_is err sentinel)"

lemma run_succeeds:
  "fst (run_up M m s) = None \<longleftrightarrow> harmless (mm_ErrNoChange M) (fst (mm_Up M m s))"
  "fst (run_down M m s) = None \<longleftrightarrow> harmless (mm_ErrNoChange M) (fst (mm_Steps M m (-1) s))"
  "fst (run_version M m s) = None \<longleftrightarrow> harmless (mm_ErrNilVersion M) (snd (snd (fst (mm_Version M m s))))"
  "fst (run_force M v m s) = None \<longleftrightarrow> fst (mm_Force M m v s) = None"
  by (simp_all add: run_up_def run_down_def run_version_def run_force_def harmless_def
      split: prod.splits option.splits)

subsection \<open>An engine in memory\<close>

text \<open>Migrations are numbered from 1; version 0 is a fresh database.\<close>

record schema =
  sc_next :: nat
  sc_open :: "nat list"
  sc_version :: nat
  sc_dirty :: bool
  sc_printed :: "string list"

definition mem_migrator :: "nat \<Rightarrow> schema migrator" where
  "mem_migrator latest =
     \<lparr>mm_New = (\<lambda>source db s.
        if sc_next s \<in> set (sc_open s) then (Inl (DriverError ''handle in use''), s)
        else (Inr (sc_next s), s\<lparr>sc_next := Suc (sc_next s), sc_open := sc_next s # sc_open s\<rparr>)),
      mm_Up = (\<lambda>m s. if sc_version s = latest then (Some (DriverError ''no change''), s)
                    else (None, s\<lparr>sc_version := latest\<rparr>)),
      mm_Steps = (\<lambda>m n s.
        let v = int (sc_version s) + n in
        if v < 0 \<or> int latest < v then (Some (DriverError ''file does not exist''), s)
        else if n = 0 then (Some (DriverError ''no change''), s) else (None, s\<lparr>sc_version := nat v\<rparr>)),
      mm_Version = (\<lambda>m s. ((sc_version s, sc_dirty s,
        if sc_version s = 0 then Some (DriverError ''no migration'') else None), s)),
      mm_Force = (\<lambda>m v s. if v < -1 then (Some (DriverError ''version must be >= -1''), s)
                        else (None, s\<lparr>sc_version := nat v, sc_dirty := False\<rparr>)),
      mm_Close = (\<lambda>m s. ((None, None), s\<lparr>sc_open := removeAll m (sc_open s)\<rparr>)),
      mm_ErrNoChange = DriverError ''no change'',
      mm_ErrNilVersion = DriverError ''no migration'',
      mm_Getwd = Inr ''/srv/jobby'',
      mm_print = (\<lambda>t s. s\<lparr>sc_printed := sc_printed s @ [t]\<rparr>)\<rparr>"

interpretation mem_engine: migrators "mem_migrator latest" "\<lambda>s. set (sc_open s)" for latest
  by unfold_locales (auto simp: mem_migrator_def Let_def split: if_splits)

section \<open>The commands\<close>

text \<open>
  C38. Every migration command closes the engine it made and leaves open what was open before,
  whatever failed. A command succeeds when the settings, the directory and the engine could be
  had and the engine's operation succeeded, or said there was nothing to migrate (\<open>up\<close>, \<open>down\<close>)
  or no version yet (\<open>version\<close>); \<open>down\<close> asks for exactly one step back, and \<open>force\<close> never
  reaches the engine with an argument that is not a number.
\<close>

theorem migrate_commands:
  assumes "migrators M opened"
  shows "opened (snd (migrate_run M ev c s)) = opened s
       \<and> (fst (migrate_run M ev c s) = None \<longleftrightarrow>
            (\<exists>m s1. engine_made M ev s m s1 \<and>
              (case c of
                 Up \<Rightarrow> harmless (mm_ErrNoChange M) (fst (mm_Up M m s1))
               | Down \<Rightarrow> harmless (mm_ErrNoChange M) (fst (mm_Steps M m (-1) s1))
               | Version \<Rightarrow> harmless (mm_ErrNilVersion M) (snd (snd (fst (mm_Version M m s1))))
               | Force arg \<Rightarrow> (\<exists>v. go_atoi arg = Some v \<and> fst (mm_Force M m v s1) = None))))
       \<and> (\<forall>arg. c = Force arg \<and> go_atoi arg = None \<longrightarrow> snd (migrate_run M ev c s) = s)"
proof (intro conjI)
  show "opened (snd (migrate_run M ev c s)) = opened s"
    by (rule migrators.migrate_run_keeps [OF assms])
  show "fst (migrate_run M ev c s) = None \<longleftrightarrow>
            (\<exists>m s1. engine_made M ev s m s1 \<and>
              (case c of
                 Up \<Rightarrow> harmless (mm_ErrNoChange M) (fst (mm_Up M m s1))
               | Down \<Rightarrow> harmless (mm_ErrNoChange M) (fst (mm_Steps M m (-1) s1))
               | Version \<Rightarrow> harmless (mm_ErrNilVersion M) (snd (snd (fst (mm_Version M m s1))))
               | Force arg \<Rightarrow> (\<exists>v. go_atoi arg = Some v \<and> fst (mm_Force M m v s1) = None)))"
    by (cases c) (auto simp: withMigrate_succeeds run_succeeds split: option.splits)
  show "\<forall>arg. c = Force arg \<and> go_atoi arg = None \<longrightarrow> snd (migrate_run M ev c s) = s"
    by simp
qed

definition sample_environ :: environ where
  "sample_environ = \<lparr>ev_Mongo = Inr, ev_Server = Inr, ev_Topics = Inr, ev_Pulsar = Inr, ev_Dispatch = Inr,
     ev_Migrate = (\<lambda>_. Inr \<lparr>mi_URI = ''mongodb://h/jobby'', mi_MigrationsPath = ''./migrations''\<rparr>)\<rparr>"

definition sample_schema :: schema where
  "sample_schema = \<lparr>sc_next = 1, sc_open = [], sc_version = 3, sc_dirty = False, sc_printed = []\<rparr>"

theorem migrate_commands_witness:
  "set (sc_open (snd (migrate_run (mem_migrator 3) sample_environ Up sample_schema))) = {}
   \<and> fst (migrate_run (mem_migrator 3) sample_environ Up sample_schema) = None"
proof -
  have "engine_made (mem_migrator 3) sample_environ sample_schema 1
          (sample_schema\<lparr>sc_next := 2, sc_open := [1]\<rparr>)"
    by (simp add: engine_made_def loadMigrateConfig_def LoadInto_def sample_environ_def mem_migrator_def
        sample_schema_def filepath_Abs_def)
  moreover have "harmless (mm_ErrNoChange (mem_migrator 3))
      (fst (mm_Up (mem_migrator 3) 1 (sample_schema\<lparr>sc_next := 2, sc_open := [1]\<rparr>)))"
    by (simp add: harmless_def mem_migrator_def sample_schema_def)
  ultimately have "\<exists>m s1. engine_made (mem_migrator 3) sample_environ sample_schema m s1
      \<and> harmless (mm_ErrNoChange (mem_migrator 3)) (fst (mm_Up (mem_migrator 3) m s1))" by blast
  moreover have "set (sc_open sample_schema) = {}" by (simp add: sample_schema_def)
  ultimately show ?thesis
    using migrate_commands [OF mem_engine.migrators_axioms, of 3 sample_environ Up sample_schema]
    by (simp only: migrate_command.case simp_thms)
qed

end
