(* ===== verification/JobJson.thy ===== *)
theory JobJson
  imports JobMessage GoText Samples
begin

text \<open>
  What clients see of a job and of a log entry: the JSON that \<open>encoding/json\<close> makes of
  \<open>JobMetadataModel\<close> with its \<open>MarshalJSON\<close> (\<open>metadata/model.go\<close>), of \<open>JobError\<close> and of \<open>JobLog\<close>
  (\<open>metadata/interface.go\<close>). Encoding an object id is the driver's; times are in UTC.
\<close>

section \<open>Values\<close>

text \<open>\<open>Time.MarshalJSON\<close>: RFC 3339 with the fraction of the second, for a year of four digits.\<close>

definition year_of :: "instant \<Rightarrow> int" where
  "year_of t = fst (civil_date (t div 1000 div 86400))"

definition rfc3339_nano :: "instant \<Rightarrow> string" where
  "rfc3339_nano t = butlast (rfc3339 t) @ fraction 3 (t mod 1000) @ ''Z''"

definition time_json :: "instant \<Rightarrow> goerror + json" where
  "time_json t =
     (if year_of t < 0 \<or> 9999 < year_of t
      then Inl (ErrorString ''Time.MarshalJSON: year outside of range [0,9999]'')
      else Inr (JStr (rfc3339_nano t)))"

text \<open>One field of a struct: a key with its value, or nothing when it is omitted.\<close>

type_synonym field = "goerror + (string \<times> json) list"

definition always :: "string \<Rightarrow> json \<Rightarrow> field" where
  "always k v = Inr [(k, v)]"

definition omitempty :: "bool \<Rightarrow> string \<Rightarrow> json \<Rightarrow> field" where
  "omitempty zero k v = Inr (if zero then [] else [(k, v)])"

definition time_field :: "string \<Rightarrow> instant \<Rightarrow> field" where
  "time_field k t = (case time_json t of Inl err \<Rightarrow> Inl err | Inr v \<Rightarrow> Inr [(k, v)])"

definition opt_time_field :: "string \<Rightarrow> instant option \<Rightarrow> field" where
  "opt_time_field k t = (case t of None \<Rightarrow> Inr [] | Some t \<Rightarrow> time_field k t)"

text \<open>The fields in order; the first error ends the encoding.\<close>

fun struct_fields :: "field list \<Rightarrow> field" where
  "struct_fields [] = Inr []"
| "struct_fields (f # fs) =
     (case f of
        Inl err \<Rightarrow> Inl err
      | Inr kvs \<Rightarrow> (case struct_fields fs of Inl err \<Rightarrow> Inl err | Inr rest \<Rightarrow> Inr (kvs @ rest)))"

definition struct_json :: "field list \<Rightarrow> goerror + json" where
  "struct_json fs = map_sum id JObj (struct_fields fs)"

fun list_json :: "(goerror + json) list \<Rightarrow> goerror + json list" where
  "list_json [] = Inr []"
| "list_json (v # vs) =
     (case v of
        Inl err \<Rightarrow> Inl err
      | Inr x \<Rightarrow> (case list_json vs of Inl err \<Rightarrow> Inl err | Inr xs \<Rightarrow> Inr (x # xs)))"

section \<open>Jobs\<close>

fun JobErrorType_String :: "JobErrorType \<Rightarrow> string" where
  "JobErrorType_String JobErrorTypeExecution = ''execution''"
| "JobErrorType_String JobErrorTypeDispatch = ''dispatch''"
| "JobErrorType_String (JobErrorTypeOther s) = s"

definition JobError_json :: "JobError \<Rightarrow> goerror + json" where
  "JobError_json e =
     struct_json
       [always ''type'' (JStr (JobErrorType_String (je_Type e))),
        always ''retryAttempt'' (JNum (go_int (je_RetryAttempt e))),
        always ''error'' (JStr (je_Error e)),
        time_field ''timestamp'' (je_Timestamp e)]"

definition errors_field :: "JobError list \<Rightarrow> field" where
  "errors_field es =
     (if es = [] then Inr []
      else (case list_json (map JobError_json es) of
              Inl err \<Rightarrow> Inl err | Inr vs \<Rightarrow> Inr [(''errors'', JArr vs)]))"

text \<open>The fields of the struct after its tags. An object id is an array, which is never empty in
  the sense of \<open>omitempty\<close>. A job's tags are a list that is not nil.\<close>

definition model_fields :: "(string \<Rightarrow> json) \<Rightarrow> job \<Rightarrow> field list" where
  "model_fields object_id j =
     [always ''id'' (object_id (jm_ID j)),
      always ''jobId'' (JStr (jm_JobID j)),
      always ''name'' (JStr (jm_Name j)),
      omitempty (JobStatus_String (jm_Status j) = []) ''status'' (JStr (JobStatus_String (jm_Status j))),
      always ''dispatchStatus'' (JStr (DispatchStatus_String (jm_DispatchStatus j))),
      always ''executionStatus'' (JStr (ExecutionStatus_String (jm_ExecutionStatus j))),
      always ''priority'' (JNum (go_int (jm_Priority j))),
      time_field ''createdAt'' (jm_CreatedAt j),
      opt_time_field ''startedAt'' (jm_StartedAt j),
      opt_time_field ''completedAt'' (jm_CompletedAt j),
      always ''payload'' (gomap_json (jm_Payload j)),
      always ''metadata'' (gomap_json (jm_Metadata j)),
      errors_field (jm_Errors j),
      always ''retryCount'' (JNum (go_int (jm_RetryCount j))),
      always ''tags'' (JArr (map JStr (jm_Tags j))),
      omitempty (jm_Topic j = []) ''topic'' (JStr (jm_Topic j)),
      always ''dispatchAttempts'' (JNum (go_int (jm_DispatchAttempts j))),
      omitempty (jm_DispatchLastError j = []) ''dispatchLastError'' (JStr (jm_DispatchLastError j)),
      opt_time_field ''dispatchedAt'' (jm_DispatchedAt j)]"

definition JobMetadataModel_MarshalJSON :: "(string \<Rightarrow> json) \<Rightarrow> job \<Rightarrow> goerror + json" where
  "JobMetadataModel_MarshalJSON object_id j =
     struct_json (always ''displayStatus'' (JStr (JobStatus_String (DisplayStatus j))) # model_fields object_id j)"

section \<open>Log entries\<close>

definition JobLog_json :: "JobLog \<Rightarrow> goerror + json" where
  "JobLog_json l =
     struct_json
       [always ''jobId'' (JStr (jl_JobID l)),
        time_field ''timestamp'' (jl_Timestamp l),
        always ''level'' (JStr (LogLevel_String (jl_Level l))),
        always ''message'' (JStr (jl_Message l)),
        omitempty (case jl_Context l of None \<Rightarrow> True | Some kvs \<Rightarrow> kvs = []) ''context'' (gomap_json (jl_Context l)),
        omitempty (jl_Source l = []) ''source'' (JStr (jl_Source l)),
        omitempty (jl_StackTrace l = []) ''stackTrace'' (JStr (jl_StackTrace l))]"

section \<open>What an encoded struct holds\<close>

text \<open>A struct described by its keys in order, each with its value or with nothing.\<close>

type_synonym shape = "(string \<times> json option) list"

definition present :: "shape \<Rightarrow> (string \<times> json) list" where
  "present sh = concat (map (\<lambda>(k, v). case v of None \<Rightarrow> [] | Some v \<Rightarrow> [(k, v)]) sh)"

definition shaped :: "field \<Rightarrow> string \<times> json option \<Rightarrow> bool" where
  "shaped f kv \<longleftrightarrow> f = Inr (present [kv])"

lemma present_Cons [simp]: "present [] = []" "present ((k, v) # sh) = (case v of None \<Rightarrow> [] | Some v \<Rightarrow> [(k, v)]) @ present sh"
  by (simp_all add: present_def)

lemma struct_fields_shape: "list_all2 shaped fs sh \<Longrightarrow> struct_fields fs = Inr (present sh)"
  by (induction rule: list_all2_induct) (auto simp: shaped_def split: option.splits)

lemma present_keys: "k \<notin> fst ` set sh \<Longrightarrow> k \<notin> fst ` set (present sh)"
  by (induction sh) (auto split: option.splits)

lemma present_distinct: "distinct (map fst sh) \<Longrightarrow> distinct (map fst (present sh))"
  by (induction sh) (auto dest: present_keys split: option.splits)

lemma present_lookup:
  "distinct (map fst sh) \<Longrightarrow> map_of (present sh) k = (case map_of sh k of None \<Rightarrow> None | Some v \<Rightarrow> v)"
proof (induction sh)
  case (Cons kv sh)
  moreover have "map_of (present sh) (fst kv) = None"
    using Cons.prems by (simp add: map_of_eq_None_iff present_keys)
  ultimately show ?case by (cases kv) (auto split: option.splits)
qed simp

definition encodable :: "instant \<Rightarrow> bool" where
  "encodable t \<longleftrightarrow> 0 \<le> year_of t \<and> year_of t \<le> 9999"

lemma shaped_simps [simp]:
  "shaped (always k v) (k, Some v)"
  "shaped (omitempty z k v) (k, if z then None else Some v)"
  by (simp_all add: shaped_def always_def omitempty_def)

lemma shaped_time [simp]:
  "encodable t \<Longrightarrow> shaped (time_field k t) (k, Some (JStr (rfc3339_nano t)))"
  "(\<And>x. t' = Some x \<Longrightarrow> encodable x) \<Longrightarrow>
   shaped (opt_time_field k t') (k, map_option (\<lambda>x. JStr (rfc3339_nano x)) t')"
  by (auto simp: shaped_def time_field_def opt_time_field_def time_json_def encodable_def split: option.splits)

lemma JobError_json_ok:
  "encodable (je_Timestamp e) \<Longrightarrow> JobError_json e = Inr (JObj (present
     [(''type'', Some (JStr (JobErrorType_String (je_Type e)))),
      (''retryAttempt'', Some (JNum (go_int (je_RetryAttempt e)))),
      (''error'', Some (JStr (je_Error e))),
      (''timestamp'', Some (JStr (rfc3339_nano (je_Timestamp e))))]))"
  by (simp add: JobError_json_def struct_json_def always_def time_field_def time_json_def encodable_def)

lemma list_json_ok: "\<forall>v\<in>set vs. \<exists>x. v = Inr x \<Longrightarrow> list_json vs = Inr (map projr vs)"
  by (induction vs) auto

lemma shaped_errors:
  "\<forall>e\<in>set es. encodable (je_Timestamp e) \<Longrightarrow>
   shaped (errors_field es) (''errors'', if es = [] then None else Some (JArr (map (projr \<circ> JobError_json) es)))"
  by (simp add: shaped_def errors_field_def list_json_ok JobError_json_ok)

text \<open>The times of a job, all of which must be encodable.\<close>

definition job_times :: "job \<Rightarrow> instant set" where
  "job_times j = {jm_CreatedAt j} \<union> set_option (jm_StartedAt j) \<union> set_option (jm_CompletedAt j)
     \<union> set_option (jm_DispatchedAt j) \<union> je_Timestamp ` set (jm_Errors j)"

definition job_shape :: "(string \<Rightarrow> json) \<Rightarrow> job \<Rightarrow> shape" where
  "job_shape object_id j =
     [(''displayStatus'', Some (JStr (JobStatus_String (DisplayStatus j)))),
      (''id'', Some (object_id (jm_ID j))),
      (''jobId'', Some (JStr (jm_JobID j))),
      (''name'', Some (JStr (jm_Name j))),
      (''status'', if JobStatus_String (jm_Status j) = [] then None else Some (JStr (JobStatus_String (jm_Status j)))),
      (''dispatchStatus'', Some (JStr (DispatchStatus_String (jm_DispatchStatus j)))),
      (''executionStatus'', Some (JStr (ExecutionStatus_String (jm_ExecutionStatus j)))),
      (''priority'', Some (JNum (go_int (jm_Priority j)))),
      (''createdAt'', Some (JStr (rfc3339_nano (jm_CreatedAt j)))),
      (''startedAt'', map_option (\<lambda>x. JStr (rfc3339_nano x)) (jm_StartedAt j)),
      (''completedAt'', map_option (\<lambda>x. JStr (rfc3339_nano x)) (jm_CompletedAt j)),
      (''payload'', Some (gomap_json (jm_Payload j))),
      (''metadata'', Some (gomap_json (jm_Metadata j))),
      (''errors'', if jm_Errors j = [] then None else Some (JArr (map (projr \<circ> JobError_json) (jm_Errors j)))),
      (''retryCount'', Some (JNum (go_int (jm_RetryCount j)))),
      (''tags'', Some (JArr (map JStr (jm_Tags j)))),
      (''topic'', if jm_Topic j = [] then None else Some (JStr (jm_Topic j))),
      (''dispatchAttempts'', Some (JNum (go_int (jm_DispatchAttempts j)))),
      (''dispatchLastError'', if jm_DispatchLastError j = [] then None else Some (JStr (jm_DispatchLastError j))),
      (''dispatchedAt'', map_option (\<lambda>x. JStr (rfc3339_nano x)) (jm_DispatchedAt j))]"

lemma job_shape_distinct: "distinct (map fst (job_shape object_id j))"
  by (simp add: job_shape_def)

lemma MarshalJSON_ok:
  assumes "\<forall>t\<in>job_times j. encodable t"
  shows "JobMetadataModel_MarshalJSON object_id j = Inr (JObj (present (job_shape object_id j)))"
proof -
  have "list_all2 shaped
      (always ''displayStatus'' (JStr (JobStatus_String (DisplayStatus j))) # model_fields object_id j)
      (job_shape object_id j)"
    using assms unfolding model_fields_def job_shape_def list_all2_Cons list_all2_Nil job_times_def
    by (intro conjI shaped_simps shaped_time shaped_errors) auto
  then show ?thesis
    by (simp only: JobMetadataModel_MarshalJSON_def struct_json_def struct_fields_shape map_sum.simps)
qed

lemma struct_fields_error: "\<lbrakk>f \<in> set fs; isl f\<rbrakk> \<Longrightarrow> isl (struct_fields fs)"
  by (induction fs) (auto split: sum.splits)

lemma struct_json_error: "\<lbrakk>f \<in> set fs; isl f\<rbrakk> \<Longrightarrow> isl (struct_json fs)"
  unfolding struct_json_def isl_map_sum by (rule struct_fields_error)

lemma list_json_error: "\<lbrakk>v \<in> set vs; isl v\<rbrakk> \<Longrightarrow> isl (list_json vs)"
  by (induction vs) (auto split: sum.splits)

lemma time_field_error:
  "\<not> encodable t \<Longrightarrow> isl (time_field k t)"
  "\<not> encodable t \<Longrightarrow> isl (opt_time_field k (Some t))"
  by (auto simp: time_field_def opt_time_field_def time_json_def encodable_def)

lemma errors_field_error:
  assumes "e \<in> set es" "\<not> encodable (je_Timestamp e)"
  shows "isl (errors_field es)"
proof -
  have "isl (JobError_json e)"
    unfolding JobError_json_def
    by (rule struct_json_error [of "time_field ''timestamp'' (je_Timestamp e)"]) (simp_all add: time_field_error assms(2))
  then have "isl (list_json (map JobError_json es))"
    using list_json_error [of "JobError_json e" "map JobError_json es"] assms(1) by simp
  then show ?thesis using assms(1) by (auto simp: errors_field_def split: sum.splits)
qed

lemma MarshalJSON_error:
  assumes "t \<in> job_times j" "\<not> encodable t"
  shows "isl (JobMetadataModel_MarshalJSON object_id j)"
proof -
  have "\<exists>f\<in>set (model_fields object_id j). isl f"
    using assms unfolding job_times_def model_fields_def
    by (auto dest: time_field_error errors_field_error)
  then show ?thesis
    unfolding JobMetadataModel_MarshalJSON_def by (metis struct_json_error list.set_intros(2))
qed

section \<open>The schema\<close>

text \<open>A schema of the JSON, as a client in another language would check it.\<close>

definition has_text :: "(string \<times> json) list \<Rightarrow> string \<Rightarrow> (string \<Rightarrow> bool) \<Rightarrow> bool" where
  "has_text kvs k p = (case map_of kvs k of Some (JStr s) \<Rightarrow> p s | _ \<Rightarrow> False)"

definition has_number :: "(string \<times> json) list \<Rightarrow> string \<Rightarrow> (string \<Rightarrow> bool) \<Rightarrow> bool" where
  "has_number kvs k p = (case map_of kvs k of Some (JNum s) \<Rightarrow> p s | _ \<Rightarrow> False)"

definition has_map :: "(string \<times> json) list \<Rightarrow> string \<Rightarrow> bool" where
  "has_map kvs k = (case map_of kvs k of Some (JObj _) \<Rightarrow> True | Some JNull \<Rightarrow> True | _ \<Rightarrow> False)"

definition has_key :: "(string \<times> json) list \<Rightarrow> string \<Rightarrow> bool" where
  "has_key kvs k \<longleftrightarrow> k \<in> fst ` set kvs"

definition not_negative :: "string \<Rightarrow> bool" where
  "not_negative s \<longleftrightarrow> s \<noteq> [] \<and> list_all (\<lambda>c. c \<in> set ''0123456789'') s"

definition dispatch_names :: "string set" where
  "dispatch_names = {''pending_dispatch'', ''dispatched'', ''dispatch_failed''}"

definition execution_names :: "string set" where
  "execution_names = {''not_started'', ''running'', ''completed'', ''failed'', ''cancelled''}"

text \<open>The displayed status as a client computes it from the two states.\<close>

definition display_name :: "string \<Rightarrow> string \<Rightarrow> string" where
  "display_name d e = (if e = ''not_started'' then d else e)"

text \<open>Which keys each execution state brings with it.\<close>

definition timed :: "(string \<times> json) list \<Rightarrow> string \<Rightarrow> bool" where
  "timed kvs e \<longleftrightarrow>
     (if e = ''not_started'' then \<not> has_key kvs ''startedAt'' \<and> \<not> has_key kvs ''completedAt''
      else if e = ''running'' then has_key kvs ''startedAt''
      else if e = ''failed'' then has_key kvs ''completedAt'' \<and> has_key kvs ''errors''
      else has_key kvs ''startedAt'' \<and> has_key kvs ''completedAt'')"

definition job_schema :: "json \<Rightarrow> bool" where
  "job_schema v =
     (case v of
        JObj kvs \<Rightarrow>
          distinct (map fst kvs)
          \<and> has_text kvs ''jobId'' (\<lambda>s. length s = 36)
          \<and> has_text kvs ''name'' (\<lambda>s. s \<noteq> [] \<and> length s \<le> 100)
          \<and> has_text kvs ''dispatchStatus'' (\<lambda>d. d \<in> dispatch_names
              \<and> (d = ''pending_dispatch'' \<longrightarrow> has_text kvs ''topic'' (\<lambda>t. t \<noteq> []))
              \<and> has_text kvs ''executionStatus'' (\<lambda>e. e \<in> execution_names \<and> timed kvs e
                  \<and> has_text kvs ''displayStatus'' (\<lambda>s. s = display_name d e)))
          \<and> has_number kvs ''priority'' (\<lambda>s. s \<in> set (map go_int [0..10]))
          \<and> has_text kvs ''createdAt'' (\<lambda>s. s \<noteq> [])
          \<and> has_number kvs ''retryCount'' not_negative \<and> has_number kvs ''dispatchAttempts'' not_negative
          \<and> has_map kvs ''payload'' \<and> has_map kvs ''metadata''
          \<and> (case map_of kvs ''tags'' of Some (JArr vs) \<Rightarrow> \<forall>v\<in>set vs. \<exists>s. v = JStr s | _ \<Rightarrow> False)
      | _ \<Rightarrow> False)"

lemma has_key_map: "has_key kvs k \<longleftrightarrow> map_of kvs k \<noteq> None"
  by (simp add: has_key_def map_of_eq_None_iff)

lemma job_lookup:
  "map_of (present (job_shape object_id j)) k =
     (case map_of (job_shape object_id j) k of None \<Rightarrow> None | Some v \<Rightarrow> v)"
  by (rule present_lookup) (rule job_shape_distinct)

lemma nat_digits_not_negative: "not_negative (nat_digits n)"
proof -
  have "list_all (\<lambda>c. c \<in> set ''0123456789'') (nat_digits n)"
  proof (induction n rule: nat_digits.induct)
    case (1 n)
    have digit: "char_of (48 + d :: nat) \<in> set ''0123456789''" if "d < 10" for d
    proof -
      have "\<forall>d\<in>set [0 ..< 10]. (char_of (48 + d :: nat) :: char) \<in> set ''0123456789''" by code_simp
      with that show ?thesis by simp
    qed
    show ?case using 1 digit [of n] digit [of "n mod 10"] by (subst nat_digits.simps) (auto simp: list_all_iff)
  qed
  then show ?thesis by (subst nat_digits.simps) (simp add: not_negative_def nat_digits.simps [of n])
qed

lemma go_int_not_negative: "0 \<le> i \<Longrightarrow> not_negative (go_int i)"
  by (simp add: go_int_def nat_digits_not_negative)

lemma gomap_json_map: "\<exists>kvs. gomap_json m = JObj kvs \<or> gomap_json m = JNull"
  by (auto simp: gomap_json_def split: option.splits)

lemma rfc3339_nano_nonempty: "rfc3339_nano t \<noteq> []"
  by (simp add: rfc3339_nano_def)

lemma display_name_valid:
  "\<lbrakk>DispatchStatus_IsValid (jm_DispatchStatus j); ExecutionStatus_IsValid (jm_ExecutionStatus j)\<rbrakk> \<Longrightarrow>
   JobStatus_String (DisplayStatus j)
     = display_name (DispatchStatus_String (jm_DispatchStatus j)) (ExecutionStatus_String (jm_ExecutionStatus j))"
  by (cases "jm_DispatchStatus j"; cases "jm_ExecutionStatus j")
    (simp_all add: DisplayStatus_def CompositeStatus_DisplayStatus_def display_name_def)

text \<open>
  C34. Every job that \<open>Validate\<close> accepts is encoded as JSON of one type: the schema fixes which
  keys are present and what they hold, the key \<open>displayStatus\<close> is what a client would compute
  from the two states, and the times and errors are there that the execution state calls for.
  Encoding fails exactly when some time of the job has a year of other than four digits.
\<close>

theorem job_json_is_typed:
  assumes "Validate j = None"
  shows "case JobMetadataModel_MarshalJSON object_id j of
           Inl err \<Rightarrow> \<exists>t\<in>job_times j. \<not> encodable t
         | Inr v \<Rightarrow> job_schema v \<and> (\<forall>t\<in>job_times j. encodable t)"
proof (cases "\<forall>t\<in>job_times j. encodable t")
  case False
  then obtain t where "t \<in> job_times j" "\<not> encodable t" by blast
  then have "isl (JobMetadataModel_MarshalJSON object_id j)" by (rule MarshalJSON_error)
  with False show ?thesis by (auto split: sum.splits)
next
  case True
  define kvs where "kvs = present (job_shape object_id j)"
  have valid: "well_formed j" using assms by (simp add: Validate_None_iff)
  have look: "map_of kvs ''displayStatus'' = Some (JStr (JobStatus_String (DisplayStatus j)))"
    "map_of kvs ''jobId'' = Some (JStr (jm_JobID j))"
    "map_of kvs ''name'' = Some (JStr (jm_Name j))"
    "map_of kvs ''dispatchStatus'' = Some (JStr (DispatchStatus_String (jm_DispatchStatus j)))"
    "map_of kvs ''executionStatus'' = Some (JStr (ExecutionStatus_String (jm_ExecutionStatus j)))"
    "map_of kvs ''priority'' = Some (JNum (go_int (jm_Priority j)))"
    "map_of kvs ''createdAt'' = Some (JStr (rfc3339_nano (jm_CreatedAt j)))"
    "map_of kvs ''startedAt'' = map_option (\<lambda>x. JStr (rfc3339_nano x)) (jm_StartedAt j)"
    "map_of kvs ''completedAt'' = map_option (\<lambda>x. JStr (rfc3339_nano x)) (jm_CompletedAt j)"
    "map_of kvs ''payload'' = Some (gomap_json (jm_Payload j))"
    "map_of kvs ''metadata'' = Some (gomap_json (jm_Metadata j))"
    "map_of kvs ''errors'' = None \<longleftrightarrow> jm_Errors j = []"
    "map_of kvs ''retryCount'' = Some (JNum (go_int (jm_RetryCount j)))"
    "map_of kvs ''tags'' = Some (JArr (map JStr (jm_Tags j)))"
    "map_of kvs ''topic'' = (if jm_Topic j = [] then None else Some (JStr (jm_Topic j)))"
    "map_of kvs ''dispatchAttempts'' = Some (JNum (go_int (jm_DispatchAttempts j)))"
    unfolding kvs_def job_lookup by (simp_all add: job_shape_def)
  note lookup = has_text_def has_number_def has_map_def has_key_map look
  have states: "DispatchStatus_IsValid (jm_DispatchStatus j)" "ExecutionStatus_IsValid (jm_ExecutionStatus j)"
    using valid by (simp_all add: well_formed_defs)
  have "timed kvs (ExecutionStatus_String (jm_ExecutionStatus j))"
    using valid by (cases "jm_ExecutionStatus j") (auto simp: timed_def lookup well_formed_defs)
  moreover have "ExecutionStatus_String (jm_ExecutionStatus j) \<in> execution_names"
    using states by (cases "jm_ExecutionStatus j") (simp_all add: execution_names_def)
  moreover have "DispatchStatus_String (jm_DispatchStatus j) \<in> dispatch_names"
    using states by (cases "jm_DispatchStatus j") (simp_all add: dispatch_names_def)
  moreover have "DispatchStatus_String (jm_DispatchStatus j) = ''pending_dispatch'' \<Longrightarrow> jm_Topic j \<noteq> []"
    using valid states by (cases "jm_DispatchStatus j") (auto simp: well_formed_defs)
  ultimately have "has_text kvs ''dispatchStatus'' (\<lambda>d. d \<in> dispatch_names
      \<and> (d = ''pending_dispatch'' \<longrightarrow> has_text kvs ''topic'' (\<lambda>t. t \<noteq> []))
      \<and> has_text kvs ''executionStatus'' (\<lambda>e. e \<in> execution_names \<and> timed kvs e
          \<and> has_text kvs ''displayStatus'' (\<lambda>s. s = display_name d e)))"
    by (simp add: lookup display_name_valid [OF states])
  moreover have "has_number kvs ''priority'' (\<lambda>s. s \<in> set (map go_int [0..10]))"
    using valid by (simp add: lookup well_formed_defs del: upto.simps)
  moreover have "has_number kvs ''retryCount'' not_negative" "has_number kvs ''dispatchAttempts'' not_negative"
    using valid by (simp_all add: lookup well_formed_defs go_int_not_negative)
  moreover have "has_map kvs ''payload''" "has_map kvs ''metadata''"
    using gomap_json_map [of "jm_Payload j"] gomap_json_map [of "jm_Metadata j"] by (auto simp: lookup)
  moreover have "has_text kvs ''jobId'' (\<lambda>s. length s = 36)" "has_text kvs ''name'' (\<lambda>s. s \<noteq> [] \<and> length s \<le> 100)"
    "has_text kvs ''createdAt'' (\<lambda>s. s \<noteq> [])"
    using valid by (simp_all add: lookup well_formed_defs rfc3339_nano_nonempty)
  moreover have "distinct (map fst kvs)" unfolding kvs_def by (intro present_distinct job_shape_distinct)
  ultimately have "job_schema (JObj kvs)" unfolding job_schema_def by (simp add: look)
  with True show ?thesis by (simp add: MarshalJSON_ok kvs_def)
qed

theorem job_json_is_typed_witness:
  "case JobMetadataModel_MarshalJSON JStr sample_running_job of
     Inl err \<Rightarrow> False
   | Inr v \<Rightarrow> job_schema v"
proof -
  have "Validate sample_running_job = None" by code_simp
  moreover have "\<forall>t\<in>job_times sample_running_job. encodable t" by code_simp
  ultimately show ?thesis
    using job_json_is_typed [of sample_running_job JStr] by (auto split: sum.splits)
qed

end
