(* ===== verification/EndToEnd.thy ===== *)
theory EndToEnd
  imports HttpApi DispatchProperties ExecutorProperties
begin

text \<open>
  The way of one job through the whole system: the HTTP API enqueues it, the dispatcher's poll
  publishes it, an executor runs it. Each part is the model of its theory; they share nothing but
  the database and the message.
\<close>

section \<open>What each part hands on\<close>

lemma created_attempts:
  "CreateJob (mongo_service B) name payload opts s = (Inr j, s') \<Longrightarrow> jm_DispatchAttempts j = 0"
  by (auto simp: CreateJob_def Let_def with_options_def NewJobMetadata_def
      split: prod.splits sum.splits option.splits if_splits)

lemma api_created:
  assumes "mongo_backend B jobs logs" "NewFileTopicResolver read_file parse_yaml path = Inr reg"
    and "api_EnqueueJob (mongo_handler B reg) (Inr req) s = (Responds 201 (BodyJob j), s')"
  shows "Validate j = None \<and> DisplayStatus j = JobStatusPendingDispatch \<and> jm_Name j = eq_Name req
    \<and> trim_space (eq_Name req) \<noteq> [] \<and> jm_Topic j \<noteq> [] \<and> jm_DispatchAttempts j = 0 \<and> one_inserted jobs j s s'"
proof -
  let ?o = "\<lparr>co_Priority = eq_Priority req, co_Tags = eq_Tags req, co_Metadata = eq_Metadata req, co_Topic = []\<rparr>"
  have e: "Enqueue (mongo_enqueue B reg) (eq_Name req) (eq_Payload req) ?o s = (Inr j, s')"
    using assms(3) by (auto simp: api_EnqueueJob_def Let_def split: prod.splits sum.splits if_splits option.splits)
  obtain topic where t: "Resolve reg (eq_Name req) = Inr topic"
    using e mongo_backend.mongo_enqueue_unknown [OF assms(1), of reg "eq_Name req"]
    by (cases "Resolve reg (eq_Name req)") fastforce+
  from loaded_topic [OF assms(2) t] have "topic \<noteq> []" by simp
  note known = mongo_backend.mongo_enqueue_known [OF assms(1) t this e]
  have "CreateJob (mongo_service B) (eq_Name req) (eq_Payload req) (?o\<lparr>co_Topic := topic\<rparr>) s = (Inr j, s')"
    using e t by (simp add: Enqueue_def mongo_enqueue_def NewEnqueueService_def)
  from created_attempts [OF this] known \<open>topic \<noteq> []\<close> file_topics.resolved_not_blank [OF t]
  show ?thesis by simp
qed

text \<open>An acknowledged message of a job that waits to be started, whose handler returns nil.\<close>

lemma executed_completed:
  assumes B: "mongo_backend B jobs logs" and ex: "executable r jobID name m" and lj: "leaves_jobs jobs r"
    and ok: "\<And>x. fst (Run r name jobID m x) = None"
    and j: "jobs s jobID = Some j" "not_started j"
    and run: "ExecuteJob (mongo_executor B r) jobID name m s = (None, s')"
  shows "\<exists>t t'. jobs s' jobID = Some (complete_effect t' None (mark_running_effect t j))"
proof -
  obtain b s1 where st: "lc_StartJob (service_lifecycle (mongo_service B)) jobID s = (b, s1)" by fastforce
  then have start: "StartJob (mongo_service B) jobID s = (b, s1)" by (simp add: mongo_executor_fields)
  obtain t0 where "guarded jobs jobID not_started (mark_running_effect t0) b s s1"
    using mongo_backend.service_start [OF B start] by blast
  then have "b \<noteq> Inr False" using j by (auto simp: guarded_def)
  moreover have "\<not> isl b"
    using run by (cases b) (auto simp: mongo_executor_run [OF ex] start)
  ultimately have b: "b = Inr True" by (cases b) auto
  from mongo_backend.executor_claimed [OF B ex lj j run [unfolded mongo_executor_def] st [unfolded b]] ok
  show ?thesis by (auto simp: claimed_outcome_def) blast
qed

context mongo_backend
begin

lemmas executor_fails = service.lifecycle.execution.fail_and_ack_outcome [folded mongo_service_def]

end

text \<open>
  A job whose name the executor has no handler for is failed, if it can be, and its message is
  acknowledged, so that no other executor sees it. \<open>cmd/jobs-executor\<close> subscribes to every topic of
  the manifest and registers one handler, \<open>echo\<close>.
\<close>

theorem job_without_handler_fails:
  assumes "mongo_backend B jobs logs" and "name \<noteq> ''echo''"
    and "trim_space jobID \<noteq> []" "trim_space name \<noteq> []" "m \<noteq> RawEmpty"
    and "ExecuteJob (mongo_executor B echo_registry) jobID name m s = (res, s')"
  shows "res = None \<and> (jobs s' = jobs s \<or>
    (\<exists>t entry. je_Error entry = ''unknown job handler: '' @ name
       \<and> applied jobs jobID failable (fail_effect entry t) s s'))"
proof -
  have "\<not> HasHandler (ex_registry (mongo_executor B echo_registry)) name"
    using assms(2) by (simp add: mongo_executor_def echo_registry_def)
  then have "fail_and_ack (mongo_executor B echo_registry) jobID
      (ErrorString (''unknown job handler: '' @ name)) s = (res, s')"
    using assms(3-6) by (simp add: ExecuteJob_def validateArgs_def mongo_executor_def)
  moreover have "recordable (ErrorString (''unknown job handler: '' @ name))"
    by (simp add: recordable_def is_field_path_def)
  ultimately show ?thesis
    using mongo_backend.executor_fails [OF assms(1)]
    by (fastforce simp: mongo_executor_def)
qed

section \<open>The whole way\<close>

text \<open>The message the dispatcher publishes for a job carries this payload.\<close>

definition published_payload :: "job \<Rightarrow> raw_message" where
  "published_payload j = RawValue (gomap_json (dp_Payload (JobDispatchFromMetadata j)))"

lemma published_payload_decodes: "testDecode (published_payload j) = None"
  by (auto simp: published_payload_def testDecode_def gomap_json_def JobDispatchFromMetadata_def split: option.splits)

text \<open>
  C1. A job that the API accepted is run. With the database and the broker up, the next poll
  publishes it and marks it dispatched; when an executor then acknowledges the message of that
  job, and a handler is registered for its name that returns without error, the job is stored as
  completed, valid, with its payload and with all the times of its way. Other jobs may be served
  in between; nobody else writes this one.
\<close>

theorem enqueued_job_is_completed:
  assumes "mongo_backend B jobs logs"
    and "NewFileTopicResolver read_file parse_yaml path = Inr reg"
    and "api_EnqueueJob (mongo_handler B reg) (Inr req) s = (Responds 201 (BodyJob j), s1)"
    and "healthy_worker (service_updater (mongo_service B)) P (FetchPending B) jobs cfg up"
    and "\<And>p x. up x \<Longrightarrow> fst (P p x) = None" and "up s1" and "0 < wc_MaxAttempts cfg"
    and "jobs s2 (jm_JobID j) = jobs (pollOnce cfg (HandleDispatch (wc_MaxAttempts cfg) P
           (service_updater (mongo_service B))) (FetchPending B) s1) (jm_JobID j)"
    and "trim_space (jm_JobID j) \<noteq> []" and "HasHandler r (jm_Name j)" and "leaves_jobs jobs r"
    and "\<And>x. fst (Run r (jm_Name j) (jm_JobID j) (published_payload j) x) = None"
    and "ExecuteJob (mongo_executor B r) (jm_JobID j) (jm_Name j) (published_payload j) s2 = (None, s3)"
  shows "\<exists>j3. jobs s3 (jm_JobID j) = Some j3 \<and> DisplayStatus j3 = JobStatusCompleted \<and> Validate j3 = None
    \<and> jm_Name j3 = eq_Name req \<and> jm_Payload j3 = jm_Payload j
    \<and> jm_DispatchedAt j3 \<noteq> None \<and> jm_StartedAt j3 \<noteq> None \<and> jm_CompletedAt j3 \<noteq> None"
proof -
  note created = api_created [OF assms(1-3)]
  then obtain oid where stored: "jobs s1 (jm_JobID j) = Some (j\<lparr>jm_ID := oid\<rparr>)"
    by (auto simp: one_inserted_def)
  have valid: "well_formed j" using created by (simp add: Validate_None_iff)
  have pending: "jm_DispatchStatus j = DispatchStatusPending" "jm_ExecutionStatus j = ExecutionStatusNotStarted"
    using created valid by (auto simp: DisplayStatus_def CompositeStatus_DisplayStatus_def well_formed_defs
        split: ExecutionStatus.splits DispatchStatus.splits)
  have "awaits_dispatch (wc_MaxAttempts cfg) (j\<lparr>jm_ID := oid\<rparr>)"
    using created assms(7) pending by (simp add: awaits_dispatch_def)
  with healthy_worker.delivers_once [OF assms(4,5,6) stored] assms(8)
  obtain t where s2: "jobs s2 (jm_JobID j) = Some (mark_dispatched_effect t (j\<lparr>jm_ID := oid\<rparr>))" by auto
  have "executable r (jm_JobID j) (jm_Name j) (published_payload j)"
    using created assms(9,10) published_payload_decodes [of j]
    by (simp add: executable_def validateArgs_def published_payload_def)
  from executed_completed [OF assms(1) this assms(11,12) s2 _ assms(13)] pending
  obtain t1 t2 where s3: "jobs s3 (jm_JobID j) =
      Some (complete_effect t2 None (mark_running_effect t1 (mark_dispatched_effect t (j\<lparr>jm_ID := oid\<rparr>))))"
    by (auto simp: mark_dispatched_effect_def)
  show ?thesis
    unfolding s3 using valid created pending
    by (simp add: effect_defs DisplayStatus_simps Validate_None_iff well_formed_defs)
qed

section \<open>The way in memory\<close>

definition hi_request :: EnqueueJobRequest where
  "hi_request = \<lparr>eq_Name = ''echo'', eq_Payload = Some [(''message'', GStr ''hi'')], eq_Priority = None,
     eq_Tags = [], eq_Metadata = None\<rparr>"

definition hi_created :: "HttpApi.outcome \<times> mem" where
  "hi_created = api_EnqueueJob sample_handler (Inr hi_request) mem_empty"

definition hi_job :: job where
  "hi_job = (case fst hi_created of Responds code (BodyJob j) \<Rightarrow> j | _ \<Rightarrow> sample_job)"

definition hi_polled :: mem where
  "hi_polled = pollOnce default_worker (HandleDispatch (wc_MaxAttempts default_worker) (\<lambda>p s. (None, s))
     (service_updater (mongo_service mem_backend))) (FetchPending mem_backend) (snd hi_created)"

lemmas hi_run = hi_job_def hi_created_def api_EnqueueJob_def hi_request_def Enqueue_def mongo_enqueue_def
  NewEnqueueService_def sample_registry_resolves Let_def CreateJob_def mem_run Validate_def with_options_def
  gomap_len_def NewJobMetadata_def no_options_def DisplayStatus_simps status_defs

lemma hi_accepted: "fst hi_created = Responds 201 (BodyJob hi_job)"
  by (simp add: hi_run)

lemma char_a: "char_of (97 :: nat) = CHR ''a''"
  by code_simp

lemma hi_created_state: "mem_jobs (snd hi_created) = [hi_job]" "mem_script (snd hi_created) = []"
    "jm_JobID hi_job = sample_id" "jm_Name hi_job = ''echo''" "jm_Payload hi_job = Some [(''message'', GStr ''hi'')]"
  by (simp_all add: hi_run char_a)

abbreviation quiet_publisher :: "mem JobDispatchPublisher" where
  "quiet_publisher \<equiv> \<lambda>p s. (None, s)"

lemma hi_up: "mem_up 50 (snd hi_created)"
proof -
  have "pending_keys mem_coll (snd hi_created) \<subseteq> {sample_id}"
    by (auto simp: pending_keys_def mem_coll_def keyed_def hi_created_state split: if_splits)
  then have "card (pending_keys mem_coll (snd hi_created)) \<le> card {sample_id}"
    by (rule card_mono [rotated]) simp
  then show ?thesis by (simp add: mem_up_def hi_created_state)
qed

lemma hi_polled_script: "mem_script hi_polled = []"
proof -
  let ?h = "HandleDispatch 5 quiet_publisher (service_updater (mongo_service mem_backend))"
  note H = mem_healthy [of "\<lambda>p. None"]
  have "mem_up 50 (handle_all ?h ps s)" if "mem_up 50 s" for ps s
    using that healthy_worker.handler_up [OF H] by (induction ps arbitrary: s) simp_all
  moreover have "\<exists>ps s'. FetchPending mem_backend 5 50 (snd hi_created) = (Inr ps, s') \<and> mem_up 50 s'"
  proof -
    obtain rf s' where f: "FetchPending mem_backend 5 50 (snd hi_created) = (rf, s')" by fastforce
    from healthy_worker.up_fetch [OF H hi_up f] f show ?thesis by auto
  qed
  ultimately show ?thesis by (auto simp: hi_polled_def pollOnce_def mem_up_def)
qed

lemma mem_starts:
  "\<lbrakk>mem_script s = []; StartJob (mongo_service mem_backend) k s = (b, s')\<rbrakk> \<Longrightarrow> \<not> isl b \<and> mem_script s' = []"
  by (auto simp: StartJob_def mem_run mem_operations scripted_def Let_def split: list.splits option.splits)

lemma mem_completes:
  assumes "mem_script s = []" "mem_coll s k = Some j" "is_running j"
    and "CompleteJob (mongo_service mem_backend) k None s = (c, s')"
  shows "c = None"
proof -
  have "filter (\<lambda>j. jm_JobID j = k \<and> is_running j) (unique_jobs (mem_jobs s)) \<noteq> []"
    using assms(2,3) by (auto simp: mem_coll_iff filter_empty_conv)
  then show ?thesis
    using assms(1,4)
    by (auto simp: CompleteJob_def complete_metadata_def mem_run mem_operations scripted_def Let_def
        split: list.splits option.splits)
qed

theorem enqueued_job_is_completed_witness:
  "\<exists>j3. mem_coll (snd (ExecuteJob (mongo_executor mem_backend echo_registry) sample_id ''echo''
       (published_payload hi_job) hi_polled)) sample_id = Some j3 \<and> DisplayStatus j3 = JobStatusCompleted"
proof -
  let ?m = "published_payload hi_job"
  let ?run = "ExecuteJob (mongo_executor mem_backend echo_registry) sample_id ''echo'' ?m hi_polled"
  note H = mem_healthy [of "\<lambda>p. None"]
  have created: "api_EnqueueJob sample_handler (Inr hi_request) mem_empty = (Responds 201 (BodyJob hi_job), snd hi_created)"
    using hi_accepted by (metis hi_created_def prod.collapse)
  have id: "trim_space (jm_JobID hi_job) \<noteq> []"
    unfolding trim_space_empty_iff by (simp add: hi_created_state is_space_def)
  have m: "?m = echo_payload"
    by (simp add: published_payload_def JobDispatchFromMetadata_def hi_created_state gomap_json_def echo_payload_def)
  have run: "fst (Run echo_registry (jm_Name hi_job) (jm_JobID hi_job) ?m x) = None" for x :: mem
    by (simp add: m hi_created_state echo_run)
  have "mem_coll (snd hi_created) sample_id = Some hi_job"
    by (simp add: mem_coll_def keyed_def hi_created_state)
  moreover have awaits: "awaits_dispatch 5 hi_job" by (simp add: hi_run awaits_dispatch_def)
  ultimately obtain t where j: "mem_coll hi_polled sample_id = Some (mark_dispatched_effect t hi_job)"
    using healthy_worker.delivers_once [OF H _ hi_up, of sample_id hi_job] hi_created_state(3)
    by (auto simp: hi_polled_def)
  let ?j = "mark_dispatched_effect t hi_job"
  have wait: "not_started ?j" using awaits by (simp add: hi_run mark_dispatched_effect_def)
  obtain b s1 where st: "StartJob (mongo_service mem_backend) sample_id hi_polled = (b, s1)" by fastforce
  from mem.service_start [OF st] obtain t1 where
    g: "guarded mem_coll sample_id not_started (mark_running_effect t1) b hi_polled s1" by blast
  with j wait mem_starts [OF hi_polled_script st] have b: "b = Inr True" "mem_script s1 = []"
    by (auto simp: guarded_def split: sum.splits bool.splits)
  with g j have "mem_coll s1 sample_id = Some (mark_running_effect t1 ?j)"
    by (auto simp: guarded_def applied_def)
  moreover have "is_running (mark_running_effect t1 ?j)" by (simp add: mark_running_effect_def)
  moreover obtain r s3 where r: "CompleteJob (mongo_service mem_backend) sample_id None s1 = (r, s3)" by fastforce
  ultimately have c: "CompleteJob (mongo_service mem_backend) sample_id None s1 = (None, s3)"
    using mem_completes [OF b(2)] by simp
  have ack: "fst ?run = None"
    unfolding m mongo_executor_run [OF echo_executable] st b(1) by (simp add: echo_run c)
  then have "ExecuteJob (mongo_executor mem_backend echo_registry) (jm_JobID hi_job) (jm_Name hi_job) ?m hi_polled
      = (None, snd ?run)" by (simp add: hi_created_state prod_eq_iff)
  from enqueued_job_is_completed [OF mem.mongo_backend_axioms sample_registry_loads created H _ hi_up _ _ id _
      echo_leaves_jobs run this] show ?thesis
    by (auto simp: hi_created_state hi_polled_def echo_registry_def)
qed

end
