(* ===== verification/SeedSource.thy ===== *)
theory SeedSource
  imports Seed "HOL-Library.Word"
begin

text \<open>
  Where the generator of development data gets its randomness (\<open>newFaker\<close> and \<open>randomSeed\<close> of
  \<open>metadata/seed/generator.go\<close>). The generator made from a seed is third-party code, the random
  bytes and the clock are the system's; the conversions to 64 bits are written out.
\<close>

section \<open>64-bit seeds\<close>

text \<open>\<open>binary.LittleEndian.Uint64\<close> of eight bytes: the first is the least significant.\<close>

fun uint64_le :: "8 word list \<Rightarrow> 64 word" where
  "uint64_le [] = 0"
| "uint64_le (b # bs) = ucast b + 256 * uint64_le bs"

record ('s, 'f) random_source =
  rs_Read :: "('s, goerror + 8 word list) op"
  rs_UnixNano :: "('s, int) op"
  rs_New :: "64 word \<Rightarrow> 'f"

definition randomSeed :: "('s, 'f) random_source \<Rightarrow> ('s, 64 word) op" where
  "randomSeed R s =
     (case rs_Read R s of
        (Inl err, s1) \<Rightarrow> (case rs_UnixNano R s1 of (t, s2) \<Rightarrow> (word_of_int t, s2))
      | (Inr b, s1) \<Rightarrow> (uint64_le b, s1))"

definition newFaker :: "('s, 'f) random_source \<Rightarrow> int \<Rightarrow> ('s, 'f) op" where
  "newFaker R seed s =
     (if seed \<noteq> 0 then (rs_New R (word_of_int seed), s)
      else (case randomSeed R s of (w, s1) \<Rightarrow> (rs_New R w, s1)))"

section \<open>No seed is lost\<close>

text \<open>Two different seeds of 64 bits, signed, are two different generators' seeds, and none but
  the seed 0 reads the random source.\<close>

lemma seed_conversion_inj:
  assumes "- (2 ^ 63) \<le> a" "a < 2 ^ 63" "- (2 ^ 63) \<le> b" "b < 2 ^ 63"
    and "(word_of_int a :: 64 word) = word_of_int b"
  shows "a = b"
proof -
  have "sint (word_of_int x :: 64 word) = x" if "- (2 ^ 63) \<le> x" "x < 2 ^ 63" for x
  proof -
    have "sint (word_of_int x :: 64 word) = signed_take_bit (LENGTH(64) - 1) x" by (rule sint_sbintrunc')
    also have "LENGTH(64) - 1 = (63 :: nat)" by simp
    also have "signed_take_bit 63 x = x" using that by (rule signed_take_bit_int_eq_self)
    finally show ?thesis .
  qed
  from this [of a] this [of b] assms show ?thesis by metis
qed

lemma newFaker_seeded: "seed \<noteq> 0 \<Longrightarrow> newFaker R seed s = (rs_New R (word_of_int seed), s)"
  by (simp add: newFaker_def)

text \<open>Nor is any of the eight random bytes lost.\<close>

fun le_value :: "8 word list \<Rightarrow> nat" where
  "le_value [] = 0"
| "le_value (b # bs) = unat b + 256 * le_value bs"

lemma octet_bound: "unat (b :: 8 word) < 256"
proof -
  have "unat b < 2 ^ LENGTH(8)" by (rule unsigned_less)
  then show ?thesis by simp
qed

lemma digit_inj:
  assumes "(x :: nat) < 256" "y < 256" and eq: "x + 256 * a = y + 256 * b"
  shows "x = y \<and> a = b"
proof -
  have "(x + 256 * a) mod 256 = (y + 256 * b) mod 256" using eq by (rule arg_cong)
  then have "x = y" using assms(1,2) by simp
  then show ?thesis using eq by simp
qed

lemma le_value_bound: "le_value bs < 256 ^ length bs"
proof (induction bs)
  case (Cons b bs)
  have "unat b < 256" by (rule octet_bound)
  then have "unat b + 256 * le_value bs < 256 * Suc (le_value bs)" by simp
  also have "\<dots> \<le> 256 * 256 ^ length bs" using Cons.IH by (intro mult_le_mono2) simp
  finally show ?case by simp
qed simp

lemma uint64_le_value: "length bs \<le> 8 \<Longrightarrow> unat (uint64_le bs) = le_value bs"
proof (induction bs)
  case (Cons b bs)
  have b: "unat b < 256" by (rule octet_bound)
  have "le_value bs < 256 ^ length bs" by (rule le_value_bound)
  also have "\<dots> \<le> (256 :: nat) ^ 7" using Cons.prems by (intro power_increasing) simp_all
  finally have small: "le_value bs < 2 ^ 56" by simp
  have "unat (256 * uint64_le bs) = 256 * le_value bs"
    using Cons small by (simp add: unat_word_ariths)
  moreover have "unat (ucast b :: 64 word) = unat b"
    using b by (simp add: unsigned_ucast_eq take_bit_nat_eq_self_iff)
  ultimately show ?case
    using b small by (simp add: unat_word_ariths)
qed simp

lemma le_value_inj: "\<lbrakk>length a = length b; le_value a = le_value b\<rbrakk> \<Longrightarrow> a = b"
proof (induction a b rule: list_induct2)
  case (Cons x xs y ys)
  have "unat x + 256 * le_value xs = unat y + 256 * le_value ys" using Cons.prems by simp
  then have "unat x = unat y \<and> le_value xs = le_value ys" by (intro digit_inj octet_bound)
  with Cons.IH show ?case by (simp add: word_unat_eq_iff)
qed simp

lemma random_bytes_kept:
  "\<lbrakk>length a = 8; length b = 8; uint64_le a = uint64_le b\<rbrakk> \<Longrightarrow> a = b"
  using uint64_le_value [of a] uint64_le_value [of b] by (intro le_value_inj) simp_all

end
