(* ===== verification/Shared.thy ===== *)
theory Shared
  imports Lifecycle ExecutorProperties DispatchProperties
begin

text \<open>
  One process among others. The services, the executors and the dispatchers are separate
  processes over one database: between two calls of a handler the others may change anything.
  A handler is run here as it is, over operations each of which first finds the world as the
  others have left it. What a process sees and does is recorded; \<open>Interleaving\<close> puts the
  records of several processes together.
\<close>

section \<open>Calls in turns\<close>

text \<open>
  A call of the database, the clock or the broker, or a run of the business handler of a job, with
  whether it returned without error. Handlers leave the jobs alone, so that what others do while
  one runs may as well come after it.
\<close>

datatype event = Called | HandlerRan string bool

text \<open>
  \<open>sh_views\<close> are the states in which the process will find the world at its next calls; when
  they are used up, nobody interferes any more. \<open>sh_calls\<close> are its calls so far, each with the
  state it found and the state it left.
\<close>

record 's shared =
  sh_world :: 's
  sh_views :: "'s list"
  sh_calls :: "(event \<times> 's \<times> 's) list"

definition in_turn_as :: "('a \<Rightarrow> event) \<Rightarrow> ('s, 'a) op \<Rightarrow> ('s shared, 'a) op" where
  "in_turn_as l f x =
     (let s = (case sh_views x of [] \<Rightarrow> sh_world x | v # vs \<Rightarrow> v) in
      case f s of
        (r, s') \<Rightarrow> (r, \<lparr>sh_world = s', sh_views = tl (sh_views x), sh_calls = sh_calls x @ [(l r, s, s')]\<rparr>))"

abbreviation in_turn :: "('s, 'a) op \<Rightarrow> ('s shared, 'a) op" where
  "in_turn \<equiv> in_turn_as (\<lambda>r. Called)"

lemma in_turn_result:
  obtains s where "in_turn_as l f x = (fst (f s), \<lparr>sh_world = snd (f s), sh_views = tl (sh_views x),
     sh_calls = sh_calls x @ [(l (fst (f s)), s, snd (f s))]\<rparr>)"
  by (simp add: in_turn_as_def Let_def split_beta)

section \<open>The operations of a process in turns\<close>

text \<open>
  Every operation of the reader and of the writer makes at most one call of the database; two
  writes read the clock before it.
\<close>

definition shared_reader :: "'s JobsReader \<Rightarrow> 's shared JobsReader" where
  "shared_reader R =
     \<lparr>rd_Get = \<lambda>k. in_turn (rd_Get R k), rd_List = \<lambda>f. in_turn (rd_List R f),
      rd_GetLogs = \<lambda>k f. in_turn (rd_GetLogs R k f),
      rd_CountJobs = \<lambda>f. in_turn (rd_CountJobs R f),
      rd_GetJobsByStatus = \<lambda>st n. in_turn (rd_GetJobsByStatus R st n),
      rd_GetPendingJobs = \<lambda>n. in_turn (rd_GetPendingJobs R n),
      rd_GetDispatchedJobs = \<lambda>n. in_turn (rd_GetDispatchedJobs R n),
      rd_GetRecentLogs = \<lambda>k n. in_turn (rd_GetRecentLogs R k n),
      rd_GetErrorLogs = \<lambda>k. in_turn (rd_GetErrorLogs R k)\<rparr>"

definition shared_writer :: "'s JobsWriter \<Rightarrow> 's shared JobsWriter" where
  "shared_writer W =
     \<lparr>wr_Create = \<lambda>j. in_turn (wr_Create W j), wr_Update = \<lambda>k p. in_turn (wr_Update W k p),
      wr_Delete = \<lambda>k. in_turn (wr_Delete W k),
      wr_IncrementRetryCount = \<lambda>k. in_turn (wr_IncrementRetryCount W k),
      wr_ClearJobExecutionTimestamps = \<lambda>k. in_turn (wr_ClearJobExecutionTimestamps W k),
      wr_MarkDispatchedIfPending = \<lambda>k t. in_turn (wr_MarkDispatchedIfPending W k t),
      wr_RecordDispatchAttemptIfPending = \<lambda>k n msg. in_turn (wr_RecordDispatchAttemptIfPending W k n msg),
      wr_MarkDispatchFailedIfPending = \<lambda>k msg. in_turn (wr_MarkDispatchFailedIfPending W k msg),
      wr_MarkRunningIfDispatched = \<lambda>k t. in_turn (wr_MarkRunningIfDispatched W k t),
      wr_CompleteIfRunning = \<lambda>k t m. in_turn (wr_CompleteIfRunning W k t m),
      wr_FailIfNotTerminal = \<lambda>k e t. in_turn (wr_FailIfNotTerminal W k e t),
      wr_AddLog = \<lambda>l. in_turn (wr_AddLog W l),
      wr_DeleteOldLogs = \<lambda>d. in_turn (wr_DeleteOldLogs W d)\<rparr>"

definition shared_service :: "'s MetadataService \<Rightarrow> 's shared MetadataService" where
  "shared_service S =
     \<lparr>ms_reader = shared_reader (ms_reader S), ms_writer = shared_writer (ms_writer S),
      ms_now = in_turn (ms_now S), ms_uuid = in_turn (ms_uuid S)\<rparr>"

definition shared_registry :: "'s Registry \<Rightarrow> 's shared Registry" where
  "shared_registry r =
     \<lparr>rg_handlers = map (\<lambda>(name, h). (name, \<lambda>jobID payload.
          in_turn_as (\<lambda>res. HandlerRan jobID (res = Returned None)) (h jobID payload))) (rg_handlers r)\<rparr>"

section \<open>What a process can be asked to do\<close>

text \<open>
  A system: the service over the database, the handlers of the executors, the broker and the
  poll of the dispatchers.
\<close>

record 's system =
  sy_service :: "'s MetadataService"
  sy_registry :: "'s Registry"
  sy_publish :: "'s JobDispatchPublisher"
  sy_pending :: "'s PendingJobFetcher"
  sy_worker :: WorkerConfig

text \<open>
  A message for an executor, an event of the change stream or a poll of a dispatcher, and the
  requests of the API and of the command line.
\<close>

datatype task =
    Message string string raw_message
  | Inserted JobDispatchProjection
  | Poll
  | Create string gomap CreateJobOptions
  | Fail string "goerror option"
  | Cancel string string
  | Retry string
  | Show string
  | List ListFilter

definition shared_handler :: "'s system \<Rightarrow> JobDispatchProjection \<Rightarrow> ('s shared, goerror option) op" where
  "shared_handler Y =
     HandleDispatch (wc_MaxAttempts (sy_worker Y)) (\<lambda>p. in_turn (sy_publish Y p))
       (service_updater (shared_service (sy_service Y)))"

fun perform :: "'s system \<Rightarrow> task \<Rightarrow> 's shared \<Rightarrow> 's shared" where
  "perform Y (Message jobID name payload) x =
     snd (ExecuteJob \<lparr>ex_lifecycle = service_lifecycle (shared_service (sy_service Y)),
                      ex_registry = shared_registry (sy_registry Y)\<rparr> jobID name payload x)"
| "perform Y (Inserted p) x = snd (shared_handler Y p x)"
| "perform Y Poll x =
     pollOnce (sy_worker Y) (shared_handler Y) (\<lambda>n limit. in_turn (sy_pending Y n limit)) x"
| "perform Y (Create name payload opts) x = snd (CreateJob (shared_service (sy_service Y)) name payload opts x)"
| "perform Y (Fail jobID err) x = snd (FailJob (shared_service (sy_service Y)) jobID err x)"
| "perform Y (Cancel jobID reason) x = snd (CancelJob (shared_service (sy_service Y)) jobID reason x)"
| "perform Y (Retry jobID) x = snd (RetryJob (shared_service (sy_service Y)) jobID x)"
| "perform Y (Show jobID) x = snd (GetJob (shared_service (sy_service Y)) jobID x)"
| "perform Y (List filt) x = snd (ListJobs (shared_service (sy_service Y)) filt x)"

definition process_of :: "'s system \<Rightarrow> task list \<Rightarrow> 's shared \<Rightarrow> 's shared" where
  "process_of Y ts x = fold (perform Y) ts x"

lemma shared_fields [simp]:
  "ms_now (shared_service S) = in_turn (ms_now S)"
  "ms_uuid (shared_service S) = in_turn (ms_uuid S)"
  "rd_Get (ms_reader (shared_service S)) k = in_turn (rd_Get (ms_reader S) k)"
  "rd_List (ms_reader (shared_service S)) f = in_turn (rd_List (ms_reader S) f)"
  "wr_Create (ms_writer (shared_service S)) j = in_turn (wr_Create (ms_writer S) j)"
  "wr_Update (ms_writer (shared_service S)) k p = in_turn (wr_Update (ms_writer S) k p)"
  "wr_IncrementRetryCount (ms_writer (shared_service S)) k = in_turn (wr_IncrementRetryCount (ms_writer S) k)"
  "wr_ClearJobExecutionTimestamps (ms_writer (shared_service S)) k =
     in_turn (wr_ClearJobExecutionTimestamps (ms_writer S) k)"
  "wr_MarkDispatchedIfPending (ms_writer (shared_service S)) k t =
     in_turn (wr_MarkDispatchedIfPending (ms_writer S) k t)"
  "wr_RecordDispatchAttemptIfPending (ms_writer (shared_service S)) k n msg =
     in_turn (wr_RecordDispatchAttemptIfPending (ms_writer S) k n msg)"
  "wr_MarkDispatchFailedIfPending (ms_writer (shared_service S)) k msg =
     in_turn (wr_MarkDispatchFailedIfPending (ms_writer S) k msg)"
  "wr_MarkRunningIfDispatched (ms_writer (shared_service S)) k t =
     in_turn (wr_MarkRunningIfDispatched (ms_writer S) k t)"
  "wr_CompleteIfRunning (ms_writer (shared_service S)) k t m =
     in_turn (wr_CompleteIfRunning (ms_writer S) k t m)"
  "wr_FailIfNotTerminal (ms_writer (shared_service S)) k e t =
     in_turn (wr_FailIfNotTerminal (ms_writer S) k e t)"
  "wr_AddLog (ms_writer (shared_service S)) l = in_turn (wr_AddLog (ms_writer S) l)"
  by (simp_all add: shared_service_def shared_reader_def shared_writer_def)

lemma HasHandler_shared [simp]: "HasHandler (shared_registry r) name = HasHandler r name"
  by (simp add: HasHandler_def shared_registry_def map_of_map)

text \<open>A panic is an error.\<close>

lemma Run_shared:
  "HasHandler r name \<Longrightarrow>
   Run (shared_registry r) name jobID payload = in_turn_as (\<lambda>res. HandlerRan jobID (res = None)) (Run r name jobID payload)"
  by (auto simp: HasHandler_def Run_def shared_registry_def map_of_map in_turn_as_def Let_def fun_eq_iff
      split: prod.splits outcome.splits)

section \<open>Alone, a process behaves as before\<close>

text \<open>
  With no views left, an operation in turns has the result and the effect of the operation
  itself: the sequential model is the case without interference.
\<close>

definition as_alone :: "('s shared, 'a) op \<Rightarrow> ('s, 'a) op \<Rightarrow> 's shared \<Rightarrow> bool" where
  "as_alone f g x \<longleftrightarrow> fst (f x) = fst (g (sh_world x)) \<and> sh_world (snd (f x)) = snd (g (sh_world x))
     \<and> sh_views (snd (f x)) = []"

lemma in_turn_alone [simp]:
  assumes "sh_views x = []"
  shows "fst (in_turn_as l f x) = fst (f (sh_world x))" "sh_world (snd (in_turn_as l f x)) = snd (f (sh_world x))"
    "sh_views (snd (in_turn_as l f x)) = []"
  using assms by (simp_all add: in_turn_as_def Let_def split: prod.split)

lemma log_alone [simp]:
  assumes "sh_views x = []"
  shows "sh_world (log_best_effort (shared_service S) entry x) = log_best_effort S entry (sh_world x)"
    "sh_views (log_best_effort (shared_service S) entry x) = []"
  using assms by (simp_all add: log_best_effort_def split_beta)

lemma updater_alone:
  assumes "sh_views x = []"
  shows "as_alone (MarkJobDispatched (shared_service S) k) (MarkJobDispatched S k) x"
    "as_alone (RecordDispatchAttempt (shared_service S) k n msg) (RecordDispatchAttempt S k n msg) x"
    "as_alone (MarkJobDispatchFailed (shared_service S) k err) (MarkJobDispatchFailed S k err) x"
  using assms
  by (simp_all add: as_alone_def MarkJobDispatched_def RecordDispatchAttempt_def MarkJobDispatchFailed_def
      split_beta split: sum.split)

lemma start_alone:
  "sh_views x = [] \<Longrightarrow> as_alone (StartJob (shared_service S) k) (StartJob S k) x"
  by (simp add: as_alone_def StartJob_def split_beta split: sum.split)

lemma metadata_alone:
  assumes "sh_views x = []"
  shows "fst (complete_metadata (shared_service S) k res x) = fst (complete_metadata S k res (sh_world x))"
    "sh_world (snd (complete_metadata (shared_service S) k res x)) = snd (complete_metadata S k res (sh_world x))"
    "sh_views (snd (complete_metadata (shared_service S) k res x)) = []"
  using assms by (simp_all add: complete_metadata_def split_beta split: sum.split option.split)

lemma complete_alone:
  "sh_views x = [] \<Longrightarrow> as_alone (CompleteJob (shared_service S) k res) (CompleteJob S k res) x"
  by (simp add: as_alone_def CompleteJob_def metadata_alone Let_def if_distrib [of fst] if_distrib [of snd]
      if_distrib [of sh_world] if_distrib [of sh_views] split_beta split: sum.split)

lemma fail_alone:
  "sh_views x = [] \<Longrightarrow> as_alone (FailJob (shared_service S) k err) (FailJob S k err) x"
  by (simp add: as_alone_def FailJob_def Let_def split_beta split: sum.split)

lemmas lifecycle_alone = start_alone complete_alone fail_alone

lemma requests_alone:
  assumes "sh_views x = []"
  shows "as_alone (CreateJob (shared_service S) name payload opts) (CreateJob S name payload opts) x"
    "as_alone (CancelJob (shared_service S) k reason) (CancelJob S k reason) x"
    "as_alone (RetryJob (shared_service S) k) (RetryJob S k) x"
  using assms
  by (simp_all add: as_alone_def CreateJob_def CancelJob_def RetryJob_def Let_def
      split_beta split: sum.split option.split)

lemma execute_alone:
  assumes "sh_views x = []"
  shows "as_alone
    (ExecuteJob \<lparr>ex_lifecycle = service_lifecycle (shared_service S), ex_registry = shared_registry r\<rparr> k name payload)
    (ExecuteJob \<lparr>ex_lifecycle = service_lifecycle S, ex_registry = r\<rparr> k name payload) x"
proof -
  note a = lifecycle_alone [unfolded as_alone_def]
  show ?thesis
    using assms
    by (simp add: as_alone_def ExecuteJob_def fail_and_ack_def service_lifecycle_def Run_shared split_beta a
        split: sum.split option.split bool.split)
qed

end
