(* ===== verification/Guarantees.thy ===== *)
theory Guarantees
  imports Shared
begin

text \<open>
  What a process guarantees the others: every one of its calls, whatever it finds, either leaves
  the jobs alone or makes one step of the life of one job. Only a cancellation and a retry, which
  write without a guard, promise less.
\<close>

section \<open>Calls that keep a promise\<close>

definition emits :: "(event \<times> 's \<times> 's \<Rightarrow> bool) \<Rightarrow> 's shared \<Rightarrow> 's shared \<Rightarrow> bool" where
  "emits Q x y \<longleftrightarrow> (\<exists>cs. sh_calls y = sh_calls x @ cs \<and> (\<forall>e\<in>set cs. Q e))"

lemma emits_refl [simp, intro]: "emits Q x x"
  by (simp add: emits_def)

lemma emits_trans: "emits Q x y \<Longrightarrow> emits Q y z \<Longrightarrow> emits Q x z"
  by (fastforce simp: emits_def)

lemma emits_mono: "emits Q x y \<Longrightarrow> (\<And>e. Q e \<Longrightarrow> Q' e) \<Longrightarrow> emits Q' x y"
  by (fastforce simp: emits_def)

lemma emits_in_turn:
  assumes "emits Q x y" and "\<And>s. Q (l (fst (f s)), s, snd (f s))"
  shows "emits Q x (snd (in_turn_as l f y))"
proof -
  have "emits Q y (snd (in_turn_as l f y))"
    by (rule in_turn_result [of l f y]) (simp add: emits_def assms(2))
  with assms(1) show ?thesis by (rule emits_trans)
qed

text \<open>A call that is not a run of a handler and is a step of the relation \<open>G\<close>.\<close>

definition calls :: "('s \<Rightarrow> 's \<Rightarrow> bool) \<Rightarrow> event \<times> 's \<times> 's \<Rightarrow> bool" where
  "calls G e \<longleftrightarrow> (case e of (l, a, b) \<Rightarrow> l = Called \<and> G a b)"

lemma calls_iff [simp]: "calls G (l, a, b) \<longleftrightarrow> l = Called \<and> G a b"
  by (simp add: calls_def)

lemma emits_called:
  "emits (calls G) x y \<Longrightarrow> (\<And>s. G s (snd (f s))) \<Longrightarrow> emits (calls G) x (snd (in_turn f y))"
  by (rule emits_in_turn) simp_all

section \<open>The steps of a life\<close>

text \<open>The moves of the machine of \<open>Lifecycle\<close> but the reset of a retry.\<close>

inductive advances :: "CompositeStatus option \<Rightarrow> CompositeStatus option \<Rightarrow> bool" where
  born: "advances None (Some new_job)"
| dispatch: "DispatchStatus_CanTransitionTo d d' \<Longrightarrow>
    advances (Some \<lparr>Dispatch = d, Execution = e\<rparr>) (Some \<lparr>Dispatch = d', Execution = e\<rparr>)"
| execution: "ExecutionStatus_CanTransitionTo e e' \<Longrightarrow>
    advances (Some \<lparr>Dispatch = d, Execution = e\<rparr>) (Some \<lparr>Dispatch = d, Execution = e'\<rparr>)"

inductive_cases advances_SomeE: "advances (Some \<lparr>Dispatch = d, Execution = e\<rparr>) y"

text \<open>All of them but the completion of an execution.\<close>

definition quiet :: "CompositeStatus option \<Rightarrow> CompositeStatus option \<Rightarrow> bool" where
  "quiet x y \<longleftrightarrow> advances x y
     \<and> (\<forall>q. y = Some q \<and> Execution q = ExecutionStatusCompleted \<longrightarrow> (\<exists>p. x = Some p \<and> Execution p = Execution q))"

lemma quiet_advances: "quiet x y \<Longrightarrow> advances x y"
  by (simp add: quiet_def)

lemma advances_move: "advances x y \<Longrightarrow> moves x y"
  by (induction rule: advances.induct) (rule moves.intros; assumption)+

text \<open>One job makes at most one step of \<open>A\<close>, the others stay as they are.\<close>

definition one_step ::
  "(CompositeStatus option \<Rightarrow> CompositeStatus option \<Rightarrow> bool) \<Rightarrow> ('s \<Rightarrow> string \<Rightarrow> job option) \<Rightarrow> 's \<Rightarrow> 's \<Rightarrow> bool" where
  "one_step A jobs a b \<longleftrightarrow> (\<exists>k. (\<forall>i. i \<noteq> k \<longrightarrow> jobs b i = jobs a i) \<and> A\<^sup>=\<^sup>= (life jobs a k) (life jobs b k))"

lemma one_step_same: "jobs b = jobs a \<Longrightarrow> one_step A jobs a b"
  by (simp add: one_step_def life_def)

lemma one_step_applied:
  assumes "jobs a k = Some j" and "jobs b = (jobs a)(k \<mapsto> j')"
    and "A\<^sup>=\<^sup>= (Some (sub_states j)) (Some (sub_states j'))"
  shows "one_step A jobs a b"
  unfolding one_step_def using assms by (intro exI [of _ k]) (simp add: life_def)

lemma one_step_guarded:
  "guarded jobs k P f r a b \<Longrightarrow>
   (\<And>j. jobs a k = Some j \<Longrightarrow> P j \<Longrightarrow> A\<^sup>=\<^sup>= (Some (sub_states j)) (Some (sub_states (f j)))) \<Longrightarrow>
   one_step A jobs a b"
  by (erule guardedE) (blast intro: one_step_applied one_step_same)+

lemma one_step_inserted:
  "one_inserted jobs j a b \<Longrightarrow> sub_states j = new_job \<Longrightarrow> one_step quiet jobs a b"
  by (auto simp: quiet_def one_step_def one_inserted_def life_def sub_states_def
      intro!: exI [of _ "jm_JobID j"] advances.born)

lemma one_step_life: "one_step A jobs a b \<Longrightarrow> A\<^sup>=\<^sup>= (life jobs a i) (life jobs b i)"
  unfolding one_step_def life_def by (metis sup2I2)

lemma one_step_mono: "one_step A jobs a b \<Longrightarrow> (\<And>x y. A x y \<Longrightarrow> A' x y) \<Longrightarrow> one_step A' jobs a b"
  by (auto simp: one_step_def)

lemma one_step_move: "one_step advances jobs a b \<Longrightarrow> one_move jobs a b"
  by (auto simp: one_step_def one_move_def dest: advances_move)

lemma dispatch_advances:
  "is_pending j \<Longrightarrow> quiet (Some (sub_states j)) (Some (sub_states (mark_dispatched_effect t j)))"
  "is_pending j \<Longrightarrow> quiet (Some (sub_states j)) (Some (sub_states (dispatch_failed_effect msg t j)))"
  "sub_states (record_attempt_effect n msg j) = sub_states j"
  by (auto simp: quiet_def state_defs effect_defs intro!: advances.dispatch)

lemma execution_advances:
  "not_started j \<Longrightarrow> quiet (Some (sub_states j)) (Some (sub_states (mark_running_effect t j)))"
  "is_running j \<Longrightarrow> advances (Some (sub_states j)) (Some (sub_states (complete_effect t meta j)))"
  "failable j \<Longrightarrow> quiet (Some (sub_states j)) (Some (sub_states (fail_effect e t j)))"
  by (auto simp: quiet_def state_defs effect_defs intro!: advances.execution)

text \<open>The writes of a cancellation and of a retry have no guard.\<close>

definition cancels :: "CompositeStatus option \<Rightarrow> CompositeStatus option \<Rightarrow> bool" where
  "cancels x y \<longleftrightarrow> (\<exists>p. x = Some p \<and> y = Some (p\<lparr>Execution := ExecutionStatusCancelled\<rparr>))"

definition renews :: "CompositeStatus option \<Rightarrow> CompositeStatus option \<Rightarrow> bool" where
  "renews x y \<longleftrightarrow> x \<noteq> None \<and> y = Some new_job"

text \<open>Only the job \<open>k\<close> makes a step.\<close>

definition step_of ::
  "string \<Rightarrow> (CompositeStatus option \<Rightarrow> CompositeStatus option \<Rightarrow> bool) \<Rightarrow> ('s \<Rightarrow> string \<Rightarrow> job option)
     \<Rightarrow> 's \<Rightarrow> 's \<Rightarrow> bool" where
  "step_of k A jobs a b \<longleftrightarrow> (\<forall>i. i \<noteq> k \<longrightarrow> jobs b i = jobs a i) \<and> A\<^sup>=\<^sup>= (life jobs a k) (life jobs b k)"

lemma step_of_same: "jobs b = jobs a \<Longrightarrow> step_of k A jobs a b"
  by (simp add: step_of_def life_def)

lemma step_of_one: "step_of k A jobs a b \<Longrightarrow> one_step A jobs a b"
  by (auto simp: step_of_def one_step_def)

lemma step_of_guarded:
  "guarded jobs k P f r a b \<Longrightarrow>
   (\<And>j. P j \<Longrightarrow> A\<^sup>=\<^sup>= (Some (sub_states j)) (Some (sub_states (f j)))) \<Longrightarrow> step_of k A jobs a b"
  by (erule guardedE) (auto simp: step_of_def life_def)

lemma step_of_direct:
  assumes "direct jobs k f r a b" and "\<And>j. A\<^sup>=\<^sup>= (Some (sub_states j)) (Some (sub_states (f j)))"
  shows "step_of k A jobs a b"
  using assms by (fastforce simp: direct_def applied_def step_of_def life_def split: option.splits)

text \<open>What a task promises of each of its calls.\<close>

definition promise :: "('s \<Rightarrow> string \<Rightarrow> job option) \<Rightarrow> task \<Rightarrow> event \<times> 's \<times> 's \<Rightarrow> bool" where
  "promise jobs t e = (case e of (l, a, b) \<Rightarrow>
     case t of
       Message jobID name payload \<Rightarrow>
         (l = Called \<and> one_step advances jobs a b) \<or> ((\<exists>ok. l = HandlerRan jobID ok) \<and> jobs b = jobs a)
     | Cancel jobID reason \<Rightarrow> l = Called \<and> step_of jobID cancels jobs a b
     | Retry jobID \<Rightarrow> l = Called \<and> step_of jobID renews jobs a b
     | _ \<Rightarrow> l = Called \<and> one_step quiet jobs a b)"

lemma promise_calls:
  "promise jobs (Inserted p) = calls (one_step quiet jobs)"
  "promise jobs Poll = calls (one_step quiet jobs)"
  "promise jobs (Create name payload' opts) = calls (one_step quiet jobs)"
  "promise jobs (Fail k err) = calls (one_step quiet jobs)"
  "promise jobs (Cancel k reason) = calls (step_of k cancels jobs)"
  "promise jobs (Retry k) = calls (step_of k renews jobs)"
  "promise jobs (Show k) = calls (one_step quiet jobs)"
  "promise jobs (List filt) = calls (one_step quiet jobs)"
  by (auto simp: promise_def calls_def fun_eq_iff)

section \<open>What each operation guarantees\<close>

named_theorems steps_rules \<open>a process that made steps only and then does an operation still made steps only\<close>

context metadata_service
begin

abbreviation steps :: "event \<times> 's \<times> 's \<Rightarrow> bool" where
  "steps \<equiv> calls (one_step quiet jobs)"

lemma read_steps [steps_rules]:
  "emits steps x y \<Longrightarrow> emits steps x (snd (in_turn clock y))"
  "emits steps x y \<Longrightarrow> emits steps x (snd (in_turn uuid y))"
  "emits steps x y \<Longrightarrow> emits steps x (snd (in_turn (rd_Get R k) y))"
  "emits steps x y \<Longrightarrow> emits steps x (snd (in_turn (rd_List R filt) y))"
  "emits steps x y \<Longrightarrow> emits steps x (snd (in_turn (wr_AddLog W l) y))"
  by (erule emits_called, rule one_step_same,
      metis clock_ok uuid_frame get_frame list_frame add_log_ok prod.collapse)+

lemma write_steps [steps_rules]:
  "emits steps x y \<Longrightarrow> sub_states j = new_job \<Longrightarrow> emits steps x (snd (in_turn (wr_Create W j) y))"
  "emits steps x y \<Longrightarrow> emits steps x (snd (in_turn (wr_MarkDispatchedIfPending W k t) y))"
  "emits steps x y \<Longrightarrow> emits steps x (snd (in_turn (wr_RecordDispatchAttemptIfPending W k n msg) y))"
  "emits steps x y \<Longrightarrow> emits steps x (snd (in_turn (wr_MarkDispatchFailedIfPending W k msg) y))"
  "emits steps x y \<Longrightarrow> emits steps x (snd (in_turn (wr_MarkRunningIfDispatched W k t) y))"
  "emits steps x y \<Longrightarrow> \<not> is_field_path (je_Error e) \<Longrightarrow>
     emits steps x (snd (in_turn (wr_FailIfNotTerminal W k e t) y))"
proof -
  show "emits steps x (snd (in_turn (wr_Create W j) y))" if "emits steps x y" "sub_states j = new_job"
    using that(1)
  proof (rule emits_called)
    fix s obtain r s' where w: "wr_Create W j s = (r, s')" by fastforce
    have "jobs s' = jobs s \<or> one_inserted jobs j s s'"
      using create_ok [of j s s'] jobs_writer.create_error [OF jobs_writer_axioms, of j s _ s'] w by (cases r) auto
    with that(2) show "one_step quiet jobs s (snd (wr_Create W j s))"
      by (auto simp: w intro: one_step_inserted one_step_same)
  qed
  have g: "emits steps x (snd (in_turn f y))"
    if "emits steps x y" "\<And>r s s'. f s = (r, s') \<Longrightarrow> \<exists>P h. guarded jobs k P h r s s'
        \<and> (\<forall>j. P j \<longrightarrow> quiet\<^sup>=\<^sup>= (Some (sub_states j)) (Some (sub_states (h j))))" for f
    using that(1)
  proof (rule emits_called)
    fix s obtain r s' where f: "f s = (r, s')" by fastforce
    from that(2) [OF f] show "one_step quiet jobs s (snd (f s))"
      by (auto simp: f intro: one_step_guarded)
  qed
  show "emits steps x (snd (in_turn (wr_MarkDispatchedIfPending W k t) y))" if "emits steps x y"
    using that by (rule g) (use mark_dispatched_ok dispatch_advances in blast)
  show "emits steps x (snd (in_turn (wr_RecordDispatchAttemptIfPending W k n msg) y))" if "emits steps x y"
  proof -
    have "quiet\<^sup>=\<^sup>= (Some (sub_states j)) (Some (sub_states (record_attempt_effect n msg j)))" for j
      by (simp add: dispatch_advances(3))
    with that record_attempt_ok show ?thesis by (intro g) blast+
  qed
  show "emits steps x (snd (in_turn (wr_MarkDispatchFailedIfPending W k msg) y))" if "emits steps x y"
    using that
  proof (rule g)
    fix r s s' assume "wr_MarkDispatchFailedIfPending W k msg s = (r, s')"
    then obtain t where "guarded jobs k is_pending (dispatch_failed_effect msg t) r s s'"
      using dispatch_failed_ok by blast
    then show "\<exists>P h. guarded jobs k P h r s s'
        \<and> (\<forall>j. P j \<longrightarrow> quiet\<^sup>=\<^sup>= (Some (sub_states j)) (Some (sub_states (h j))))"
      using dispatch_advances(2) by blast
  qed
  show "emits steps x (snd (in_turn (wr_MarkRunningIfDispatched W k t) y))" if "emits steps x y"
    using that by (rule g) (use mark_running_ok execution_advances in blast)
  show "emits steps x (snd (in_turn (wr_FailIfNotTerminal W k e t) y))"
    if "emits steps x y" "\<not> is_field_path (je_Error e)"
    using that(1) by (rule g) (use fail_ok that(2) execution_advances in blast)
qed

lemma log_steps [steps_rules]:
  "emits steps x y \<Longrightarrow> emits steps x (log_best_effort (shared_service S) entry y)"
  by (simp add: log_best_effort_def split_beta steps_rules)

lemma updater_steps [steps_rules]:
  "emits steps x y \<Longrightarrow> emits steps x (snd (up_MarkJobDispatched (service_updater (shared_service S)) k y))"
  "emits steps x y \<Longrightarrow> emits steps x (snd (up_RecordDispatchAttempt (service_updater (shared_service S)) k n msg y))"
  "emits steps x y \<Longrightarrow> emits steps x (snd (up_MarkJobDispatchFailed (service_updater (shared_service S)) k err y))"
  by (simp_all add: service_updater_def MarkJobDispatched_def RecordDispatchAttempt_def MarkJobDispatchFailed_def
      split_beta steps_rules split: sum.split)

lemma start_steps [steps_rules]:
  "emits steps x y \<Longrightarrow> emits steps x (snd (StartJob (shared_service S) k y))"
  by (simp add: StartJob_def split_beta steps_rules split: sum.split)

lemma fail_steps [steps_rules]:
  "emits steps x y \<Longrightarrow> \<not> is_field_path (message_of err) \<Longrightarrow>
   emits steps x (snd (FailJob (shared_service S) k err y))"
  by (simp add: FailJob_def Let_def split_beta steps_rules split: sum.split)

lemma create_steps [steps_rules]:
  "emits steps x y \<Longrightarrow> emits steps x (snd (CreateJob (shared_service S) name payload opts y))"
  by (simp add: CreateJob_def Let_def split_beta steps_rules sub_states_def NewJobMetadata_def
      split: sum.split option.split)

lemma get_steps [steps_rules]:
  "emits steps x y \<Longrightarrow> emits steps x (snd (GetJob (shared_service S) k y))"
  "emits steps x y \<Longrightarrow> emits steps x (snd (ListJobs (shared_service S) filt y))"
  by (simp_all add: GetJob_def ListJobs_def steps_rules)

text \<open>Only the executor's last call completes, and only the job at hand.\<close>

lemma complete_steps: "emits (calls (step_of k advances jobs)) y (snd (CompleteJob (shared_service S) k None y))"
proof -
  have frames: "jobs (snd (clock s)) = jobs s" "jobs (snd (rd_Get R k s)) = jobs s"
    "jobs (snd (wr_AddLog W l s)) = jobs s" for s l
    by (metis clock_ok get_frame add_log_ok prod.collapse)+
  have "step_of k advances jobs s (snd (wr_CompleteIfRunning W k t m s))" for t m s
  proof -
    obtain r s' where w: "wr_CompleteIfRunning W k t m s = (r, s')" by fastforce
    with complete_ok [OF w] show ?thesis by (auto intro!: step_of_guarded execution_advances)
  qed
  then show ?thesis
    by (auto simp: CompleteJob_def complete_metadata_def log_best_effort_def Let_def split_beta frames step_of_same
        intro!: emits_called split: sum.split option.split)
qed

lemma cancel_promise:
  "emits (calls (step_of k cancels jobs)) y (snd (CancelJob (shared_service S) k reason y))"
proof -
  have frames: "jobs (snd (clock s)) = jobs s" "jobs (snd (rd_Get R k s)) = jobs s"
    "jobs (snd (wr_AddLog W l s)) = jobs s" for s l
    by (metis clock_ok get_frame add_log_ok prod.collapse)+
  have "step_of k cancels jobs s (snd (wr_Update W k (cancel_patch (cancelled_model reason t m)) s))" for t m s
  proof -
    let ?p = "cancel_patch (cancelled_model reason t m)"
    obtain r s' where w: "wr_Update W k ?p s = (r, s')" by fastforce
    have "cancels (Some (sub_states j)) (Some (sub_states (patch_effect ?p j)))" for j
      by (simp add: cancels_def sub_states_def patch_effect_def cancel_patch_def empty_patch_def)
    with update_ok [OF w cancel_patch_not_empty] show ?thesis
      by (auto simp: w intro: step_of_direct)
  qed
  then show ?thesis
    by (auto simp: CancelJob_def log_best_effort_def Let_def split_beta frames step_of_same
        intro!: emits_called split: sum.split option.split)
qed

lemma retry_promise:
  "emits (calls (step_of k renews jobs)) y (snd (RetryJob (shared_service S) k y))"
proof -
  have frames: "jobs (snd (clock s)) = jobs s" "jobs (snd (rd_Get R k s)) = jobs s"
    "jobs (snd (wr_AddLog W l s)) = jobs s" for s l
    by (metis clock_ok get_frame add_log_ok prod.collapse)+
  have "step_of k renews jobs s (snd (wr_Update W k retry_patch s))" for s
  proof -
    obtain r s' where w: "wr_Update W k retry_patch s = (r, s')" by fastforce
    have "renews (Some (sub_states j)) (Some (sub_states (patch_effect retry_patch j)))" for j
      by (simp add: renews_def sub_states_def patch_effect_def retry_patch_def empty_patch_def)
    with update_ok [OF w retry_patch_not_empty] show ?thesis
      by (auto simp: w intro: step_of_direct)
  qed
  moreover have "step_of k renews jobs s (snd (wr_IncrementRetryCount W k s))" for s
  proof -
    obtain r s' where w: "wr_IncrementRetryCount W k s = (r, s')" by fastforce
    from increment_ok [OF w] show ?thesis
      by (auto simp: w sub_states_def IncrementRetryCount_def intro!: step_of_direct)
  qed
  moreover have "step_of k renews jobs s (snd (wr_ClearJobExecutionTimestamps W k s))" for s
  proof -
    obtain r s' where w: "wr_ClearJobExecutionTimestamps W k s = (r, s')" by fastforce
    from clear_ok [OF w] show ?thesis
      by (auto simp: w sub_states_def clear_timestamps_effect_def intro!: step_of_direct)
  qed
  ultimately show ?thesis
    by (auto simp: RetryJob_def log_best_effort_def Let_def split_beta frames step_of_same
        intro!: emits_called split: sum.split option.split)
qed

end

section \<open>Counting claims and runs\<close>

text \<open>A call that takes a job out of its initial state, as a claim does.\<close>

definition leaves_start :: "('s \<Rightarrow> string \<Rightarrow> job option) \<Rightarrow> string \<Rightarrow> 's \<Rightarrow> 's \<Rightarrow> bool" where
  "leaves_start jobs k a b \<longleftrightarrow>
     (\<exists>j. jobs a k = Some j \<and> not_started j) \<and> (\<exists>j. jobs b k = Some j \<and> \<not> not_started j)"

definition claims :: "('s \<Rightarrow> string \<Rightarrow> job option) \<Rightarrow> string \<Rightarrow> (event \<times> 's \<times> 's) list \<Rightarrow> nat" where
  "claims jobs k h = length (filter (\<lambda>(l, a, b). leaves_start jobs k a b) h)"

definition runs :: "string \<Rightarrow> (event \<times> 's \<times> 's) list \<Rightarrow> nat" where
  "runs k h = length (filter (\<lambda>(l, a, b). l \<in> {HandlerRan k True, HandlerRan k False}) h)"

definition succeeded :: "string \<Rightarrow> (event \<times> 's \<times> 's) list \<Rightarrow> bool" where
  "succeeded k h \<longleftrightarrow> list_ex (\<lambda>(l, a, b). l = HandlerRan k True) h"

definition completes :: "('s \<Rightarrow> string \<Rightarrow> job option) \<Rightarrow> string \<Rightarrow> 's \<Rightarrow> 's \<Rightarrow> bool" where
  "completes jobs k a b \<longleftrightarrow>
     (\<exists>j. jobs b k = Some j \<and> jm_ExecutionStatus j = ExecutionStatusCompleted)
     \<and> \<not> (\<exists>j. jobs a k = Some j \<and> jm_ExecutionStatus j = ExecutionStatusCompleted)"

lemma completes_same: "jobs b k = jobs a k \<Longrightarrow> \<not> completes jobs k a b"
  by (auto simp: completes_def)

definition completed :: "('s \<Rightarrow> string \<Rightarrow> job option) \<Rightarrow> string \<Rightarrow> (event \<times> 's \<times> 's) list \<Rightarrow> bool" where
  "completed jobs k h \<longleftrightarrow> list_ex (\<lambda>(l, a, b). completes jobs k a b) h"

lemma count_simps [simp]:
  "claims jobs k (h @ h') = claims jobs k h + claims jobs k h'" "runs k (h @ h') = runs k h + runs k h'"
  "succeeded k (h @ h') \<longleftrightarrow> succeeded k h \<or> succeeded k h'"
  "completed jobs k (h @ h') \<longleftrightarrow> completed jobs k h \<or> completed jobs k h'"
  "claims jobs k [] = 0" "runs k [] = 0" "\<not> succeeded k []" "\<not> completed jobs k []"
  by (simp_all add: claims_def runs_def succeeded_def completed_def)

lemma count_Cons [simp]:
  "runs k ((l, a, b) # h) = (if l \<in> {HandlerRan k True, HandlerRan k False} then Suc (runs k h) else runs k h)"
  "succeeded k ((l, a, b) # h) \<longleftrightarrow> l = HandlerRan k True \<or> succeeded k h"
  "completed jobs k ((l, a, b) # h) \<longleftrightarrow> completes jobs k a b \<or> completed jobs k h"
  by (simp_all add: runs_def succeeded_def completed_def)

text \<open>
  At no time had more handlers of a job run than there were claims of it, and a job was completed
  only after its handler had succeeded.
\<close>

definition accounted :: "('s \<Rightarrow> string \<Rightarrow> job option) \<Rightarrow> (event \<times> 's \<times> 's) list \<Rightarrow> bool" where
  "accounted jobs h \<longleftrightarrow> (\<forall>k n. runs k (take n h) \<le> claims jobs k (take n h)
     \<and> (completed jobs k (take n h) \<longrightarrow> succeeded k (take n h)))"

lemma accountedD:
  "accounted jobs h \<Longrightarrow> runs k h \<le> claims jobs k h"
  "accounted jobs h \<Longrightarrow> completed jobs k h \<Longrightarrow> succeeded k h"
  unfolding accounted_def by (metis order_refl take_all)+

lemma accounted_take: "accounted jobs h \<Longrightarrow> accounted jobs (take n h)"
  by (simp add: accounted_def)

lemma accounted_append:
  assumes "accounted jobs h" "accounted jobs h'"
  shows "accounted jobs (h @ h')"
  unfolding accounted_def
proof (intro allI)
  fix k n
  have "runs k (take n h) \<le> claims jobs k (take n h)" "runs k (take (n - length h) h') \<le> claims jobs k (take (n - length h) h')"
    "completed jobs k (take n h) \<longrightarrow> succeeded k (take n h)"
    "completed jobs k (take (n - length h) h') \<longrightarrow> succeeded k (take (n - length h) h')"
    using assms by (simp_all add: accounted_def)
  then show "runs k (take n (h @ h')) \<le> claims jobs k (take n (h @ h'))
      \<and> (completed jobs k (take n (h @ h')) \<longrightarrow> succeeded k (take n (h @ h')))" by auto
qed

lemma no_runs: "\<forall>e\<in>set h. calls G e \<Longrightarrow> runs k h = 0"
  by (induction h) (auto simp: calls_def)

text \<open>Calls that complete no job.\<close>

definition silent :: "('s \<Rightarrow> string \<Rightarrow> job option) \<Rightarrow> ('s \<Rightarrow> 's \<Rightarrow> bool) \<Rightarrow> bool" where
  "silent jobs G \<longleftrightarrow> (\<forall>a b k. G a b \<longrightarrow> \<not> completes jobs k a b)"

lemma silent_quiet: "silent jobs (one_step quiet jobs)"
  unfolding silent_def
proof (intro allI impI notI)
  fix a b k assume "one_step quiet jobs a b" and c: "completes jobs k a b"
  from one_step_life [OF this(1)] have q: "quiet\<^sup>=\<^sup>= (life jobs a k) (life jobs b k)" .
  from c obtain j where j: "jobs b k = Some j" "jm_ExecutionStatus j = ExecutionStatusCompleted"
    by (auto simp: completes_def)
  with q obtain p where "life jobs a k = Some p" "Execution p = ExecutionStatusCompleted"
    by (auto simp: quiet_def life_def sub_states_def)
  then show False using c by (auto simp: completes_def life_def sub_states_def)
qed

lemma silent_unguarded: "silent jobs (step_of i cancels jobs)" "silent jobs (step_of i renews jobs)"
proof -
  have other: "\<not> completes jobs k a b" if "step_of i A jobs a b" "\<And>x y. A x y \<Longrightarrow> y \<noteq> None
      \<and> Execution (the y) \<noteq> ExecutionStatusCompleted" for A a b k
  proof (cases "k = i")
    case True
    with that show ?thesis
      by (cases "jobs b k"; cases "jobs a k") (fastforce simp: step_of_def completes_def life_def sub_states_def)+
  next
    case False
    with that(1) show ?thesis by (auto simp: step_of_def intro!: completes_same)
  qed
  show "silent jobs (step_of i cancels jobs)" "silent jobs (step_of i renews jobs)"
    unfolding silent_def by (auto simp: cancels_def renews_def elim!: other [THEN notE, rotated 2])
qed

lemma not_completed:
  assumes "silent jobs G" and "\<forall>e\<in>set h. calls G e"
  shows "\<not> completed jobs k h"
  using assms(2) by (induction h) (use assms(1) in \<open>auto simp: silent_def calls_def\<close>)

lemma accounted_calls:
  assumes "silent jobs G" and "\<forall>e\<in>set h. calls G e"
  shows "accounted jobs h"
  unfolding accounted_def
proof (intro allI)
  fix k n
  have "\<forall>e\<in>set (take n h). calls G e" using assms(2) by (blast dest: in_set_takeD)
  with not_completed [OF assms(1)] no_runs [of "take n h" G]
  show "runs k (take n h) \<le> claims jobs k (take n h)
      \<and> (completed jobs k (take n h) \<longrightarrow> succeeded k (take n h))" by simp
qed

text \<open>A run that follows a claim of the same job, and what follows a run without error.\<close>

lemma accounted_run:
  assumes "silent jobs G" and calls: "\<forall>e\<in>set h. calls G e" and claim: "(l, a, b) \<in> set h" "leaves_start jobs k a b"
    and same: "jobs s' = jobs s"
  shows "accounted jobs (h @ [(HandlerRan k ok, s, s')])"
  unfolding accounted_def
proof (intro allI)
  fix i n
  let ?e = "(HandlerRan k ok, s, s')"
  have unchanged: "\<not> completes jobs x s s'" for x using same by (simp add: completes_same)
  show "runs i (take n (h @ [?e])) \<le> claims jobs i (take n (h @ [?e]))
      \<and> (completed jobs i (take n (h @ [?e])) \<longrightarrow> succeeded i (take n (h @ [?e])))"
  proof (cases "n \<le> length h")
    case True
    have "\<forall>e\<in>set (take n h). calls G e" using calls by (blast dest: in_set_takeD)
    with True show ?thesis using no_runs [of "take n h" G i] not_completed [OF assms(1)] by simp
  next
    case False
    have "0 < claims jobs k h"
      using claim by (auto simp: claims_def filter_empty_conv intro!: bexI [of _ "(l, a, b)"])
    with False show ?thesis
      by (auto simp: unchanged no_runs [OF calls] not_completed [OF assms(1) calls])
  qed
qed

lemma accounted_end:
  assumes h: "accounted jobs h" "succeeded k h" and rest: "\<forall>e\<in>set rest. calls (step_of k A jobs) e"
  shows "accounted jobs (h @ rest)"
  unfolding accounted_def
proof (intro allI)
  fix i n
  show "runs i (take n (h @ rest)) \<le> claims jobs i (take n (h @ rest))
      \<and> (completed jobs i (take n (h @ rest)) \<longrightarrow> succeeded i (take n (h @ rest)))"
  proof (cases "n \<le> length h")
    case True
    with h(1) show ?thesis by (simp add: accounted_def)
  next
    case False
    let ?r = "take (n - length h) rest"
    have r: "\<forall>e\<in>set ?r. calls (step_of k A jobs) e" using rest by (blast dest: in_set_takeD)
    have "\<not> completed jobs i ?r" if "i \<noteq> k"
    proof -
      have "\<not> completes jobs i a b" if "(l, a, b) \<in> set ?r" for l a b
        using bspec [OF r that] \<open>i \<noteq> k\<close> by (simp add: step_of_def completes_same)
      then show ?thesis by (auto simp: completed_def list_ex_iff)
    qed
    with False h(2) accountedD [OF h(1), of i] show ?thesis by (auto simp: no_runs [OF r])
  qed
qed

definition accounts :: "('s \<Rightarrow> string \<Rightarrow> job option) \<Rightarrow> 's shared \<Rightarrow> 's shared \<Rightarrow> bool" where
  "accounts jobs x y \<longleftrightarrow> (\<exists>cs. sh_calls y = sh_calls x @ cs \<and> accounted jobs cs)"

lemma accounts_trans: "accounts jobs x y \<Longrightarrow> accounts jobs y z \<Longrightarrow> accounts jobs x z"
  unfolding accounts_def by (metis accounted_append append.assoc)

lemma emits_accounts: "silent jobs G \<Longrightarrow> emits (calls G) x y \<Longrightarrow> accounts jobs x y"
  unfolding emits_def accounts_def by (blast intro: accounted_calls)

section \<open>A system whose parts keep to their contracts\<close>

text \<open>
  The handlers of the executors leave the jobs to the executor and report errors that can be
  recorded as they are; the broker and the query of the poll leave the jobs alone.
\<close>

definition plain_errors :: "'s Registry \<Rightarrow> bool" where
  "plain_errors r \<longleftrightarrow> (\<forall>name jobID payload s e. fst (Run r name jobID payload s) = Some e \<longrightarrow> recordable e)"

definition admissible :: "task \<Rightarrow> bool" where
  "admissible t \<longleftrightarrow> (case t of Fail jobID err \<Rightarrow> \<not> is_field_path (message_of err) | _ \<Rightarrow> True)"

locale shared_system = metadata_service R W jobs logs clock uuid + job_publisher P jobs + pending_fetcher fetch jobs
  for R :: "'s JobsReader" and W :: "'s JobsWriter"
    and jobs :: "'s \<Rightarrow> string \<Rightarrow> job option" and logs :: "'s \<Rightarrow> JobLog list"
    and clock :: "('s, instant) op" and uuid :: "('s, string) op"
    and P :: "'s JobDispatchPublisher" and fetch :: "'s PendingJobFetcher" +
  fixes r :: "'s Registry" and cfg :: WorkerConfig
  assumes handlers_leave_jobs: "leaves_jobs jobs r"
    and handlers_plain: "plain_errors r"
begin

abbreviation Y :: "'s system" where
  "Y \<equiv> \<lparr>sy_service = S, sy_registry = r, sy_publish = P, sy_pending = fetch, sy_worker = cfg\<rparr>"

abbreviation X :: "'s shared ExecutorService" where
  "X \<equiv> \<lparr>ex_lifecycle = service_lifecycle (shared_service S), ex_registry = shared_registry r\<rparr>"

lemma handler_steps:
  "emits steps x y \<Longrightarrow> emits steps x (snd (shared_handler Y p y))"
proof -
  assume y: "emits steps x y"
  have "jobs (snd (P p s)) = jobs s" for s by (metis publish_frame prod.collapse)
  then have "emits steps x (snd (in_turn (P p) y))"
    by (intro emits_called [OF y] one_step_same)
  with y show ?thesis
    by (simp add: shared_handler_def HandleDispatch_def Let_def split_beta steps_rules split: option.split)
qed

lemma poll_steps:
  assumes "emits steps x y"
  shows "emits steps x (pollOnce cfg (shared_handler Y) (\<lambda>n l. in_turn (fetch n l)) y)"
proof -
  have "jobs (snd (fetch n l s)) = jobs s" for n l s by (metis fetch_frame prod.collapse)
  then have f: "emits steps x (snd (in_turn (fetch n l) y))" for n l
    by (intro emits_called [OF assms] one_step_same)
  have "emits steps x z \<Longrightarrow> emits steps x (handle_all (shared_handler Y) ps z)" for ps z
    by (induction ps arbitrary: z) (simp_all add: handler_steps)
  with f show ?thesis by (simp add: pollOnce_def split_beta split: sum.split)
qed

lemma early_failure_steps:
  "emits steps x y \<Longrightarrow> recordable e \<Longrightarrow> emits steps x (snd (fail_and_ack X jobID e y))"
  by (simp add: fail_and_ack_def service_lifecycle_def recordable_def steps_rules)

lemma handler_error_recordable:
  assumes "fst (in_turn_as l (Run r name jobID payload) y) = Some e"
  shows "recordable e"
proof -
  obtain s where "fst (in_turn_as l (Run r name jobID payload) y) = fst (Run r name jobID payload s)"
    by (rule in_turn_result [of l "Run r name jobID payload" y]) simp
  with assms handlers_plain show ?thesis by (metis plain_errors_def)
qed

text \<open>
  The calls of an executor for one message: those before the handler runs, among them the claim
  of the job; the run; and those that record its end. Or the handler does not run.
\<close>

abbreviation handled :: "string \<Rightarrow> string \<Rightarrow> raw_message \<Rightarrow> ('s shared, goerror option) op" where
  "handled name jobID payload \<equiv> in_turn_as (\<lambda>res. HandlerRan jobID (res = None)) (Run r name jobID payload)"

lemma message_calls:
  obtains (skipped) "emits steps y (snd (ExecuteJob X jobID name payload y))"
    | (run) y1 res y2 where "StartJob (shared_service S) jobID y = (Inr True, y1)"
        "handled name jobID payload y1 = (res, y2)"
        "if res = None then emits (calls (step_of jobID advances jobs)) y2 (snd (ExecuteJob X jobID name payload y))
         else emits steps y2 (snd (ExecuteJob X jobID name payload y))"
proof (cases "\<exists>y1. HasHandler r name \<and> StartJob (shared_service S) jobID y = (Inr True, y1)
    \<and> validateArgs jobID name payload = None \<and> testDecode payload = None")
  case True
  then obtain y1 where h: "HasHandler r name" and c: "StartJob (shared_service S) jobID y = (Inr True, y1)"
    and ok: "validateArgs jobID name payload = None" "testDecode payload = None" by blast
  obtain e y2 where run: "handled name jobID payload y1 = (e, y2)" by fastforce
  note unfolded = ExecuteJob_def service_lifecycle_def Run_shared [OF h]
  show thesis
  proof (rule that(2) [OF c run])
    show "if e = None then emits (calls (step_of jobID advances jobs)) y2 (snd (ExecuteJob X jobID name payload y))
        else emits steps y2 (snd (ExecuteJob X jobID name payload y))"
    proof (cases e)
      case (Some err)
      with handler_error_recordable run have "recordable err" by (metis fst_conv)
      then have "emits steps y2 (snd (fail_and_ack X jobID err y2))" by (intro early_failure_steps) auto
      with h c ok run Some show ?thesis by (simp add: unfolded)
    next
      case None
      with h c ok run complete_steps [of jobID y2] show ?thesis
        by (simp add: unfolded split_beta split: option.split)
    qed
  qed
next
  case False
  have "emits steps y (snd (ExecuteJob X jobID name payload y))"
  proof (cases "validateArgs jobID name payload = None \<and> HasHandler r name \<and> testDecode payload = None")
    case True
    have "emits steps y (snd (StartJob (shared_service S) jobID y))" by (simp add: steps_rules)
    with True False show ?thesis
      by (auto simp: ExecuteJob_def service_lifecycle_def split_beta split: sum.split bool.split)
        (metis prod.collapse)
  next
    case False
    note rec = lifecycle.execution.premature_failures_recordable
    from False show ?thesis
      by (auto simp: ExecuteJob_def rec(2) [simplified] dest: rec(1,3) intro!: early_failure_steps split: option.split)
  qed
  then show thesis by (rule that(1))
qed

lemma handled_call:
  assumes "handled name jobID payload y1 = (res, y2)"
  shows "\<exists>s s'. sh_calls y2 = sh_calls y1 @ [(HandlerRan jobID (res = None), s, s')] \<and> jobs s' = jobs s"
proof -
  obtain s where s: "handled name jobID payload y1 = (fst (Run r name jobID payload s),
      \<lparr>sh_world = snd (Run r name jobID payload s), sh_views = tl (sh_views y1),
        sh_calls = sh_calls y1 @ [(HandlerRan jobID (fst (Run r name jobID payload s) = None), s,
          snd (Run r name jobID payload s))]\<rparr>)"
    by (rule in_turn_result [of "\<lambda>res. HandlerRan jobID (res = None)" "Run r name jobID payload" y1])
  moreover have "jobs (snd (Run r name jobID payload s)) = jobs s"
    using handlers_leave_jobs by (simp add: leaves_jobs_def)
  ultimately show ?thesis using assms by auto
qed

lemma start_claims:
  assumes "StartJob (shared_service S) k y = (Inr True, y1)"
  shows "\<exists>cs l a b. sh_calls y1 = sh_calls y @ cs \<and> (\<forall>e\<in>set cs. steps e)
    \<and> (l, a, b) \<in> set cs \<and> leaves_start jobs k a b"
proof -
  obtain t y2 where c: "in_turn clock y = (t, y2)" by fastforce
  obtain b y3 where w: "in_turn (wr_MarkRunningIfDispatched W k t) y2 = (b, y3)" by fastforce
  from assms c w have b: "b = Inr True" and y1: "y1 = log_best_effort (shared_service S)
      (NewJobLogWithSource k LogLevelInfo ''Job started'' ''service'') y3"
    by (auto simp: StartJob_def split: sum.splits if_splits)
  obtain s s' where s: "wr_MarkRunningIfDispatched W k t s = (Inr True, s')"
    and y3: "sh_calls y3 = sh_calls y2 @ [(Called, s, s')]"
    using w b by (auto simp: in_turn_as_def Let_def split: prod.splits)
  have "leaves_start jobs k s s'"
    using mark_running_ok [OF s] by (auto simp: guarded_def applied_def leaves_start_def mark_running_effect_def)
  moreover have "emits steps y y1"
    using assms start_steps [of y y k] by simp
  moreover have "emits steps y3 y1" unfolding y1 by (rule log_steps) simp
  moreover have "emits steps y y2" using read_steps(1) [of y y] c by simp
  ultimately show ?thesis using y3
    by (fastforce simp: emits_def)
qed

lemma message_accounts: "accounts jobs y (snd (ExecuteJob X jobID name payload y))"
proof (cases rule: message_calls [of y jobID name payload])
  case skipped
  then show ?thesis by (rule emits_accounts [OF silent_quiet])
next
  case (run y1 res y2)
  from start_claims [OF run(1)] obtain cs l a b where cs: "sh_calls y1 = sh_calls y @ cs" "\<forall>e\<in>set cs. steps e"
    "(l, a, b) \<in> set cs" "leaves_start jobs jobID a b" by blast
  from handled_call [OF run(2)] obtain s s' where
    y2: "sh_calls y2 = sh_calls y1 @ [(HandlerRan jobID (res = None), s, s')]" and same: "jobs s' = jobs s" by blast
  let ?h = "cs @ [(HandlerRan jobID (res = None), s, s')]"
  have h: "accounted jobs ?h" by (rule accounted_run [OF silent_quiet cs(2-4) same])
  show ?thesis
  proof (cases res)
    case None
    with run(3) obtain rest where "sh_calls (snd (ExecuteJob X jobID name payload y)) = sh_calls y2 @ rest"
      "\<forall>e\<in>set rest. calls (step_of jobID advances jobs) e" by (auto simp: emits_def)
    moreover from this(2) have "accounted jobs (?h @ rest)" by (intro accounted_end [OF h]) (simp_all add: None)
    ultimately show ?thesis unfolding accounts_def by (auto simp: y2 cs(1))
  next
    case (Some e)
    have "accounts jobs y y2" using h by (auto simp: accounts_def y2 cs(1))
    moreover have "accounts jobs y2 (snd (ExecuteJob X jobID name payload y))"
      using run(3) Some by (simp add: emits_accounts [OF silent_quiet])
    ultimately show ?thesis by (rule accounts_trans)
  qed
qed

lemma message_promise: "emits (promise jobs (Message jobID name payload)) y (snd (ExecuteJob X jobID name payload y))"
proof -
  let ?Q = "promise jobs (Message jobID name payload)"
  have weak: "emits ?Q u v" if "emits (calls G) u v" "\<And>a b. G a b \<Longrightarrow> one_step advances jobs a b" for G u v
    using that(1) by (rule emits_mono) (auto simp: promise_def that(2))
  note steps_weak = weak [OF _ one_step_mono [OF _ quiet_advances]]
  show ?thesis
  proof (cases rule: message_calls [of y jobID name payload])
    case skipped
    then show ?thesis by (rule steps_weak)
  next
    case (run y1 res y2)
    have "emits steps y y1" using start_steps [of y y jobID] run(1) by simp
    then have "emits ?Q y y1" by (rule steps_weak)
    moreover have "emits ?Q y1 y2"
      using handled_call [OF run(2)] by (auto simp: emits_def promise_def)
    moreover have "emits ?Q y2 (snd (ExecuteJob X jobID name payload y))"
      using run(3) by (auto split: if_splits intro: steps_weak weak [OF _ step_of_one])
    ultimately show ?thesis by (blast intro: emits_trans)
  qed
qed

lemma task_promise: "admissible t \<Longrightarrow> emits (promise jobs t) x (perform Y t x)"
  by (cases t)
    (simp_all add: promise_calls message_promise cancel_promise retry_promise admissible_def steps_rules
      handler_steps poll_steps)

lemma task_accounts: "admissible t \<Longrightarrow> accounts jobs x (perform Y t x)"
proof (cases "\<exists>jobID name payload. t = Message jobID name payload")
  case True
  then show ?thesis by (auto simp: message_accounts)
next
  case False
  then obtain G where "promise jobs t = calls G" "silent jobs G"
    by (cases t) (auto simp: promise_calls silent_quiet silent_unguarded)
  moreover assume "admissible t"
  ultimately show ?thesis using task_promise [of t x] by (simp add: emits_accounts)
qed

lemma process_accounts: "\<forall>t\<in>set ts. admissible t \<Longrightarrow> accounts jobs x (process_of Y ts x)"
proof (induction ts arbitrary: x)
  case Nil
  then show ?case by (simp add: process_of_def accounts_def accounted_def)
next
  case (Cons t ts)
  then have "accounts jobs x (perform Y t x)" "accounts jobs (perform Y t x) (process_of Y ts (perform Y t x))"
    by (simp_all add: task_accounts)
  then show ?case unfolding process_of_def by (simp add: accounts_trans)
qed

lemma process_promises:
  "\<forall>t\<in>set ts. admissible t \<Longrightarrow> emits (\<lambda>e. \<exists>t\<in>set ts. promise jobs t e) x (process_of Y ts x)"
proof (induction ts arbitrary: x)
  case (Cons t ts)
  then have "emits (\<lambda>e. \<exists>t\<in>set (t # ts). promise jobs t e) x (perform Y t x)"
    by (intro emits_mono [OF task_promise]) auto
  moreover have "emits (\<lambda>e. \<exists>t\<in>set (t # ts). promise jobs t e) (perform Y t x) (process_of Y ts (perform Y t x))"
    using Cons.prems by (intro emits_mono [OF Cons.IH]) auto
  ultimately show ?case unfolding process_of_def by (simp add: emits_trans)
qed (simp add: process_of_def)

end

end
