(* ===== verification/Interleaving.thy ===== *)
theory Interleaving
  imports Guarantees
begin

text \<open>
  Any number of processes over one database, in any order of their calls. A history is a list of
  calls, each by a process, where each finds the world as the last one left it, and where the
  calls of each process are those its handlers make when they find the world so.
\<close>

section \<open>Histories\<close>

fun chained :: "'s \<Rightarrow> (event \<times> 's \<times> 's) list \<Rightarrow> bool" where
  "chained s [] \<longleftrightarrow> True"
| "chained s ((l, a, b) # h) \<longleftrightarrow> a = s \<and> chained b h"

fun world_after :: "'s \<Rightarrow> (event \<times> 's \<times> 's) list \<Rightarrow> 's" where
  "world_after s [] = s"
| "world_after s ((l, a, b) # h) = world_after b h"

definition calls_of :: "'p \<Rightarrow> ('p \<times> event \<times> 's \<times> 's) list \<Rightarrow> (event \<times> 's \<times> 's) list" where
  "calls_of p h = map snd (filter (\<lambda>e. fst e = p) h)"

text \<open>A process may be in the middle of its work.\<close>

definition interleaved ::
  "('p \<Rightarrow> 's shared \<Rightarrow> 's shared) \<Rightarrow> 's \<Rightarrow> ('p \<times> event \<times> 's \<times> 's) list \<Rightarrow> bool" where
  "interleaved procs s h \<longleftrightarrow> chained s (map snd h)
     \<and> (\<forall>p. \<exists>w views n. calls_of p h = take n (sh_calls (procs p \<lparr>sh_world = w, sh_views = views, sh_calls = []\<rparr>)))"

lemma chained_append [simp]: "chained s (h @ h') \<longleftrightarrow> chained s h \<and> chained (world_after s h) h'"
  by (induction s h rule: chained.induct) auto

lemma world_after_append [simp]: "world_after s (h @ h') = world_after (world_after s h) h'"
  by (induction s h rule: world_after.induct) auto

section \<open>Claims and runs in a history\<close>

text \<open>A call that puts a started job back to its start, or removes it.\<close>

definition reopens :: "('s \<Rightarrow> string \<Rightarrow> job option) \<Rightarrow> string \<Rightarrow> 's \<Rightarrow> 's \<Rightarrow> bool" where
  "reopens jobs k a b \<longleftrightarrow> (\<exists>j. jobs a k = Some j \<and> \<not> not_started j) \<and> \<not> (\<exists>j. jobs b k = Some j \<and> \<not> not_started j)"

definition reopenings :: "('s \<Rightarrow> string \<Rightarrow> job option) \<Rightarrow> string \<Rightarrow> (event \<times> 's \<times> 's) list \<Rightarrow> nat" where
  "reopenings jobs k h = length (filter (\<lambda>(l, a, b). reopens jobs k a b) h)"

text \<open>Between two claims of a job it was reopened.\<close>

lemma claims_le_reopenings:
  "chained s h \<Longrightarrow> claims jobs k h + of_bool (\<exists>j. jobs s k = Some j \<and> \<not> not_started j)
     \<le> reopenings jobs k h + of_bool (\<exists>j. jobs (world_after s h) k = Some j \<and> \<not> not_started j)"
proof (induction s h rule: chained.induct)
  case (2 s l a b h)
  then have IH: "claims jobs k h + of_bool (\<exists>j. jobs b k = Some j \<and> \<not> not_started j)
     \<le> reopenings jobs k h + of_bool (\<exists>j. jobs (world_after b h) k = Some j \<and> \<not> not_started j)" by simp
  have "claims jobs k ((l, a, b) # h) = of_bool (leaves_start jobs k a b) + claims jobs k h"
    "reopenings jobs k ((l, a, b) # h) = of_bool (reopens jobs k a b) + reopenings jobs k h"
    by (simp_all add: claims_def reopenings_def)
  moreover have "of_bool (leaves_start jobs k a b) + of_bool (\<exists>j. jobs a k = Some j \<and> \<not> not_started j)
      \<le> (of_bool (reopens jobs k a b) + of_bool (\<exists>j. jobs b k = Some j \<and> \<not> not_started j) :: nat)"
    by (auto simp: leaves_start_def reopens_def)
  ultimately show ?case using IH 2 by simp
qed (simp add: claims_def reopenings_def)

lemma claims_bound: "chained s h \<Longrightarrow> claims jobs k h \<le> Suc (reopenings jobs k h)"
  using claims_le_reopenings [of s h jobs k] by (simp add: of_bool_def split: if_splits)

text \<open>What holds of the calls of each process holds of the sum.\<close>

lemma count_by_process:
  assumes "finite A" "fst ` set h \<subseteq> A"
  shows "length (filter Q (map snd h)) = (\<Sum>p\<in>A. length (filter Q (calls_of p h)))"
  using assms(2)
proof (induction h)
  case (Cons e h)
  obtain q c where e: "e = (q, c)" by (cases e)
  have "length (filter Q (calls_of p (e # h))) = length (filter Q (calls_of p h)) + of_bool (p = q \<and> Q c)" for p
    by (auto simp: calls_of_def e)
  then have "(\<Sum>p\<in>A. length (filter Q (calls_of p (e # h))))
      = (\<Sum>p\<in>A. length (filter Q (calls_of p h))) + (\<Sum>p\<in>A. of_bool (p = q \<and> Q c))"
    by (simp add: sum.distrib)
  also have "(\<Sum>p\<in>A. of_bool (p = q \<and> Q c)) = (of_bool (Q c) :: nat)"
  proof -
    have "(\<Sum>p\<in>A. of_bool (p = q \<and> Q c)) = (\<Sum>p\<in>A. if p = q then of_bool (Q c) else (0 :: nat))"
      by (intro sum.cong) auto
    with assms(1) Cons.prems e show ?thesis by (simp add: sum.delta')
  qed
  finally show ?case using Cons by (simp add: e)
qed (simp add: calls_of_def)

lemma runs_le_claims:
  assumes "\<And>p. accounted jobs (calls_of p h)"
  shows "runs k (map snd h) \<le> claims jobs k (map snd h)"
proof -
  let ?A = "fst ` set h"
  have "runs k (map snd h) = (\<Sum>p\<in>?A. runs k (calls_of p h))"
    unfolding runs_def by (rule count_by_process) auto
  also have "\<dots> \<le> (\<Sum>p\<in>?A. claims jobs k (calls_of p h))"
    by (intro sum_mono accountedD(1) assms)
  also have "\<dots> = claims jobs k (map snd h)"
    unfolding claims_def by (rule count_by_process [symmetric]) auto
  finally show ?thesis .
qed

text \<open>A job that is completed in the end was completed by a call, of a process whose handler had succeeded.\<close>

lemma completed_in_between:
  "chained s h \<Longrightarrow> \<not> (\<exists>j. jobs s k = Some j \<and> jm_ExecutionStatus j = ExecutionStatusCompleted) \<Longrightarrow>
   \<exists>j. jobs (world_after s h) k = Some j \<and> jm_ExecutionStatus j = ExecutionStatusCompleted \<Longrightarrow> completed jobs k h"
proof (induction s h rule: chained.induct)
  case (2 s l a b h)
  then show ?case by (cases "completes jobs k a b") (auto simp: completes_def)
qed auto

lemma completed_after_success:
  assumes "\<And>p. accounted jobs (calls_of p h)" and "completed jobs k (map snd h)"
  shows "succeeded k (map snd h)"
proof -
  from assms(2) obtain p l a b where e: "(p, l, a, b) \<in> set h" "completes jobs k a b"
    by (auto simp: completed_def list_ex_iff)
  then have "completed jobs k (calls_of p h)" by (force simp: completed_def calls_of_def list_ex_iff)
  with assms(1) [of p] have "succeeded k (calls_of p h)" by (rule accountedD(2))
  then show ?thesis by (force simp: succeeded_def calls_of_def list_ex_iff)
qed

section \<open>Who changes a job\<close>

lemma advances_start:
  "advances\<^sup>=\<^sup>= (Some p) y \<Longrightarrow> Execution p \<noteq> ExecutionStatusNotStarted \<Longrightarrow>
   \<exists>q. y = Some q \<and> Execution q \<noteq> ExecutionStatusNotStarted"
  by (cases p) (auto elim!: advances_SomeE simp: ExecutionStatus_CanTransitionTo_def ExecutionStatus_IsTerminal_def
      split: if_splits ExecutionStatus.splits)

lemma advances_ended:
  "advances\<^sup>=\<^sup>= (Some p) y \<Longrightarrow> ExecutionStatus_IsTerminal (Execution p) \<Longrightarrow>
   \<exists>q. y = Some q \<and> Execution q = Execution p"
  by (cases p) (auto elim!: advances_SomeE simp: ExecutionStatus_CanTransitionTo_def ExecutionStatus_IsTerminal_def
      split: if_splits)

text \<open>Which tasks write to a job without a guard.\<close>

definition retries :: "string \<Rightarrow> task \<Rightarrow> bool" where
  "retries k t \<longleftrightarrow> t = Retry k"

definition cancels_job :: "string \<Rightarrow> task \<Rightarrow> bool" where
  "cancels_job k t \<longleftrightarrow> (\<exists>reason. t = Cancel k reason)"

lemma quiet_life: "one_step quiet jobs a b \<Longrightarrow> advances\<^sup>=\<^sup>= (life jobs a k) (life jobs b k)"
  using one_step_life [of quiet jobs a b k] quiet_advances by auto

lemma promise_advances:
  assumes "promise jobs t (l, a, b)" "\<not> retries k t" "\<not> cancels_job k t"
  shows "advances\<^sup>=\<^sup>= (life jobs a k) (life jobs b k)"
  using assms
  by (cases t) (auto simp: promise_def retries_def cancels_job_def step_of_def life_def dest: one_step_life [of _ _ _ _ k] quiet_life [of _ _ _ k])

lemma promise_not_reopens:
  assumes "promise jobs t (l, a, b)" "\<not> retries k t"
  shows "\<not> reopens jobs k a b"
proof (cases "cancels_job k t")
  case True
  then have "cancels\<^sup>=\<^sup>= (life jobs a k) (life jobs b k)" using assms(1)
    by (auto simp: cancels_job_def promise_def step_of_def)
  then show ?thesis
    by (cases "jobs b k") (auto simp: cancels_def reopens_def life_def sub_states_def)
next
  case False
  show ?thesis
  proof
    assume "reopens jobs k a b"
    then obtain j where j: "jobs a k = Some j" "\<not> not_started j"
      and b: "\<And>j'. jobs b k = Some j' \<Longrightarrow> not_started j'" by (auto simp: reopens_def)
    from promise_advances [OF assms False] j(1)
    have "advances\<^sup>=\<^sup>= (Some (sub_states j)) (life jobs b k)" by (simp add: life_def)
    from advances_start [OF this] j(2) b show False by (auto simp: life_def sub_states_def)
  qed
qed

context shared_system
begin

lemma history_promises:
  assumes "interleaved (\<lambda>p. process_of Y (work p)) s h" and "\<forall>p. \<forall>t\<in>set (work p). admissible t"
    and "(p, e) \<in> set h"
  shows "\<exists>t\<in>set (work p). promise jobs t e"
proof -
  from assms(1) obtain w views n where
    c: "calls_of p h = take n (sh_calls (process_of Y (work p) \<lparr>sh_world = w, sh_views = views, sh_calls = []\<rparr>))"
    unfolding interleaved_def by blast
  have "e \<in> set (calls_of p h)" using assms(3) by (force simp: calls_of_def)
  with c have "e \<in> set (sh_calls (process_of Y (work p) \<lparr>sh_world = w, sh_views = views, sh_calls = []\<rparr>))"
    by (metis in_set_takeD)
  with process_promises [of "work p" "\<lparr>sh_world = w, sh_views = views, sh_calls = []\<rparr>"] assms(2)
  show ?thesis by (auto simp: emits_def)
qed

lemma history_accounted:
  assumes "interleaved (\<lambda>p. process_of Y (work p)) s h" and "\<forall>p. \<forall>t\<in>set (work p). admissible t"
  shows "accounted jobs (calls_of p h)"
proof -
  from assms(1) obtain w views n where
    c: "calls_of p h = take n (sh_calls (process_of Y (work p) \<lparr>sh_world = w, sh_views = views, sh_calls = []\<rparr>))"
    unfolding interleaved_def by blast
  from process_accounts [of "work p" "\<lparr>sh_world = w, sh_views = views, sh_calls = []\<rparr>"] assms(2)
  show ?thesis by (auto simp: c accounts_def intro: accounted_take)
qed

lemma history_runs:
  assumes "interleaved (\<lambda>p. process_of Y (work p)) s h" and "\<forall>p. \<forall>t\<in>set (work p). admissible t"
  shows "runs k (map snd h) \<le> Suc (reopenings jobs k (map snd h))"
    and "(\<forall>p. \<forall>t\<in>set (work p). \<not> retries k t) \<Longrightarrow> reopenings jobs k (map snd h) = 0"
proof -
  have "runs k (map snd h) \<le> claims jobs k (map snd h)"
    by (rule runs_le_claims) (rule history_accounted [OF assms])
  with claims_bound [of s "map snd h" jobs k] assms(1)
  show "runs k (map snd h) \<le> Suc (reopenings jobs k (map snd h))" by (simp add: interleaved_def)
next
  assume no: "\<forall>p. \<forall>t\<in>set (work p). \<not> retries k t"
  have "\<not> reopens jobs k a b" if "(p, l, a, b) \<in> set h" for p l a b
  proof -
    from history_promises [OF assms that] obtain t where "t \<in> set (work p)" "promise jobs t (l, a, b)" by blast
    with no promise_not_reopens [of jobs t l a b k] show ?thesis by blast
  qed
  then show "reopenings jobs k (map snd h) = 0" by (auto simp: reopenings_def filter_empty_conv)
qed

lemma history_succeeded:
  assumes "interleaved (\<lambda>p. process_of Y (work p)) s h" and "\<forall>p. \<forall>t\<in>set (work p). admissible t"
    and "\<not> (\<exists>j. jobs s k = Some j \<and> jm_ExecutionStatus j = ExecutionStatusCompleted)"
    and "\<exists>j. jobs (world_after s (map snd h)) k = Some j \<and> jm_ExecutionStatus j = ExecutionStatusCompleted"
  shows "succeeded k (map snd h)"
proof (rule completed_after_success)
  show "completed jobs k (map snd h)" using assms by (intro completed_in_between) (auto simp: interleaved_def)
qed (rule history_accounted [OF assms(1,2)])

lemma history_advances:
  assumes "interleaved (\<lambda>p. process_of Y (work p)) s h" and "\<forall>p. \<forall>t\<in>set (work p). admissible t"
    and "\<forall>p. \<forall>t\<in>set (work p). \<not> retries k t \<and> \<not> cancels_job k t"
    and "(p, l, a, b) \<in> set h"
  shows "advances\<^sup>=\<^sup>= (life jobs a k) (life jobs b k)"
proof -
  from history_promises [OF assms(1,2,4)] obtain t where "t \<in> set (work p)" "promise jobs t (l, a, b)" by blast
  with assms(3) promise_advances [of jobs t l a b k] show ?thesis by blast
qed

end

text \<open>An ended execution keeps its end through calls that advance.\<close>

lemma ended_stays:
  assumes "chained s h" and "\<And>l a b. (l, a, b) \<in> set h \<Longrightarrow> advances\<^sup>=\<^sup>= (life jobs a k) (life jobs b k)"
    and "life jobs s k = Some p" and "ExecutionStatus_IsTerminal (Execution p)"
  shows "\<exists>q. life jobs (world_after s h) k = Some q \<and> Execution q = Execution p"
  using assms
proof (induction s h arbitrary: p rule: chained.induct)
  case (2 s l a b h)
  then have "advances\<^sup>=\<^sup>= (Some p) (life jobs b k)" by (metis chained.simps(2) list.set_intros(1))
  from advances_ended [OF this 2(5)] obtain q where "life jobs b k = Some q" "Execution q = Execution p" by blast
  with 2 show ?case by fastforce
qed simp

section \<open>The system over the database\<close>

definition mongo_system :: "'s backend \<Rightarrow> 's Registry \<Rightarrow> 's JobDispatchPublisher \<Rightarrow> WorkerConfig \<Rightarrow> 's system" where
  "mongo_system B r P cfg =
     \<lparr>sy_service = mongo_service B, sy_registry = r, sy_publish = P, sy_pending = FetchPending B, sy_worker = cfg\<rparr>"

text \<open>Handlers and a broker that leave the jobs alone, errors that can be recorded, and such requests.\<close>

definition contracted ::
  "('s \<Rightarrow> string \<Rightarrow> job option) \<Rightarrow> 's Registry \<Rightarrow> 's JobDispatchPublisher \<Rightarrow> ('p \<Rightarrow> task list) \<Rightarrow> bool" where
  "contracted jobs r P work \<longleftrightarrow> leaves_jobs jobs r \<and> plain_errors r \<and> job_publisher P jobs
     \<and> (\<forall>p. \<forall>t\<in>set (work p). admissible t)"

context mongo_backend
begin

lemmas service_contract = service.metadata_service_axioms

end

lemma mongo_shared_system:
  assumes "mongo_backend B jobs logs" and "contracted jobs r P work"
  shows "shared_system (MongoJobsReader B) (MongoJobsWriter B) jobs logs (be_now B) (be_uuid B) P (FetchPending B) r"
  using assms mongo_backend.fetcher [OF assms(1)] mongo_backend.service_contract [OF assms(1)]
  by (simp add: shared_system_def shared_system_axioms_def contracted_def)

lemma echo_plain: "plain_errors echo_registry"
  by (auto simp: plain_errors_def Run_def echo_registry_def Register_def NewRegistry_def typed_handler_def
      EchoHandler_Execute_def recordable_def is_field_path_def wrap_def panic_error_def
      split: option.splits sum.splits prod.splits outcome.splits if_splits)

interpretation mem_system: shared_system "MongoJobsReader mem_backend" "MongoJobsWriter mem_backend" mem_coll mem_logs
    "be_now mem_backend" "be_uuid mem_backend" "\<lambda>p s. (None, s)" "FetchPending mem_backend" echo_registry cfg
  for cfg
  by (rule mongo_shared_system [of _ _ _ _ _ "\<lambda>p :: nat. []", OF mem.mongo_backend_axioms])
    (simp add: contracted_def echo_leaves_jobs echo_plain silent_publisher)

section \<open>Two executors and one job\<close>

text \<open>
  A message delivered to two executors. The second one tries its claim after the first has made
  its own and before that one's handler runs.
\<close>

definition race_work :: "nat \<Rightarrow> task list" where
  "race_work p = (if p < 2 then [Message sample_id ''echo'' echo_payload] else [])"

definition race_system :: "mem system" where
  "race_system = mongo_system mem_backend echo_registry (\<lambda>p s. (None, s)) default_worker"

definition tick :: "mem \<Rightarrow> mem" where
  "tick s = snd (be_now mem_backend s)"

definition race0 :: mem where "race0 = mem_with [sample_dispatched_job] []"
definition race1 :: mem where "race1 = tick race0"
definition race2 :: mem where
  "race2 = snd (Writer_MarkRunningIfDispatched mem_backend sample_id (fst (be_now mem_backend race0)) race1)"
definition race3 :: mem where "race3 = tick race2"
definition race4 :: mem where
  "race4 = snd (Writer_MarkRunningIfDispatched mem_backend sample_id (fst (be_now mem_backend race2)) race3)"
definition race5 :: mem where "race5 = snd (Reader_Get mem_backend sample_id race4)"
definition race6 :: mem where "race6 = tick race5"
definition race7 :: mem where
  "race7 = snd (Writer_AddLog mem_backend (NewJobLogWithSource sample_id LogLevelInfo ''Job started'' ''service''
     (fst (be_now mem_backend race5))) race6)"
definition race8 :: mem where "race8 = tick race7"
definition race9 :: mem where
  "race9 = snd (Writer_CompleteIfRunning mem_backend sample_id (fst (be_now mem_backend race7)) None race8)"

definition race_history :: "(nat \<times> event \<times> mem \<times> mem) list" where
  "race_history =
     [(0, Called, race0, race1), (0, Called, race1, race2), (1, Called, race2, race3), (1, Called, race3, race4),
      (1, Called, race4, race5), (0, Called, race5, race6), (0, Called, race6, race7),
      (0, HandlerRan sample_id True, race7, race7), (0, Called, race7, race8), (0, Called, race8, race9)]"

lemma in_turn_view [simp]:
  "in_turn_as l f \<lparr>sh_world = w, sh_views = v # vs, sh_calls = cs\<rparr> =
     (fst (f v), \<lparr>sh_world = snd (f v), sh_views = vs, sh_calls = cs @ [(l (fst (f v)), v, snd (f v))]\<rparr>)"
  "in_turn_as l f \<lparr>sh_world = v, sh_views = [], sh_calls = cs\<rparr> =
     (fst (f v), \<lparr>sh_world = snd (f v), sh_views = [], sh_calls = cs @ [(l (fst (f v)), v, snd (f v))]\<rparr>)"
  by (simp_all add: in_turn_as_def split_beta)

lemma race_claims:
  "fst (Writer_MarkRunningIfDispatched mem_backend sample_id (fst (be_now mem_backend race0)) race1) = Inr True"
  "fst (Writer_MarkRunningIfDispatched mem_backend sample_id (fst (be_now mem_backend race2)) race3) = Inr False"
  "fst (Writer_CompleteIfRunning mem_backend sample_id (fst (be_now mem_backend race7)) None race8) = Inr True"
  by (simp_all add: race0_def race1_def race2_def race3_def race4_def race5_def race6_def race7_def race8_def
      tick_def mem_run effect_defs)

lemma race_steps:
  "snd (be_now mem_backend race0) = race1"
  "snd (Writer_MarkRunningIfDispatched mem_backend sample_id (fst (be_now mem_backend race0)) race1) = race2"
  "snd (be_now mem_backend race2) = race3"
  "snd (Writer_MarkRunningIfDispatched mem_backend sample_id (fst (be_now mem_backend race2)) race3) = race4"
  "snd (Reader_Get mem_backend sample_id race4) = race5"
  "snd (be_now mem_backend race5) = race6"
  "snd (Writer_AddLog mem_backend (NewJobLogWithSource sample_id LogLevelInfo ''Job started'' ''service''
     (fst (be_now mem_backend race5))) race6) = race7"
  "snd (be_now mem_backend race7) = race8"
  "snd (Writer_CompleteIfRunning mem_backend sample_id (fst (be_now mem_backend race7)) None race8) = race9"
  by (simp_all add: race1_def race2_def race3_def race4_def race5_def race6_def race7_def race8_def race9_def tick_def)

lemma race_winner:
  "StartJob (shared_service (mongo_service mem_backend)) sample_id
     \<lparr>sh_world = w, sh_views = [race0, race1, race5, race6, race7], sh_calls = []\<rparr> =
   (Inr True, \<lparr>sh_world = race7, sh_views = [race7],
      sh_calls = [(Called, race0, race1), (Called, race1, race2), (Called, race5, race6), (Called, race6, race7)]\<rparr>)"
  by (simp add: StartJob_def log_best_effort_def mongo_service_def adapter_operations split_beta race_steps race_claims)

lemma race_loser:
  "StartJob (shared_service (mongo_service mem_backend)) sample_id
     \<lparr>sh_world = w, sh_views = [race2, race3, race4], sh_calls = []\<rparr> =
   (Inr False, \<lparr>sh_world = race5, sh_views = [],
      sh_calls = [(Called, race2, race3), (Called, race3, race4), (Called, race4, race5)]\<rparr>)"
  by (simp add: StartJob_def mongo_service_def adapter_operations split_beta race_steps race_claims)

lemma race_calls:
  "\<exists>cs. sh_calls (process_of race_system (race_work 0)
      \<lparr>sh_world = w, sh_views = [race0, race1, race5, race6, race7], sh_calls = []\<rparr>) = calls_of 0 race_history @ cs"
  "sh_calls (process_of race_system (race_work 1)
      \<lparr>sh_world = w, sh_views = [race2, race3, race4], sh_calls = []\<rparr>) = calls_of 1 race_history"
proof -
  note ready = echo_executable [unfolded executable_def]
  let ?S = "shared_service (mongo_service mem_backend)"
  let ?y = "\<lparr>sh_world = race7, sh_views = [],
      sh_calls = [(Called, race0, race1), (Called, race1, race2), (Called, race5, race6), (Called, race6, race7),
        (HandlerRan sample_id True, race7, race7)]\<rparr>"
  let ?z = "\<lparr>sh_world = race9, sh_views = [], sh_calls = calls_of 0 race_history\<rparr>"
  have read: "emits mem.service.steps ?z (snd (in_turn (Reader_Get mem_backend sample_id) ?z))"
    using mem.service.read_steps(3) [OF emits_refl, of ?z sample_id] by (simp add: adapter_operations)
  have "emits mem.service.steps ?z (snd (CompleteJob ?S sample_id None ?y))"
    using mem.service.log_steps [OF read]
    by (simp add: CompleteJob_def complete_metadata_def mongo_service_def adapter_operations split_beta race_steps
        race_claims calls_of_def race_history_def)
  then obtain cs where "sh_calls (snd (CompleteJob ?S sample_id None ?y)) = calls_of 0 race_history @ cs"
    by (auto simp: emits_def)
  moreover have "process_of race_system (race_work 0)
      \<lparr>sh_world = w, sh_views = [race0, race1, race5, race6, race7], sh_calls = []\<rparr>
    = snd (CompleteJob ?S sample_id None ?y)"
    by (simp add: ready process_of_def race_system_def mongo_system_def race_work_def ExecuteJob_def service_lifecycle_def
        race_winner Run_shared echo_run split_beta split: option.split)
  ultimately show "\<exists>cs. sh_calls (process_of race_system (race_work 0)
      \<lparr>sh_world = w, sh_views = [race0, race1, race5, race6, race7], sh_calls = []\<rparr>) = calls_of 0 race_history @ cs"
    by auto
  show "sh_calls (process_of race_system (race_work 1)
      \<lparr>sh_world = w, sh_views = [race2, race3, race4], sh_calls = []\<rparr>) = calls_of 1 race_history"
    by (simp add: ready process_of_def race_system_def mongo_system_def race_work_def ExecuteJob_def service_lifecycle_def
        race_loser calls_of_def race_history_def)
qed

lemma race_interleaved: "interleaved (\<lambda>p. process_of race_system (race_work p)) race0 race_history"
  unfolding interleaved_def
proof (intro conjI allI)
  show "chained race0 (map snd race_history)" by (simp add: race_history_def)
  fix p
  show "\<exists>w views n. calls_of p race_history
      = take n (sh_calls (process_of race_system (race_work p) \<lparr>sh_world = w, sh_views = views, sh_calls = []\<rparr>))"
  proof (cases "p = 0 \<or> p = 1")
    case True
    from race_calls(1) [of race0] obtain cs where "sh_calls (process_of race_system (race_work 0)
      \<lparr>sh_world = race0, sh_views = [race0, race1, race5, race6, race7], sh_calls = []\<rparr>) = calls_of 0 race_history @ cs"
      by blast
    then have "calls_of 0 race_history = take (length (calls_of 0 race_history)) (sh_calls (process_of race_system
        (race_work 0) \<lparr>sh_world = race0, sh_views = [race0, race1, race5, race6, race7], sh_calls = []\<rparr>))" by simp
    moreover have "calls_of 1 race_history = take (length (calls_of 1 race_history)) (sh_calls (process_of race_system
        (race_work 1) \<lparr>sh_world = race0, sh_views = [race2, race3, race4], sh_calls = []\<rparr>))"
      using race_calls(2) [of race0] by simp
    ultimately show ?thesis using True by blast
  next
    case False
    then have "calls_of p race_history = []" by (simp add: calls_of_def race_history_def)
    then show ?thesis by (metis take0)
  qed
qed

lemma race_contracted: "contracted mem_coll echo_registry (\<lambda>p s. (None, s)) race_work"
  by (simp add: contracted_def echo_leaves_jobs echo_plain silent_publisher race_work_def admissible_def)

section \<open>Properties\<close>

text \<open>
  C2. A job is executed once, whatever interleaves. In any history of any number of executors,
  dispatchers, API and command line processes, with any messages, duplicates and redeliveries
  included, and any order of their database calls, the handler of a job runs at most once more
  than the job was reopened, and a job that nobody retries is never reopened: its handler runs at
  most once. A job that was not completed before and is completed after the history was so by its
  handler: it ran in the history and returned without error.
\<close>

theorem handler_runs_once:
  assumes "mongo_backend B jobs logs" and "contracted jobs r P work"
    and "interleaved (\<lambda>p. process_of (mongo_system B r P cfg) (work p)) s h"
  shows "runs jobID (map snd h) \<le> Suc (reopenings jobs jobID (map snd h))
    \<and> ((\<forall>p. Retry jobID \<notin> set (work p)) \<longrightarrow> runs jobID (map snd h) \<le> 1)
    \<and> ((\<nexists>j. jobs s jobID = Some j \<and> jm_ExecutionStatus j = ExecutionStatusCompleted) \<and>
       (\<exists>j. jobs (world_after s (map snd h)) jobID = Some j \<and> jm_ExecutionStatus j = ExecutionStatusCompleted)
         \<longrightarrow> succeeded jobID (map snd h))"
proof -
  note sys = mongo_shared_system [OF assms(1,2)]
  have ok: "\<forall>p. \<forall>t\<in>set (work p). admissible t" using assms(2) by (simp add: contracted_def)
  note h = assms(3) [unfolded mongo_system_def mongo_service_def]
  note count = shared_system.history_runs [OF sys h ok]
  have "(\<forall>p. Retry jobID \<notin> set (work p)) \<Longrightarrow> reopenings jobs jobID (map snd h) = 0"
    using count(2) [of jobID] by (auto simp: retries_def)
  with count(1) [of jobID] have "(\<forall>p. Retry jobID \<notin> set (work p)) \<longrightarrow> runs jobID (map snd h) \<le> 1"
    by fastforce
  with count(1) [of jobID] show ?thesis
    by (blast intro: shared_system.history_succeeded [OF sys h ok])
qed

theorem handler_runs_once_witness:
  "runs sample_id (map snd race_history) = 1 \<and> runs sample_id (map snd race_history) \<le> 1
   \<and> jm_ExecutionStatus (the (mem_coll race9 sample_id)) = ExecutionStatusCompleted
   \<and> succeeded sample_id (map snd race_history)"
proof -
  note all = handler_runs_once [OF mem.mongo_backend_axioms race_contracted race_interleaved [unfolded race_system_def]]
  have "mem_coll race0 sample_id = Some sample_dispatched_job" "jm_ExecutionStatus sample_dispatched_job = ExecutionStatusNotStarted"
    by (simp_all add: race0_def)
  moreover have last: "world_after race0 (map snd race_history) = race9" by (simp add: race_history_def)
  moreover have ended: "\<exists>j. mem_coll race9 sample_id = Some j \<and> jm_ExecutionStatus j = ExecutionStatusCompleted"
    by (simp add: race0_def race1_def race2_def race3_def race4_def race5_def race6_def race7_def race8_def
      race9_def tick_def mem_run effect_defs)
  ultimately have "succeeded sample_id (map snd race_history)" using all [of sample_id] by simp
  moreover have "runs sample_id (map snd race_history) \<le> 1" using all [of sample_id] by (simp add: race_work_def)
  moreover have "runs sample_id (map snd race_history) = 1" by (simp add: race_history_def runs_def)
  ultimately show ?thesis using ended by auto
qed

text \<open>
  C3. Refinement under interference. In such a history every call of every process takes a job
  that nobody cancels or retries at most one step along its life: it is created, or moves along
  the dispatch table or the execution table. In particular an execution that has ended, completed
  or failed, stays as it ended, whatever calls of whatever process follow.
\<close>

theorem interleaved_calls_advance:
  assumes "mongo_backend B jobs logs" and "contracted jobs r P work"
    and "interleaved (\<lambda>p. process_of (mongo_system B r P cfg) (work p)) s h"
    and "\<forall>p. Retry jobID \<notin> set (work p) \<and> (\<forall>reason. Cancel jobID reason \<notin> set (work p))"
  shows "(\<forall>(p, l, a, b)\<in>set h. life jobs b jobID = life jobs a jobID \<or> advances (life jobs a jobID) (life jobs b jobID))
    \<and> (\<forall>h1 h2 j. map snd h = h1 @ h2 \<and> jobs (world_after s h1) jobID = Some j
         \<and> ExecutionStatus_IsTerminal (jm_ExecutionStatus j) \<longrightarrow>
       (\<exists>j'. jobs (world_after s (map snd h)) jobID = Some j' \<and> jm_ExecutionStatus j' = jm_ExecutionStatus j))"
proof -
  note sys = mongo_shared_system [OF assms(1,2)]
  have ok: "\<forall>p. \<forall>t\<in>set (work p). admissible t" using assms(2) by (simp add: contracted_def)
  have free: "\<forall>p. \<forall>t\<in>set (work p). \<not> retries jobID t \<and> \<not> cancels_job jobID t"
    using assms(4) by (auto simp: retries_def cancels_job_def)
  have step: "advances\<^sup>=\<^sup>= (life jobs a jobID) (life jobs b jobID)" if "(p, l, a, b) \<in> set h" for p l a b
    by (rule shared_system.history_advances [OF sys assms(3) [unfolded mongo_system_def mongo_service_def] ok free that])
  have stays: "\<exists>j'. jobs (world_after s (map snd h)) jobID = Some j' \<and> jm_ExecutionStatus j' = jm_ExecutionStatus j"
    if h: "map snd h = h1 @ h2" and j: "jobs (world_after s h1) jobID = Some j"
      "ExecutionStatus_IsTerminal (jm_ExecutionStatus j)" for h1 h2 j
  proof -
    have "chained (world_after s h1) h2" using assms(3) h by (simp add: interleaved_def)
    moreover have "advances\<^sup>=\<^sup>= (life jobs a jobID) (life jobs b jobID)" if "(l, a, b) \<in> set h2" for l a b
    proof -
      have "(l, a, b) \<in> set (map snd h)" using that h by simp
      then obtain p where "(p, l, a, b) \<in> set h" by auto
      then show ?thesis by (rule step)
    qed
    ultimately obtain q where "life jobs (world_after (world_after s h1) h2) jobID = Some q"
      "Execution q = jm_ExecutionStatus j"
      using ended_stays [of "world_after s h1" h2 jobs jobID "sub_states j"] j
      by (auto simp: life_def sub_states_def)
    with h show ?thesis by (auto simp: life_def sub_states_def)
  qed
  from step have "\<forall>(p, l, a, b)\<in>set h. life jobs b jobID = life jobs a jobID
      \<or> advances (life jobs a jobID) (life jobs b jobID)" by fastforce
  with stays show ?thesis by blast
qed

theorem interleaved_calls_advance_witness:
  "life mem_coll race1 sample_id \<noteq> life mem_coll race2 sample_id
   \<and> advances (life mem_coll race1 sample_id) (life mem_coll race2 sample_id)"
proof -
  have free: "\<forall>p. Retry sample_id \<notin> set (race_work p) \<and> (\<forall>reason. Cancel sample_id reason \<notin> set (race_work p))"
    by (simp add: race_work_def)
  note all = interleaved_calls_advance [OF mem.mongo_backend_axioms race_contracted
      race_interleaved [unfolded race_system_def] free]
  have "(0, Called, race1, race2) \<in> set race_history" by (simp add: race_history_def)
  with all have "life mem_coll race2 sample_id = life mem_coll race1 sample_id
      \<or> advances (life mem_coll race1 sample_id) (life mem_coll race2 sample_id)" by blast
  moreover have "life mem_coll race1 sample_id \<noteq> life mem_coll race2 sample_id"
    by (simp add: race0_def race1_def race2_def tick_def mem_run effect_defs life_def sub_states_def)
  ultimately show ?thesis by simp
qed

end
