(* ===== verification/Races.thy ===== *)
theory Races
  imports Interleaving
begin

text \<open>
  What the unguarded writes of \<open>CancelJob\<close> and \<open>RetryJob\<close> do when another process comes between
  their read and their writes. The requests run as they are; their views say where the other
  process came in.
\<close>

lemmas race_run = mem_run mark_running_effect_def complete_effect_def clear_timestamps_effect_def
  IncrementRetryCount_def reset_effect_eq [unfolded reset_effect_def] ExecutionStatus_IsTerminal_def
  DisplayStatus_simps Let_def

section \<open>A cancellation that comes late\<close>

text \<open>
  \<open>CancelJob\<close> reads a running job, an executor completes the job, and the update, which names the
  job by its id only, turns the completed job into a cancelled one. The caller is told that the
  cancellation worked.
\<close>

theorem late_cancel_overwrites_completion:
  "let S = mongo_service mem_backend;
       s0 = mem_with [sample_running_job] [];
       s1 = snd (CompleteJob S sample_id None s0);
       (r, x) = CancelJob (shared_service S) sample_id [] \<lparr>sh_world = s0, sh_views = [s0, s1], sh_calls = []\<rparr>
   in DisplayStatus (the (mem_coll s1 sample_id)) = JobStatusCompleted
      \<and> r = None \<and> DisplayStatus (the (mem_coll (sh_world x) sample_id)) = JobStatusCancelled"
  by (simp add: CompleteJob_def complete_metadata_def CancelJob_def race_run patch_effect_def cancel_patch_def
      empty_patch_def)

section \<open>Two retries of one failure\<close>

text \<open>
  Two requests read the same failed job. The first one resets it and an executor claims it; the
  second one, which still believes the job to be failed, resets it again while its handler runs,
  so that the next delivery starts the handler a second time beside the first.
\<close>

theorem second_retry_reopens_running_job:
  "let S = mongo_service mem_backend;
       s0 = mem_with [sample_failed_job] [];
       s1 = snd (RetryJob S sample_id s0);
       (b1, s2) = StartJob S sample_id s1;
       (r, x) = RetryJob (shared_service S) sample_id \<lparr>sh_world = s0, sh_views = [s0, s2], sh_calls = []\<rparr>;
       (b2, s3) = StartJob S sample_id (sh_world x)
   in b1 = Inr True \<and> DisplayStatus (the (mem_coll s2 sample_id)) = JobStatusRunning
      \<and> r = None \<and> DisplayStatus (the (mem_coll (sh_world x) sample_id)) = JobStatusPendingDispatch
      \<and> jm_RetryCount (the (mem_coll (sh_world x) sample_id)) = jm_RetryCount sample_failed_job + 2
      \<and> b2 = Inr True"
  by (simp add: RetryJob_def StartJob_def race_run)

section \<open>A retry overtaken by its job\<close>

text \<open>
  The reset of a retry makes the job visible to the dispatcher before the times of the failed run
  are cleared. When the job is claimed in between, the last write of the retry removes the time
  of the new start; the job runs and completes without one, and no longer passes \<open>Validate\<close>.
\<close>

theorem retry_erases_new_start:
  "let S = mongo_service mem_backend;
       s0 = mem_with [sample_failed_job] [];
       s1 = snd (Writer_IncrementRetryCount mem_backend sample_id s0);
       s2 = snd (Writer_Update mem_backend sample_id retry_patch s1);
       s3 = snd (StartJob S sample_id s2);
       (r, x) = RetryJob (shared_service S) sample_id \<lparr>sh_world = s0, sh_views = [s0, s0, s1, s3], sh_calls = []\<rparr>;
       j = the (mem_coll (sh_world x) sample_id);
       (c, s4) = CompleteJob S sample_id None (sh_world x);
       j' = the (mem_coll s4 sample_id)
   in r = None \<and> DisplayStatus j = JobStatusRunning \<and> jm_StartedAt j = None
      \<and> c = None \<and> DisplayStatus j' = JobStatusCompleted \<and> Validate j' \<noteq> None"
  by (simp add: RetryJob_def StartJob_def CompleteJob_def complete_metadata_def race_run Validate_def)

end
