(* ===== verification/TestUtil.thy ===== *)
theory TestUtil
  imports Migrate JobMessage
begin

text \<open>
  \<open>internal/testutil\<close>: what the tests of the program ask of their surroundings. The environment,
  the working directory and the file system are parameters; ending or skipping a test is a value.
\<close>

section \<open>Paths\<close>

text \<open>\<open>filepath.Dir\<close>: the path up to its last slash, cleaned. \<open>filepath.Join\<close> leaves out leading empty elements.\<close>

definition dir_prefix :: "string \<Rightarrow> string" where
  "dir_prefix p = rev (dropWhile (\<lambda>c. c \<noteq> CHR ''/'') (rev p))"

definition filepath_Dir :: "string \<Rightarrow> string" where
  "filepath_Dir p = filepath_Clean (dir_prefix p)"

definition filepath_Join :: "string list \<Rightarrow> string" where
  "filepath_Join es =
     (case dropWhile (\<lambda>e. e = []) es of [] \<Rightarrow> [] | e # es' \<Rightarrow> filepath_Clean (join_elements (e # es')))"

text \<open>How much of a path is left: elements, each with a separator.\<close>

definition weight :: "string list \<Rightarrow> nat" where
  "weight es = sum_list (map (\<lambda>e. Suc (length e)) es)"

lemma weight_simps [simp]:
  "weight [] = 0" "weight (e # es) = Suc (length e) + weight es" "weight (es @ es') = weight es + weight es'"
  by (simp_all add: weight_def)

lemma weight_butlast: "weight (butlast es) \<le> weight es"
  by (cases es rule: rev_cases) simp_all

lemma weight_elements: "weight (path_elements p) = Suc (length p)"
  by (induction p) (auto split: list.splits)

lemma weight_join: "es \<noteq> [] \<Longrightarrow> Suc (length (join_elements es)) = weight es"
  by (induction es rule: join_elements.induct) simp_all

lemma weight_clean_step: "weight (clean_step b out e) \<le> weight out + (if e = [] then 0 else Suc (length e))"
  using weight_butlast [of out] by (auto simp: clean_step_def)

lemma weight_clean:
  "weight (foldl (clean_step b) out es) + length (filter (\<lambda>e. e = []) es) \<le> weight out + weight es"
proof (induction es arbitrary: out)
  case (Cons e es)
  from Cons.IH [of "clean_step b out e"] weight_clean_step [of b out e] show ?case by (auto split: if_splits)
qed simp

lemma path_elements_snoc: "path_elements (p @ ''/'') = path_elements p @ [[]]"
  by (induction p) (auto split: list.splits)

lemma Clean_shortens:
  assumes "p \<noteq> []"
  shows "length (filepath_Clean (p @ ''/'')) < length (p @ ''/'')"
proof -
  let ?out = "\<lambda>b. foldl (clean_step b) [] (path_elements (p @ ''/''))"
  have empties: "1 \<le> length (filter (\<lambda>e. e = []) (path_elements (p @ ''/'')))"
    "is_abs p \<Longrightarrow> 2 \<le> length (filter (\<lambda>e. e = []) (path_elements (p @ ''/'')))"
    unfolding path_elements_snoc using assms by (cases p; simp add: is_abs_def)+
  have w: "weight (?out b) + length (filter (\<lambda>e. e = []) (path_elements (p @ ''/''))) \<le> length p + 2" for b
    using weight_clean [of b "[]" "path_elements (p @ ''/'')"] weight_elements [of "p @ ''/''"] by simp
  have "is_abs (p @ ''/'') = is_abs p" using assms by (simp add: is_abs_def)
  then have clean: "filepath_Clean (p @ ''/'') =
      (let out = ?out (is_abs p) in if is_abs p then CHR ''/'' # join_elements out
       else if out = [] then ''.'' else join_elements out)" by (simp only: filepath_Clean_def)
  show ?thesis
  proof (cases "?out (is_abs p) = []")
    case True
    then show ?thesis using assms by (simp add: clean Let_def)
  next
    case False
    from weight_join [OF this] w [of "is_abs p"] empties assms show ?thesis
      by (cases "is_abs p") (simp_all add: clean Let_def)
  qed
qed

text \<open>Going up shortens a path, until the path stays as it is; a relative path ends in the dot.\<close>

definition depth :: "string \<Rightarrow> nat" where
  "depth d = (if d = ''.'' then 0 else Suc (length d))"

lemma Dir_shortens: "filepath_Dir d \<noteq> d \<Longrightarrow> depth (filepath_Dir d) < depth d"
proof -
  assume moved: "filepath_Dir d \<noteq> d"
  show ?thesis
  proof (cases "CHR ''/'' \<in> set d")
    case False
    then have "dir_prefix d = []" by (auto simp: dir_prefix_def)
    then have "filepath_Dir d = ''.''" by (simp add: filepath_Dir_def filepath_Clean_def is_abs_def clean_step_def)
    with moved show ?thesis by (simp add: depth_def)
  next
    case True
    then obtain q r where d: "d = q @ CHR ''/'' # r" "CHR ''/'' \<notin> set r" by (meson split_list_last)
    then have pre: "dir_prefix d = q @ ''/''" by (simp add: dir_prefix_def dropWhile_append)
    have "length (filepath_Dir d) < length d"
    proof (cases q)
      case Nil
      then have "filepath_Dir d = ''/''" by (simp add: pre filepath_Dir_def filepath_Clean_def is_abs_def clean_step_def)
      with moved d Nil show ?thesis by (cases r) simp_all
    next
      case Cons
      then have "length (filepath_Dir d) < length (q @ ''/'')"
        unfolding filepath_Dir_def pre by (intro Clean_shortens) simp
      then show ?thesis by (subst (2) d(1)) simp
    qed
    then show ?thesis using True by (auto simp: depth_def)
  qed
qed

section \<open>The root of the module\<close>

text \<open>
  What a test finds around it: \<open>os.Getwd\<close>, whether \<open>os.Stat\<close> finds a path, and \<open>os.Getenv\<close>. A
  test that is ended with \<open>Fatalf\<close> is the left side, with its message.
\<close>

record surroundings =
  su_Getwd :: "goerror + string"
  su_Stat :: "string \<Rightarrow> bool"
  su_Getenv :: "string \<Rightarrow> string"

function walk_up :: "(string \<Rightarrow> bool) \<Rightarrow> string \<Rightarrow> string + string" where
  "walk_up stat dir =
     (if stat (filepath_Join [dir, ''go.mod'']) then Inr dir
      else if filepath_Dir dir = dir then Inl ''module root not found (no go.mod in parent chain)''
      else walk_up stat (filepath_Dir dir))"
  by pat_completeness auto
termination by (relation "measure (\<lambda>(stat, dir). depth dir)") (simp_all add: Dir_shortens)

declare walk_up.simps [simp del]

definition ModuleRoot :: "surroundings \<Rightarrow> string + string" where
  "ModuleRoot U =
     (case su_Getwd U of
        Inl err \<Rightarrow> Inl (''getwd: '' @ error_text err)
      | Inr dir \<Rightarrow> walk_up (su_Stat U) dir)"

definition JobTopicsConfigPath :: "surroundings \<Rightarrow> string + string" where
  "JobTopicsConfigPath U =
     (let p = su_Getenv U ''JOB_TOPICS_CONFIG_PATH'' in
      if p \<noteq> [] then
        (if is_abs p then Inr p
         else (case ModuleRoot U of Inl f \<Rightarrow> Inl f | Inr root \<Rightarrow> Inr (filepath_Join [root, p])))
      else (case ModuleRoot U of
              Inl f \<Rightarrow> Inl f
            | Inr root \<Rightarrow> Inr (filepath_Join [root, ''config'', ''job-topics.yaml''])))"

text \<open>The walk ends at the nearest directory that has a \<open>go.mod\<close>, or fails when none of them has one.\<close>

definition nearest :: "(string \<Rightarrow> bool) \<Rightarrow> string \<Rightarrow> string \<Rightarrow> bool" where
  "nearest stat dir d \<longleftrightarrow> (\<exists>n. d = (filepath_Dir ^^ n) dir \<and> stat (filepath_Join [d, ''go.mod''])
     \<and> (\<forall>m<n. \<not> stat (filepath_Join [(filepath_Dir ^^ m) dir, ''go.mod''])))"

lemma Dir_iterate: "(filepath_Dir ^^ n) (filepath_Dir d) = (filepath_Dir ^^ Suc n) d"
  by (simp add: funpow_swap1)

lemma walk_up_nearest: "walk_up stat dir = Inr d \<Longrightarrow> nearest stat dir d"
proof (induction stat dir rule: walk_up.induct)
  case (1 stat dir)
  show ?case
  proof (cases "stat (filepath_Join [dir, ''go.mod''])")
    case True
    with 1(2) show ?thesis unfolding nearest_def by (intro exI [of _ 0]) (simp add: walk_up.simps)
  next
    case False
    with 1 have "nearest stat (filepath_Dir dir) d" by (simp add: walk_up.simps split: if_splits)
    then obtain n where "d = (filepath_Dir ^^ Suc n) dir" "stat (filepath_Join [d, ''go.mod''])"
      "\<forall>m<n. \<not> stat (filepath_Join [(filepath_Dir ^^ Suc m) dir, ''go.mod''])"
      unfolding nearest_def Dir_iterate by blast
    with False show ?thesis unfolding nearest_def
      by (intro exI [of _ "Suc n"]) (auto simp: less_Suc_eq_0_disj simp del: funpow.simps(2))
  qed
qed

lemma walk_up_fails:
  "walk_up stat dir = Inl e \<longleftrightarrow> e = ''module root not found (no go.mod in parent chain)''
     \<and> (\<forall>n. \<not> stat (filepath_Join [(filepath_Dir ^^ n) dir, ''go.mod'']))"
proof (induction stat dir rule: walk_up.induct)
  case (1 stat dir)
  have fixed: "(filepath_Dir ^^ n) dir = dir" if "filepath_Dir dir = dir" for n
    by (induction n) (simp_all add: that)
  have up: "(\<forall>n. \<not> stat (filepath_Join [(filepath_Dir ^^ n) dir, ''go.mod''])) \<longleftrightarrow>
      \<not> stat (filepath_Join [dir, ''go.mod''])
        \<and> (\<forall>n. \<not> stat (filepath_Join [(filepath_Dir ^^ n) (filepath_Dir dir), ''go.mod'']))"
    unfolding Dir_iterate by (metis funpow_0 not0_implies_Suc)
  show ?case
  proof (cases "stat (filepath_Join [dir, ''go.mod'']) \<or> filepath_Dir dir = dir")
    case True
    then show ?thesis by (subst walk_up.simps) (use fixed in \<open>auto intro!: exI [of _ 0]\<close>)
  next
    case False
    with 1 show ?thesis unfolding up by (subst walk_up.simps) simp
  qed
qed

lemma ModuleRoot_result:
  "ModuleRoot U = Inr root \<Longrightarrow> \<exists>wd. su_Getwd U = Inr wd \<and> nearest (su_Stat U) wd root"
  by (auto simp: ModuleRoot_def walk_up_nearest split: sum.splits)

text \<open>A configured absolute path is used as it is, whether there is a module or not.\<close>

lemma configured_absolute_path:
  "is_abs (su_Getenv U ''JOB_TOPICS_CONFIG_PATH'') \<Longrightarrow>
   JobTopicsConfigPath U = Inr (su_Getenv U ''JOB_TOPICS_CONFIG_PATH'')"
  by (auto simp: JobTopicsConfigPath_def Let_def is_abs_def)

text \<open>From a subdirectory of a module the default is the file of the module.\<close>

lemma default_path_example:
  "JobTopicsConfigPath \<lparr>su_Getwd = Inr ''/src/jobby/internal/jobs'', su_Stat = (\<lambda>p. p = ''/src/jobby/go.mod''),
     su_Getenv = (\<lambda>v. [])\<rparr> = Inr ''/src/jobby/config/job-topics.yaml''"
  by (simp add: JobTopicsConfigPath_def ModuleRoot_def walk_up.simps filepath_Join_def filepath_Dir_def dir_prefix_def
      filepath_Clean_def is_abs_def clean_step_def)

section \<open>Integration tests\<close>

text \<open>
  The tests against running services are on when the variable says so. Letters are lowered and
  space is trimmed as in ASCII; no other letter becomes one of these words.
\<close>

definition IntegrationEnabled :: "surroundings \<Rightarrow> bool" where
  "IntegrationEnabled U =
     (let v = trim_space (su_Getenv U ''INTEGRATION_TESTS'')
      in map ascii_lower v \<in> {''true'', ''1'', ''yes''})"

text \<open>The reason for which the test is skipped, if it is.\<close>

definition SkipUnlessIntegration :: "surroundings \<Rightarrow> string option" where
  "SkipUnlessIntegration U =
     (if \<not> IntegrationEnabled U then Some ''integration tests disabled (set INTEGRATION_TESTS=true to run)''
      else None)"

lemma integration_cases:
  "map (\<lambda>v. IntegrationEnabled \<lparr>su_Getwd = Inr [], su_Stat = (\<lambda>p. False), su_Getenv = (\<lambda>x. v)\<rparr>)
     [[], ''false'', ''0'', ''no'', ''true'', ''TRUE'', ''1'', ''yes'', '' YES ''] =
   [False, False, False, False, True, True, True, True, True]"
  by code_simp

end
